(* ===== verification/Go_Prelude.thy ===== *)
theory Go_Prelude
  imports Main "HOL-Library.AList" "HOL-Library.Word"
begin

text \<open>
  Shared vocabulary of the development: Go error values with wrapping and joining, Go maps,
  the 64-bit \<^verbatim>\<open>int\<close> of the compiler's target, and the two interfaces that
  many components implement (a store of handlers under keys, a component with an invariant that
  every operation keeps). Every other theory builds on these definitions and rules.
\<close>

section \<open>Rule collections\<close>

named_theorems go_map \<open>equations for lookups in Go maps\<close>
named_theorems inv_keep \<open>operations that keep the invariant of their component\<close>
named_theorems err_text \<open>texts of the error values\<close>

section \<open>Error values\<close>

text \<open>
  An \<^verbatim>\<open>error\<close> of Go is an interface value. \<open>Sentinel\<close> is a package-level variable
  made by \<^verbatim>\<open>errors.New\<close> (first its qualified name, which stands for the pointer, then its
  text), \<open>ErrorString\<close> an error made at the point of use (\<^verbatim>\<open>errors.New\<close>, or
  \<^verbatim>\<open>fmt.Errorf\<close> with no \<^verbatim>\<open>%w\<close>), \<open>WrapError\<close> the value of
  \<^verbatim>\<open>fmt.Errorf\<close> with one \<^verbatim>\<open>%w\<close> (the text before and after that verb),
  \<open>JoinError\<close> the value of \<^verbatim>\<open>errors.Join\<close>. The last three are the struct types the
  HTTP layer inspects; an \<open>HttpError\<close> carries code, message and the text its own
  \<^verbatim>\<open>Error\<close> method gives.
\<close>

datatype go_any =
    NilAny
  | BytesAny string
  | ErrorAny string
  | OtherAny string

record api_error =
  ae_Code :: int
  ae_RequestId :: string
  ae_Message :: string
  ae_Status :: string
  ae_Time :: int
  ae_rawData :: go_any

datatype go_error =
    Sentinel string string
  | ErrorString string
  | WrapError string go_error string
  | JoinError "go_error list"
  | BaseException int int string
  | ApiErr api_error
  | HttpError int string string

type_synonym 'a result = "go_error + 'a"

text \<open>A call that returns, or one that panics with a text.\<close>

datatype 'a outcome = Ret 'a | Panic string

definition newline :: char where
  "newline = CHR 0x0A"

definition dquote :: char where
  "dquote = CHR 0x22"

fun intercalate :: "'a list \<Rightarrow> 'a list list \<Rightarrow> 'a list" where
  "intercalate sep [] = []"
| "intercalate sep [x] = x"
| "intercalate sep (x # y # ys) = x @ sep @ intercalate sep (y # ys)"

fun error_text :: "go_error \<Rightarrow> string" where
  "error_text (Sentinel n t) = t"
| "error_text (ErrorString t) = t"
| "error_text (WrapError a e b) = a @ error_text e @ b"
| "error_text (JoinError es) = intercalate [newline] (map error_text es)"
| "error_text (BaseException c s m) = m"
| "error_text (ApiErr a) = ae_Message a"
| "error_text (HttpError c m t) = t"

text \<open>\<^verbatim>\<open>errors.Is\<close> against a sentinel, by its qualified name.\<close>

fun errors_is :: "go_error \<Rightarrow> string \<Rightarrow> bool" where
  "errors_is (Sentinel n t) s = (n = s)"
| "errors_is (WrapError a e b) s = errors_is e s"
| "errors_is (JoinError es) s = (\<exists>e \<in> set es. errors_is e s)"
| "errors_is _ s = False"

text \<open>
  \<^verbatim>\<open>errors.Join\<close> drops nil errors and gives nil when nothing is left.
\<close>

definition errors_Join :: "go_error option list \<Rightarrow> go_error option" where
  "errors_Join es =
     (let xs = map the (filter (\<lambda>e. e \<noteq> None) es)
      in if xs = [] then None else Some (JoinError xs))"

text \<open>
  The verb \<^verbatim>\<open>%q\<close> on strings without characters that Go escapes.
\<close>

definition quoted :: "string \<Rightarrow> string" where
  "quoted s = [dquote] @ s @ [dquote]"

section \<open>Go maps\<close>

text \<open>
  A Go map is kept as an association list with distinct keys. The position of an entry means
  nothing: a loop over a map takes the order in which the runtime happens to visit the keys as an
  argument, which \<open>range_order\<close> relates to the map.
\<close>

type_synonym ('k, 'v) gomap = "('k \<times> 'v) list"

abbreviation (input) mempty :: "('k, 'v) gomap" where
  "mempty \<equiv> []"

definition mget :: "('k, 'v) gomap \<Rightarrow> 'k \<Rightarrow> 'v option" where
  "mget m k = map_of m k"

definition mput :: "'k \<Rightarrow> 'v \<Rightarrow> ('k, 'v) gomap \<Rightarrow> ('k, 'v) gomap" where
  "mput k v m = AList.update k v m"

definition mdel :: "'k \<Rightarrow> ('k, 'v) gomap \<Rightarrow> ('k, 'v) gomap" where
  "mdel k m = AList.delete k m"

definition mkeys :: "('k, 'v) gomap \<Rightarrow> 'k list" where
  "mkeys m = map fst m"

definition mlen :: "('k, 'v) gomap \<Rightarrow> nat" where
  "mlen m = length m"

definition wf_map :: "('k, 'v) gomap \<Rightarrow> bool" where
  "wf_map m = distinct (mkeys m)"

definition range_order :: "('k, 'v) gomap \<Rightarrow> 'k list \<Rightarrow> bool" where
  "range_order m ks = (distinct ks \<and> set ks = set (mkeys m))"

section \<open>The int of a 64-bit target\<close>

definition int64 :: "int \<Rightarrow> bool" where
  "int64 x = (- (2 ^ 63) \<le> x \<and> x < 2 ^ 63)"

definition wrap64 :: "int \<Rightarrow> int" where
  "wrap64 x = (x + 2 ^ 63) mod 2 ^ 64 - 2 ^ 63"

section \<open>Lemmas on error values\<close>

lemma errors_Join_None [simp]: "errors_Join es = None \<longleftrightarrow> (\<forall>e \<in> set es. e = None)"
  by (auto simp: errors_Join_def Let_def filter_empty_conv)

lemma errors_Join_Some:
  "errors_Join (map Some es) = (if es = [] then None else Some (JoinError es))"
  by (simp add: errors_Join_def Let_def filter_map o_def)

lemma set_intercalate: "set (intercalate sep xss) \<subseteq> set sep \<union> (\<Union>xs \<in> set xss. set xs)"
  by (induction sep xss rule: intercalate.induct) auto

section \<open>Lemmas on Go maps\<close>

lemma mget_mempty [simp, go_map]: "mget mempty k = None"
  by (simp add: mget_def)

lemma mget_mput [simp, go_map]: "mget (mput k v m) j = (if j = k then Some v else mget m j)"
  by (simp add: mget_def mput_def update_conv')

lemma mget_mdel [simp, go_map]: "mget (mdel k m) j = (if j = k then None else mget m j)"
  by (simp add: mget_def mdel_def delete_conv')

lemma wf_mempty [simp, inv_keep]: "wf_map mempty"
  by (simp add: wf_map_def mkeys_def)

lemma wf_mput [simp, inv_keep]: "wf_map m \<Longrightarrow> wf_map (mput k v m)"
  by (simp add: wf_map_def mkeys_def mput_def distinct_update)

lemma wf_mdel [simp, inv_keep]: "wf_map m \<Longrightarrow> wf_map (mdel k m)"
  by (simp add: wf_map_def mkeys_def mdel_def distinct_delete)

lemma mkeys_mempty [simp, go_map]: "mkeys mempty = []"
  by (simp add: mkeys_def)

lemma mem_mkeys: "k \<in> set (mkeys m) \<longleftrightarrow> mget m k \<noteq> None"
  by (force simp: mget_def mkeys_def map_of_eq_None_iff)

lemma set_mkeys_mput [simp, go_map]: "set (mkeys (mput k v m)) = insert k (set (mkeys m))"
  by (auto simp: mem_mkeys split: if_splits)

lemma set_mkeys_mdel [simp, go_map]: "set (mkeys (mdel k m)) = set (mkeys m) - {k}"
  by (auto simp: mem_mkeys split: if_splits)

lemma mlen_card: "wf_map m \<Longrightarrow> mlen m = card (set (mkeys m))"
  by (metis distinct_card length_map mkeys_def mlen_def wf_map_def)

lemma mlen_mput:
  "wf_map m \<Longrightarrow> mlen (mput k v m) = (if mget m k = None then Suc (mlen m) else mlen m)"
  by (auto simp: mlen_card mem_mkeys insert_absorb)

lemma mlen_mdel:
  "wf_map m \<Longrightarrow> mlen (mdel k m) = (if mget m k = None then mlen m else mlen m - 1)"
  by (auto simp: mlen_card mem_mkeys)

lemma mlen_0 [simp]: "mlen m = 0 \<longleftrightarrow> m = mempty"
  by (simp add: mlen_def)

lemma mget_in_set: "wf_map m \<Longrightarrow> mget m k = Some v \<longleftrightarrow> (k, v) \<in> set m"
  by (simp add: wf_map_def mkeys_def mget_def)

lemma range_order_mem: "range_order m ks \<Longrightarrow> k \<in> set ks \<longleftrightarrow> mget m k \<noteq> None"
  by (simp add: range_order_def mem_mkeys)

lemma range_order_mkeys: "wf_map m \<Longrightarrow> range_order m (mkeys m)"
  by (simp add: range_order_def wf_map_def)

lemma range_order_length: "wf_map m \<Longrightarrow> range_order m ks \<Longrightarrow> length ks = mlen m"
  by (simp add: range_order_def mlen_card distinct_card flip: distinct_card)

lemma range_order_empty: "range_order m ks \<Longrightarrow> ks = [] \<longleftrightarrow> m = mempty"
  by (auto simp: range_order_def mkeys_def)

lemma singleton_list: "distinct xs \<Longrightarrow> set xs = {a} \<Longrightarrow> xs = [a]"
proof (cases xs)
  case (Cons y ys)
  assume "distinct xs" "set xs = {a}"
  then show ?thesis using Cons by (cases ys) auto
qed simp

section \<open>Lemmas on 64-bit integers\<close>

lemma int64_wrap64 [simp]: "int64 (wrap64 x)"
proof -
  have "0 \<le> (x + 2 ^ 63) mod 2 ^ 64" and "(x + 2 ^ 63) mod 2 ^ 64 < (2 ^ 64 :: int)"
    by (rule pos_mod_sign, simp) (rule pos_mod_bound, simp)
  then show ?thesis by (simp add: int64_def wrap64_def)
qed

lemma wrap64_id: "int64 x \<Longrightarrow> wrap64 x = x"
  by (simp add: int64_def wrap64_def)

lemma wrap64_add: "wrap64 (wrap64 a + b) = wrap64 (a + b)"
  using mod_add_left_eq [of "a + 2 ^ 63" "2 ^ 64" b] by (simp add: wrap64_def algebra_simps)

lemma wrap64_above: "2 ^ 63 \<le> x \<Longrightarrow> x < 2 ^ 63 + 2 ^ 64 \<Longrightarrow> wrap64 x = x - 2 ^ 64"
  using mod_pos_pos_trivial [of "x + 2 ^ 63 - 2 ^ 64" "2 ^ 64"] minus_mod_self2 [of "x + 2 ^ 63" "2 ^ 64"]
  by (simp add: wrap64_def)

lemma wrap64_sint: "wrap64 x = sint (word_of_int x :: 64 word)"
  by (simp add: wrap64_def signed_of_int signed_take_bit_eq_take_bit_shift take_bit_eq_mod)

section \<open>Interfaces\<close>

text \<open>
  A store of values under keys: \<open>norm\<close> is what the component does to a key before it stores
  under it. The buses, the data manager, the command registry of the master and the worker
  registry all implement it.
\<close>

locale keyed_store =
  fixes empty :: "'r"
    and put :: "'k \<Rightarrow> 'v \<Rightarrow> 'r \<Rightarrow> 'r"
    and get :: "'r \<Rightarrow> 'k \<Rightarrow> 'v option"
    and norm :: "'k \<Rightarrow> 'k"
  assumes get_empty: "get empty j = None"
    and get_put: "get (put k v r) j = (if j = norm k then Some v else get r j)"
begin

lemma put_twice: "get (put k v (put k u r)) j = get (put k v r) j"
  by (simp add: get_put)

lemma put_commute: "norm k \<noteq> norm l \<Longrightarrow> get (put k v (put l u r)) j = get (put l u (put k v r)) j"
  by (simp add: get_put)

lemma get_puts_other:
  "\<forall>(k, v) \<in> set kvs. norm k \<noteq> j \<Longrightarrow> get (fold (\<lambda>(k, v). put k v) kvs r) j = get r j"
  by (induction kvs arbitrary: r) (auto simp: get_put)

lemma get_puts_last:
  assumes "norm k = j" and "\<forall>(l, u) \<in> set later. norm l \<noteq> j"
  shows "get (fold (\<lambda>(k, v). put k v) (earlier @ (k, v) # later) r) j = Some v"
  using assms by (simp add: get_puts_other get_put)

lemma get_puts_empty_Some:
  "get (fold (\<lambda>(k, v). put k v) kvs empty) j = Some v \<Longrightarrow> \<exists>k. (k, v) \<in> set kvs \<and> norm k = j"
proof (induction kvs rule: rev_induct)
  case Nil
  then show ?case by (simp add: get_empty)
next
  case (snoc kv kvs)
  then show ?case by (cases kv) (auto simp: get_put split: if_splits)
qed

end

interpretation gm: keyed_store "mempty :: ('k, 'v) gomap" mput mget "\<lambda>k. k"
  by unfold_locales simp_all

text \<open>
  A component with an invariant that every operation keeps: the invariant then holds after any
  sequence of operations.
\<close>

locale invariant_component =
  fixes step :: "'op \<Rightarrow> 's \<Rightarrow> 's" and inv :: "'s \<Rightarrow> bool"
  assumes step_inv: "inv s \<Longrightarrow> inv (step x s)"
begin

lemma run_inv: "inv s \<Longrightarrow> inv (fold step xs s)"
  by (induction xs arbitrary: s) (simp_all add: step_inv)

end

end
