(* ===== verification/Go_Strings.thy ===== *)
theory Go_Strings
  imports Go_Prelude
begin

text \<open>
  What the program uses of Go's \<^verbatim>\<open>strings\<close>, \<^verbatim>\<open>strconv\<close> and \<^verbatim>\<open>bufio\<close>: a string is a
  list of bytes. Case mapping and white space are those of ASCII text, which is what the command
  names, process ids and headers of the program are made of. Decimal conversion is complete
  (sign, syntax errors, range errors with the clamped value Go returns).
\<close>

section \<open>Definitions\<close>

definition is_space :: "char \<Rightarrow> bool" where
  "is_space c = ((of_char c :: nat) = 32 \<or> (9 \<le> (of_char c :: nat) \<and> (of_char c :: nat) \<le> 13))"

definition TrimSpace :: "string \<Rightarrow> string" where
  "TrimSpace s = rev (dropWhile is_space (rev (dropWhile is_space s)))"

definition upper_char :: "char \<Rightarrow> char" where
  "upper_char c =
     (let n = (of_char c :: nat) in if 97 \<le> n \<and> n \<le> 122 then char_of (n - 32) else c)"

definition lower_char :: "char \<Rightarrow> char" where
  "lower_char c =
     (let n = (of_char c :: nat) in if 65 \<le> n \<and> n \<le> 90 then char_of (n + 32) else c)"

definition ToUpper :: "string \<Rightarrow> string" where
  "ToUpper s = map upper_char s"

definition ToLower :: "string \<Rightarrow> string" where
  "ToLower s = map lower_char s"

definition HasPrefix :: "string \<Rightarrow> string \<Rightarrow> bool" where
  "HasPrefix s p = (take (length p) s = p \<and> length p \<le> length s)"

definition HasSuffix :: "string \<Rightarrow> string \<Rightarrow> bool" where
  "HasSuffix s p = HasPrefix (rev s) (rev p)"

fun Contains :: "string \<Rightarrow> string \<Rightarrow> bool" where
  "Contains [] sub = (sub = [])"
| "Contains (c # s) sub = (HasPrefix (c # s) sub \<or> Contains s sub)"

fun SplitOn :: "char \<Rightarrow> string \<Rightarrow> string list" where
  "SplitOn sep [] = [[]]"
| "SplitOn sep (c # s) =
     (if c = sep then [] # SplitOn sep s
      else (case SplitOn sep s of [] \<Rightarrow> [[c]] | x # xs \<Rightarrow> (c # x) # xs))"

subsection \<open>Decimal numbers\<close>

definition digit_char :: "nat \<Rightarrow> char" where
  "digit_char d = char_of (48 + d)"

fun nat_digits :: "nat \<Rightarrow> string" where
  "nat_digits n =
     (if n < 10 then [digit_char n] else nat_digits (n div 10) @ [digit_char (n mod 10)])"

declare nat_digits.simps [simp del]

definition Itoa :: "int \<Rightarrow> string" where
  "Itoa n = (if n < 0 then CHR ''-'' # nat_digits (nat (- n)) else nat_digits (nat n))"

definition is_digit :: "char \<Rightarrow> bool" where
  "is_digit c = (48 \<le> (of_char c :: nat) \<and> (of_char c :: nat) \<le> 57)"

definition digit_val :: "char \<Rightarrow> nat" where
  "digit_val c = of_char c - 48"

datatype parsed = SyntaxErr | RangeErr | Parsed nat

fun ParseUint :: "nat \<Rightarrow> string \<Rightarrow> parsed" where
  "ParseUint acc [] = Parsed acc"
| "ParseUint acc (c # s) =
     (if \<not> is_digit c then SyntaxErr
      else if acc * 10 + digit_val c > 2 ^ 64 - 1 then RangeErr
      else ParseUint (acc * 10 + digit_val c) s)"

definition num_error :: "string \<Rightarrow> go_error \<Rightarrow> go_error" where
  "num_error s e = WrapError (''strconv.Atoi: parsing '' @ quoted s @ '': '') e ''''"

definition ErrSyntax :: go_error where
  "ErrSyntax = Sentinel ''strconv.ErrSyntax'' ''invalid syntax''"

definition ErrRange :: go_error where
  "ErrRange = Sentinel ''strconv.ErrRange'' ''value out of range''"

fun split_sign :: "string \<Rightarrow> bool \<times> string" where
  "split_sign [] = (False, [])"
| "split_sign (c # s) =
     (if c = CHR ''-'' then (True, s) else if c = CHR ''+'' then (False, s) else (False, c # s))"

definition Atoi :: "string \<Rightarrow> int \<times> go_error option" where
  "Atoi s =
     (let (neg, ds) = split_sign s
      in if ds = [] then (0, Some (num_error s ErrSyntax))
         else (case ParseUint 0 ds of
                 SyntaxErr \<Rightarrow> (0, Some (num_error s ErrSyntax))
               | RangeErr \<Rightarrow>
                   (if neg then - (2 ^ 63) else 2 ^ 63 - 1, Some (num_error s ErrRange))
               | Parsed n \<Rightarrow>
                   if \<not> neg \<and> 2 ^ 63 \<le> n then (2 ^ 63 - 1, Some (num_error s ErrRange))
                   else if neg \<and> 2 ^ 63 < n then (- (2 ^ 63), Some (num_error s ErrRange))
                   else (if neg then - int n else int n, None)))"

subsection \<open>Reading lines\<close>

text \<open>
  \<^verbatim>\<open>ReadString\<close> with the delimiter \<^verbatim>\<open>'\n'\<close> on a stream that holds the given bytes and then
  ends: the line with its delimiter and the rest, or nothing where the stream ends first.
\<close>

definition ReadLine :: "string \<Rightarrow> (string \<times> string) option" where
  "ReadLine s =
     (let l = takeWhile (\<lambda>c. c \<noteq> newline) s; r = dropWhile (\<lambda>c. c \<noteq> newline) s
      in case r of [] \<Rightarrow> None | c # r' \<Rightarrow> Some (l @ [c], r'))"

text \<open>
  The tokens of a \<^verbatim>\<open>bufio.Scanner\<close> with its default split function: lines without the line
  feed and without one trailing carriage return; a last line with no line feed counts when it is
  not empty.
\<close>

definition dropCR :: "string \<Rightarrow> string" where
  "dropCR l = (if l \<noteq> [] \<and> last l = CHR 0x0D then butlast l else l)"

function ScanLines :: "string \<Rightarrow> string list" where
  "ScanLines s =
     (if s = [] then []
      else (case ReadLine s of
              None \<Rightarrow> [dropCR s]
            | Some (l, r) \<Rightarrow> dropCR (butlast l) # ScanLines r))"
  by pat_completeness auto

subsection \<open>Paths\<close>

text \<open>What is used of \<^verbatim>\<open>path/filepath\<close>, for slash-separated paths.\<close>

definition slash :: char where
  "slash = CHR ''/''"

definition path_Base :: "string \<Rightarrow> string" where
  "path_Base p =
     (if p = [] then ''.''
      else let q = rev (dropWhile (\<lambda>c. c = slash) (rev p))
           in if q = [] then [slash] else rev (takeWhile (\<lambda>c. c \<noteq> slash) (rev q)))"

text \<open>The suffix from the last dot of the last element, or nothing.\<close>

definition path_Ext :: "string \<Rightarrow> string" where
  "path_Ext p =
     (let r = takeWhile (\<lambda>c. c \<noteq> slash) (rev p)
      in if CHR ''.'' \<in> set r then CHR ''.'' # rev (takeWhile (\<lambda>c. c \<noteq> CHR ''.'') r) else [])"

definition TrimSuffix :: "string \<Rightarrow> string \<Rightarrow> string" where
  "TrimSuffix s suf = (if HasSuffix s suf then take (length s - length suf) s else s)"

fun clean_parts :: "bool \<Rightarrow> string list \<Rightarrow> string list \<Rightarrow> string list" where
  "clean_parts rooted out [] = out"
| "clean_parts rooted out (p # ps) =
     (if p = [] \<or> p = ''.'' then clean_parts rooted out ps
      else if p = ''..'' then
        (if out \<noteq> [] \<and> last out \<noteq> ''..'' then clean_parts rooted (butlast out) ps
         else if rooted then clean_parts rooted out ps
         else clean_parts rooted (out @ [''..'']) ps)
      else clean_parts rooted (out @ [p]) ps)"

definition path_Clean :: "string \<Rightarrow> string" where
  "path_Clean p =
     (let rooted = (p \<noteq> [] \<and> hd p = slash);
          body = intercalate [slash] (clean_parts rooted [] (SplitOn slash p))
      in if rooted then slash # body else if body = [] then ''.'' else body)"

definition path_Dir :: "string \<Rightarrow> string" where
  "path_Dir p = path_Clean (rev (dropWhile (\<lambda>c. c \<noteq> slash) (rev p)))"

section \<open>Lemmas\<close>

lemma takeWhile_until: "x \<notin> set xs \<Longrightarrow> takeWhile (\<lambda>c. c \<noteq> x) (xs @ x # ys) = xs"
  by (induction xs) auto

lemma SplitOn_single: "sep \<notin> set s \<Longrightarrow> SplitOn sep s = [s]"
  by (induction s) auto

lemma SplitOn_append: "sep \<notin> set a \<Longrightarrow> SplitOn sep (a @ sep # s) = a # SplitOn sep s"
  by (induction a) auto

lemma SplitOn_not_Nil [simp]: "SplitOn sep s \<noteq> []"
  by (cases s) (simp_all split: list.split)

lemma SplitOn_other: "c \<noteq> sep \<Longrightarrow> SplitOn sep (c # s) = (c # hd (SplitOn sep s)) # tl (SplitOn sep s)"
  using SplitOn_not_Nil [of sep s] by (cases "SplitOn sep s") simp_all

lemma SplitOn_eq_single: "SplitOn sep s = [x] \<longleftrightarrow> s = x \<and> sep \<notin> set x"
proof
  show "SplitOn sep s = [x] \<Longrightarrow> s = x \<and> sep \<notin> set x"
  proof (induction s arbitrary: x)
    case (Cons c s)
    have ne: "c \<noteq> sep" using Cons.prems by auto
    then have x: "x = c # hd (SplitOn sep s)" "tl (SplitOn sep s) = []"
      using Cons.prems by (simp_all add: SplitOn_other del: SplitOn.simps)
    then have "SplitOn sep s = [hd (SplitOn sep s)]"
      using SplitOn_not_Nil [of sep s] by (metis list.collapse)
    then show ?case using Cons.IH x(1) ne by simp
  qed simp
qed (simp add: SplitOn_single)

lemma SplitOn_eq_Cons:
  "SplitOn sep s = x # y # ys \<longleftrightarrow> (\<exists>r. s = x @ sep # r \<and> sep \<notin> set x \<and> SplitOn sep r = y # ys)"
proof
  show "SplitOn sep s = x # y # ys \<Longrightarrow> \<exists>r. s = x @ sep # r \<and> sep \<notin> set x \<and> SplitOn sep r = y # ys"
  proof (induction s arbitrary: x)
    case (Cons c s)
    show ?case
    proof (cases "c = sep")
      case True
      then show ?thesis using Cons.prems by auto
    next
      case False
      then have x: "x = c # hd (SplitOn sep s)" "tl (SplitOn sep s) = y # ys"
        using Cons.prems by (simp_all add: SplitOn_other del: SplitOn.simps)
      then have sp: "SplitOn sep s = hd (SplitOn sep s) # y # ys"
        using SplitOn_not_Nil [of sep s] by (metis list.collapse)
      obtain r where "s = hd (SplitOn sep s) @ sep # r" "sep \<notin> set (hd (SplitOn sep s))" "SplitOn sep r = y # ys"
        using Cons.IH [OF sp] by blast
      then show ?thesis using False x(1) by (intro exI [of _ r]) simp
    qed
  qed simp
qed (auto simp: SplitOn_append)

lemma ReadLine_Some: "ReadLine s = Some (l, r) \<Longrightarrow> s = l @ r \<and> l \<noteq> []"
  by (auto simp: ReadLine_def Let_def split: list.splits)
    (metis append.assoc append_Cons append_Nil takeWhile_dropWhile_id)

termination ScanLines
  by (relation "measure length") (auto dest: ReadLine_Some)

declare ScanLines.simps [simp del]

lemma ReadLine_line: "newline \<notin> set l \<Longrightarrow> ReadLine (l @ newline # r) = Some (l @ [newline], r)"
proof -
  assume "newline \<notin> set l"
  then have "takeWhile (\<lambda>c. c \<noteq> newline) (l @ newline # r) = l"
    and "dropWhile (\<lambda>c. c \<noteq> newline) (l @ newline # r) = newline # r"
    by (induction l) auto
  then show ?thesis by (simp add: ReadLine_def)
qed

lemma ReadLine_no_newline: "newline \<notin> set s \<Longrightarrow> ReadLine s = None"
proof -
  assume "newline \<notin> set s"
  then have none: "dropWhile (\<lambda>c. c \<noteq> newline) s = []" by auto
  show ?thesis unfolding ReadLine_def Let_def none by simp
qed

lemma ScanLines_Nil [simp]: "ScanLines [] = []"
  by (subst ScanLines.simps) simp

lemma ScanLines_line:
  "newline \<notin> set l \<Longrightarrow> ScanLines (l @ newline # r) = dropCR l # ScanLines r"
  by (subst ScanLines.simps) (simp add: ReadLine_line)

subsection \<open>Case and white space\<close>

lemma upper_char_idem [simp]: "upper_char (upper_char c) = upper_char c"
proof -
  have "(of_char c :: nat) < 256" by (rule nat_of_char_less_256)
  then show ?thesis by (auto simp: upper_char_def Let_def)
qed

lemma ToUpper_idem [simp]: "ToUpper (ToUpper s) = ToUpper s"
  by (simp add: ToUpper_def)

lemma TrimSpace_id:
  assumes "s \<noteq> []" and "\<not> is_space (hd s)" and "\<not> is_space (last s)"
  shows "TrimSpace s = s"
proof -
  from assms(1,2) have "dropWhile is_space s = s" by (cases s) auto
  moreover from assms(1,3) have "dropWhile is_space (rev s) = rev s"
    by (cases s rule: rev_cases) auto
  ultimately show ?thesis by (simp add: TrimSpace_def)
qed

lemma TrimSpace_append_space:
  assumes "is_space c"
  shows "TrimSpace (s @ [c]) = TrimSpace s"
proof (cases "\<forall>x \<in> set s. is_space x")
  case True
  then have none: "dropWhile is_space s = []" "dropWhile is_space (s @ [c]) = []"
    using assms by auto
  show ?thesis unfolding TrimSpace_def none ..
next
  case False
  then have "dropWhile is_space (s @ [c]) = dropWhile is_space s @ [c]"
    by (meson dropWhile_append1)
  with assms show ?thesis by (simp add: TrimSpace_def)
qed

lemma is_space_newline [simp]: "is_space newline"
  by (simp add: is_space_def newline_def)

subsection \<open>Decimal conversion is a round trip\<close>

lemma of_char_digit [simp]: "d < 10 \<Longrightarrow> (of_char (digit_char d) :: nat) = 48 + d"
  by (simp add: digit_char_def)

lemma digit_digit_char [simp]: "d < 10 \<Longrightarrow> is_digit (digit_char d)"
  by (simp add: is_digit_def)

lemma digit_val_digit_char [simp]: "d < 10 \<Longrightarrow> digit_val (digit_char d) = d"
  by (simp add: digit_val_def)

lemma nat_digits_nonempty [simp]: "nat_digits n \<noteq> []"
  by (subst nat_digits.simps) simp

lemma nat_digits_digits: "c \<in> set (nat_digits n) \<Longrightarrow> is_digit c"
proof (induction n rule: nat_digits.induct)
  case (1 n)
  then show ?case by (subst (asm) (2) nat_digits.simps) (auto split: if_splits)
qed

lemma digit_not_special:
  assumes "is_digit c"
  shows "\<not> is_space c" and "c \<noteq> newline" and "c \<noteq> CHR ''-''" and "c \<noteq> CHR ''+''"
  using assms by (auto simp: is_digit_def is_space_def newline_def)

lemma ParseUint_append:
  "ParseUint acc (xs @ ys) = (case ParseUint acc xs of Parsed n \<Rightarrow> ParseUint n ys | e \<Rightarrow> e)"
  by (induction xs arbitrary: acc) auto

lemma ParseUint_nat_digits: "n < 2 ^ 64 \<Longrightarrow> ParseUint 0 (nat_digits n) = Parsed n"
proof (induction n rule: nat_digits.induct)
  case (1 n)
  show ?case
  proof (cases "n < 10")
    case True
    then show ?thesis by (subst nat_digits.simps) simp
  next
    case False
    from "1.prems" have "n div 10 < 2 ^ 64" by simp
    with "1.IH" [OF False] have "ParseUint 0 (nat_digits (n div 10)) = Parsed (n div 10)" by simp
    moreover have "n div 10 * 10 + n mod 10 = n" by simp
    ultimately show ?thesis using False "1.prems"
      by (subst nat_digits.simps) (simp add: ParseUint_append)
  qed
qed

lemma Itoa_nonempty [simp]: "Itoa n \<noteq> []"
  by (simp add: Itoa_def)

lemma Itoa_no_space: "c \<in> set (Itoa n) \<Longrightarrow> \<not> is_space c \<and> c \<noteq> newline"
proof (cases "c = CHR ''-''")
  case True
  then show ?thesis by (simp add: is_space_def newline_def)
next
  case False
  assume "c \<in> set (Itoa n)"
  with False have "is_digit c" by (auto simp: Itoa_def dest: nat_digits_digits split: if_splits)
  then show ?thesis by (simp add: digit_not_special)
qed

lemma TrimSpace_Itoa [simp]: "TrimSpace (Itoa n) = Itoa n"
  by (intro TrimSpace_id) (simp_all add: Itoa_no_space [OF hd_in_set] Itoa_no_space [OF last_in_set])

lemma split_sign_digits: "split_sign (nat_digits n) = (False, nat_digits n)"
proof (cases "nat_digits n")
  case Nil
  then show ?thesis by simp
next
  case (Cons c s)
  then have "is_digit c" by (metis list.set_intros(1) nat_digits_digits)
  with Cons show ?thesis by (simp add: digit_not_special)
qed

lemma Atoi_Itoa:
  assumes "int64 n"
  shows "Atoi (Itoa n) = (n, None)"
proof (cases "n < 0")
  case True
  with assms have "nat (- n) \<le> 2 ^ 63" by (simp add: int64_def nat_le_iff)
  with True show ?thesis
    by (simp add: Itoa_def Atoi_def ParseUint_nat_digits)
next
  case False
  with assms have "nat n < 2 ^ 63" by (simp add: int64_def nat_less_iff)
  with False show ?thesis
    by (simp add: Itoa_def Atoi_def split_sign_digits ParseUint_nat_digits)
qed

lemma Atoi_int64: "int64 (fst (Atoi s))"
  by (auto simp: Atoi_def Let_def int64_def split: prod.splits parsed.splits)

lemma Atoi_error_zero_or_clamped:
  "snd (Atoi s) \<noteq> None \<Longrightarrow> fst (Atoi s) \<in> {0, 2 ^ 63 - 1, - (2 ^ 63)}"
  by (auto simp: Atoi_def Let_def split: prod.splits parsed.splits)

text \<open>The digits of a number determine it, at any size.\<close>

lemma digits_value: "foldl (\<lambda>a c. a * 10 + digit_val c) 0 (nat_digits n) = n"
proof (induction n rule: nat_digits.induct)
  case (1 n)
  then show ?case by (subst nat_digits.simps) simp
qed

lemma nat_digits_inject [simp]: "nat_digits m = nat_digits n \<longleftrightarrow> m = n"
  by (metis digits_value)

end
