(* ===== verification/Go_Float.thy ===== *)
theory Go_Float
  imports Complex_Main "HOL-Library.Log_Nat" Go_Prelude
begin

text \<open>
  The part of Go's \<^verbatim>\<open>float64\<close> that the program computes with: IEEE 754 binary64 values
  as rationals (one zero), rounding to nearest with ties to even, product, quotient,
  comparison, \<^verbatim>\<open>math.Ceil\<close> and the conversions from and to \<^verbatim>\<open>int\<close>. Go leaves the conversion
  of a value outside the range of \<^verbatim>\<open>int\<close> to the implementation; it is an argument here.
\<close>

datatype float64 = Fin rat | Inf bool | NaN

text \<open>The binary exponent of a positive number.\<close>

definition ilog2 :: "rat \<Rightarrow> int" where
  "ilog2 x = (if 1 \<le> x then int (floorlog 2 (nat \<lfloor>x\<rfloor>)) - 1
              else - int (floorlog 2 (nat (\<lceil>1 / x\<rceil> - 1))))"

definition round_half_even :: "rat \<Rightarrow> int" where
  "round_half_even r =
     (let f = \<lfloor>r\<rfloor>; d = r - of_int f
      in if d < 1 / 2 then f else if d > 1 / 2 then f + 1 else if even f then f else f + 1)"

definition ulp :: "rat \<Rightarrow> rat" where
  "ulp x = 2 powi (max (ilog2 \<bar>x\<bar>) (- 1022) - 52)"

definition fround :: "rat \<Rightarrow> float64" where
  "fround x =
     (if x = 0 then Fin 0
      else let v = of_int (round_half_even (x / ulp x)) * ulp x
           in if 2 ^ 1024 \<le> \<bar>v\<bar> then Inf (0 < x) else Fin v)"

fun fmul :: "float64 \<Rightarrow> float64 \<Rightarrow> float64" where
  "fmul (Fin a) (Fin b) = fround (a * b)"
| "fmul NaN _ = NaN"
| "fmul _ NaN = NaN"
| "fmul (Inf s) (Inf t) = Inf (s = t)"
| "fmul (Inf s) (Fin b) = (if b = 0 then NaN else Inf (s = (0 < b)))"
| "fmul (Fin a) (Inf t) = (if a = 0 then NaN else Inf ((0 < a) = t))"

fun fdiv :: "float64 \<Rightarrow> float64 \<Rightarrow> float64" where
  "fdiv (Fin a) (Fin b) =
     (if b = 0 then (if a = 0 then NaN else Inf (0 < a)) else fround (a / b))"
| "fdiv NaN _ = NaN"
| "fdiv _ NaN = NaN"
| "fdiv (Inf s) (Inf t) = NaN"
| "fdiv (Inf s) (Fin b) = Inf (s = (0 \<le> b))"
| "fdiv (Fin a) (Inf t) = Fin 0"

fun fge :: "float64 \<Rightarrow> float64 \<Rightarrow> bool" where
  "fge NaN _ = False"
| "fge _ NaN = False"
| "fge (Fin a) (Fin b) = (b \<le> a)"
| "fge (Inf s) (Fin b) = s"
| "fge (Fin a) (Inf t) = (\<not> t)"
| "fge (Inf s) (Inf t) = (s \<or> \<not> t)"

definition float_of_int :: "int \<Rightarrow> float64" where
  "float_of_int n = fround (of_int n)"

fun Ceil :: "float64 \<Rightarrow> float64" where
  "Ceil (Fin r) = Fin (of_int \<lceil>r\<rceil>)"
| "Ceil f = f"

definition trunc :: "rat \<Rightarrow> int" where
  "trunc r = (if 0 \<le> r then \<lfloor>r\<rfloor> else \<lceil>r\<rceil>)"

definition int_of_float :: "(float64 \<Rightarrow> int) \<Rightarrow> float64 \<Rightarrow> int" where
  "int_of_float oor f =
     (case f of Fin r \<Rightarrow> if int64 (trunc r) then trunc r else oor f | _ \<Rightarrow> oor f)"

section \<open>Rounding\<close>

lemma round_half_even_ge: "of_int k \<le> r \<Longrightarrow> k \<le> round_half_even r"
proof -
  assume "of_int k \<le> r"
  then have "k \<le> \<lfloor>r\<rfloor>" by (simp add: le_floor_iff)
  then show ?thesis by (simp add: round_half_even_def Let_def)
qed

lemma round_half_even_le:
  assumes "r \<le> of_int k"
  shows "round_half_even r \<le> k"
proof (cases "r - of_int \<lfloor>r\<rfloor> = 0")
  case True
  then have "of_int \<lfloor>r\<rfloor> = r" by simp
  with assms have "\<lfloor>r\<rfloor> \<le> k" by (metis of_int_le_iff)
  with True show ?thesis by (simp add: round_half_even_def Let_def)
next
  case False
  with of_int_floor_le [of r] have "of_int \<lfloor>r\<rfloor> < r" by linarith
  with assms have "(of_int \<lfloor>r\<rfloor> :: rat) < of_int k" by linarith
  then have "\<lfloor>r\<rfloor> + 1 \<le> k" by simp
  then show ?thesis by (simp add: round_half_even_def Let_def)
qed

lemma round_half_even_int [simp]: "round_half_even (of_int k) = k"
  by (simp add: round_half_even_def)

lemma round_half_even_near: "\<bar>of_int (round_half_even r) - r\<bar> \<le> 1 / 2"
  using of_int_floor_le [of r] floor_correct [of r]
  by (auto simp: round_half_even_def Let_def)

lemma ilog2_lower:
  assumes "0 < x" shows "2 powi ilog2 x \<le> x"
proof (cases "1 \<le> x")
  case True
  let ?n = "nat \<lfloor>x\<rfloor>"
  have pos: "0 < ?n" using True by simp
  have "2 ^ (floorlog 2 ?n - 1) \<le> ?n" using floorlog_bounds [OF pos, of 2] by simp
  then have "(2 :: rat) ^ (floorlog 2 ?n - 1) \<le> of_nat ?n"
    by (metis of_nat_le_iff of_nat_numeral of_nat_power)
  also have "of_nat ?n \<le> x" using True by simp
  also have "(2 :: rat) ^ (floorlog 2 ?n - 1) = 2 powi ilog2 x"
    using True pos by (simp add: ilog2_def power_int_def floorlog_eq_zero_iff nat_diff_distrib)
  finally show ?thesis .
next
  case False
  let ?m = "nat (\<lceil>1 / x\<rceil> - 1)"
  have "?m < 2 ^ floorlog 2 ?m" using floorlog_leD [of 2 ?m "floorlog 2 ?m"] by simp
  then have "int ?m < 2 ^ floorlog 2 ?m" by (metis of_nat_less_iff of_nat_numeral of_nat_power)
  then have "\<lceil>1 / x\<rceil> \<le> 2 ^ floorlog 2 ?m" by linarith
  then have "1 / x \<le> 2 ^ floorlog 2 ?m"
    by (simp add: ceiling_le_iff)
  with assms False show ?thesis
    by (simp add: ilog2_def power_int_minus field_simps)
qed

lemma powi_mono2: "m \<le> n \<Longrightarrow> (2 :: rat) powi m \<le> 2 powi n"
  by (simp add: power_int_increasing)

lemma ilog2_less: "0 < x \<Longrightarrow> x < 2 ^ n \<Longrightarrow> ilog2 x < int n"
  using ilog2_lower [of x] powi_mono2 [of "int n" "ilog2 x"] by force

lemma ulp_pos [simp]: "0 < ulp x"
  by (simp add: ulp_def zero_less_power_int)

text \<open>Below \<open>2 ^ 53\<close> every integer is a multiple of the spacing of the floats.\<close>

lemma int_multiple_of_ulp:
  assumes "\<bar>x\<bar> < 2 ^ 53" "x \<noteq> 0"
  obtains j where "of_int k / ulp x = of_int j"
proof -
  define d where "d = nat (52 - max (ilog2 \<bar>x\<bar>) (- 1022))"
  have "ilog2 \<bar>x\<bar> \<le> 52" using ilog2_less [of "\<bar>x\<bar>" 53] assms by simp
  then have "ulp x = 1 / 2 ^ d"
    by (auto simp: ulp_def d_def power_int_def power_divide)
  then have "of_int k / ulp x = of_int (k * 2 ^ d)" by simp
  then show ?thesis by (rule that)
qed

lemma round_to_ulp:
  assumes "\<bar>x\<bar> < 2 ^ 53" "x \<noteq> 0"
  defines "v \<equiv> of_int (round_half_even (x / ulp x)) * ulp x"
  shows "of_int k \<le> x \<Longrightarrow> of_int k \<le> v" and "x \<le> of_int k \<Longrightarrow> v \<le> of_int k"
    and "\<bar>v - x\<bar> \<le> ulp x / 2"
proof -
  from int_multiple_of_ulp [OF assms(1,2)] obtain j where j: "of_int k / ulp x = of_int j" .
  have ulp0: "ulp x \<noteq> 0" using ulp_pos [of x] by linarith
  with j have k: "of_int k = of_int j * ulp x" by (simp add: field_simps)
  show "of_int k \<le> v" if "of_int k \<le> x"
  proof -
    from that have "of_int j \<le> x / ulp x" by (simp add: k pos_le_divide_eq)
    from round_half_even_ge [OF this] show ?thesis by (simp add: v_def k)
  qed
  show "v \<le> of_int k" if "x \<le> of_int k"
  proof -
    from that have "x / ulp x \<le> of_int j" by (simp add: k pos_divide_le_eq)
    from round_half_even_le [OF this] show ?thesis by (simp add: v_def k)
  qed
  have "v - x = (of_int (round_half_even (x / ulp x)) - x / ulp x) * ulp x"
    by (simp add: v_def left_diff_distrib) (simp add: ulp0)
  then show "\<bar>v - x\<bar> \<le> ulp x / 2"
    using mult_right_mono [OF round_half_even_near [of "x / ulp x"], of "ulp x"]
    by (simp add: abs_mult less_imp_le)
qed

text \<open>Rounding below \<open>2 ^ 53\<close> does not cross an integer and errs by half a unit in the last place.\<close>

lemma fround_small:
  assumes "\<bar>x\<bar> < 2 ^ 53"
  obtains v where "fround x = Fin v" "\<And>k. of_int k \<le> x \<Longrightarrow> of_int k \<le> v"
    "\<And>k. x \<le> of_int k \<Longrightarrow> v \<le> of_int k" "\<bar>v - x\<bar> \<le> ulp x / 2"
proof (cases "x = 0")
  case True
  then show ?thesis using that [of 0] by (simp add: fround_def less_imp_le)
next
  case False
  let ?v = "of_int (round_half_even (x / ulp x)) * ulp x"
  note v = round_to_ulp [OF assms False]
  have "of_int (- (2 ^ 53)) \<le> ?v" "?v \<le> of_int (2 ^ 53)"
    using v(1) [of "- (2 ^ 53)"] v(2) [of "2 ^ 53"] assms by auto
  then have "\<bar>?v\<bar> < 2 ^ 1024" by (simp add: abs_less_iff)
  then have "fround x = Fin ?v" using False by (simp add: fround_def Let_def)
  then show ?thesis using v by (rule that)
qed

lemma float_of_int_exact: "\<bar>n\<bar> < 2 ^ 53 \<Longrightarrow> float_of_int n = Fin (of_int n)"
proof -
  assume "\<bar>n\<bar> < 2 ^ 53"
  then have "\<bar>of_int n :: rat\<bar> < 2 ^ 53" by (metis of_int_abs of_int_less_numeral_power_cancel_iff)
  from fround_small [OF this] obtain v where "fround (of_int n) = Fin v"
    "\<And>k. (of_int k :: rat) \<le> of_int n \<Longrightarrow> of_int k \<le> v" "\<And>k. (of_int n :: rat) \<le> of_int k \<Longrightarrow> v \<le> of_int k"
    by metis
  then show ?thesis by (metis float_of_int_def order_antisym order_refl)
qed

lemma ulp_le:
  assumes "\<bar>x\<bar> < 2 ^ n" "x \<noteq> 0"
  shows "ulp x \<le> 2 powi (int n - 53)"
  unfolding ulp_def using ilog2_less [of "\<bar>x\<bar>" n] assms by (intro powi_mono2) auto

lemma fround_near:
  assumes "\<bar>x\<bar> < 2 ^ n" "n \<le> 53"
  obtains v where "fround x = Fin v" "\<bar>v - x\<bar> \<le> 2 powi (int n - 54)"
    "\<And>k. of_int k \<le> x \<Longrightarrow> of_int k \<le> v" "\<And>k. x \<le> of_int k \<Longrightarrow> v \<le> of_int k"
proof (cases "x = 0")
  case True
  then show ?thesis using that [of 0] by (simp add: fround_def)
next
  case False
  have "\<bar>x\<bar> < 2 ^ 53" using assms power_increasing [of n 53 "2 :: rat"] by linarith
  from fround_small [OF this] obtain v where v: "fround x = Fin v" "\<bar>v - x\<bar> \<le> ulp x / 2"
    "\<And>k. of_int k \<le> x \<Longrightarrow> of_int k \<le> v" "\<And>k. x \<le> of_int k \<Longrightarrow> v \<le> of_int k" by metis
  have "ulp x / 2 \<le> 2 powi (int n - 53) / 2" using ulp_le [OF assms(1) False] by simp
  also have "\<dots> = 2 powi (int n - 54)"
    using power_int_add_1 [of "2 :: rat" "int n - 54"] by (simp add: add.commute)
  finally show ?thesis using v that by force
qed

lemma fround_near_ex:
  assumes "\<bar>x\<bar> < 2 ^ n" "n \<le> 53"
  shows "\<exists>v. fround x = Fin v \<and> \<bar>v - x\<bar> \<le> 2 powi (int n - 54) \<and> (\<forall>k. of_int k \<le> x \<longrightarrow> of_int k \<le> v)"
  using fround_near [OF assms] by metis

section \<open>A tenth of a whole amount\<close>

text \<open>The literal \<^verbatim>\<open>0.10\<close>, as the compiler rounds it.\<close>

definition tenth :: rat where
  "tenth = 3602879701896397 / 36028797018963968"

lemma fround_tenth: "fround (1 / 10) = Fin tenth"
proof -
  have log: "floorlog 2 9 = 4" by (simp add: compute_floorlog)
  have ulp: "ulp (1 / 10) = 1 / 2 ^ 56"
    by (simp add: ulp_def ilog2_def log power_int_def power_divide)
  have "round_half_even (1 / 10 / (1 / 2 ^ 56)) = 7205759403792794"
  proof -
    have "\<lfloor>36028797018963968 / 5 :: rat\<rfloor> = 7205759403792793" by (simp add: floor_eq_iff)
    then show ?thesis by (simp add: round_half_even_def Let_def)
  qed
  then show ?thesis by (simp add: fround_def ulp tenth_def)
qed

text \<open>
  Rounding \<open>0.10\<close> up and rounding the product together never reach the next whole number for
  amounts below \<open>2 ^ 50\<close>, nor fall below the exact quotient.
\<close>

lemma trunc_tenth:
  assumes "0 \<le> a" "a < 2 ^ 50"
  obtains v where "fmul (Fin (of_int a)) (Fin tenth) = Fin v" "trunc v = a div 10" "0 \<le> v"
proof -
  let ?x = "of_int a * tenth" and ?k = "a div 10"
  have a: "(0 :: rat) \<le> of_int a" "(of_int a :: rat) < 2 ^ 50"
    using assms by (auto simp: of_int_less_numeral_power_cancel_iff)
  have below: "of_int ?k \<le> (of_int a / 10 :: rat)" and above: "(of_int a / 10 :: rat) \<le> of_int ?k + 9 / 10"
  proof -
    have "10 * ?k \<le> a" "a \<le> 10 * ?k + 9" by presburger+
    then have "(10 * of_int ?k :: rat) \<le> of_int a" "(of_int a :: rat) \<le> 10 * of_int ?k + 9"
      by linarith+
    then show "of_int ?k \<le> (of_int a / 10 :: rat)" "(of_int a / 10 :: rat) \<le> of_int ?k + 9 / 10" by auto
  qed
  have tenth: "1 / 10 \<le> tenth" "tenth \<le> 1 / 10 + 1 / 2 ^ 57" by (simp_all add: tenth_def)
  have x: "of_int a / 10 \<le> ?x" "?x \<le> of_int a / 10 + 1 / 2 ^ 7"
  proof -
    show "of_int a / 10 \<le> ?x" using mult_left_mono [OF tenth(1) a(1)] by simp
    have "?x \<le> of_int a * (1 / 10 + 1 / 2 ^ 57)" using mult_left_mono [OF tenth(2) a(1)] .
    also have "\<dots> = of_int a / 10 + of_int a / 2 ^ 57" by (simp add: field_simps)
    also have "(of_int a / 2 ^ 57 :: rat) \<le> 1 / 2 ^ 7" using a(2) by simp
    finally show "?x \<le> of_int a / 10 + 1 / 2 ^ 7" by simp
  qed
  have "0 \<le> ?x" "?x < 2 ^ 50" using a x by simp_all
  then have small: "\<bar>?x\<bar> < 2 ^ 50" by simp
  have n: "(50 :: nat) \<le> 53" by simp
  from fround_near [OF small n] obtain v where v: "fround ?x = Fin v" "\<bar>v - ?x\<bar> \<le> 2 powi (int 50 - 54)"
    "\<And>k. of_int k \<le> ?x \<Longrightarrow> of_int k \<le> v" by metis
  have "of_int ?k \<le> v" using below x(1) by (intro v(3)) linarith
  moreover have "v < of_int ?k + 1"
  proof -
    have "(2 :: rat) powi (int 50 - 54) = 1 / 16" by (simp add: power_int_def power_divide)
    with v(2) have "v - ?x \<le> 1 / 16" by linarith
    with above x(2) show ?thesis by simp
  qed
  moreover have "0 \<le> v" using v(3) [of 0] \<open>0 \<le> ?x\<close> by simp
  ultimately have "trunc v = ?k" by (simp add: trunc_def floor_eq_iff)
  with v(1) \<open>0 \<le> v\<close> show ?thesis by (intro that) auto
qed

end
