(* ===== verification/Go_Json.thy ===== *)
theory Go_Json
  imports Go_Strings Go_Float "HOL-Library.List_Lexorder" "HOL-Library.Char_ord"
begin

text \<open>
  JSON values, as \<^verbatim>\<open>encoding/json\<close> writes and reads them, up to their text. A time is the
  number of nanoseconds since the Unix epoch. A JSON string that is the RFC 3339 text of a time is
  the value \<open>JTime t\<close>; \<open>JStr\<close> is any other string. Numbers that a \<^verbatim>\<open>float64\<close> or an
  \<^verbatim>\<open>int\<close> gives are \<open>JNum\<close>.
\<close>

type_synonym gotime = int

datatype json =
    JNull
  | JBool bool
  | JNum rat
  | JStr string
  | JTime gotime
  | JArr "json list"
  | JObj "(string \<times> json) list"

section \<open>Times\<close>

definition second :: int where
  "second = 1000000000"

text \<open>\<^verbatim>\<open>time.Time{}\<close> is midnight of the first day of the year 1.\<close>

definition zero_time :: gotime where
  "zero_time = - 62135596800 * second"

text \<open>The year, by the proleptic Gregorian calendar counted from March 1 of the year 0.\<close>

definition civil :: "int \<Rightarrow> int \<times> int \<times> int" where
  "civil days =
     (let z = days + 719468;
          era = z div 146097;
          doe = z mod 146097;
          yoe = (doe - doe div 1460 + doe div 36524 - doe div 146096) div 365;
          doy = doe - (365 * yoe + yoe div 4 - yoe div 100);
          mp = (5 * doy + 2) div 153;
          d = doy - (153 * mp + 2) div 5 + 1;
          m = (if mp < 10 then mp + 3 else mp - 9)
      in (yoe + era * 400 + (if m \<le> 2 then 1 else 0), m, d))"

definition time_year :: "gotime \<Rightarrow> int" where
  "time_year t = fst (civil (t div second div 86400))"

definition pad :: "nat \<Rightarrow> int \<Rightarrow> string" where
  "pad n i = replicate (n - length (Itoa i)) CHR ''0'' @ Itoa i"

definition fraction :: "int \<Rightarrow> string" where
  "fraction ns = (if ns = 0 then [] else CHR ''.'' # rev (dropWhile (\<lambda>c. c = CHR ''0'') (rev (pad 9 ns))))"

definition rfc3339 :: "gotime \<Rightarrow> string" where
  "rfc3339 t =
     (let s = t div second; (y, m, d) = civil (s div 86400); r = s mod 86400
      in pad 4 y @ ''-'' @ pad 2 m @ ''-'' @ pad 2 d @ ''T'' @ pad 2 (r div 3600) @ '':''
         @ pad 2 (r div 60 mod 60) @ '':'' @ pad 2 (r mod 60) @ fraction (t mod second) @ ''Z'')"

definition json_time :: "gotime \<Rightarrow> json result" where
  "json_time t =
     (if 0 \<le> time_year t \<and> time_year t \<le> 9999 then Inr (JTime t)
      else Inl (ErrorString (''json: error calling MarshalJSON for type time.Time: ''
                 @ ''Time.MarshalJSON: year outside of range [0,9999]'')))"

section \<open>Writing\<close>

fun json_float :: "float64 \<Rightarrow> json result" where
  "json_float (Fin r) = Inr (JNum r)"
| "json_float (Inf s) = Inl (ErrorString (''json: unsupported value: '' @ (if s then ''+Inf'' else ''-Inf'')))"
| "json_float NaN = Inl (ErrorString ''json: unsupported value: NaN'')"

definition json_map :: "(string, string) gomap option \<Rightarrow> json" where
  "json_map m =
     (case m of None \<Rightarrow> JNull | Some kvs \<Rightarrow> JObj (map (\<lambda>(k, v). (k, JStr v)) (sort_key fst kvs)))"

section \<open>Reading\<close>

fun json_kind :: "json \<Rightarrow> string" where
  "json_kind JNull = ''null''"
| "json_kind (JBool b) = ''bool''"
| "json_kind (JNum n) = ''number''"
| "json_kind (JStr s) = ''string''"
| "json_kind (JTime t) = ''string''"
| "json_kind (JArr xs) = ''array''"
| "json_kind (JObj kvs) = ''object''"

definition type_error :: "json \<Rightarrow> string \<Rightarrow> string \<Rightarrow> go_error" where
  "type_error j field ty =
     ErrorString (''json: cannot unmarshal '' @ json_kind j @ '' into Go struct field '' @ field
       @ '' of type '' @ ty)"

fun read_string :: "string \<Rightarrow> string \<Rightarrow> json \<Rightarrow> string result" where
  "read_string field old JNull = Inr old"
| "read_string field old (JStr s) = Inr s"
| "read_string field old (JTime t) = Inr (rfc3339 t)"
| "read_string field old j = Inl (type_error j field ''string'')"

fun read_time :: "gotime \<Rightarrow> json \<Rightarrow> gotime result" where
  "read_time old JNull = Inr old"
| "read_time old (JTime t) = Inr t"
| "read_time old (JStr s) = Inl (ErrorString (''parsing time '' @ quoted s))"
| "read_time old j = Inl (ErrorString ''Time.UnmarshalJSON: input is not a JSON string'')"

fun read_entries :: "string \<Rightarrow> (string, string) gomap \<Rightarrow> (string \<times> json) list \<Rightarrow> (string, string) gomap result" where
  "read_entries field m [] = Inr m"
| "read_entries field m ((k, j) # kvs) =
     (case read_string field [] j of
        Inl e \<Rightarrow> Inl e
      | Inr v \<Rightarrow> read_entries field (mput k v m) kvs)"

fun read_map :: "string \<Rightarrow> string \<Rightarrow> (string, string) gomap option \<Rightarrow> json \<Rightarrow> (string, string) gomap option result"
where
  "read_map field ty old JNull = Inr None"
| "read_map field ty old (JObj kvs) =
     (case read_entries field (case old of None \<Rightarrow> mempty | Some m \<Rightarrow> m) kvs of
        Inl e \<Rightarrow> Inl e | Inr m \<Rightarrow> Inr (Some m))"
| "read_map field ty old j = Inl (type_error j field ty)"

text \<open>A field is found by its exact name, or else by its name up to case.\<close>

definition find_field :: "string list \<Rightarrow> string \<Rightarrow> string option" where
  "find_field names k =
     (if k \<in> set names then Some k else find (\<lambda>f. ToLower f = ToLower k) names)"

text \<open>An object is read member by member; members that name no field are skipped.\<close>

fun read_object ::
  "string list \<Rightarrow> (string \<Rightarrow> json \<Rightarrow> 'a \<Rightarrow> 'a result) \<Rightarrow> (string \<times> json) list \<Rightarrow> 'a \<Rightarrow> 'a result" where
  "read_object names rd [] x = Inr x"
| "read_object names rd ((k, j) # kvs) x =
     (case find_field names k of
        None \<Rightarrow> read_object names rd kvs x
      | Some f \<Rightarrow> (case rd f j x of Inl e \<Rightarrow> Inl e | Inr y \<Rightarrow> read_object names rd kvs y))"

fun read_float :: "string \<Rightarrow> float64 \<Rightarrow> json \<Rightarrow> float64 result" where
  "read_float field old JNull = Inr old"
| "read_float field old (JNum r) =
     (case fround r of Fin v \<Rightarrow> Inr (Fin v) | _ \<Rightarrow> Inl (type_error (JNum r) field ''float64''))"
| "read_float field old j = Inl (type_error j field ''float64'')"

section \<open>Lemmas\<close>

lemma find_exact: "k \<in> set names \<Longrightarrow> find_field names k = Some k"
  by (simp add: find_field_def)

lemma read_entries_strings:
  "read_entries field m (map (\<lambda>(k, v). (k, JStr v)) kvs) = Inr (fold (\<lambda>(k, v). mput k v) kvs m)"
  by (induction kvs arbitrary: m) auto

lemma mget_fold_mput:
  "mget (fold (\<lambda>(k, v). mput k v) kvs m) k = (case map_of (rev kvs) k of None \<Rightarrow> mget m k | Some v \<Rightarrow> Some v)"
  by (induction kvs rule: rev_induct) (auto simp: mget_mput)

lemma wf_fold_mput: "wf_map m \<Longrightarrow> wf_map (fold (\<lambda>(k, v). mput k v) kvs m)"
  by (induction kvs arbitrary: m) (auto simp: wf_mput)

text \<open>What a map of strings becomes on its way through JSON.\<close>

lemma read_map_json_map:
  assumes "wf_map m"
  obtains m' where "read_map field ty None (json_map (Some m)) = Inr (Some m')" "wf_map m'" "mget m' = mget m"
proof -
  define kvs where "kvs = sort_key fst m"
  have dist: "distinct (map fst kvs)" and set: "set kvs = set m"
    using assms by (simp_all add: kvs_def wf_map_def mkeys_def distinct_map distinct_sort flip: set_map)
  have "map_of (rev kvs) = map_of m"
    using assms dist set
    by (intro map_of_inject_set [THEN iffD2]) (auto simp: wf_map_def mkeys_def rev_map [symmetric])
  then have "mget (fold (\<lambda>(k, v). mput k v) kvs mempty) = mget m"
    by (simp add: fun_eq_iff mget_fold_mput) (simp add: mget_def split: option.split)
  then show ?thesis
    by (intro that [of "fold (\<lambda>(k, v). mput k v) kvs mempty"])
      (simp_all add: json_map_def read_entries_strings kvs_def wf_fold_mput)
qed

end
