(* ===== verification/Event_Bus.thy ===== *)
theory Event_Bus
  imports Go_Json
begin

text \<open>
  The event buses of \<^verbatim>\<open>drivers/watermill/event_bus.go\<close> and of the FX module: envelopes
  (\<^verbatim>\<open>pkg/cqrs/envelope.go\<close>), publishing to a durable or an in-memory publisher, and the
  function that a subscription gives to the Watermill router. Publishers, the subscriber factory,
  the identifiers of messages and the trace propagator are third-party code and are arguments; the
  router is the list of the handlers given to it. Payloads are values of a type \<open>'p\<close>, and
  \<open>marshal\<close> is what \<^verbatim>\<open>json.Marshal\<close> gives for one.
\<close>

section \<open>Envelopes\<close>

record 'p EventEnvelope =
  ev_EventID :: string
  ev_CorrelationID :: string
  ev_CausationID :: string
  ev_EventName :: string
  ev_OccurredAt :: gotime
  ev_OtelCarrier :: "(string, string) gomap option"
  ev_Payload :: "'p option"

definition zero_envelope :: "'p EventEnvelope" where
  "zero_envelope = \<lparr>ev_EventID = [], ev_CorrelationID = [], ev_CausationID = [], ev_EventName = [],
     ev_OccurredAt = zero_time, ev_OtelCarrier = None, ev_Payload = None\<rparr>"

text \<open>The topics of \<^verbatim>\<open>pkg/events\<close>.\<close>

definition LoyaltyCredited :: string where
  "LoyaltyCredited = ''loyalty.account.credited''"

definition LoyaltyCreditFailed :: string where
  "LoyaltyCreditFailed = ''loyalty.account.credit_failed''"

definition OrderCompleted :: string where
  "OrderCompleted = ''orders.order.completed''"

definition OrderFulfillmentReady :: string where
  "OrderFulfillmentReady = ''orders.fulfillment.ready''"

definition OrderFailed :: string where
  "OrderFailed = ''orders.order.failed''"

definition json_envelope :: "('p \<Rightarrow> json result) \<Rightarrow> 'p EventEnvelope \<Rightarrow> json result" where
  "json_envelope marshal env =
     (case json_time (ev_OccurredAt env) of
        Inl e \<Rightarrow> Inl e
      | Inr t \<Rightarrow>
          (case (case ev_Payload env of None \<Rightarrow> Inr JNull | Some p \<Rightarrow> marshal p) of
             Inl e \<Rightarrow> Inl e
           | Inr p \<Rightarrow> Inr (JObj
               [(''EventID'', JStr (ev_EventID env)), (''CorrelationID'', JStr (ev_CorrelationID env)),
                (''CausationID'', JStr (ev_CausationID env)), (''EventName'', JStr (ev_EventName env)),
                (''OccurredAt'', t), (''OtelCarrier'', json_map (ev_OtelCarrier env)), (''Payload'', p)])))"

definition envelope_fields :: "string list" where
  "envelope_fields = [''EventID'', ''CorrelationID'', ''CausationID'', ''EventName'', ''OccurredAt'',
     ''OtelCarrier'', ''Payload'']"

text \<open>
  Reading one member of the object. The field \<^verbatim>\<open>Payload\<close> has the interface type
  \<^verbatim>\<open>DomainEvent\<close>, which has methods: \<^verbatim>\<open>encoding/json\<close> can only store
  \<^verbatim>\<open>null\<close> in it.
\<close>

definition read_field :: "string \<Rightarrow> json \<Rightarrow> 'p EventEnvelope \<Rightarrow> 'p EventEnvelope result" where
  "read_field f j env =
     (if f = ''EventID'' then
        map_sum id (\<lambda>s. env\<lparr>ev_EventID := s\<rparr>) (read_string ''EventEnvelope.EventID'' (ev_EventID env) j)
      else if f = ''CorrelationID'' then
        map_sum id (\<lambda>s. env\<lparr>ev_CorrelationID := s\<rparr>)
          (read_string ''EventEnvelope.CorrelationID'' (ev_CorrelationID env) j)
      else if f = ''CausationID'' then
        map_sum id (\<lambda>s. env\<lparr>ev_CausationID := s\<rparr>)
          (read_string ''EventEnvelope.CausationID'' (ev_CausationID env) j)
      else if f = ''EventName'' then
        map_sum id (\<lambda>s. env\<lparr>ev_EventName := s\<rparr>) (read_string ''EventEnvelope.EventName'' (ev_EventName env) j)
      else if f = ''OccurredAt'' then
        map_sum id (\<lambda>t. env\<lparr>ev_OccurredAt := t\<rparr>) (read_time (ev_OccurredAt env) j)
      else if f = ''OtelCarrier'' then
        map_sum id (\<lambda>m. env\<lparr>ev_OtelCarrier := m\<rparr>)
          (read_map ''EventEnvelope.OtelCarrier'' ''propagation.MapCarrier'' (ev_OtelCarrier env) j)
      else if j = JNull then Inr (env\<lparr>ev_Payload := None\<rparr>)
      else Inl (type_error j ''EventEnvelope.Payload'' ''cqrs.DomainEvent''))"

fun read_members :: "(string \<times> json) list \<Rightarrow> 'p EventEnvelope \<Rightarrow> 'p EventEnvelope result" where
  "read_members [] env = Inr env"
| "read_members ((k, j) # kvs) env =
     (case find_field envelope_fields k of
        None \<Rightarrow> read_members kvs env
      | Some f \<Rightarrow> (case read_field f j env of Inl e \<Rightarrow> Inl e | Inr env' \<Rightarrow> read_members kvs env'))"

fun read_envelope :: "json \<Rightarrow> 'p EventEnvelope result" where
  "read_envelope JNull = Inr zero_envelope"
| "read_envelope (JObj kvs) = read_members kvs zero_envelope"
| "read_envelope j = Inl (ErrorString (''json: cannot unmarshal '' @ json_kind j
     @ '' into Go value of type cqrs.EventEnvelope''))"

section \<open>The bus\<close>

record message =
  msg_UUID :: string
  msg_Payload :: json

type_synonym 'w publisher = "string \<Rightarrow> message \<Rightarrow> 'w \<Rightarrow> go_error option \<times> 'w"
type_synonym ('p, 'w) event_handler = "'p EventEnvelope \<Rightarrow> 'w \<Rightarrow> go_error option \<times> 'w"

text \<open>
  What a router handler gives for a message: the error, whether it has called \<^verbatim>\<open>Ack\<close> on
  the message itself, and the world.
\<close>

type_synonym 'w router_func = "message \<Rightarrow> 'w \<Rightarrow> (go_error option \<times> bool) \<times> 'w"

record ('s, 'w) router_entry =
  re_name :: string
  re_topic :: string
  re_subscriber :: 's
  re_func :: "'w router_func"

record ('p, 's, 'w) eventBus =
  gcPublisher :: "'w publisher"
  gcChannel :: 's
  sqlPublisher :: "'w publisher option"
  sqlSubscriberFn :: "(string \<Rightarrow> 's result) option"
  subscribers :: "(string, ('p, 'w) event_handler list) gomap"
  router :: "('s, 'w) router_entry list"

definition criticalTopics :: "(string, bool) gomap" where
  "criticalTopics = [(''orders.order.completed'', True), (''loyalty.account.credited'', True),
     (''loyalty.account.credit_failed'', True), (''orders.fulfillment.ready'', True),
     (''orders.order.failed'', True)]"

definition is_critical :: "string \<Rightarrow> bool" where
  "is_critical topic = (case mget criticalTopics topic of None \<Rightarrow> False | Some b \<Rightarrow> b)"

definition newEventBus :: "'w publisher \<Rightarrow> 's \<Rightarrow> ('p, 's, 'w) eventBus" where
  "newEventBus gcPub gc = \<lparr>gcPublisher = gcPub, gcChannel = gc, sqlPublisher = None, sqlSubscriberFn = None,
     subscribers = mempty, router = []\<rparr>"

definition SetSQLBackend ::
  "'w publisher option \<Rightarrow> (string \<Rightarrow> 's result) option \<Rightarrow> ('p, 's, 'w) eventBus \<Rightarrow> ('p, 's, 'w) eventBus" where
  "SetSQLBackend pub subFn b = b\<lparr>sqlPublisher := pub, sqlSubscriberFn := subFn\<rparr>"

text \<open>
  \<open>carrier\<close> is what the propagator injects from the context of the call, \<open>uuid\<close> the
  identifiers that \<^verbatim>\<open>watermill.NewUUID\<close> gives, in the order of the calls.
\<close>

fun eventBus_Publish ::
  "('p \<Rightarrow> json result) \<Rightarrow> (string, string) gomap \<Rightarrow> (nat \<Rightarrow> string) \<Rightarrow> ('p, 's, 'w) eventBus
     \<Rightarrow> 'p EventEnvelope list \<Rightarrow> 'w \<Rightarrow> go_error option \<times> 'w" where
  "eventBus_Publish marshal carrier uuid b [] w = (None, w)"
| "eventBus_Publish marshal carrier uuid b (e # envelopes) w =
     (let env = e\<lparr>ev_OtelCarrier := Some carrier\<rparr>
      in case json_envelope marshal env of
           Inl err \<Rightarrow> (Some (WrapError ''eventBus.Publish: marshal failed: '' err ''''), w)
         | Inr payload \<Rightarrow>
             (let msg = \<lparr>msg_UUID = uuid 0, msg_Payload = payload\<rparr>;
                  pub = (if is_critical (ev_EventName env) \<and> sqlPublisher b \<noteq> None
                         then the (sqlPublisher b) else gcPublisher b)
              in case pub (ev_EventName env) msg w of
                   (Some err, w') \<Rightarrow>
                     (Some (WrapError (''eventBus.Publish: topic='' @ ev_EventName env @ '': '') err ''''), w')
                 | (None, w') \<Rightarrow> eventBus_Publish marshal carrier (\<lambda>i. uuid (Suc i)) b envelopes w'))"

definition subscription :: "('p, 'w) event_handler \<Rightarrow> 'w router_func" where
  "subscription handler msg w =
     (case read_envelope (msg_Payload msg) of
        Inl err \<Rightarrow> ((None, True), w)
      | Inr env \<Rightarrow>
          (case handler env w of
             (Some err, w') \<Rightarrow> ((Some err, False), w')
           | (None, w') \<Rightarrow> ((None, False), w')))"

definition subscribers_of :: "('p, 's, 'w) eventBus \<Rightarrow> string \<Rightarrow> ('p, 'w) event_handler list" where
  "subscribers_of b name = (case mget (subscribers b) name of None \<Rightarrow> [] | Some hs \<Rightarrow> hs)"

definition handler_name :: "string \<Rightarrow> nat \<Rightarrow> string" where
  "handler_name eventName n = ''event_handler.'' @ eventName @ ''.'' @ Itoa (int n)"

definition eventBus_Subscribe ::
  "string \<Rightarrow> ('p, 'w) event_handler \<Rightarrow> ('p, 's, 'w) eventBus \<Rightarrow> go_error option \<times> ('p, 's, 'w) eventBus" where
  "eventBus_Subscribe eventName handler b0 =
     (let b = b0\<lparr>subscribers := mput eventName (subscribers_of b0 eventName @ [handler]) (subscribers b0)\<rparr>;
          sub = (if is_critical eventName \<and> sqlSubscriberFn b \<noteq> None
                 then the (sqlSubscriberFn b) eventName else Inr (gcChannel b))
      in case sub of
           Inl e \<Rightarrow> (Some (WrapError ''eventBus.Subscribe: SQL subscriber: '' e ''''), b)
         | Inr s \<Rightarrow>
             (None, b\<lparr>router := router b @
                [\<lparr>re_name = handler_name eventName (length (subscribers_of b eventName)),
                  re_topic = eventName, re_subscriber = s, re_func = subscription handler\<rparr>]\<rparr>))"

section \<open>The bus of the FX module\<close>

text \<open>
  It has no separate publisher field: the in-memory channel is both the publisher and the
  subscriber; \<open>chan_publish\<close> is its method \<^verbatim>\<open>Publish\<close>.
\<close>

record ('p, 's, 'w) fx_eventBus =
  fx_gcChannel :: 's
  fx_sqlPublisher :: "'w publisher option"
  fx_sqlSubscriberFn :: "(string \<Rightarrow> 's result) option"
  fx_subscribers :: "(string, ('p, 'w) event_handler list) gomap"
  fx_router :: "('s, 'w) router_entry list"

definition fx_criticalTopics :: "(string, bool) gomap" where
  "fx_criticalTopics = [(''orders.order.completed'', True), (''loyalty.account.credited'', True),
     (''loyalty.account.credit_failed'', True), (''orders.fulfillment.ready'', True),
     (''orders.order.failed'', True)]"

definition fx_is_critical :: "string \<Rightarrow> bool" where
  "fx_is_critical topic = (case mget fx_criticalTopics topic of None \<Rightarrow> False | Some b \<Rightarrow> b)"

definition fx_newEventBus :: "'s \<Rightarrow> ('p, 's, 'w) fx_eventBus" where
  "fx_newEventBus gc = \<lparr>fx_gcChannel = gc, fx_sqlPublisher = None, fx_sqlSubscriberFn = None,
     fx_subscribers = mempty, fx_router = []\<rparr>"

definition fx_SetSQLBackend ::
  "'w publisher option \<Rightarrow> (string \<Rightarrow> 's result) option \<Rightarrow> ('p, 's, 'w) fx_eventBus \<Rightarrow> ('p, 's, 'w) fx_eventBus" where
  "fx_SetSQLBackend pub subFn b = b\<lparr>fx_sqlPublisher := pub, fx_sqlSubscriberFn := subFn\<rparr>"

fun fx_eventBus_Publish ::
  "('s \<Rightarrow> 'w publisher) \<Rightarrow> ('p \<Rightarrow> json result) \<Rightarrow> (string, string) gomap \<Rightarrow> (nat \<Rightarrow> string)
     \<Rightarrow> ('p, 's, 'w) fx_eventBus \<Rightarrow> 'p EventEnvelope list \<Rightarrow> 'w \<Rightarrow> go_error option \<times> 'w" where
  "fx_eventBus_Publish chan_publish marshal carrier uuid b [] w = (None, w)"
| "fx_eventBus_Publish chan_publish marshal carrier uuid b (e # envelopes) w =
     (let env = e\<lparr>ev_OtelCarrier := Some carrier\<rparr>
      in case json_envelope marshal env of
           Inl err \<Rightarrow> (Some (WrapError ''eventBus.Publish: marshal failed: '' err ''''), w)
         | Inr payload \<Rightarrow>
             (let msg = \<lparr>msg_UUID = uuid 0, msg_Payload = payload\<rparr>;
                  pub = (if fx_is_critical (ev_EventName env) \<and> fx_sqlPublisher b \<noteq> None
                         then the (fx_sqlPublisher b) else chan_publish (fx_gcChannel b))
              in case pub (ev_EventName env) msg w of
                   (Some err, w') \<Rightarrow>
                     (Some (WrapError (''eventBus.Publish: topic='' @ ev_EventName env @ '': '') err ''''), w')
                 | (None, w') \<Rightarrow>
                     fx_eventBus_Publish chan_publish marshal carrier (\<lambda>i. uuid (Suc i)) b envelopes w'))"

definition fx_subscription :: "('p, 'w) event_handler \<Rightarrow> 'w router_func" where
  "fx_subscription handler msg w =
     (case read_envelope (msg_Payload msg) of
        Inl err \<Rightarrow> ((None, True), w)
      | Inr env \<Rightarrow>
          (case handler env w of
             (Some err, w') \<Rightarrow> ((Some err, False), w')
           | (None, w') \<Rightarrow> ((None, False), w')))"

definition fx_subscribers_of :: "('p, 's, 'w) fx_eventBus \<Rightarrow> string \<Rightarrow> ('p, 'w) event_handler list" where
  "fx_subscribers_of b name = (case mget (fx_subscribers b) name of None \<Rightarrow> [] | Some hs \<Rightarrow> hs)"

definition fx_eventBus_Subscribe ::
  "string \<Rightarrow> ('p, 'w) event_handler \<Rightarrow> ('p, 's, 'w) fx_eventBus \<Rightarrow> go_error option \<times> ('p, 's, 'w) fx_eventBus" where
  "fx_eventBus_Subscribe eventName handler b0 =
     (let b = b0\<lparr>fx_subscribers :=
                   mput eventName (fx_subscribers_of b0 eventName @ [handler]) (fx_subscribers b0)\<rparr>;
          sub = (if fx_is_critical eventName \<and> fx_sqlSubscriberFn b \<noteq> None
                 then the (fx_sqlSubscriberFn b) eventName else Inr (fx_gcChannel b))
      in case sub of
           Inl e \<Rightarrow> (Some (WrapError ''eventBus.Subscribe: SQL subscriber: '' e ''''), b)
         | Inr s \<Rightarrow>
             (None, b\<lparr>fx_router := fx_router b @
                [\<lparr>re_name = handler_name eventName (length (fx_subscribers_of b eventName)),
                  re_topic = eventName, re_subscriber = s, re_func = fx_subscription handler\<rparr>]\<rparr>))"

text \<open>The watermill bus that an FX bus stands for.\<close>

definition abs_bus :: "('s \<Rightarrow> 'w publisher) \<Rightarrow> ('p, 's, 'w) fx_eventBus \<Rightarrow> ('p, 's, 'w) eventBus" where
  "abs_bus chan_publish b = \<lparr>gcPublisher = chan_publish (fx_gcChannel b), gcChannel = fx_gcChannel b,
     sqlPublisher = fx_sqlPublisher b, sqlSubscriberFn = fx_sqlSubscriberFn b,
     subscribers = fx_subscribers b, router = fx_router b\<rparr>"

section \<open>The invariant of the router\<close>

text \<open>
  The router refuses (with a panic) a second handler of the same name. Every name in use is built
  from its topic and a number not above the number of subscriptions to that topic so far.
\<close>

definition bus_inv :: "('p, 's, 'w) eventBus \<Rightarrow> bool" where
  "bus_inv b = (distinct (map re_name (router b))
     \<and> (\<forall>r \<in> set (router b). \<exists>n \<le> length (subscribers_of b (re_topic r)). re_name r = handler_name (re_topic r) n))"

lemma append_Cons_last_eq:
  assumes "xs @ c # ys = xs' @ c # ys'" "c \<notin> set ys" "c \<notin> set ys'"
  shows "xs = xs' \<and> ys = ys'"
proof -
  have tw: "takeWhile (\<lambda>x. x \<noteq> c) (rev (zs @ c # us)) = rev us" if "c \<notin> set us" for zs us
    using that by (simp add: takeWhile_append)
  from tw [OF assms(2), of xs] tw [OF assms(3), of xs'] assms(1) have "ys = ys'" by simp
  with assms(1) show ?thesis by simp
qed

lemma handler_name_inject [simp]: "handler_name s m = handler_name t n \<longleftrightarrow> s = t \<and> m = n"
proof
  have dot: "CHR ''.'' \<notin> set (Itoa (int k))" for k
    by (auto simp: Itoa_def is_digit_def dest: nat_digits_digits)
  assume "handler_name s m = handler_name t n"
  then have "s @ CHR ''.'' # Itoa (int m) = t @ CHR ''.'' # Itoa (int n)"
    by (simp add: handler_name_def)
  from append_Cons_last_eq [OF this dot dot] show "s = t \<and> m = n"
    by (simp add: Itoa_def)
qed simp

lemma subscribers_of_Subscribe:
  "subscribers_of (snd (eventBus_Subscribe name h b)) t =
     (if t = name then subscribers_of b t @ [h] else subscribers_of b t)"
  by (auto simp: eventBus_Subscribe_def Let_def subscribers_of_def mget_mput split: sum.splits)

lemma router_Subscribe:
  "router (snd (eventBus_Subscribe name h b)) = router b \<or>
   (\<exists>s. router (snd (eventBus_Subscribe name h b)) = router b @
      [\<lparr>re_name = handler_name name (Suc (length (subscribers_of b name))), re_topic = name,
        re_subscriber = s, re_func = subscription h\<rparr>])"
  by (auto simp: eventBus_Subscribe_def Let_def subscribers_of_def mget_mput split: sum.splits)

lemma bus_inv_Subscribe:
  assumes "bus_inv b"
  shows "bus_inv (snd (eventBus_Subscribe name h b))"
proof -
  let ?b = "snd (eventBus_Subscribe name h b)" and ?n = "length (subscribers_of b name)"
  have grow: "length (subscribers_of b t) \<le> length (subscribers_of ?b t)" for t
    by (simp add: subscribers_of_Subscribe)
  have old: "\<exists>n \<le> length (subscribers_of b (re_topic r)). re_name r = handler_name (re_topic r) n"
    if "r \<in> set (router b)" for r
    using assms that by (auto simp: bus_inv_def)
  have fresh: "handler_name name (Suc ?n) \<notin> re_name ` set (router b)"
    using old by fastforce
  have kept: "\<exists>n \<le> length (subscribers_of ?b (re_topic r)). re_name r = handler_name (re_topic r) n"
    if "r \<in> set (router b)" for r
    using old [OF that] grow le_trans by blast
  have dist: "distinct (map re_name (router b))" using assms by (simp add: bus_inv_def)
  from router_Subscribe [of name h b] show ?thesis
  proof (elim disjE exE)
    assume "router ?b = router b"
    with dist kept show ?thesis by (simp add: bus_inv_def)
  next
    fix s
    assume r: "router ?b = router b @ [\<lparr>re_name = handler_name name (Suc ?n), re_topic = name,
        re_subscriber = s, re_func = subscription h\<rparr>]"
    have "Suc ?n \<le> length (subscribers_of ?b name)" by (simp add: subscribers_of_Subscribe)
    with r dist fresh kept show ?thesis by (auto simp: bus_inv_def simp del: handler_name_inject)
  qed
qed

interpretation ebi: invariant_component "\<lambda>(name, h) b. snd (eventBus_Subscribe name h b)" bus_inv
  by unfold_locales (auto intro: bus_inv_Subscribe)

section \<open>Reading what was written\<close>

lemma find_field_exact: "k \<in> set names \<Longrightarrow> find_field names k = Some k"
  by (simp add: find_field_def)

lemma read_members_envelope:
  "read_members [(''EventID'', JStr i), (''CorrelationID'', JStr c), (''CausationID'', JStr a),
      (''EventName'', JStr n), (''OccurredAt'', JTime t), (''OtelCarrier'', m), (''Payload'', p)] zero_envelope =
   (case read_map ''EventEnvelope.OtelCarrier'' ''propagation.MapCarrier'' None m of
      Inl e \<Rightarrow> Inl e
    | Inr m' \<Rightarrow>
        if p = JNull
        then Inr \<lparr>ev_EventID = i, ev_CorrelationID = c, ev_CausationID = a, ev_EventName = n,
                  ev_OccurredAt = t, ev_OtelCarrier = m', ev_Payload = None\<rparr>
        else Inl (type_error p ''EventEnvelope.Payload'' ''cqrs.DomainEvent''))"
  by (simp add: find_field_exact envelope_fields_def read_field_def zero_envelope_def split: sum.splits)

declare read_members.simps [simp del]

lemma json_time_Inr: "json_time t = Inr j \<Longrightarrow> j = JTime t"
  by (simp add: json_time_def split: if_splits)

lemma json_map_obj: "m \<noteq> None \<Longrightarrow> \<exists>kvs. json_map m = JObj kvs"
  by (auto simp: json_map_def)

section \<open>The FX bus against the watermill bus\<close>

lemma fx_critical: "fx_is_critical = is_critical"
  by (simp add: fun_eq_iff is_critical_def fx_is_critical_def criticalTopics_def fx_criticalTopics_def)

lemma publish_abs_bus:
  "eventBus_Publish marshal carrier uuid (abs_bus cp b) es w = fx_eventBus_Publish cp marshal carrier uuid b es w"
  by (induction cp marshal carrier uuid b es w rule: fx_eventBus_Publish.induct)
    (auto simp: Let_def fx_critical abs_bus_def split: sum.splits prod.splits option.splits)

lemma subscribe_abs_bus:
  "eventBus_Subscribe name h (abs_bus cp b) = map_prod id (abs_bus cp) (fx_eventBus_Subscribe name h b)"
  by (auto simp: eventBus_Subscribe_def fx_eventBus_Subscribe_def Let_def fx_critical abs_bus_def
      subscribers_of_def fx_subscribers_of_def subscription_def [abs_def] fx_subscription_def [abs_def]
      split: sum.splits)

text \<open>An envelope that was written with a payload cannot be read back: the payload is of an interface type.\<close>

lemma read_envelope_payload:
  fixes env :: "'p EventEnvelope"
  assumes "json_envelope marshal env = Inr j"
    and "ev_Payload env = Some p" and "marshal p \<noteq> Inr JNull"
  shows "\<exists>e. (read_envelope j :: 'p EventEnvelope result) = Inl e"
proof -
  from assms obtain t q where "json_time (ev_OccurredAt env) = Inr t" "marshal p = Inr q" "q \<noteq> JNull"
    and j: "j = JObj [(''EventID'', JStr (ev_EventID env)), (''CorrelationID'', JStr (ev_CorrelationID env)),
                (''CausationID'', JStr (ev_CausationID env)), (''EventName'', JStr (ev_EventName env)),
                (''OccurredAt'', t), (''OtelCarrier'', json_map (ev_OtelCarrier env)), (''Payload'', q)]"
    by (auto simp: json_envelope_def split: sum.splits)
  moreover from this(1) have "t = JTime (ev_OccurredAt env)" by (rule json_time_Inr)
  ultimately show ?thesis by (auto simp: read_members_envelope split: sum.splits)
qed

section \<open>Properties\<close>

text \<open>
  C12. An event that carries a payload is never delivered: whatever envelope with a payload the
  bus manages to serialise, the subscriber cannot read it back, so it acknowledges the message,
  does not call the handler and reports no error.
\<close>

theorem subscription_drops_payload:
  fixes env :: "'p EventEnvelope" and handler :: "('p, 'w) event_handler"
  assumes "json_envelope marshal env = Inr j"
    and "ev_Payload env = Some p" and "marshal p \<noteq> Inr JNull"
  shows "subscription handler \<lparr>msg_UUID = u, msg_Payload = j\<rparr> w = ((None, True), w)"
  using read_envelope_payload [OF assms] by (auto simp: subscription_def)

theorem subscription_drops_payload_witness:
  "subscription (\<lambda>env :: string EventEnvelope. \<lambda>n. (None, n + 1 :: nat)) \<lparr>msg_UUID = ''m'',
     msg_Payload = projr (json_envelope (\<lambda>s. Inr (JObj [(''OrderID'', JStr s)]))
       \<lparr>ev_EventID = ''e1'', ev_CorrelationID = ''c'', ev_CausationID = [], ev_EventName = OrderCompleted,
        ev_OccurredAt = 0, ev_OtelCarrier = Some mempty, ev_Payload = Some ''o1''\<rparr>)\<rparr> 0 = ((None, True), 0)"
proof -
  let ?m = "\<lambda>s. Inr (JObj [(''OrderID'', JStr s)]) :: json result"
  let ?env = "\<lparr>ev_EventID = ''e1'', ev_CorrelationID = ''c'', ev_CausationID = [], ev_EventName = OrderCompleted,
        ev_OccurredAt = 0, ev_OtelCarrier = Some mempty, ev_Payload = Some ''o1''\<rparr>"
  have "json_time 0 = Inr (JTime 0)" by code_simp
  then have "json_envelope ?m ?env = Inr (projr (json_envelope ?m ?env))"
    by (simp add: json_envelope_def)
  from subscription_drops_payload [OF this, of "''o1''" "\<lambda>env n. (None, n + 1 :: nat)" "''m''" 0]
  show ?thesis by simp
qed

text \<open>
  An envelope without a payload makes the round trip: the handler is called once, with an
  envelope that agrees with the published one in every field (the carrier as a map), and its
  outcome decides whether the message is retried.
\<close>

theorem subscription_delivers_empty_payload:
  fixes env :: "'p EventEnvelope" and handler :: "('p, 'w) event_handler"
  assumes "json_envelope marshal env = Inr j" and "ev_Payload env = None"
    and "ev_OtelCarrier env = Some carrier" and "wf_map carrier"
  shows "\<exists>m. wf_map m \<and> mget m = mget carrier
       \<and> subscription handler \<lparr>msg_UUID = u, msg_Payload = j\<rparr> w =
           (let (err, w') = handler (env\<lparr>ev_OtelCarrier := Some m\<rparr>) w in ((err, False), w'))"
proof -
  from assms obtain t where t: "json_time (ev_OccurredAt env) = Inr t"
    and j: "j = JObj [(''EventID'', JStr (ev_EventID env)), (''CorrelationID'', JStr (ev_CorrelationID env)),
                (''CausationID'', JStr (ev_CausationID env)), (''EventName'', JStr (ev_EventName env)),
                (''OccurredAt'', t), (''OtelCarrier'', json_map (Some carrier)), (''Payload'', JNull)]"
    by (auto simp: json_envelope_def split: sum.splits)
  from read_map_json_map [OF assms(4)] obtain m where m:
    "read_map ''EventEnvelope.OtelCarrier'' ''propagation.MapCarrier'' None (json_map (Some carrier)) = Inr (Some m)"
    "wf_map m" "mget m = mget carrier" by metis
  have "read_envelope j = Inr (env\<lparr>ev_OtelCarrier := Some m\<rparr>)"
    using assms(2) by (simp add: j json_time_Inr [OF t] read_members_envelope m(1))
  with m(2,3) show ?thesis
    by (intro exI [of _ m]) (auto simp: subscription_def split: prod.splits option.splits)
qed

theorem subscription_delivers_empty_payload_witness:
  "\<exists>m. mget m = mget [(''traceparent'', ''00-1'')] \<and>
     subscription (\<lambda>env :: unit EventEnvelope. \<lambda>w. (None, w @ [ev_CorrelationID env])) \<lparr>msg_UUID = ''m'',
       msg_Payload = projr (json_envelope (\<lambda>s :: unit. Inr JNull)
         \<lparr>ev_EventID = ''e1'', ev_CorrelationID = ''c'', ev_CausationID = [], ev_EventName = OrderFulfillmentReady,
          ev_OccurredAt = zero_time, ev_OtelCarrier = Some [(''traceparent'', ''00-1'')], ev_Payload = None\<rparr>)\<rparr> []
     = ((None, False), [''c''])"
proof -
  let ?m = "\<lambda>s :: unit. Inr JNull :: json result"
  let ?env = "\<lparr>ev_EventID = ''e1'', ev_CorrelationID = ''c'', ev_CausationID = [], ev_EventName = OrderFulfillmentReady,
      ev_OccurredAt = zero_time, ev_OtelCarrier = Some [(''traceparent'', ''00-1'')], ev_Payload = None\<rparr>"
  have "json_time zero_time = Inr (JTime zero_time)" by code_simp
  then have *: "json_envelope ?m ?env = Inr (projr (json_envelope ?m ?env))"
    by (simp add: json_envelope_def)
  have wf: "wf_map [(''traceparent'', ''00-1'')]" by (simp add: wf_map_def mkeys_def)
  show ?thesis
    using subscription_delivers_empty_payload [OF * _ _ wf, of "\<lambda>env w. (None, w @ [ev_CorrelationID env])" "''m''" "[]"]
    by auto
qed

text \<open>
  However often and in whatever order topics are subscribed to, no two handlers given to the
  router have the same name, which is what the router requires of them; a failing SQL subscriber
  does not spoil this.
\<close>

theorem Subscribe_names_distinct:
  "distinct (map re_name (router (fold (\<lambda>(name, h) b. snd (eventBus_Subscribe name h b)) subs
     (SetSQLBackend pub subFn (newEventBus gcPub gc)))))"
proof -
  have "bus_inv (SetSQLBackend pub subFn (newEventBus gcPub gc))"
    by (simp add: bus_inv_def SetSQLBackend_def newEventBus_def)
  from ebi.run_inv [OF this, of subs] show ?thesis by (simp add: bus_inv_def)
qed

text \<open>
  Transport tiers. With a SQL backend set, events of critical topics never touch the in-memory
  channel: publishing them gives the same outcome whatever the in-memory publisher is; without
  one, every event, critical or not, goes to the in-memory publisher, exactly as if the topic were
  not critical.
\<close>

theorem Publish_transport:
  "(sqlPublisher b = Some p \<and> (\<forall>e \<in> set es. is_critical (ev_EventName e)) \<longrightarrow>
      eventBus_Publish marshal carrier uuid (b\<lparr>gcPublisher := g\<rparr>) es w = eventBus_Publish marshal carrier uuid b es w)
   \<and> (sqlPublisher b = None \<longrightarrow>
      eventBus_Publish marshal carrier uuid b es w =
      eventBus_Publish marshal carrier uuid (b\<lparr>sqlPublisher := Some (gcPublisher b)\<rparr>) es w)"
  by (induction marshal carrier uuid b es w rule: eventBus_Publish.induct)
    (auto simp: Let_def split: sum.splits prod.splits option.splits)

theorem Publish_transport_witness:
  "eventBus_Publish (\<lambda>s :: unit. Inr JNull) mempty (\<lambda>i. [])
     ((SetSQLBackend (Some (\<lambda>t m w. (None, w @ [''sql'']))) None
        (newEventBus (\<lambda>t m w. (None, w @ [''gc''])) ()))\<lparr>gcPublisher := (\<lambda>t m w. (Some (ErrorString ''x''), w))\<rparr>)
     [zero_envelope\<lparr>ev_EventName := OrderCompleted\<rparr>] [] =
   eventBus_Publish (\<lambda>s :: unit. Inr JNull) mempty (\<lambda>i. [])
     (SetSQLBackend (Some (\<lambda>t m w. (None, w @ [''sql'']))) None
        (newEventBus (\<lambda>t m w. (None, w @ [''gc''])) ()))
     [zero_envelope\<lparr>ev_EventName := OrderCompleted\<rparr>] []"
  using Publish_transport [of "SetSQLBackend (Some (\<lambda>t m w. (None, w @ [''sql'']))) None
        (newEventBus (\<lambda>t m w. (None, w @ [''gc''])) ())" "\<lambda>t m w. (None, w @ [''sql''])"
        "[zero_envelope\<lparr>ev_EventName := OrderCompleted\<rparr>]"]
  by (simp add: SetSQLBackend_def newEventBus_def is_critical_def criticalTopics_def OrderCompleted_def mget_def)

text \<open>
  C27. The event bus of the FX module implements the one of the watermill driver: reading its
  channel as the publisher, both publish with the same outcome and the same effects, and
  subscribing keeps the correspondence and gives the same error.
\<close>

theorem fx_eventBus_refines:
  "eventBus_Publish marshal carrier uuid (abs_bus cp b) es w = fx_eventBus_Publish cp marshal carrier uuid b es w
   \<and> eventBus_Subscribe name h (abs_bus cp b) = map_prod id (abs_bus cp) (fx_eventBus_Subscribe name h b)
   \<and> SetSQLBackend pub subFn (abs_bus cp b) = abs_bus cp (fx_SetSQLBackend pub subFn b)"
  using publish_abs_bus subscribe_abs_bus
  by (auto simp: SetSQLBackend_def fx_SetSQLBackend_def abs_bus_def)

end
