(* ===== verification/Loyalty_Domain.thy ===== *)
theory Loyalty_Domain
  imports Event_Bus
begin

text \<open>
  The loyalty domain, \<^verbatim>\<open>use_cases/loyalty/domain\<close> with its DTOs and exceptions: points,
  tiers, the account entity, the domain events and the aggregate that owns the account and
  collects the events. Go's \<^verbatim>\<open>int\<close> wraps around; the clock and the identifiers of
  \<^verbatim>\<open>ulid\<close> are arguments.
\<close>

section \<open>Value objects\<close>

record Points =
  pt_value :: int

definition ErrNegativePoints :: go_error where
  "ErrNegativePoints = Sentinel ''valueobject.ErrNegativePoints'' ''points cannot be negative''"

definition NewPoints :: "int \<Rightarrow> Points result" where
  "NewPoints v = (if v < 0 then Inl ErrNegativePoints else Inr \<lparr>pt_value = v\<rparr>)"

definition MustNewPoints :: "int \<Rightarrow> Points outcome" where
  "MustNewPoints v = (case NewPoints v of Inl err \<Rightarrow> Panic (error_text err) | Inr p \<Rightarrow> Ret p)"

definition Points_Add :: "Points \<Rightarrow> Points \<Rightarrow> Points" where
  "Points_Add p other = \<lparr>pt_value = wrap64 (pt_value p + pt_value other)\<rparr>"

definition Points_Sub :: "Points \<Rightarrow> Points \<Rightarrow> Points result" where
  "Points_Sub p other =
     (if pt_value p < pt_value other then Inl (ErrorString ''insufficient points'')
      else Inr \<lparr>pt_value = wrap64 (pt_value p - pt_value other)\<rparr>)"

definition Points_IsZero :: "Points \<Rightarrow> bool" where
  "Points_IsZero p = (pt_value p = 0)"

type_synonym Tier = string

definition TierBronze :: Tier where
  "TierBronze = ''BRONZE''"

definition TierSilver :: Tier where
  "TierSilver = ''SILVER''"

definition TierGold :: Tier where
  "TierGold = ''GOLD''"

definition TierThresholds :: "(Tier, int) gomap" where
  "TierThresholds = [(TierBronze, 0), (TierSilver, 500), (TierGold, 2000)]"

text \<open>Reading a missing key of a Go map gives the zero value.\<close>

definition threshold :: "Tier \<Rightarrow> int" where
  "threshold t = (case mget TierThresholds t of None \<Rightarrow> 0 | Some n \<Rightarrow> n)"

definition CalculateTier :: "Points \<Rightarrow> Tier" where
  "CalculateTier balance =
     (if pt_value balance \<ge> threshold TierGold then TierGold
      else if pt_value balance \<ge> threshold TierSilver then TierSilver
      else TierBronze)"

section \<open>Entity, events and DTOs\<close>

record LoyaltyAccount =
  la_ID :: string
  la_CustomerID :: string
  la_Balance :: Points
  la_Tier :: Tier
  la_CreatedAt :: int
  la_UpdatedAt :: int

record LoyaltyCreditedEvent =
  lc_LoyaltyAccountID :: string
  lc_CustomerID :: string
  lc_OrderID :: string
  lc_PointsEarned :: int
  lc_NewBalance :: int
  lc_NewTier :: string
  lc_occurredAt :: gotime

definition NewLoyaltyCreditedEvent ::
  "gotime \<Rightarrow> string \<Rightarrow> string \<Rightarrow> string \<Rightarrow> int \<Rightarrow> int \<Rightarrow> string \<Rightarrow> LoyaltyCreditedEvent" where
  "NewLoyaltyCreditedEvent now accountID customerID orderID earned newBalance tier =
     \<lparr>lc_LoyaltyAccountID = accountID, lc_CustomerID = customerID, lc_OrderID = orderID,
      lc_PointsEarned = earned, lc_NewBalance = newBalance, lc_NewTier = tier, lc_occurredAt = now\<rparr>"

record LoyaltyCreditFailedEvent =
  lf_CustomerID :: string
  lf_OrderID :: string
  lf_Reason :: string
  lf_occurredAt :: gotime

definition NewLoyaltyCreditFailedEvent :: "gotime \<Rightarrow> string \<Rightarrow> string \<Rightarrow> string \<Rightarrow> LoyaltyCreditFailedEvent" where
  "NewLoyaltyCreditFailedEvent now customerID orderID reason =
     \<lparr>lf_CustomerID = customerID, lf_OrderID = orderID, lf_Reason = reason, lf_occurredAt = now\<rparr>"

record OrderCompletedPayload =
  oc_OrderID :: string
  oc_CustomerID :: string
  oc_TotalAmount :: float64

text \<open>The dynamic types that \<^verbatim>\<open>cqrs.DomainEvent\<close> has in the program.\<close>

datatype DomainEvent =
    CreditedEvent LoyaltyCreditedEvent
  | CreditFailedEvent LoyaltyCreditFailedEvent
  | OrderCompletedEvent OrderCompletedPayload

fun EventName :: "DomainEvent \<Rightarrow> string" where
  "EventName (CreditedEvent e) = ''loyalty.account.credited''"
| "EventName (CreditFailedEvent e) = ''loyalty.account.credit_failed''"
| "EventName (OrderCompletedEvent o') = OrderCompleted"

fun OccurredAt :: "DomainEvent \<Rightarrow> gotime" where
  "OccurredAt (CreditedEvent e) = lc_occurredAt e"
| "OccurredAt (CreditFailedEvent e) = lf_occurredAt e"
| "OccurredAt (OrderCompletedEvent o') = zero_time"

fun AggregateID :: "DomainEvent \<Rightarrow> string" where
  "AggregateID (CreditedEvent e) = lc_LoyaltyAccountID e"
| "AggregateID (CreditFailedEvent e) = lf_CustomerID e"
| "AggregateID (OrderCompletedEvent o') = oc_OrderID o'"

text \<open>\<^verbatim>\<open>json.Marshal\<close> of an event: its exported fields.\<close>

fun json_event :: "DomainEvent \<Rightarrow> json result" where
  "json_event (CreditedEvent e) = Inr (JObj
     [(''LoyaltyAccountID'', JStr (lc_LoyaltyAccountID e)), (''CustomerID'', JStr (lc_CustomerID e)),
      (''OrderID'', JStr (lc_OrderID e)), (''PointsEarned'', JNum (of_int (lc_PointsEarned e))),
      (''NewBalance'', JNum (of_int (lc_NewBalance e))), (''NewTier'', JStr (lc_NewTier e))])"
| "json_event (CreditFailedEvent e) = Inr (JObj
     [(''CustomerID'', JStr (lf_CustomerID e)), (''OrderID'', JStr (lf_OrderID e)),
      (''Reason'', JStr (lf_Reason e))])"
| "json_event (OrderCompletedEvent p) =
     map_sum id (\<lambda>n. JObj [(''OrderID'', JStr (oc_OrderID p)), (''CustomerID'', JStr (oc_CustomerID p)),
       (''TotalAmount'', n)]) (json_float (oc_TotalAmount p))"

record CreditLoyaltyRequest =
  cr_CustomerID :: string
  cr_OrderID :: string
  cr_Points :: int
  cr_CorrelationID :: string
  cr_CausationEventID :: string

definition CommandName :: "CreditLoyaltyRequest \<Rightarrow> string" where
  "CommandName c = ''loyalty.credit_loyalty''"

record CreditLoyaltyResponse =
  cp_LoyaltyAccountID :: string
  cp_NewBalance :: int
  cp_NewTier :: string

record GetLoyaltyBalanceRequest =
  gb_CustomerID :: string

definition QueryName :: "GetLoyaltyBalanceRequest \<Rightarrow> string" where
  "QueryName g = ''loyalty.get_balance''"

record GetLoyaltyBalanceResponse =
  gr_LoyaltyAccountID :: string
  gr_CustomerID :: string
  gr_Balance :: int
  gr_Tier :: string

definition ErrLoyaltyAccountNotFound :: go_error where
  "ErrLoyaltyAccountNotFound = Sentinel ''exception.ErrLoyaltyAccountNotFound'' ''loyalty account not found''"

definition ErrDuplicateEvent :: go_error where
  "ErrDuplicateEvent = Sentinel ''exception.ErrDuplicateEvent'' ''event already processed (idempotency)''"

section \<open>The aggregate\<close>

record LoyaltyAggregate =
  ag_account :: LoyaltyAccount
  ag_domainEvents :: "DomainEvent list"

definition ErrInsufficientPoints :: go_error where
  "ErrInsufficientPoints = Sentinel ''aggregate.ErrInsufficientPoints'' ''insufficient loyalty points''"

text \<open>
  \<open>created\<close> and \<open>updated\<close> are the two readings of the clock, in Unix seconds. The call
  \<^verbatim>\<open>MustNewPoints(0)\<close> returns zero points: see \<open>MustNewPoints_0\<close> below.
\<close>

definition NewLoyaltyAggregate :: "string \<Rightarrow> int \<Rightarrow> int \<Rightarrow> string \<Rightarrow> LoyaltyAggregate" where
  "NewLoyaltyAggregate ulid created updated customerID =
     \<lparr>ag_account = \<lparr>la_ID = ulid, la_CustomerID = customerID, la_Balance = \<lparr>pt_value = 0\<rparr>,
        la_Tier = TierBronze, la_CreatedAt = created, la_UpdatedAt = updated\<rparr>,
      ag_domainEvents = []\<rparr>"

definition Reconstitute :: "LoyaltyAccount \<Rightarrow> LoyaltyAggregate" where
  "Reconstitute account = \<lparr>ag_account = account, ag_domainEvents = []\<rparr>"

text \<open>\<open>unix\<close> is the clock in seconds at the update, \<open>now\<close> the time of the event.\<close>

definition CreditPoints ::
  "int \<Rightarrow> gotime \<Rightarrow> string \<Rightarrow> Points \<Rightarrow> LoyaltyAggregate \<Rightarrow> go_error option \<times> LoyaltyAggregate" where
  "CreditPoints unix now orderID points a =
     (if Points_IsZero points then (Some (ErrorString ''cannot credit zero points''), a)
      else let balance = Points_Add (la_Balance (ag_account a)) points;
               acc = (ag_account a)\<lparr>la_Balance := balance, la_Tier := CalculateTier balance, la_UpdatedAt := unix\<rparr>
           in (None, a\<lparr>ag_account := acc,
                 ag_domainEvents := ag_domainEvents a @ [CreditedEvent
                   (NewLoyaltyCreditedEvent now (la_ID acc) (la_CustomerID acc) orderID (pt_value points)
                      (pt_value (la_Balance acc)) (la_Tier acc))]\<rparr>))"

definition DebitPoints :: "int \<Rightarrow> string \<Rightarrow> Points \<Rightarrow> LoyaltyAggregate \<Rightarrow> go_error option \<times> LoyaltyAggregate" where
  "DebitPoints unix reason points a =
     (case Points_Sub (la_Balance (ag_account a)) points of
        Inl e \<Rightarrow> (Some ErrInsufficientPoints, a)
      | Inr newBalance \<Rightarrow>
          (None, a\<lparr>ag_account := (ag_account a)\<lparr>la_Balance := newBalance,
                    la_Tier := CalculateTier newBalance, la_UpdatedAt := unix\<rparr>\<rparr>))"

definition Balance :: "LoyaltyAggregate \<Rightarrow> int" where
  "Balance a = pt_value (la_Balance (ag_account a))"

definition FlushEvents :: "LoyaltyAggregate \<Rightarrow> DomainEvent list \<times> LoyaltyAggregate" where
  "FlushEvents a = (ag_domainEvents a, a\<lparr>ag_domainEvents := []\<rparr>)"

section \<open>The ledger an account stands for\<close>

text \<open>
  A sequence of operations on an aggregate, and the balance it should give in unbounded integers:
  credits add, debits that the balance does not cover are refused.
\<close>

datatype ledger_op = Credit int gotime string Points | Debit int string Points

fun apply_op :: "ledger_op \<Rightarrow> LoyaltyAggregate \<Rightarrow> LoyaltyAggregate" where
  "apply_op (Credit unix now order p) a = snd (CreditPoints unix now order p a)"
| "apply_op (Debit unix reason p) a = snd (DebitPoints unix reason p a)"

fun ledger :: "ledger_op \<Rightarrow> int \<Rightarrow> int" where
  "ledger (Credit unix now order p) b = b + pt_value p"
| "ledger (Debit unix reason p) b = (if b < pt_value p then b else b - pt_value p)"

fun op_points :: "ledger_op \<Rightarrow> int" where
  "op_points (Credit unix now order p) = pt_value p"
| "op_points (Debit unix reason p) = pt_value p"

fun credit_of :: "ledger_op \<Rightarrow> int" where
  "credit_of (Credit unix now order p) = pt_value p"
| "credit_of (Debit unix reason p) = 0"

definition account_ok :: "LoyaltyAggregate \<Rightarrow> bool" where
  "account_ok a = (0 \<le> Balance a \<and> int64 (Balance a) \<and> la_Tier (ag_account a) = CalculateTier (la_Balance (ag_account a)))"

definition tier_for :: "int \<Rightarrow> Tier" where
  "tier_for b = (if b < 500 then TierBronze else if b < 2000 then TierSilver else TierGold)"

section \<open>Lemmas\<close>

lemma CalculateTier_tier_for: "CalculateTier p = tier_for (pt_value p)"
  by (simp add: CalculateTier_def tier_for_def threshold_def TierThresholds_def TierBronze_def
      TierSilver_def TierGold_def mget_def)

lemma NewPoints_Inr: "NewPoints v = Inr p \<longleftrightarrow> 0 \<le> v \<and> p = \<lparr>pt_value = v\<rparr>"
  by (auto simp: NewPoints_def)

lemma MustNewPoints_0: "MustNewPoints 0 = Ret (la_Balance (ag_account (NewLoyaltyAggregate u c t cust)))"
  by (simp add: NewLoyaltyAggregate_def MustNewPoints_def NewPoints_def)

lemma account_ok_New: "account_ok (NewLoyaltyAggregate u c t cust) \<and> Balance (NewLoyaltyAggregate u c t cust) = 0"
  by (auto simp: NewLoyaltyAggregate_def account_ok_def Balance_def CalculateTier_tier_for tier_for_def int64_def)

lemma apply_op_ledger:
  assumes "account_ok a" "0 \<le> op_points x" "Balance a + credit_of x < 2 ^ 63"
  shows "account_ok (apply_op x a) \<and> Balance (apply_op x a) = ledger x (Balance a)"
  using assms
  by (cases x) (auto simp: account_ok_def Balance_def CreditPoints_def DebitPoints_def Points_Add_def
      Points_Sub_def Points_IsZero_def Let_def wrap64_id int64_def split: sum.splits if_splits)

lemma ledger_bounds: "0 \<le> b \<Longrightarrow> 0 \<le> op_points x \<Longrightarrow> 0 \<le> ledger x b \<and> ledger x b \<le> b + credit_of x"
  by (cases x) auto

lemma credit_of_nonneg: "0 \<le> op_points x \<Longrightarrow> 0 \<le> credit_of x"
  by (cases x) auto

lemma apply_ops_ledger:
  assumes "account_ok a" "\<forall>x \<in> set xs. 0 \<le> op_points x" "Balance a + sum_list (map credit_of xs) < 2 ^ 63"
  shows "account_ok (fold apply_op xs a) \<and> Balance (fold apply_op xs a) = fold ledger xs (Balance a)"
  using assms
proof (induction xs arbitrary: a)
  case (Cons x xs)
  have pos: "0 \<le> sum_list (map credit_of xs)"
    using Cons.prems(2) by (intro sum_list_nonneg) (auto intro: credit_of_nonneg)
  have step: "account_ok (apply_op x a) \<and> Balance (apply_op x a) = ledger x (Balance a)"
    using Cons.prems pos by (intro apply_op_ledger) auto
  have "ledger x (Balance a) \<le> Balance a + credit_of x"
    using Cons.prems ledger_bounds [of "Balance a" x] by (simp add: account_ok_def)
  with Cons.IH [of "apply_op x a"] Cons.prems step show ?case by simp
qed simp

section \<open>Properties\<close>

text \<open>
  C22. As long as the points credited in total stay below \<open>2 ^ 63\<close>, every sequence of credits
  and debits leaves a new account with exactly the balance of the ledger, never negative, and with
  the tier of that balance: bronze below 500, silver below 2000, gold from there.
\<close>

theorem loyalty_ledger:
  fixes ulid created updated customer
  defines "a \<equiv> NewLoyaltyAggregate ulid created updated customer"
  assumes "\<forall>x \<in> set xs. 0 \<le> op_points x" and "sum_list (map credit_of xs) < 2 ^ 63"
  shows "Balance (fold apply_op xs a) = fold ledger xs 0 \<and> 0 \<le> Balance (fold apply_op xs a)
       \<and> la_Tier (ag_account (fold apply_op xs a)) = tier_for (fold ledger xs 0)"
  using apply_ops_ledger [of a xs] account_ok_New assms(2,3)
  by (simp add: a_def account_ok_def CalculateTier_tier_for Balance_def int64_def)

theorem loyalty_ledger_witness:
  "Balance (fold apply_op [Credit 1 1 ''o'' \<lparr>pt_value = 700\<rparr>, Debit 2 ''r'' \<lparr>pt_value = 900\<rparr>, Debit 3 ''r'' \<lparr>pt_value = 300\<rparr>]
     (NewLoyaltyAggregate ''u'' 0 0 ''c'')) = 400"
  using loyalty_ledger [where xs = "[Credit 1 1 ''o'' \<lparr>pt_value = 700\<rparr>, Debit 2 ''r'' \<lparr>pt_value = 900\<rparr>, Debit 3 ''r'' \<lparr>pt_value = 300\<rparr>]" and ulid = "''u''" and created = 0 and updated = 0 and customer = "''c''"]
  by simp

text \<open>
  Beyond that bound the sum wraps around: a credit that carries an account past the largest
  \<^verbatim>\<open>int\<close> succeeds, reports no error, and leaves a negative balance and the lowest tier.
\<close>

theorem CreditPoints_overflow:
  assumes "account_ok a" and "0 < pt_value p" and "int64 (pt_value p)" and "2 ^ 63 \<le> Balance a + pt_value p"
  shows "fst (CreditPoints unix now order p a) = None
       \<and> Balance (snd (CreditPoints unix now order p a)) < 0
       \<and> la_Tier (ag_account (snd (CreditPoints unix now order p a))) = TierBronze"
proof -
  have "wrap64 (Balance a + pt_value p) = Balance a + pt_value p - 2 ^ 64"
    using assms by (intro wrap64_above) (auto simp: int64_def account_ok_def)
  then have "wrap64 (Balance a + pt_value p) < 0"
    using assms by (auto simp: int64_def account_ok_def)
  with assms show ?thesis
    by (simp add: CreditPoints_def Points_IsZero_def Points_Add_def Balance_def Let_def
        CalculateTier_tier_for tier_for_def)
qed

theorem CreditPoints_overflow_witness:
  "Balance (snd (CreditPoints 0 0 ''o'' \<lparr>pt_value = 1\<rparr>
     (Reconstitute \<lparr>la_ID = ''u'', la_CustomerID = ''c'', la_Balance = \<lparr>pt_value = 9223372036854775807\<rparr>,
        la_Tier = TierGold, la_CreatedAt = 0, la_UpdatedAt = 0\<rparr>))) < 0"
  using CreditPoints_overflow [of "Reconstitute \<lparr>la_ID = ''u'', la_CustomerID = ''c'',
      la_Balance = \<lparr>pt_value = 9223372036854775807\<rparr>, la_Tier = TierGold, la_CreatedAt = 0, la_UpdatedAt = 0\<rparr>"
      "\<lparr>pt_value = 1\<rparr>" 0 0 "''o''"]
  by (simp add: account_ok_def Reconstitute_def Balance_def int64_def CalculateTier_tier_for tier_for_def)

end
