(* ===== verification/Loyalty_Saga.thy ===== *)
theory Loyalty_Saga
  imports Loyalty_Domain
begin

text \<open>
  The order fulfillment saga, \<^verbatim>\<open>use_cases/loyalty/saga\<close>: it waits for the loyalty and the
  inventory event of one correlation and then publishes that the order is ready. The repository of
  its states has no implementation in the program and is an argument, as is the publishing
  function of the event bus.
\<close>

section \<open>The saga\<close>

record FulfillmentSagaState =
  fs_CorrelationID :: string
  fs_LoyaltyCredited :: bool
  fs_InventoryReserved :: bool
  fs_CompletedAt :: "gotime option"

record 'w FulfillmentSagaStateRepository =
  sr_FindOrCreate :: "string \<Rightarrow> 'w \<Rightarrow> FulfillmentSagaState result \<times> 'w"
  sr_Save :: "FulfillmentSagaState \<Rightarrow> 'w \<Rightarrow> go_error option \<times> 'w"

record ('p, 'w) OrderFulfillmentSaga =
  sg_sagaRepo :: "'w FulfillmentSagaStateRepository"
  sg_publish :: "'p EventEnvelope list \<Rightarrow> 'w \<Rightarrow> go_error option \<times> 'w"

definition NewOrderFulfillmentSaga ::
  "'w FulfillmentSagaStateRepository \<Rightarrow> ('p EventEnvelope list \<Rightarrow> 'w \<Rightarrow> go_error option \<times> 'w)
     \<Rightarrow> ('p, 'w) OrderFulfillmentSaga" where
  "NewOrderFulfillmentSaga sagaRepo publish = \<lparr>sg_sagaRepo = sagaRepo, sg_publish = publish\<rparr>"

text \<open>The flag that an event sets, by its name.\<close>

definition saga_note :: "string \<Rightarrow> FulfillmentSagaState \<Rightarrow> FulfillmentSagaState" where
  "saga_note name state =
     (if name = LoyaltyCredited then state\<lparr>fs_LoyaltyCredited := True\<rparr>
      else if name = ''inventory.stock.reserved'' then state\<lparr>fs_InventoryReserved := True\<rparr>
      else state)"

definition ready_envelope :: "string \<Rightarrow> 'p EventEnvelope \<Rightarrow> 'p EventEnvelope" where
  "ready_envelope ulid env = \<lparr>ev_EventID = ulid, ev_CorrelationID = ev_CorrelationID env,
     ev_CausationID = ev_EventID env, ev_EventName = OrderFulfillmentReady, ev_OccurredAt = zero_time,
     ev_OtelCarrier = None, ev_Payload = None\<rparr>"

definition Saga_Handle ::
  "('w \<Rightarrow> gotime) \<Rightarrow> ('w \<Rightarrow> string) \<Rightarrow> ('p, 'w) OrderFulfillmentSaga \<Rightarrow> 'p EventEnvelope \<Rightarrow> 'w
     \<Rightarrow> go_error option \<times> 'w" where
  "Saga_Handle now ulid s env w =
     (case sr_FindOrCreate (sg_sagaRepo s) (ev_CorrelationID env) w of
        (Inl err, w1) \<Rightarrow> (Some err, w1)
      | (Inr state0, w1) \<Rightarrow>
          if fs_CompletedAt state0 \<noteq> None then (None, w1)
          else (let state = saga_note (ev_EventName env) state0
                in case sr_Save (sg_sagaRepo s) state w1 of
                     (Some err, w2) \<Rightarrow> (Some err, w2)
                   | (None, w2) \<Rightarrow>
                       if fs_LoyaltyCredited state \<and> fs_InventoryReserved state
                       then (case sr_Save (sg_sagaRepo s) (state\<lparr>fs_CompletedAt := Some (now w2)\<rparr>) w2 of
                               (Some err, w3) \<Rightarrow> (Some err, w3)
                             | (None, w3) \<Rightarrow> sg_publish s [ready_envelope (ulid w3) env] w3)
                       else (None, w2)))"

section \<open>What the saga relies on\<close>

text \<open>
  \<open>st w c\<close> is the stored state of a correlation (none before the first event), \<open>sent w\<close> the
  envelopes published so far. A failed call changes neither.
\<close>

definition initial_state :: "string \<Rightarrow> FulfillmentSagaState" where
  "initial_state c = \<lparr>fs_CorrelationID = c, fs_LoyaltyCredited = False, fs_InventoryReserved = False,
     fs_CompletedAt = None\<rparr>"

definition saga_state :: "('w \<Rightarrow> string \<Rightarrow> FulfillmentSagaState option) \<Rightarrow> 'w \<Rightarrow> string \<Rightarrow> FulfillmentSagaState" where
  "saga_state st w c = (case st w c of None \<Rightarrow> initial_state c | Some s \<Rightarrow> s)"

definition saga_repo_ok ::
  "'w FulfillmentSagaStateRepository \<Rightarrow> ('w \<Rightarrow> string \<Rightarrow> FulfillmentSagaState option)
     \<Rightarrow> ('w \<Rightarrow> 'p EventEnvelope list) \<Rightarrow> bool" where
  "saga_repo_ok repo st sent \<longleftrightarrow>
     (\<forall>w c s. st w c = Some s \<longrightarrow> fs_CorrelationID s = c)
   \<and> (\<forall>c w res w'. sr_FindOrCreate repo c w = (res, w') \<longrightarrow>
        sent w' = sent w \<and> (\<forall>d. saga_state st w' d = saga_state st w d)
        \<and> (case res of Inr s \<Rightarrow> s = saga_state st w c | Inl e \<Rightarrow> True))
   \<and> (\<forall>s w res w'. sr_Save repo s w = (res, w') \<longrightarrow>
        sent w' = sent w
        \<and> (case res of None \<Rightarrow> saga_state st w' = (saga_state st w)(fs_CorrelationID s := s)
                     | Some e \<Rightarrow> saga_state st w' = saga_state st w))"

definition saga_publish_ok ::
  "('p EventEnvelope list \<Rightarrow> 'w \<Rightarrow> go_error option \<times> 'w) \<Rightarrow> ('w \<Rightarrow> string \<Rightarrow> FulfillmentSagaState option)
     \<Rightarrow> ('w \<Rightarrow> 'p EventEnvelope list) \<Rightarrow> bool" where
  "saga_publish_ok publish st sent \<longleftrightarrow>
     (\<forall>es w res w'. publish es w = (res, w') \<longrightarrow>
        saga_state st w' = saga_state st w \<and> sent w' = (if res = None then sent w @ es else sent w))"

section \<open>Lemmas\<close>

lemma saga_find:
  "saga_repo_ok repo st sent \<Longrightarrow> sr_FindOrCreate repo c w = (res, w') \<Longrightarrow>
     sent w' = sent w \<and> saga_state st w' = saga_state st w
     \<and> (case res of Inr s \<Rightarrow> s = saga_state st w c | Inl e \<Rightarrow> True)"
  unfolding saga_repo_ok_def by (elim conjE) (simp add: fun_eq_iff)

lemma saga_save:
  "saga_repo_ok repo st sent \<Longrightarrow> sr_Save repo s w = (res, w') \<Longrightarrow>
     sent w' = sent w \<and> saga_state st w' = (if res = None then (saga_state st w)(fs_CorrelationID s := s) else saga_state st w)"
  unfolding saga_repo_ok_def by (elim conjE) (cases res; fastforce)

lemma saga_pub:
  "saga_publish_ok publish st sent \<Longrightarrow> publish es w = (res, w') \<Longrightarrow>
     saga_state st w' = saga_state st w \<and> sent w' = (if res = None then sent w @ es else sent w)"
  unfolding saga_publish_ok_def by blast

lemma saga_state_id: "saga_repo_ok repo st sent \<Longrightarrow> fs_CorrelationID (saga_state st w c) = c"
  unfolding saga_repo_ok_def saga_state_def by (auto simp: initial_state_def split: option.splits)

lemma saga_note_simps [simp]:
  "fs_CorrelationID (saga_note n s) = fs_CorrelationID s" "fs_CompletedAt (saga_note n s) = fs_CompletedAt s"
  by (simp_all add: saga_note_def)

definition both :: "FulfillmentSagaState \<Rightarrow> bool" where
  "both s = (fs_LoyaltyCredited s \<and> fs_InventoryReserved s)"

lemma saga_ports:
  "sg_sagaRepo (NewOrderFulfillmentSaga repo publish) = repo" "sg_publish (NewOrderFulfillmentSaga repo publish) = publish"
  by (simp_all add: NewOrderFulfillmentSaga_def)

text \<open>All that handling one event can do: the states, what is sent, and the error.\<close>

lemma Saga_outcomes:
  assumes ok: "saga_repo_ok repo st sent" and pub: "saga_publish_ok publish st sent"
    and run: "Saga_Handle now ulid (NewOrderFulfillmentSaga repo publish) env w = (res, w')"
  defines "c \<equiv> ev_CorrelationID env"
  defines "s \<equiv> saga_state st w c"
  defines "n \<equiv> saga_note (ev_EventName env) s"
  obtains
    (idle) "saga_state st w' = saga_state st w" "sent w' = sent w" "res \<noteq> None \<or> fs_CompletedAt s \<noteq> None"
  | (noted) "saga_state st w' = (saga_state st w)(c := n)" "sent w' = sent w" "fs_CompletedAt s = None"
      "res = None \<longleftrightarrow> \<not> both n"
  | (lost) t where "saga_state st w' = (saga_state st w)(c := n\<lparr>fs_CompletedAt := Some t\<rparr>)" "sent w' = sent w"
      "both n" "fs_CompletedAt s = None" "res \<noteq> None"
  | (ready) t u where "saga_state st w' = (saga_state st w)(c := n\<lparr>fs_CompletedAt := Some t\<rparr>)"
      "sent w' = sent w @ [ready_envelope u env]" "both n" "fs_CompletedAt s = None" "res = None"
proof -
  obtain r1 w1 where f: "sr_FindOrCreate repo c w = (r1, w1)" by (metis prod.exhaust)
  note w1 = saga_find [OF ok f]
  note run' = run [unfolded Saga_Handle_def, unfolded saga_ports, folded c_def]
  show thesis
  proof (cases "r1 = Inr s \<and> fs_CompletedAt s = None")
    case False
    then show ?thesis using run' f w1 by (intro idle) (auto simp: s_def split: sum.splits if_splits)
  next
    case True
    have id: "fs_CorrelationID s = c" "fs_CorrelationID n = c" using saga_state_id [OF ok] by (auto simp: s_def n_def)
    obtain r2 w2 where s1: "sr_Save repo n w1 = (r2, w2)" by (metis prod.exhaust)
    note w2 = saga_save [OF ok s1]
    obtain r3 w3 where s2: "sr_Save repo (n\<lparr>fs_CompletedAt := Some (now w2)\<rparr>) w2 = (r3, w3)" by (metis prod.exhaust)
    note w3 = saga_save [OF ok s2]
    obtain r4 w4 where s3: "publish [ready_envelope (ulid w3) env] w3 = (r4, w4)" by (metis prod.exhaust)
    note w4 = saga_pub [OF pub s3]
    have run2: "(res, w') = (case r2 of Some e \<Rightarrow> (Some e, w2) | None \<Rightarrow> if both n then
        (case r3 of Some e \<Rightarrow> (Some e, w3) | None \<Rightarrow> (r4, w4)) else (None, w2))"
      using run' f True s1 s2 s3
      by (cases r2; cases r3; cases "both n") (auto simp: n_def Let_def both_def)
    show ?thesis
    proof (cases r2)
      case (Some e)
      then show ?thesis using run2 w1 w2 by (intro idle) auto
    next
      case r2: None
      show ?thesis
      proof (cases "both n \<and> r3 = None")
        case False
        then show ?thesis using r2 run2 w1 w2 w3 id True by (intro noted) (auto split: option.splits if_splits)
      next
        case both: True
        show ?thesis
        proof (cases r4)
          case None
          then show ?thesis using both r2 run2 w1 w2 w3 w4 id True by (intro ready) auto
        next
          case (Some e)
          then show ?thesis using both r2 run2 w1 w2 w3 w4 id True by (intro lost) auto
        qed
      qed
    qed
  qed
qed

definition saga_run ::
  "('w \<Rightarrow> gotime) \<Rightarrow> ('w \<Rightarrow> string) \<Rightarrow> ('p, 'w) OrderFulfillmentSaga \<Rightarrow> 'p EventEnvelope list \<Rightarrow> 'w \<Rightarrow> 'w" where
  "saga_run now ulid s envs w = fold (\<lambda>env w. snd (Saga_Handle now ulid s env w)) envs w"

definition ready_sent :: "string \<Rightarrow> 'p EventEnvelope list \<Rightarrow> 'p EventEnvelope list" where
  "ready_sent c es = filter (\<lambda>e. ev_EventName e = OrderFulfillmentReady \<and> ev_CorrelationID e = c) es"

definition got :: "string \<Rightarrow> string \<Rightarrow> 'p EventEnvelope list \<Rightarrow> bool" where
  "got name c envs = (\<exists>e \<in> set envs. ev_EventName e = name \<and> ev_CorrelationID e = c)"

text \<open>The invariant of a correlation, given the events delivered so far.\<close>

definition saga_inv :: "'p EventEnvelope list \<Rightarrow> string \<Rightarrow> FulfillmentSagaState \<Rightarrow> 'p EventEnvelope list \<Rightarrow> bool" where
  "saga_inv envs c s sent \<longleftrightarrow>
     (fs_LoyaltyCredited s \<longrightarrow> got LoyaltyCredited c envs)
   \<and> (fs_InventoryReserved s \<longrightarrow> got ''inventory.stock.reserved'' c envs)
   \<and> (fs_CompletedAt s = None \<longrightarrow> ready_sent c sent = [])
   \<and> (fs_CompletedAt s \<noteq> None \<longrightarrow> both s)
   \<and> length (ready_sent c sent) \<le> 1"

lemma saga_inv_mono: "saga_inv envs c s sent \<Longrightarrow> saga_inv (envs @ [e]) c s sent"
  by (auto simp: saga_inv_def got_def)

lemma saga_inv_note:
  "saga_inv envs (ev_CorrelationID e) s sent \<Longrightarrow> fs_CompletedAt s = None \<Longrightarrow>
   saga_inv (envs @ [e]) (ev_CorrelationID e) (saga_note (ev_EventName e) s) sent"
  by (auto simp: saga_inv_def got_def saga_note_def)

lemma ready_sent_ready [simp]:
  "ready_sent c (sent @ [ready_envelope u e]) =
     (if ev_CorrelationID e = c then ready_sent c sent @ [ready_envelope u e] else ready_sent c sent)"
  by (auto simp: ready_sent_def ready_envelope_def)

lemma saga_inv_step:
  assumes ok: "saga_repo_ok repo st sent" and pub: "saga_publish_ok publish st sent"
    and inv: "\<And>c. saga_inv envs c (saga_state st w c) (sent w)"
    and run: "Saga_Handle now ulid (NewOrderFulfillmentSaga repo publish) env w = (res, w')"
  shows "saga_inv (envs @ [env]) c (saga_state st w' c) (sent w')"
proof -
  let ?c = "ev_CorrelationID env"
  let ?n = "saga_note (ev_EventName env) (saga_state st w ?c)"
  from saga_inv_note [OF inv] have note_inv: "fs_CompletedAt (saga_state st w ?c) = None \<Longrightarrow>
      saga_inv (envs @ [env]) ?c ?n (sent w)" by blast
  show ?thesis
    using ok pub run
  proof (cases rule: Saga_outcomes)
    case idle
    then show ?thesis using saga_inv_mono [OF inv] by simp
  next
    case noted
    then show ?thesis using saga_inv_mono [OF inv] note_inv by simp
  next
    case (lost t)
    then show ?thesis using saga_inv_mono [OF inv [of c], of env] note_inv by (auto simp: saga_inv_def both_def)
  next
    case (ready t u)
    then show ?thesis using saga_inv_mono [OF inv [of c], of env] note_inv by (auto simp: saga_inv_def both_def)
  qed
qed

lemma saga_inv_run:
  assumes "saga_repo_ok repo st sent" "saga_publish_ok publish st sent"
    and "\<And>c. saga_inv [] c (saga_state st w c) (sent w)"
  shows "saga_inv envs c (saga_state st (saga_run now ulid (NewOrderFulfillmentSaga repo publish) envs w) c)
           (sent (saga_run now ulid (NewOrderFulfillmentSaga repo publish) envs w))"
proof (induction envs arbitrary: c rule: rev_induct)
  case (snoc env envs)
  show ?case
    by (simp add: saga_run_def) (rule saga_inv_step [OF assms(1,2) snoc [unfolded saga_run_def] surjective_pairing])
qed (use assms(3) in \<open>simp add: saga_run_def\<close>)

section \<open>When nothing fails\<close>

definition saga_reliable ::
  "'w FulfillmentSagaStateRepository \<Rightarrow> ('p EventEnvelope list \<Rightarrow> 'w \<Rightarrow> go_error option \<times> 'w) \<Rightarrow> bool" where
  "saga_reliable repo publish \<longleftrightarrow>
     (\<forall>c w. \<exists>s w'. sr_FindOrCreate repo c w = (Inr s, w')) \<and> (\<forall>s w. fst (sr_Save repo s w) = None)
   \<and> (\<forall>es w. fst (publish es w) = None)"

definition saga_live :: "'p EventEnvelope list \<Rightarrow> string \<Rightarrow> FulfillmentSagaState \<Rightarrow> 'p EventEnvelope list \<Rightarrow> bool" where
  "saga_live envs c s sent \<longleftrightarrow>
     (fs_CompletedAt s = None \<longrightarrow> \<not> both s
        \<and> (got LoyaltyCredited c envs \<longrightarrow> fs_LoyaltyCredited s)
        \<and> (got ''inventory.stock.reserved'' c envs \<longrightarrow> fs_InventoryReserved s))
   \<and> (fs_CompletedAt s \<noteq> None \<longrightarrow> length (ready_sent c sent) = 1)"

lemma reliable_no_error:
  assumes "saga_reliable repo publish"
    and "Saga_Handle now ulid (NewOrderFulfillmentSaga repo publish) env w = (res, w')"
  shows "res = None"
proof -
  from assms(1) obtain s w1 where f: "sr_FindOrCreate repo (ev_CorrelationID env) w = (Inr s, w1)"
    unfolding saga_reliable_def by blast
  have save: "\<exists>w'. sr_Save repo t v = (None, w')" and pub: "fst (publish es v) = None" for t v es
    using assms(1) unfolding saga_reliable_def by (metis prod.collapse)+
  obtain w2 where s1: "sr_Save repo (saga_note (ev_EventName env) s) w1 = (None, w2)" using save by blast
  obtain w3 where s2: "sr_Save repo (saga_note (ev_EventName env) s\<lparr>fs_CompletedAt := Some (now w2)\<rparr>) w2 = (None, w3)"
    using save by blast
  from assms(2) f s1 s2 pub [of "[ready_envelope (ulid w3) env]" w3] show ?thesis
    by (auto simp: Saga_Handle_def saga_ports Let_def split: if_splits)
qed

lemma saga_live_step:
  assumes ok: "saga_repo_ok repo st sent" and pub: "saga_publish_ok publish st sent" and rel: "saga_reliable repo publish"
    and inv: "\<And>c. saga_inv envs c (saga_state st w c) (sent w)"
    and live: "\<And>c. saga_live envs c (saga_state st w c) (sent w)"
    and run: "Saga_Handle now ulid (NewOrderFulfillmentSaga repo publish) env w = (res, w')"
  shows "saga_live (envs @ [env]) c (saga_state st w' c) (sent w')"
proof -
  note none = reliable_no_error [OF rel run]
  show ?thesis
  proof (cases "c = ev_CorrelationID env")
    case c: True
    show ?thesis
      using ok pub run
    proof (cases rule: Saga_outcomes)
      case idle
      with none live [of c] show ?thesis unfolding c by (auto simp: saga_live_def)
    next
      case noted
      with none live [of c] show ?thesis
        unfolding c by (auto simp: saga_live_def got_def saga_note_def both_def LoyaltyCredited_def split: if_splits)
    next
      case (lost t)
      with none show ?thesis by simp
    next
      case (ready t u)
      with inv [of c] show ?thesis unfolding c by (simp add: saga_live_def saga_inv_def)
    qed
  next
    case False
    then have "got n c (envs @ [env]) = got n c envs" for n by (auto simp: got_def)
    moreover have "saga_state st w' c = saga_state st w c \<and> ready_sent c (sent w') = ready_sent c (sent w)"
      using ok pub run by (cases rule: Saga_outcomes) (use False in auto)
    ultimately show ?thesis using live [of c] by (simp add: saga_live_def)
  qed
qed

definition saga_start :: "('w \<Rightarrow> string \<Rightarrow> FulfillmentSagaState option) \<Rightarrow> ('w \<Rightarrow> 'p EventEnvelope list) \<Rightarrow> 'w \<Rightarrow> bool" where
  "saga_start st sent w \<longleftrightarrow> (\<forall>c. saga_state st w c = initial_state c) \<and> sent w = []"

lemma saga_start_inv:
  "saga_start st sent w \<Longrightarrow> saga_inv [] c (saga_state st w c) (sent w)"
  "saga_start st sent w \<Longrightarrow> saga_live [] c (saga_state st w c) (sent w)"
  by (auto simp: saga_start_def saga_inv_def saga_live_def got_def initial_state_def both_def ready_sent_def)

lemma saga_live_run:
  assumes "saga_repo_ok repo st sent" "saga_publish_ok publish st sent" "saga_reliable repo publish" "saga_start st sent w"
  shows "saga_live envs c (saga_state st (saga_run now ulid (NewOrderFulfillmentSaga repo publish) envs w) c)
           (sent (saga_run now ulid (NewOrderFulfillmentSaga repo publish) envs w))"
proof (induction envs arbitrary: c rule: rev_induct)
  case (snoc env envs)
  note inv = saga_inv_run [OF assms(1,2) saga_start_inv(1) [OF assms(4)], of envs _ now ulid]
  show ?case
    by (simp add: saga_run_def)
      (rule saga_live_step [OF assms(1-3) inv [unfolded saga_run_def] snoc [unfolded saga_run_def] surjective_pairing])
qed (use saga_start_inv(2) [OF assms(4)] in \<open>simp add: saga_run_def\<close>)

section \<open>An instance to run on\<close>

type_synonym saga_demo = "(string \<Rightarrow> FulfillmentSagaState option) \<times> unit EventEnvelope list \<times> nat"

text \<open>The third component counts publications that will fail.\<close>

definition demo_repo :: "saga_demo FulfillmentSagaStateRepository" where
  "demo_repo = \<lparr>sr_FindOrCreate = (\<lambda>c w. (Inr (saga_state (\<lambda>w c. case fst w c of None \<Rightarrow> None
       | Some s \<Rightarrow> Some (s\<lparr>fs_CorrelationID := c\<rparr>)) w c), w)),
     sr_Save = (\<lambda>s w. (None, (fst w)(fs_CorrelationID s \<mapsto> s), snd w))\<rparr>"

definition demo_st :: "saga_demo \<Rightarrow> string \<Rightarrow> FulfillmentSagaState option" where
  "demo_st w c = (case fst w c of None \<Rightarrow> None | Some s \<Rightarrow> Some (s\<lparr>fs_CorrelationID := c\<rparr>))"

definition demo_saga_publish :: "unit EventEnvelope list \<Rightarrow> saga_demo \<Rightarrow> go_error option \<times> saga_demo" where
  "demo_saga_publish es = (\<lambda>(m, sent, n). if n = 0 then (None, m, sent @ es, 0) else (Some (ErrorString ''down''), m, sent, n - 1))"

lemma demo_saga_ok:
  "saga_repo_ok demo_repo demo_st (\<lambda>w. fst (snd w))" "saga_publish_ok demo_saga_publish demo_st (\<lambda>w. fst (snd w))"
proof -
  have st: "saga_state demo_st = saga_state (\<lambda>w c. case fst w c of None \<Rightarrow> None | Some s \<Rightarrow> Some (s\<lparr>fs_CorrelationID := c\<rparr>))"
    by (simp add: demo_st_def [abs_def])
  show "saga_repo_ok demo_repo demo_st (\<lambda>w. fst (snd w))"
    by (auto simp: saga_repo_ok_def demo_repo_def st) (auto simp: saga_state_def demo_st_def fun_eq_iff split: option.splits)
  show "saga_publish_ok demo_saga_publish demo_st (\<lambda>w. fst (snd w))"
    by (auto simp: saga_publish_ok_def demo_saga_publish_def saga_state_def demo_st_def fun_eq_iff
        split: prod.splits if_splits)
qed

definition demo_env :: "string \<Rightarrow> unit EventEnvelope" where
  "demo_env n = zero_envelope\<lparr>ev_CorrelationID := ''c'', ev_EventName := n\<rparr>"

lemma demo_saga_start: "saga_start demo_st (\<lambda>w. fst (snd w)) (Map.empty, [], n)"
  by (simp add: saga_start_def saga_state_def demo_st_def)

section \<open>Properties\<close>

text \<open>
  C6. Safety of the saga. Whatever events arrive, in whatever order and however often, and
  whichever repository or bus calls fail, the ready event of a correlation is published at most
  once, and only after both the loyalty and the inventory event of that correlation arrived.
\<close>

theorem saga_ready_once:
  fixes now ulid envs
  assumes "saga_repo_ok repo st sent" and "saga_publish_ok publish st sent" and "saga_start st sent w"
  defines "w' \<equiv> saga_run now ulid (NewOrderFulfillmentSaga repo publish) envs w"
  shows "length (ready_sent c (sent w')) \<le> 1
       \<and> (ready_sent c (sent w') \<noteq> [] \<longrightarrow> got LoyaltyCredited c envs \<and> got ''inventory.stock.reserved'' c envs)"
  using saga_inv_run [OF assms(1,2) saga_start_inv(1) [OF assms(3)], of envs c now ulid]
  by (auto simp: w'_def saga_inv_def both_def)

theorem saga_ready_once_witness:
  "length (ready_sent ''c'' (fst (snd (saga_run (\<lambda>w. 0) (\<lambda>w. ''u'')
      (NewOrderFulfillmentSaga demo_repo demo_saga_publish)
      [demo_env LoyaltyCredited, demo_env ''inventory.stock.reserved'', demo_env LoyaltyCredited] (Map.empty, [], 1))))) \<le> 1"
  using saga_ready_once [OF demo_saga_ok demo_saga_start [of 1]] by blast

text \<open>
  C21. Liveness of the saga. When no call fails and both events of a correlation have arrived,
  in either order and among any others, its ready event has been published exactly once.
\<close>

theorem saga_completes:
  assumes "saga_repo_ok repo st sent" and "saga_publish_ok publish st sent" and "saga_reliable repo publish"
    and "saga_start st sent w"
    and "got LoyaltyCredited c envs" and "got ''inventory.stock.reserved'' c envs"
  shows "length (ready_sent c (sent (saga_run now ulid (NewOrderFulfillmentSaga repo publish) envs w))) = 1"
  using saga_live_run [OF assms(1-4), of envs c now ulid] assms(5,6) by (auto simp: saga_live_def both_def)

definition demo_sure_publish :: "unit EventEnvelope list \<Rightarrow> saga_demo \<Rightarrow> go_error option \<times> saga_demo" where
  "demo_sure_publish es = (\<lambda>(m, sent, n). (None, m, sent @ es, n))"

theorem saga_completes_witness:
  "length (ready_sent ''c'' (fst (snd (saga_run (\<lambda>w. 0) (\<lambda>w. ''u'')
      (NewOrderFulfillmentSaga demo_repo demo_sure_publish)
      [demo_env ''inventory.stock.reserved'', demo_env LoyaltyCredited, demo_env LoyaltyCredited] (Map.empty, [], 0))))) = 1"
proof -
  have "saga_publish_ok demo_sure_publish demo_st (\<lambda>w. fst (snd w))"
    by (auto simp: saga_publish_ok_def demo_sure_publish_def saga_state_def demo_st_def fun_eq_iff)
  moreover have "saga_reliable demo_repo demo_sure_publish"
    by (auto simp: saga_reliable_def demo_repo_def demo_sure_publish_def)
  moreover have "got LoyaltyCredited ''c'' [demo_env ''inventory.stock.reserved'', demo_env LoyaltyCredited, demo_env LoyaltyCredited]"
    "got ''inventory.stock.reserved'' ''c'' [demo_env ''inventory.stock.reserved'', demo_env LoyaltyCredited, demo_env LoyaltyCredited]"
    by (auto simp: got_def demo_env_def)
  ultimately show ?thesis using saga_completes [OF demo_saga_ok(1) _ _ demo_saga_start] by blast
qed

text \<open>
  The completed state is saved before the event is published: if that publication fails, the
  error is returned once, and afterwards no event of the correlation, redelivered or new, ever
  publishes the ready event.
\<close>

theorem saga_ready_lost:
  assumes "saga_repo_ok repo st sent" and "saga_publish_ok publish st sent"
    and "Saga_Handle now ulid (NewOrderFulfillmentSaga repo publish) env w = (Some e, w1)"
    and "fs_CompletedAt (saga_state st w (ev_CorrelationID env)) = None"
    and "fs_CompletedAt (saga_state st w1 (ev_CorrelationID env)) \<noteq> None"
  shows "ready_sent (ev_CorrelationID env) (sent (saga_run now ulid (NewOrderFulfillmentSaga repo publish) envs w1)) =
         ready_sent (ev_CorrelationID env) (sent w)"
proof -
  let ?c = "ev_CorrelationID env" and ?run = "\<lambda>envs. saga_run now ulid (NewOrderFulfillmentSaga repo publish) envs w1"
  have w1: "sent w1 = sent w"
    using assms(1,2,3) by (cases rule: Saga_outcomes) auto
  have "fs_CompletedAt (saga_state st (?run envs) ?c) \<noteq> None \<and> ready_sent ?c (sent (?run envs)) = ready_sent ?c (sent w)"
  proof (induction envs rule: rev_induct)
    case Nil
    then show ?case using assms(5) w1 by (simp add: saga_run_def)
  next
    case (snoc x envs)
    obtain r w' where step: "Saga_Handle now ulid (NewOrderFulfillmentSaga repo publish) x (?run envs) = (r, w')"
      by (metis prod.exhaust)
    then have w': "?run (envs @ [x]) = w'" by (simp add: saga_run_def)
    show ?case
      unfolding w' using assms(1,2) step snoc by (cases rule: Saga_outcomes) (auto split: if_splits)
  qed
  then show ?thesis by blast
qed

theorem saga_ready_lost_witness:
  "ready_sent ''c'' (fst (snd (saga_run (\<lambda>w. 0) (\<lambda>w. ''u'') (NewOrderFulfillmentSaga demo_repo demo_saga_publish)
     [demo_env LoyaltyCredited, demo_env ''inventory.stock.reserved'']
     (snd (Saga_Handle (\<lambda>w. 0) (\<lambda>w. ''u'') (NewOrderFulfillmentSaga demo_repo demo_saga_publish)
        (demo_env LoyaltyCredited)
        ([''c'' \<mapsto> (initial_state ''c'')\<lparr>fs_InventoryReserved := True\<rparr>], [], 1)))))) = []"
proof -
  let ?w = "([''c'' \<mapsto> (initial_state ''c'')\<lparr>fs_InventoryReserved := True\<rparr>], [], 1) :: saga_demo"
  obtain w1 where run: "Saga_Handle (\<lambda>w. 0) (\<lambda>w. ''u'') (NewOrderFulfillmentSaga demo_repo demo_saga_publish)
      (demo_env LoyaltyCredited) ?w = (Some (ErrorString ''down''), w1)"
    and completed: "fs_CompletedAt (saga_state demo_st w1 ''c'') \<noteq> None"
    by (simp add: Saga_Handle_def saga_ports demo_repo_def demo_saga_publish_def demo_env_def saga_state_def
        saga_note_def demo_st_def initial_state_def Let_def)
  have "fs_CompletedAt (saga_state demo_st ?w ''c'') = None"
    by (simp add: saga_state_def demo_st_def initial_state_def)
  then show ?thesis
    using saga_ready_lost [OF demo_saga_ok run] completed run by (simp add: demo_env_def ready_sent_def)
qed

end
