(* ===== verification/Loyalty_Store.thy ===== *)
theory Loyalty_Store
  imports Loyalty_Domain
begin

text \<open>
  The loyalty repositories of \<^verbatim>\<open>repositories/\<close> with their GORM models. GORM and the
  database are third-party code: a value of \<open>gorm_db\<close> is what the four chains of calls that the
  repositories make give and do, and \<open>gorm_ok\<close> states what the code relies on: a query that
  finds nothing says so, a failed statement changes nothing, an upsert on \<^verbatim>\<open>id\<close> writes one
  row, and the unique index on \<^verbatim>\<open>customer_id\<close> holds. Any call may fail.
\<close>

section \<open>GORM models and calls\<close>

record LoyaltyAccountRow =
  lr_ID :: string
  lr_CustomerID :: string
  lr_Balance :: int
  lr_Tier :: string
  lr_CreatedAt :: int
  lr_UpdatedAt :: int

record IdempotencyKey =
  ik_ID :: string
  ik_CausationEventID :: string
  ik_Domain :: string
  ik_Handler :: string
  ik_ProcessedAt :: gotime

definition ErrRecordNotFound :: go_error where
  "ErrRecordNotFound = Sentinel ''gorm.ErrRecordNotFound'' ''record not found''"

record 'w gorm_db =
  db_first_by_customer :: "string \<Rightarrow> 'w \<Rightarrow> LoyaltyAccountRow result \<times> 'w"
  db_upsert_account :: "LoyaltyAccountRow \<Rightarrow> 'w \<Rightarrow> go_error option \<times> 'w"
  db_count_keys :: "string \<Rightarrow> 'w \<Rightarrow> (int \<times> go_error option) \<times> 'w"
  db_create_key :: "IdempotencyKey \<Rightarrow> 'w \<Rightarrow> go_error option \<times> 'w"

section \<open>Repositories\<close>

definition write_Save :: "'w gorm_db \<Rightarrow> LoyaltyAggregate \<Rightarrow> 'w \<Rightarrow> go_error option \<times> 'w" where
  "write_Save db agg w =
     (let acc = ag_account agg
      in db_upsert_account db
           \<lparr>lr_ID = la_ID acc, lr_CustomerID = la_CustomerID acc, lr_Balance = pt_value (la_Balance acc),
            lr_Tier = la_Tier acc, lr_CreatedAt = la_CreatedAt acc, lr_UpdatedAt = la_UpdatedAt acc\<rparr> w)"

definition write_FindByCustomerID :: "'w gorm_db \<Rightarrow> string \<Rightarrow> 'w \<Rightarrow> LoyaltyAggregate option result \<times> 'w" where
  "write_FindByCustomerID db customerID w =
     (case db_first_by_customer db customerID w of
        (Inl err, w') \<Rightarrow>
          (if errors_is err ''gorm.ErrRecordNotFound'' then (Inr None, w') else (Inl err, w'))
      | (Inr model, w') \<Rightarrow>
          (case NewPoints (lr_Balance model) of
             Inl err \<Rightarrow> (Inl err, w')
           | Inr balance \<Rightarrow>
               (Inr (Some (Reconstitute
                  \<lparr>la_ID = lr_ID model, la_CustomerID = lr_CustomerID model, la_Balance = balance,
                   la_Tier = lr_Tier model, la_CreatedAt = lr_CreatedAt model,
                   la_UpdatedAt = lr_UpdatedAt model\<rparr>)), w')))"

definition read_GetBalanceByCustomerID ::
  "'w gorm_db \<Rightarrow> string \<Rightarrow> 'w \<Rightarrow> GetLoyaltyBalanceResponse result \<times> 'w" where
  "read_GetBalanceByCustomerID db customerID w =
     (case db_first_by_customer db customerID w of
        (Inl err, w') \<Rightarrow>
          (if errors_is err ''gorm.ErrRecordNotFound'' then (Inl ErrLoyaltyAccountNotFound, w') else (Inl err, w'))
      | (Inr model, w') \<Rightarrow>
          (Inr \<lparr>gr_LoyaltyAccountID = lr_ID model, gr_CustomerID = lr_CustomerID model,
                gr_Balance = lr_Balance model, gr_Tier = lr_Tier model\<rparr>, w'))"

definition idem_Exists :: "'w gorm_db \<Rightarrow> string \<Rightarrow> 'w \<Rightarrow> (bool \<times> go_error option) \<times> 'w" where
  "idem_Exists db causationEventID w =
     (case db_count_keys db causationEventID w of ((count, err), w') \<Rightarrow> ((count > 0, err), w'))"

text \<open>\<open>uuid\<close> is a fresh identifier, \<open>now\<close> the clock.\<close>

definition idem_Mark :: "'w gorm_db \<Rightarrow> string \<Rightarrow> gotime \<Rightarrow> string \<Rightarrow> 'w \<Rightarrow> go_error option \<times> 'w" where
  "idem_Mark db uuid now causationEventID w =
     db_create_key db
       \<lparr>ik_ID = uuid, ik_CausationEventID = causationEventID, ik_Domain = ''loyalty'',
        ik_Handler = ''credit_loyalty'', ik_ProcessedAt = now\<rparr> w"

text \<open>The cache that never caches.\<close>

definition noop_SetBalance :: "string \<Rightarrow> GetLoyaltyBalanceResponse \<Rightarrow> int \<Rightarrow> 'w \<Rightarrow> go_error option \<times> 'w" where
  "noop_SetBalance customerID resp ttl w = (None, w)"

definition noop_GetBalance ::
  "string \<Rightarrow> 'w \<Rightarrow> (GetLoyaltyBalanceResponse \<times> bool \<times> go_error option) \<times> 'w" where
  "noop_GetBalance customerID w =
     ((\<lparr>gr_LoyaltyAccountID = [], gr_CustomerID = [], gr_Balance = 0, gr_Tier = []\<rparr>, False, None), w)"

definition noop_InvalidateBalance :: "string \<Rightarrow> 'w \<Rightarrow> go_error option \<times> 'w" where
  "noop_InvalidateBalance customerID w = (None, w)"

section \<open>What the repositories rely on\<close>

text \<open>
  \<open>acct w c\<close> is the row of customer \<open>c\<close> in the table of accounts, \<open>marked w k\<close> whether
  the table of idempotency keys has a row for \<open>k\<close>.
\<close>

definition upserted ::
  "LoyaltyAccountRow \<Rightarrow> (string \<Rightarrow> LoyaltyAccountRow option) \<Rightarrow> (string \<Rightarrow> LoyaltyAccountRow option) \<Rightarrow> bool" where
  "upserted r rows rows' =
     (if \<exists>c x. rows c = Some x \<and> lr_ID x = lr_ID r
      then rows' = (\<lambda>c. map_option (\<lambda>x. if lr_ID x = lr_ID r
              then x\<lparr>lr_Balance := lr_Balance r, lr_Tier := lr_Tier r, lr_UpdatedAt := lr_UpdatedAt r\<rparr> else x) (rows c))
      else rows (lr_CustomerID r) = None
           \<and> (\<exists>created updated. rows' = rows(lr_CustomerID r \<mapsto> r\<lparr>lr_CreatedAt := created, lr_UpdatedAt := updated\<rparr>)))"

type_synonym 'w accounts = "'w \<Rightarrow> string \<Rightarrow> LoyaltyAccountRow option"
type_synonym 'w keys = "'w \<Rightarrow> string \<Rightarrow> bool"

text \<open>The rows: \<^verbatim>\<open>customer_id\<close> is a unique index and \<^verbatim>\<open>id\<close> the primary key.\<close>

definition rows_ok :: "'w accounts \<Rightarrow> bool" where
  "rows_ok acct \<longleftrightarrow>
     (\<forall>w c r. acct w c = Some r \<longrightarrow> lr_CustomerID r = c)
   \<and> (\<forall>w c d r s. acct w c = Some r \<and> acct w d = Some s \<and> lr_ID r = lr_ID s \<longrightarrow> c = d)"

text \<open>\<^verbatim>\<open>First\<close>: the row asked for, \<^verbatim>\<open>ErrRecordNotFound\<close> when there is none, or another error.\<close>

definition first_ok :: "'w gorm_db \<Rightarrow> 'w accounts \<Rightarrow> 'w keys \<Rightarrow> bool" where
  "first_ok db acct marked \<longleftrightarrow>
     (\<forall>c w res w'. db_first_by_customer db c w = (res, w') \<longrightarrow>
        acct w' = acct w \<and> marked w' = marked w
        \<and> (case res of Inr r \<Rightarrow> acct w c = Some r
                     | Inl e \<Rightarrow> errors_is e ''gorm.ErrRecordNotFound'' \<longrightarrow> acct w c = None))"

text \<open>\<^verbatim>\<open>Create\<close> with the conflict clause: one row inserted or updated, or an error and no change.\<close>

definition upsert_ok :: "'w gorm_db \<Rightarrow> 'w accounts \<Rightarrow> 'w keys \<Rightarrow> bool" where
  "upsert_ok db acct marked \<longleftrightarrow>
     (\<forall>r w res w'. db_upsert_account db r w = (res, w') \<longrightarrow>
        marked w' = marked w
        \<and> (case res of None \<Rightarrow> upserted r (acct w) (acct w') | Some e \<Rightarrow> acct w' = acct w))"

text \<open>\<^verbatim>\<open>Count\<close> on the keys, and \<^verbatim>\<open>Create\<close> of a key under a unique index.\<close>

definition keys_ok :: "'w gorm_db \<Rightarrow> 'w accounts \<Rightarrow> 'w keys \<Rightarrow> bool" where
  "keys_ok db acct marked \<longleftrightarrow>
     (\<forall>k w n res w'. db_count_keys db k w = ((n, res), w') \<longrightarrow>
        acct w' = acct w \<and> marked w' = marked w \<and> (res = None \<longrightarrow> (0 < n \<longleftrightarrow> marked w k)))
   \<and> (\<forall>r w res w'. db_create_key db r w = (res, w') \<longrightarrow>
        acct w' = acct w
        \<and> (case res of None \<Rightarrow> \<not> marked w (ik_CausationEventID r)
                                \<and> marked w' = (marked w)(ik_CausationEventID r := True)
                     | Some e \<Rightarrow> marked w' = marked w))"

definition gorm_ok :: "'w gorm_db \<Rightarrow> 'w accounts \<Rightarrow> 'w keys \<Rightarrow> bool" where
  "gorm_ok db acct marked \<longleftrightarrow>
     rows_ok acct \<and> first_ok db acct marked \<and> upsert_ok db acct marked \<and> keys_ok db acct marked"

text \<open>A call that leaves both tables alone, as publishing does.\<close>

definition quiet ::
  "('a \<Rightarrow> 'w \<Rightarrow> go_error option \<times> 'w) \<Rightarrow> ('w \<Rightarrow> string \<Rightarrow> LoyaltyAccountRow option) \<Rightarrow> ('w \<Rightarrow> string \<Rightarrow> bool) \<Rightarrow> bool" where
  "quiet f acct marked \<longleftrightarrow> (\<forall>x w. acct (snd (f x w)) = acct w \<and> marked (snd (f x w)) = marked w)"

section \<open>Lemmas\<close>

lemma gorm_customer: "gorm_ok db acct marked \<Longrightarrow> acct w c = Some r \<Longrightarrow> lr_CustomerID r = c"
  unfolding gorm_ok_def rows_ok_def by blast

lemma gorm_id:
  "gorm_ok db acct marked \<Longrightarrow> acct w c = Some r \<Longrightarrow> acct w d = Some s \<Longrightarrow> lr_ID r = lr_ID s \<Longrightarrow> c = d"
  unfolding gorm_ok_def rows_ok_def by blast

lemma gorm_first:
  "gorm_ok db acct marked \<Longrightarrow> db_first_by_customer db c w = (res, w') \<Longrightarrow>
     acct w' = acct w \<and> marked w' = marked w
     \<and> (case res of Inr r \<Rightarrow> acct w c = Some r
                  | Inl e \<Rightarrow> errors_is e ''gorm.ErrRecordNotFound'' \<longrightarrow> acct w c = None)"
  unfolding gorm_ok_def first_ok_def by blast

lemma gorm_upsert:
  "gorm_ok db acct marked \<Longrightarrow> db_upsert_account db r w = (res, w') \<Longrightarrow>
     marked w' = marked w \<and> (case res of None \<Rightarrow> upserted r (acct w) (acct w') | Some e \<Rightarrow> acct w' = acct w)"
  unfolding gorm_ok_def upsert_ok_def by blast

lemma gorm_count:
  "gorm_ok db acct marked \<Longrightarrow> db_count_keys db k w = ((n, res), w') \<Longrightarrow>
     acct w' = acct w \<and> marked w' = marked w \<and> (res = None \<longrightarrow> (0 < n \<longleftrightarrow> marked w k))"
  unfolding gorm_ok_def keys_ok_def by blast

lemma gorm_create:
  "gorm_ok db acct marked \<Longrightarrow> db_create_key db key w = (res, w') \<Longrightarrow>
     acct w' = acct w
     \<and> (case res of None \<Rightarrow> \<not> marked w (ik_CausationEventID key)
                             \<and> marked w' = (marked w)(ik_CausationEventID key := True)
                  | Some e \<Rightarrow> marked w' = marked w)"
  unfolding gorm_ok_def keys_ok_def by blast

lemma quietD: "quiet f acct marked \<Longrightarrow> f x w = (r, w') \<Longrightarrow> acct w' = acct w \<and> marked w' = marked w"
  unfolding quiet_def by (metis snd_conv)

definition aggregate_of_row :: "LoyaltyAccountRow \<Rightarrow> LoyaltyAggregate" where
  "aggregate_of_row r = Reconstitute
     \<lparr>la_ID = lr_ID r, la_CustomerID = lr_CustomerID r, la_Balance = \<lparr>pt_value = lr_Balance r\<rparr>,
      la_Tier = lr_Tier r, la_CreatedAt = lr_CreatedAt r, la_UpdatedAt = lr_UpdatedAt r\<rparr>"

lemma write_Find_spec:
  assumes "gorm_ok db acct marked" "write_FindByCustomerID db c w = (res, w')"
  shows "acct w' = acct w \<and> marked w' = marked w
       \<and> (case res of Inl e \<Rightarrow> True
                    | Inr None \<Rightarrow> acct w c = None
                    | Inr (Some a) \<Rightarrow> (\<exists>r. acct w c = Some r \<and> 0 \<le> lr_Balance r \<and> a = aggregate_of_row r))"
proof -
  obtain res0 w0 where first: "db_first_by_customer db c w = (res0, w0)"
    by (cases "db_first_by_customer db c w") auto
  from gorm_first [OF assms(1) first] assms(2) first show ?thesis
    by (auto simp: write_FindByCustomerID_def aggregate_of_row_def NewPoints_def
        split: sum.splits if_splits)
qed

text \<open>
  Saving the aggregate of a customer who has no account yet, under an identifier not in use, or
  one loaded for the customer, changes that customer's row and no other.
\<close>

lemma write_Save_spec:
  assumes ok: "gorm_ok db acct marked" and run: "write_Save db a w = (res, w')"
    and owner: "la_CustomerID (ag_account a) = c"
    and loaded: "case acct w c of Some r \<Rightarrow> la_ID (ag_account a) = lr_ID r
                 | None \<Rightarrow> (\<forall>d s. acct w d = Some s \<longrightarrow> lr_ID s \<noteq> la_ID (ag_account a))"
  shows "marked w' = marked w
       \<and> (case res of Some e \<Rightarrow> acct w' = acct w
                    | None \<Rightarrow> \<exists>r. acct w' = (acct w)(c \<mapsto> r) \<and> lr_ID r = la_ID (ag_account a)
                        \<and> lr_CustomerID r = c \<and> lr_Balance r = Balance a \<and> lr_Tier r = la_Tier (ag_account a))"
proof (cases res)
  case (Some e)
  with gorm_upsert [OF ok run [unfolded write_Save_def Let_def]] show ?thesis by simp
next
  case None
  let ?row = "\<lparr>lr_ID = la_ID (ag_account a), lr_CustomerID = c, lr_Balance = Balance a,
     lr_Tier = la_Tier (ag_account a), lr_CreatedAt = la_CreatedAt (ag_account a),
     lr_UpdatedAt = la_UpdatedAt (ag_account a)\<rparr>"
  have up: "marked w' = marked w" "upserted ?row (acct w) (acct w')"
    using gorm_upsert [OF ok run [unfolded write_Save_def Let_def]] None owner by (simp_all add: Balance_def)
  have "\<exists>r. acct w' = (acct w)(c \<mapsto> r) \<and> lr_ID r = la_ID (ag_account a)
      \<and> lr_CustomerID r = c \<and> lr_Balance r = Balance a \<and> lr_Tier r = la_Tier (ag_account a)"
  proof (cases "acct w c")
    case None
    with loaded up(2) show ?thesis by (auto simp: upserted_def split: if_splits)
  next
    case (Some r)
    let ?r = "r\<lparr>lr_Balance := Balance a, lr_Tier := la_Tier (ag_account a), lr_UpdatedAt := la_UpdatedAt (ag_account a)\<rparr>"
    have id: "la_ID (ag_account a) = lr_ID r" using loaded Some by simp
    have others: "lr_ID s \<noteq> lr_ID r" if "acct w d = Some s" "d \<noteq> c" for d s
      using gorm_id [OF ok that(1) Some] that(2) by blast
    have "\<exists>c x. acct w c = Some x \<and> lr_ID x = lr_ID ?row" using Some id by auto
    with up(2) have w': "acct w' d = map_option (\<lambda>x. if lr_ID x = lr_ID ?row then x\<lparr>lr_Balance := lr_Balance ?row,
        lr_Tier := lr_Tier ?row, lr_UpdatedAt := lr_UpdatedAt ?row\<rparr> else x) (acct w d)" for d
      unfolding upserted_def by presburger
    have "acct w' d = ((acct w)(c \<mapsto> ?r)) d" for d
      using w' [of d] Some id others [of d] by (cases "acct w d") auto
    then have "acct w' = (acct w)(c \<mapsto> ?r)" by blast
    with id gorm_customer [OF ok Some] show ?thesis by (intro exI [of _ ?r]) simp
  qed
  with None up(1) show ?thesis by simp
qed

lemma idem_Exists_spec:
  assumes "gorm_ok db acct marked" "idem_Exists db k w = ((b, err), w')"
  shows "acct w' = acct w \<and> marked w' = marked w \<and> (err = None \<longrightarrow> b = marked w k)"
proof -
  obtain n where "db_count_keys db k w = ((n, err), w')" "b = (0 < n)"
    using assms(2) by (auto simp: idem_Exists_def split: prod.splits)
  from gorm_count [OF assms(1) this(1)] this(2) show ?thesis by simp
qed

lemma idem_Mark_spec:
  assumes "gorm_ok db acct marked" "idem_Mark db u now k w = (res, w')"
  shows "acct w' = acct w \<and> (case res of None \<Rightarrow> \<not> marked w k \<and> marked w' = (marked w)(k := True)
                                       | Some e \<Rightarrow> marked w' = marked w)"
  using gorm_create [OF assms(1) assms(2) [unfolded idem_Mark_def]] by (cases res) simp_all

end
