(* ===== verification/Cqrs_Bus.thy ===== *)
theory Cqrs_Bus
  imports Go_Prelude
begin

text \<open>
  The synchronous buses of \<^verbatim>\<open>drivers/watermill\<close> and \<^verbatim>\<open>drivers/watermill_fx\<close>: a command
  or a query is routed by name to the one handler registered for it. Commands are values of a
  type \<open>'c\<close> with a name; a handler may change the world \<open>'w\<close> and gives a result of type
  \<open>'r\<close> (Go's \<^verbatim>\<open>any\<close>).
\<close>

type_synonym ('c, 'r, 'w) handler_func = "'c \<Rightarrow> 'w \<Rightarrow> 'r result \<times> 'w"

section \<open>The buses of the watermill driver\<close>

record ('c, 'r, 'w) commandBus =
  cb_handlers :: "(string, ('c, 'r, 'w) handler_func) gomap"

definition newCommandBus :: "('c, 'r, 'w) commandBus" where
  "newCommandBus = \<lparr>cb_handlers = mempty\<rparr>"

definition commandBus_Register ::
  "string \<Rightarrow> ('c, 'r, 'w) handler_func \<Rightarrow> ('c, 'r, 'w) commandBus \<Rightarrow> ('c, 'r, 'w) commandBus" where
  "commandBus_Register commandName fn b = b\<lparr>cb_handlers := mput commandName fn (cb_handlers b)\<rparr>"

definition commandBus_Dispatch ::
  "('c \<Rightarrow> string) \<Rightarrow> ('c, 'r, 'w) commandBus \<Rightarrow> 'c \<Rightarrow> 'w \<Rightarrow> 'r result \<times> 'w" where
  "commandBus_Dispatch CommandName b cmd w =
     (case mget (cb_handlers b) (CommandName cmd) of
        None \<Rightarrow> (Inl (ErrorString (''no handler registered for command: '' @ CommandName cmd)), w)
      | Some fn \<Rightarrow> fn cmd w)"

record ('q, 'r, 'w) queryBus =
  qb_handlers :: "(string, ('q, 'r, 'w) handler_func) gomap"

definition newQueryBus :: "('q, 'r, 'w) queryBus" where
  "newQueryBus = \<lparr>qb_handlers = mempty\<rparr>"

definition queryBus_Register ::
  "string \<Rightarrow> ('q, 'r, 'w) handler_func \<Rightarrow> ('q, 'r, 'w) queryBus \<Rightarrow> ('q, 'r, 'w) queryBus" where
  "queryBus_Register queryName fn b = b\<lparr>qb_handlers := mput queryName fn (qb_handlers b)\<rparr>"

definition queryBus_Ask ::
  "('q \<Rightarrow> string) \<Rightarrow> ('q, 'r, 'w) queryBus \<Rightarrow> 'q \<Rightarrow> 'w \<Rightarrow> 'r result \<times> 'w" where
  "queryBus_Ask QueryName b query w =
     (case mget (qb_handlers b) (QueryName query) of
        None \<Rightarrow> (Inl (ErrorString (''no handler registered for query: '' @ QueryName query)), w)
      | Some fn \<Rightarrow> fn query w)"

section \<open>The buses of the FX module\<close>

record ('c, 'r, 'w) fx_commandBus =
  fcb_handlers :: "(string, ('c, 'r, 'w) handler_func) gomap"

definition fx_newCommandBus :: "('c, 'r, 'w) fx_commandBus" where
  "fx_newCommandBus = \<lparr>fcb_handlers = mempty\<rparr>"

definition fx_commandBus_Register ::
  "string \<Rightarrow> ('c, 'r, 'w) handler_func \<Rightarrow> ('c, 'r, 'w) fx_commandBus \<Rightarrow> ('c, 'r, 'w) fx_commandBus" where
  "fx_commandBus_Register commandName fn b = b\<lparr>fcb_handlers := mput commandName fn (fcb_handlers b)\<rparr>"

definition fx_commandBus_RegisterHandler ::
  "string \<Rightarrow> ('c, 'r, 'w) handler_func \<Rightarrow> ('c, 'r, 'w) fx_commandBus \<Rightarrow> ('c, 'r, 'w) fx_commandBus" where
  "fx_commandBus_RegisterHandler name fn b = b\<lparr>fcb_handlers := mput name fn (fcb_handlers b)\<rparr>"

definition fx_commandBus_Dispatch ::
  "('c \<Rightarrow> string) \<Rightarrow> ('c, 'r, 'w) fx_commandBus \<Rightarrow> 'c \<Rightarrow> 'w \<Rightarrow> 'r result \<times> 'w" where
  "fx_commandBus_Dispatch CommandName b cmd w =
     (case mget (fcb_handlers b) (CommandName cmd) of
        None \<Rightarrow> (Inl (ErrorString (''no handler registered for command: '' @ CommandName cmd)), w)
      | Some fn \<Rightarrow> fn cmd w)"

record ('q, 'r, 'w) fx_queryBus =
  fqb_handlers :: "(string, ('q, 'r, 'w) handler_func) gomap"

definition fx_newQueryBus :: "('q, 'r, 'w) fx_queryBus" where
  "fx_newQueryBus = \<lparr>fqb_handlers = mempty\<rparr>"

definition fx_queryBus_Register ::
  "string \<Rightarrow> ('q, 'r, 'w) handler_func \<Rightarrow> ('q, 'r, 'w) fx_queryBus \<Rightarrow> ('q, 'r, 'w) fx_queryBus" where
  "fx_queryBus_Register queryName fn b = b\<lparr>fqb_handlers := mput queryName fn (fqb_handlers b)\<rparr>"

definition fx_queryBus_RegisterHandler ::
  "string \<Rightarrow> ('q, 'r, 'w) handler_func \<Rightarrow> ('q, 'r, 'w) fx_queryBus \<Rightarrow> ('q, 'r, 'w) fx_queryBus" where
  "fx_queryBus_RegisterHandler name fn b = b\<lparr>fqb_handlers := mput name fn (fqb_handlers b)\<rparr>"

definition fx_queryBus_Ask ::
  "('q \<Rightarrow> string) \<Rightarrow> ('q, 'r, 'w) fx_queryBus \<Rightarrow> 'q \<Rightarrow> 'w \<Rightarrow> 'r result \<times> 'w" where
  "fx_queryBus_Ask QueryName b query w =
     (case mget (fqb_handlers b) (QueryName query) of
        None \<Rightarrow> (Inl (ErrorString (''no handler registered for query: '' @ QueryName query)), w)
      | Some fn \<Rightarrow> fn query w)"

section \<open>The interface of a dispatcher\<close>

locale dispatcher =
  fixes start :: 'b
    and register :: "string \<Rightarrow> ('c, 'r, 'w) handler_func \<Rightarrow> 'b \<Rightarrow> 'b"
    and dispatch :: "('c \<Rightarrow> string) \<Rightarrow> 'b \<Rightarrow> 'c \<Rightarrow> 'w \<Rightarrow> 'r result \<times> 'w"
    and missing :: string
  assumes dispatch_start: "dispatch nm start c w = (Inl (ErrorString (missing @ nm c)), w)"
    and dispatch_register:
      "dispatch nm (register n f b) c w = (if nm c = n then f c w else dispatch nm b c w)"
begin

definition wire :: "(string \<times> ('c, 'r, 'w) handler_func) list \<Rightarrow> 'b" where
  "wire fs = fold (\<lambda>(n, f). register n f) fs start"

text \<open>After any registrations, the last handler of a name gets its commands; others are refused.\<close>

lemma dispatch_wire:
  "dispatch nm (wire fs) c w =
     (case map_of (rev fs) (nm c) of
        None \<Rightarrow> (Inl (ErrorString (missing @ nm c)), w)
      | Some f \<Rightarrow> f c w)"
  by (induction fs rule: rev_induct) (auto simp: wire_def dispatch_start dispatch_register)

lemma dispatch_commute:
  "m \<noteq> n \<Longrightarrow> dispatch nm (register m f (register n g b)) = dispatch nm (register n g (register m f b))"
  by (intro ext) (simp add: dispatch_register)

end

interpretation cb: dispatcher newCommandBus commandBus_Register commandBus_Dispatch
  "''no handler registered for command: ''"
  by unfold_locales
    (simp_all add: newCommandBus_def commandBus_Register_def commandBus_Dispatch_def mget_mput)

interpretation qb: dispatcher newQueryBus queryBus_Register queryBus_Ask
  "''no handler registered for query: ''"
  by unfold_locales
    (simp_all add: newQueryBus_def queryBus_Register_def queryBus_Ask_def mget_mput)

interpretation fcb: dispatcher fx_newCommandBus fx_commandBus_RegisterHandler fx_commandBus_Dispatch
  "''no handler registered for command: ''"
  by unfold_locales
    (simp_all add: fx_newCommandBus_def fx_commandBus_RegisterHandler_def fx_commandBus_Dispatch_def
      mget_mput)

interpretation fqb: dispatcher fx_newQueryBus fx_queryBus_RegisterHandler fx_queryBus_Ask
  "''no handler registered for query: ''"
  by unfold_locales
    (simp_all add: fx_newQueryBus_def fx_queryBus_RegisterHandler_def fx_queryBus_Ask_def mget_mput)

section \<open>Properties\<close>

text \<open>
  After any sequence of registrations a command reaches the handler registered last under its
  name, exactly once and with the world it was dispatched in; a command with no handler is refused
  with an error that names it and the world is left alone. The FX bus behaves the same way.
\<close>

theorem commandBus_Dispatch_last_registered:
  fixes fs :: "(string \<times> ('c, 'r, 'w) handler_func) list"
  defines "expected \<equiv> \<lambda>nm c w.
     (case map_of (rev fs) (nm c) of
        None \<Rightarrow> (Inl (ErrorString (''no handler registered for command: '' @ nm c)), w)
      | Some f \<Rightarrow> f c w)"
  shows "commandBus_Dispatch nm (fold (\<lambda>(n, f). commandBus_Register n f) fs newCommandBus) c w
           = expected nm c w
       \<and> fx_commandBus_Dispatch nm (fold (\<lambda>(n, f). fx_commandBus_RegisterHandler n f) fs fx_newCommandBus) c w
           = expected nm c w"
  using cb.dispatch_wire [of nm fs c w] fcb.dispatch_wire [of nm fs c w]
  unfolding expected_def cb.wire_def fcb.wire_def by simp

end
