(* ===== verification/Loyalty_Handlers.thy ===== *)
theory Loyalty_Handlers
  imports Loyalty_Store Cqrs_Bus
begin

text \<open>
  The use cases of the loyalty domain: the command handler that credits points, the query handler
  for the balance, the handler of the order-completed event, and the wiring of the three into the
  buses (\<^verbatim>\<open>registerLoyalty\<close> and the FX registrar). A handler works on the ports it is
  constructed with; \<open>inputs\<close> is what the clock and \<^verbatim>\<open>ulid\<close> give in a world. Logging and
  tracing are left out.
\<close>

section \<open>Ports\<close>

record 'w LoyaltyWriteRepository =
  wr_Save :: "LoyaltyAggregate \<Rightarrow> 'w \<Rightarrow> go_error option \<times> 'w"
  wr_FindByCustomerID :: "string \<Rightarrow> 'w \<Rightarrow> LoyaltyAggregate option result \<times> 'w"

record 'w IdempotencyRepository =
  ir_Exists :: "string \<Rightarrow> 'w \<Rightarrow> (bool \<times> go_error option) \<times> 'w"
  ir_Mark :: "string \<Rightarrow> 'w \<Rightarrow> go_error option \<times> 'w"

record 'w LoyaltyReadRepository =
  rr_GetBalanceByCustomerID :: "string \<Rightarrow> 'w \<Rightarrow> GetLoyaltyBalanceResponse result \<times> 'w"

record 'w LoyaltyCacheRepository =
  cc_GetBalance :: "string \<Rightarrow> 'w \<Rightarrow> (GetLoyaltyBalanceResponse \<times> bool \<times> go_error option) \<times> 'w"
  cc_SetBalance :: "string \<Rightarrow> GetLoyaltyBalanceResponse \<Rightarrow> int \<Rightarrow> 'w \<Rightarrow> go_error option \<times> 'w"
  cc_InvalidateBalance :: "string \<Rightarrow> 'w \<Rightarrow> go_error option \<times> 'w"

type_synonym 'w publish = "DomainEvent EventEnvelope list \<Rightarrow> 'w \<Rightarrow> go_error option \<times> 'w"

record credit_inputs =
  ci_account_ulid :: string
  ci_created :: int
  ci_updated :: int
  ci_unix :: int
  ci_now :: gotime
  ci_event_ulid :: "nat \<Rightarrow> string"

definition NewLoyaltyWriteGormRepository :: "'w gorm_db \<Rightarrow> 'w LoyaltyWriteRepository" where
  "NewLoyaltyWriteGormRepository db =
     \<lparr>wr_Save = write_Save db, wr_FindByCustomerID = write_FindByCustomerID db\<rparr>"

definition NewLoyaltyReadGormRepository :: "'w gorm_db \<Rightarrow> 'w LoyaltyReadRepository" where
  "NewLoyaltyReadGormRepository db = \<lparr>rr_GetBalanceByCustomerID = read_GetBalanceByCustomerID db\<rparr>"

definition NewIdempotencyGormRepository ::
  "('w \<Rightarrow> string) \<Rightarrow> ('w \<Rightarrow> gotime) \<Rightarrow> 'w gorm_db \<Rightarrow> 'w IdempotencyRepository" where
  "NewIdempotencyGormRepository uuid now db =
     \<lparr>ir_Exists = idem_Exists db, ir_Mark = (\<lambda>k w. idem_Mark db (uuid w) (now w) k w)\<rparr>"

definition NewNoopLoyaltyCacheRepository :: "'w LoyaltyCacheRepository" where
  "NewNoopLoyaltyCacheRepository =
     \<lparr>cc_GetBalance = noop_GetBalance, cc_SetBalance = noop_SetBalance,
      cc_InvalidateBalance = noop_InvalidateBalance\<rparr>"

section \<open>Crediting points\<close>

record 'w CreditLoyaltyHandler =
  ch_writeRepo :: "'w LoyaltyWriteRepository"
  ch_idem :: "'w IdempotencyRepository"
  ch_publish :: "'w publish"

definition credited_envelopes ::
  "(nat \<Rightarrow> string) \<Rightarrow> CreditLoyaltyRequest \<Rightarrow> DomainEvent list \<Rightarrow> DomainEvent EventEnvelope list" where
  "credited_envelopes ulid cmd events =
     map (\<lambda>(i, de). \<lparr>ev_EventID = ulid i, ev_CorrelationID = cr_CorrelationID cmd,
            ev_CausationID = cr_CausationEventID cmd, ev_EventName = LoyaltyCredited,
            ev_OccurredAt = OccurredAt de, ev_OtelCarrier = None, ev_Payload = Some de\<rparr>)
       (enumerate 0 events)"

text \<open>Steps 1 to 3: the idempotency check, loading or creating the aggregate, changing it.\<close>

definition credit_prepare ::
  "('w \<Rightarrow> credit_inputs) \<Rightarrow> 'w CreditLoyaltyHandler \<Rightarrow> CreditLoyaltyRequest \<Rightarrow> 'w
     \<Rightarrow> (LoyaltyAggregate \<times> credit_inputs) result \<times> 'w" where
  "credit_prepare inputs h cmd w =
     (case (if cr_CausationEventID cmd \<noteq> [] then ir_Exists (ch_idem h) (cr_CausationEventID cmd) w
            else ((False, None), w)) of
        ((exists, Some err), w1) \<Rightarrow> (Inl err, w1)
      | ((exists, None), w1) \<Rightarrow>
          if exists then (Inl ErrDuplicateEvent, w1)
          else (case wr_FindByCustomerID (ch_writeRepo h) (cr_CustomerID cmd) w1 of
            (Inl err, w2) \<Rightarrow> (Inl err, w2)
          | (Inr found, w2) \<Rightarrow>
              (let ci = inputs w2;
                   agg0 = (case found of
                             None \<Rightarrow> NewLoyaltyAggregate (ci_account_ulid ci) (ci_created ci) (ci_updated ci) (cr_CustomerID cmd)
                           | Some a \<Rightarrow> a)
               in case NewPoints (cr_Points cmd) of
                    Inl err \<Rightarrow> (Inl err, w2)
                  | Inr pts \<Rightarrow>
                      (case CreditPoints (ci_unix ci) (ci_now ci) (cr_OrderID cmd) pts agg0 of
                         (Some err, agg) \<Rightarrow> (Inl err, w2)
                       | (None, agg) \<Rightarrow> (Inr (agg, ci), w2)))))"

text \<open>Steps 4 to 6: saving, publishing, marking the key.\<close>

definition credit_commit ::
  "'w CreditLoyaltyHandler \<Rightarrow> CreditLoyaltyRequest \<Rightarrow> LoyaltyAggregate \<Rightarrow> credit_inputs \<Rightarrow> 'w
     \<Rightarrow> CreditLoyaltyResponse result \<times> 'w" where
  "credit_commit h cmd agg ci w2 =
     (case wr_Save (ch_writeRepo h) agg w2 of
        (Some err, w3) \<Rightarrow> (Inl err, w3)
      | (None, w3) \<Rightarrow>
          (let (events, agg') = FlushEvents agg
           in case ch_publish h (credited_envelopes (ci_event_ulid ci) cmd events) w3 of
             (Some err, w4) \<Rightarrow> (Inl err, w4)
           | (None, w4) \<Rightarrow>
               (case (if cr_CausationEventID cmd \<noteq> [] then ir_Mark (ch_idem h) (cr_CausationEventID cmd) w4
                      else (None, w4)) of
                  (Some err, w5) \<Rightarrow> (Inl err, w5)
                | (None, w5) \<Rightarrow> (Inr \<lparr>cp_LoyaltyAccountID = la_ID (ag_account agg'),
                                   cp_NewBalance = Balance agg', cp_NewTier = la_Tier (ag_account agg')\<rparr>, w5))))"

definition CreditLoyalty_Handle ::
  "('w \<Rightarrow> credit_inputs) \<Rightarrow> 'w CreditLoyaltyHandler \<Rightarrow> CreditLoyaltyRequest \<Rightarrow> 'w
     \<Rightarrow> CreditLoyaltyResponse result \<times> 'w" where
  "CreditLoyalty_Handle inputs h cmd w =
     (case credit_prepare inputs h cmd w of
        (Inl err, w') \<Rightarrow> (Inl err, w')
      | (Inr (agg, ci), w') \<Rightarrow> credit_commit h cmd agg ci w')"

section \<open>Reading the balance\<close>

record 'w GetLoyaltyBalanceHandler =
  bh_readRepo :: "'w LoyaltyReadRepository"
  bh_cache :: "'w LoyaltyCacheRepository option"

definition five_minutes :: int where
  "five_minutes = 5 * 60 * second"

definition GetLoyaltyBalance_Handle ::
  "'w GetLoyaltyBalanceHandler \<Rightarrow> GetLoyaltyBalanceRequest \<Rightarrow> 'w \<Rightarrow> GetLoyaltyBalanceResponse result \<times> 'w" where
  "GetLoyaltyBalance_Handle h q w =
     (let (cached, w1) = (case bh_cache h of
                            None \<Rightarrow> (None, w)
                          | Some c \<Rightarrow>
                              (case cc_GetBalance c (gb_CustomerID q) w of
                                 ((resp, ok, err), w1) \<Rightarrow> (if err = None \<and> ok then Some resp else None, w1)))
      in case cached of
           Some resp \<Rightarrow> (Inr resp, w1)
         | None \<Rightarrow>
             (case rr_GetBalanceByCustomerID (bh_readRepo h) (gb_CustomerID q) w1 of
                (Inl err, w2) \<Rightarrow> (Inl err, w2)
              | (Inr result, w2) \<Rightarrow>
                  (case bh_cache h of
                     None \<Rightarrow> (Inr result, w2)
                   | Some c \<Rightarrow>
                       (Inr result, snd (cc_SetBalance c (gb_CustomerID q) result five_minutes w2)))))"

section \<open>Order completed\<close>

text \<open>
  \<open>oor\<close> is what converting a \<^verbatim>\<open>float64\<close> outside the range of \<^verbatim>\<open>int\<close> gives,
  \<open>ulid\<close> the identifier of the compensating event and \<open>now\<close> its time.
\<close>

definition order_points :: "(float64 \<Rightarrow> int) \<Rightarrow> float64 \<Rightarrow> int" where
  "order_points oor amount =
     (let points = int_of_float oor (fmul amount (fround (1 / 10)))
      in if points < 1 then 1 else points)"

record ('r, 'w) OnOrderCompletedHandler =
  oh_dispatch :: "CreditLoyaltyRequest \<Rightarrow> 'w \<Rightarrow> 'r result \<times> 'w"
  oh_publish :: "'w publish"

definition OnOrderCompleted_Handle ::
  "(float64 \<Rightarrow> int) \<Rightarrow> ('w \<Rightarrow> string) \<Rightarrow> ('w \<Rightarrow> gotime) \<Rightarrow> ('r, 'w) OnOrderCompletedHandler
     \<Rightarrow> DomainEvent EventEnvelope \<Rightarrow> 'w \<Rightarrow> go_error option \<times> 'w" where
  "OnOrderCompleted_Handle oor ulid now h env w =
     (case ev_Payload env of
        Some (OrderCompletedEvent payload) \<Rightarrow>
          (case oh_dispatch h
                 \<lparr>cr_CustomerID = oc_CustomerID payload, cr_OrderID = oc_OrderID payload,
                  cr_Points = order_points oor (oc_TotalAmount payload),
                  cr_CorrelationID = ev_CorrelationID env, cr_CausationEventID = ev_EventID env\<rparr> w of
             (Inl err, w1) \<Rightarrow>
               (None, snd (oh_publish h
                  [\<lparr>ev_EventID = ulid w1, ev_CorrelationID = ev_CorrelationID env,
                    ev_CausationID = ev_EventID env, ev_EventName = LoyaltyCreditFailed,
                    ev_OccurredAt = zero_time, ev_OtelCarrier = None,
                    ev_Payload = Some (CreditFailedEvent (NewLoyaltyCreditFailedEvent (now w1)
                      (oc_CustomerID payload) (oc_OrderID payload) (error_text err)))\<rparr>] w1))
           | (Inr res, w1) \<Rightarrow> (None, w1))
      | _ \<Rightarrow> (None, w))"

section \<open>Wiring\<close>

text \<open>What the third-party code gives in a world, for the handlers wired below.\<close>

record 'w loyalty_ctx =
  lx_inputs :: "'w \<Rightarrow> credit_inputs"
  lx_uuid :: "'w \<Rightarrow> string"
  lx_now :: "'w \<Rightarrow> gotime"
  lx_ulid :: "'w \<Rightarrow> string"
  lx_oor :: "float64 \<Rightarrow> int"
  lx_carrier :: "'w \<Rightarrow> (string, string) gomap"
  lx_msg_uuid :: "'w \<Rightarrow> nat \<Rightarrow> string"
  lx_chan_publish :: "unit \<Rightarrow> 'w publisher"

datatype any_response = AnyCredit CreditLoyaltyResponse | AnyBalance GetLoyaltyBalanceResponse

type_synonym 'w command_bus = "(CreditLoyaltyRequest, any_response, 'w) commandBus"
type_synonym 'w query_bus = "(GetLoyaltyBalanceRequest, any_response, 'w) queryBus"
type_synonym 'w event_bus = "(DomainEvent, unit, 'w) eventBus"

definition bus_publish :: "'w loyalty_ctx \<Rightarrow> 'w event_bus \<Rightarrow> 'w publish" where
  "bus_publish x evt es w = eventBus_Publish json_event (lx_carrier x w) (lx_msg_uuid x w) evt es w"

definition NewCreditLoyaltyHandler ::
  "'w LoyaltyWriteRepository \<Rightarrow> 'w IdempotencyRepository \<Rightarrow> 'w publish \<Rightarrow> 'w CreditLoyaltyHandler" where
  "NewCreditLoyaltyHandler writeRepo idem publish =
     \<lparr>ch_writeRepo = writeRepo, ch_idem = idem, ch_publish = publish\<rparr>"

definition NewGetLoyaltyBalanceHandler ::
  "'w LoyaltyReadRepository \<Rightarrow> 'w LoyaltyCacheRepository option \<Rightarrow> 'w GetLoyaltyBalanceHandler" where
  "NewGetLoyaltyBalanceHandler readRepo cacheRepo = \<lparr>bh_readRepo = readRepo, bh_cache = cacheRepo\<rparr>"

definition NewOnOrderCompletedHandler ::
  "(CreditLoyaltyRequest \<Rightarrow> 'w \<Rightarrow> 'r result \<times> 'w) \<Rightarrow> 'w publish \<Rightarrow> ('r, 'w) OnOrderCompletedHandler" where
  "NewOnOrderCompletedHandler dispatch publish = \<lparr>oh_dispatch = dispatch, oh_publish = publish\<rparr>"

definition credit_handler_func ::
  "'w loyalty_ctx \<Rightarrow> 'w gorm_db \<Rightarrow> 'w publish \<Rightarrow> (CreditLoyaltyRequest, any_response, 'w) handler_func" where
  "credit_handler_func x db publish cmd w =
     map_prod (map_sum id AnyCredit) id
       (CreditLoyalty_Handle (lx_inputs x)
          (NewCreditLoyaltyHandler (NewLoyaltyWriteGormRepository db)
             (NewIdempotencyGormRepository (lx_uuid x) (lx_now x) db) publish) cmd w)"

definition balance_handler_func ::
  "'w gorm_db \<Rightarrow> (GetLoyaltyBalanceRequest, any_response, 'w) handler_func" where
  "balance_handler_func db q w =
     map_prod (map_sum id AnyBalance) id
       (GetLoyaltyBalance_Handle
          (NewGetLoyaltyBalanceHandler (NewLoyaltyReadGormRepository db) (Some NewNoopLoyaltyCacheRepository)) q w)"

definition registerLoyalty ::
  "'w loyalty_ctx \<Rightarrow> 'w gorm_db \<Rightarrow> 'w command_bus \<times> 'w query_bus \<times> 'w event_bus
     \<Rightarrow> 'w command_bus \<times> 'w query_bus \<times> 'w event_bus" where
  "registerLoyalty x db = (\<lambda>(cmdBus, qryBus, evtBus).
     let cmdBus' = commandBus_Register ''loyalty.credit_loyalty'' (credit_handler_func x db (bus_publish x evtBus)) cmdBus;
         qryBus' = queryBus_Register ''loyalty.get_balance'' (balance_handler_func db) qryBus;
         onOrderHandler = NewOnOrderCompletedHandler (commandBus_Dispatch CommandName cmdBus') (bus_publish x evtBus);
         evtBus' = snd (eventBus_Subscribe OrderCompleted
                     (OnOrderCompleted_Handle (lx_oor x) (lx_ulid x) (lx_now x) onOrderHandler) evtBus)
     in (cmdBus', qryBus', evtBus'))"

text \<open>
  The FX registrar. The order-detail request that it builds when the NATS driver runs is not given
  to any handler, so that the presence of the driver does not change what is registered.
\<close>

type_synonym 'w fx_command_bus = "(CreditLoyaltyRequest, any_response, 'w) fx_commandBus"
type_synonym 'w fx_query_bus = "(GetLoyaltyBalanceRequest, any_response, 'w) fx_queryBus"
type_synonym 'w fx_event_bus = "(DomainEvent, unit, 'w) fx_eventBus"

definition fx_bus_publish :: "'w loyalty_ctx \<Rightarrow> 'w fx_event_bus \<Rightarrow> 'w publish" where
  "fx_bus_publish x evt es w =
     fx_eventBus_Publish (lx_chan_publish x) json_event (lx_carrier x w) (lx_msg_uuid x w) evt es w"

definition Registrar_Register ::
  "'w loyalty_ctx \<Rightarrow> 'w gorm_db \<Rightarrow> 'w fx_command_bus \<times> 'w fx_query_bus \<times> 'w fx_event_bus
     \<Rightarrow> 'w fx_command_bus \<times> 'w fx_query_bus \<times> 'w fx_event_bus" where
  "Registrar_Register x db = (\<lambda>(cmd, qry, evt).
     let cmd' = fx_commandBus_RegisterHandler ''loyalty.credit_loyalty'' (credit_handler_func x db (fx_bus_publish x evt)) cmd;
         qry' = fx_queryBus_RegisterHandler ''loyalty.get_balance'' (balance_handler_func db) qry;
         onOrderHandler = NewOnOrderCompletedHandler (fx_commandBus_Dispatch CommandName cmd') (fx_bus_publish x evt);
         evt' = snd (fx_eventBus_Subscribe OrderCompleted
                  (OnOrderCompleted_Handle (lx_oor x) (lx_ulid x) (lx_now x) onOrderHandler) evt)
     in (cmd', qry', evt'))"

section \<open>Crediting on the GORM repositories\<close>

definition gorm_credit_handler ::
  "('w \<Rightarrow> string) \<Rightarrow> ('w \<Rightarrow> gotime) \<Rightarrow> 'w gorm_db \<Rightarrow> 'w publish \<Rightarrow> 'w CreditLoyaltyHandler" where
  "gorm_credit_handler uuid now db publish =
     NewCreditLoyaltyHandler (NewLoyaltyWriteGormRepository db) (NewIdempotencyGormRepository uuid now db) publish"

definition stored_balance :: "LoyaltyAccountRow option \<Rightarrow> int" where
  "stored_balance r = (case r of None \<Rightarrow> 0 | Some x \<Rightarrow> lr_Balance x)"

text \<open>The account of the customer after a credit; every other account as before.\<close>

definition credited ::
  "CreditLoyaltyRequest \<Rightarrow> (string \<Rightarrow> LoyaltyAccountRow option) \<Rightarrow> (string \<Rightarrow> LoyaltyAccountRow option) \<Rightarrow> bool" where
  "credited cmd rows rows' \<longleftrightarrow>
     (\<exists>r. rows' = rows(cr_CustomerID cmd \<mapsto> r)
        \<and> lr_Balance r = wrap64 (stored_balance (rows (cr_CustomerID cmd)) + cr_Points cmd)
        \<and> lr_Tier r = tier_for (lr_Balance r)
        \<and> lr_CustomerID r = cr_CustomerID cmd
        \<and> (\<forall>x. rows (cr_CustomerID cmd) = Some x \<longrightarrow> lr_ID r = lr_ID x))"

text \<open>The identifier for a new account is not in use.\<close>

definition fresh_ulid :: "('w \<Rightarrow> credit_inputs) \<Rightarrow> 'w accounts \<Rightarrow> bool" where
  "fresh_ulid inputs acct \<longleftrightarrow> (\<forall>w d s. acct w d = Some s \<longrightarrow> lr_ID s \<noteq> ci_account_ulid (inputs w))"

lemma handler_ports [simp]:
  "ch_publish (gorm_credit_handler u n db p) = p"
  "wr_Save (ch_writeRepo (gorm_credit_handler u n db p)) = write_Save db"
  "wr_FindByCustomerID (ch_writeRepo (gorm_credit_handler u n db p)) = write_FindByCustomerID db"
  "ir_Exists (ch_idem (gorm_credit_handler u n db p)) = idem_Exists db"
  "ir_Mark (ch_idem (gorm_credit_handler u n db p)) = (\<lambda>k w. idem_Mark db (u w) (n w) k w)"
  by (simp_all add: gorm_credit_handler_def NewCreditLoyaltyHandler_def NewLoyaltyWriteGormRepository_def
      NewIdempotencyGormRepository_def)

text \<open>Preparing reads only; a prepared aggregate is the credited one of the customer.\<close>

definition prepared_for :: "CreditLoyaltyRequest \<Rightarrow> (string \<Rightarrow> LoyaltyAccountRow option) \<Rightarrow> LoyaltyAggregate \<Rightarrow> bool" where
  "prepared_for cmd rows a \<longleftrightarrow>
     la_CustomerID (ag_account a) = cr_CustomerID cmd
   \<and> Balance a = wrap64 (stored_balance (rows (cr_CustomerID cmd)) + cr_Points cmd)
   \<and> la_Tier (ag_account a) = tier_for (Balance a)
   \<and> (case rows (cr_CustomerID cmd) of
        Some r \<Rightarrow> la_ID (ag_account a) = lr_ID r
      | None \<Rightarrow> (\<forall>d s. rows d = Some s \<longrightarrow> lr_ID s \<noteq> la_ID (ag_account a)))
   \<and> 0 < cr_Points cmd
   \<and> (\<exists>e. ag_domainEvents a = [CreditedEvent e] \<and> lc_PointsEarned e = cr_Points cmd \<and> lc_NewBalance e = Balance a)"

lemma CreditPoints_prepared:
  assumes "NewPoints (cr_Points cmd) = Inr pts" "CreditPoints u n ord pts a0 = (None, a)"
    and "la_CustomerID (ag_account a0) = cr_CustomerID cmd" "ag_domainEvents a0 = []"
    and "Balance a0 = stored_balance (rows (cr_CustomerID cmd))"
    and "case rows (cr_CustomerID cmd) of Some r \<Rightarrow> la_ID (ag_account a0) = lr_ID r
         | None \<Rightarrow> (\<forall>d s. rows d = Some s \<longrightarrow> lr_ID s \<noteq> la_ID (ag_account a0))"
  shows "prepared_for cmd rows a"
  using assms
  by (auto simp: NewPoints_Inr CreditPoints_def Points_IsZero_def Points_Add_def Let_def prepared_for_def
      Balance_def CalculateTier_tier_for NewLoyaltyCreditedEvent_def split: if_splits option.splits)

lemma loaded_aggregate:
  assumes ok: "gorm_ok db acct marked" and fresh: "fresh_ulid inputs acct" and same: "acct w2 = acct w"
    and found: "case fd of None \<Rightarrow> acct w c = None
                | Some a \<Rightarrow> \<exists>r. acct w c = Some r \<and> 0 \<le> lr_Balance r \<and> a = aggregate_of_row r"
  defines "a0 \<equiv> (case fd of None \<Rightarrow> NewLoyaltyAggregate (ci_account_ulid (inputs w2)) (ci_created (inputs w2))
          (ci_updated (inputs w2)) c | Some a \<Rightarrow> a)"
  shows "la_CustomerID (ag_account a0) = c \<and> ag_domainEvents a0 = [] \<and> Balance a0 = stored_balance (acct w c)
       \<and> (case acct w c of Some r \<Rightarrow> la_ID (ag_account a0) = lr_ID r
          | None \<Rightarrow> (\<forall>d s. acct w d = Some s \<longrightarrow> lr_ID s \<noteq> la_ID (ag_account a0)))"
proof (cases fd)
  case None
  have "lr_ID s \<noteq> ci_account_ulid (inputs w2)" if "acct w d = Some s" for d s
    using fresh that unfolding fresh_ulid_def same [symmetric] by blast
  with None found show ?thesis
    by (simp add: a0_def NewLoyaltyAggregate_def Balance_def stored_balance_def)
next
  case (Some a)
  with found obtain r where "acct w c = Some r" "a = aggregate_of_row r" by auto
  with Some gorm_customer [OF ok this(1)] show ?thesis
    by (simp add: a0_def Balance_def stored_balance_def aggregate_of_row_def Reconstitute_def)
qed

lemma credit_prepare_spec:
  assumes ok: "gorm_ok db acct marked" and fresh: "fresh_ulid inputs acct"
    and run: "credit_prepare inputs (gorm_credit_handler u n db p) cmd w = (res, w')"
  shows "acct w' = acct w \<and> marked w' = marked w
       \<and> (case res of Inl e \<Rightarrow> True
          | Inr (a, ci) \<Rightarrow> prepared_for cmd (acct w) a \<and> (cr_CausationEventID cmd \<noteq> [] \<longrightarrow> \<not> marked w (cr_CausationEventID cmd)))"
proof -
  let ?c = "cr_CustomerID cmd" and ?k = "cr_CausationEventID cmd"
  obtain ex err w1 where e: "(if ?k \<noteq> [] then idem_Exists db ?k w else ((False, None), w)) = ((ex, err), w1)"
    by (metis prod.exhaust)
  then have w1: "acct w1 = acct w" "marked w1 = marked w" "err = None \<and> ?k \<noteq> [] \<Longrightarrow> ex = marked w ?k"
    using idem_Exists_spec [OF ok, of ?k w] by (auto split: if_splits)
  obtain found w2 where f: "write_FindByCustomerID db ?c w1 = (found, w2)" by (metis prod.exhaust)
  note run' = run [unfolded credit_prepare_def handler_ports e]
  from write_Find_spec [OF ok f] w1 have w2: "acct w2 = acct w" "marked w2 = marked w" by auto
  show ?thesis
  proof (cases "err = None \<and> \<not> ex \<and> (\<exists>fd. found = Inr fd)")
    case False
    with run' f w1(1,2) w2 show ?thesis by (cases err; cases ex; cases found) auto
  next
    case True
    then obtain fd where fd: "err = None" "\<not> ex" "found = Inr fd" by blast
    let ?ci = "inputs w2"
    define a0 where "a0 = (case fd of None \<Rightarrow> NewLoyaltyAggregate (ci_account_ulid ?ci) (ci_created ?ci) (ci_updated ?ci) ?c
        | Some a \<Rightarrow> a)"
    have "case fd of None \<Rightarrow> acct w ?c = None
        | Some a \<Rightarrow> \<exists>r. acct w ?c = Some r \<and> 0 \<le> lr_Balance r \<and> a = aggregate_of_row r"
      using write_Find_spec [OF ok f] fd(3) w1(1) by (cases fd) simp_all
    note a0 = loaded_aggregate [OF ok fresh w2(1) this, folded a0_def]
    have step: "(case NewPoints (cr_Points cmd) of Inl err \<Rightarrow> (Inl err, w2)
        | Inr pts \<Rightarrow> (case CreditPoints (ci_unix ?ci) (ci_now ?ci) (cr_OrderID cmd) pts a0 of
            (Some err, agg) \<Rightarrow> (Inl err, w2) | (None, agg) \<Rightarrow> (Inr (agg, ?ci), w2))) = (res, w')"
      unfolding a0_def using run' f fd by (simp add: Let_def)
    show ?thesis
    proof (cases "NewPoints (cr_Points cmd)")
      case (Inl x)
      with step w2 show ?thesis by auto
    next
      case (Inr pts)
      obtain e a where cp: "CreditPoints (ci_unix ?ci) (ci_now ?ci) (cr_OrderID cmd) pts a0 = (e, a)"
        by (metis prod.exhaust)
      show ?thesis
      proof (cases e)
        case None
        from CreditPoints_prepared [OF Inr cp [unfolded None], of "acct w"] a0
        have "prepared_for cmd (acct w) a" by blast
        with step Inr cp None w1(3) fd w2 show ?thesis by auto
      next
        case (Some x)
        with step Inr cp w2 show ?thesis by auto
      qed
    qed
  qed
qed

lemma save_prepared:
  assumes ok: "gorm_ok db acct marked" and prep: "prepared_for cmd (acct w) a" and run: "write_Save db a w = (res, w')"
  shows "marked w' = marked w \<and> (case res of Some e \<Rightarrow> acct w' = acct w | None \<Rightarrow> credited cmd (acct w) (acct w'))"
proof -
  from prep have "la_CustomerID (ag_account a) = cr_CustomerID cmd"
    "case acct w (cr_CustomerID cmd) of Some r \<Rightarrow> la_ID (ag_account a) = lr_ID r
     | None \<Rightarrow> (\<forall>d s. acct w d = Some s \<longrightarrow> lr_ID s \<noteq> la_ID (ag_account a))"
    by (simp_all add: prepared_for_def)
  from write_Save_spec [OF ok run this] prep show ?thesis
    by (cases res) (auto simp: credited_def prepared_for_def)
qed

lemma credit_commit_spec:
  assumes ok: "gorm_ok db acct marked" and quiet: "quiet p acct marked" and prep: "prepared_for cmd (acct w) a"
    and run: "credit_commit (gorm_credit_handler u n db p) cmd a ci w = (res, w')"
  shows "case res of
           Inl e \<Rightarrow> marked w' = marked w \<and> (acct w' = acct w \<or> credited cmd (acct w) (acct w'))
         | Inr resp \<Rightarrow> credited cmd (acct w) (acct w')
             \<and> marked w' = (if cr_CausationEventID cmd = [] then marked w else (marked w)(cr_CausationEventID cmd := True))
             \<and> cp_NewBalance resp = Balance a \<and> cp_NewTier resp = tier_for (Balance a)"
proof -
  let ?k = "cr_CausationEventID cmd"
  obtain e3 w3 where s: "write_Save db a w = (e3, w3)" by (metis prod.exhaust)
  obtain e4 w4 where b: "p (credited_envelopes (ci_event_ulid ci) cmd (ag_domainEvents a)) w3 = (e4, w4)"
    by (metis prod.exhaust)
  obtain e5 w5 where m: "(if ?k \<noteq> [] then idem_Mark db (u w4) (n w4) ?k w4 else (None, w4)) = (e5, w5)"
    by (metis prod.exhaust)
  note w3 = save_prepared [OF ok prep s] and w4 = quietD [OF quiet b]
  have w5: "acct w5 = acct w4 \<and> (case e5 of
      None \<Rightarrow> marked w5 = (if ?k = [] then marked w4 else (marked w4)(?k := True)) | Some e \<Rightarrow> marked w5 = marked w4)"
    using idem_Mark_spec [OF ok, of "u w4" "n w4" ?k w4 e5 w5] m by (cases e5) (auto split: if_splits)
  have tier: "la_Tier (ag_account a) = tier_for (Balance a)" using prep by (simp add: prepared_for_def)
  have run': "(res, w') = (case e3 of Some err \<Rightarrow> (Inl err, w3) | None \<Rightarrow> (case e4 of Some err \<Rightarrow> (Inl err, w4)
      | None \<Rightarrow> (case e5 of Some err \<Rightarrow> (Inl err, w5) | None \<Rightarrow> (Inr \<lparr>cp_LoyaltyAccountID = la_ID (ag_account a),
            cp_NewBalance = Balance a, cp_NewTier = la_Tier (ag_account a)\<rparr>, w5))))"
    using run [unfolded credit_commit_def handler_ports s FlushEvents_def] b m
    by (auto simp: Balance_def split: option.splits)
  show ?thesis
    using run' w3 w4 w5 tier by (cases e3; cases e4; cases e5) auto
qed

text \<open>Everything the handler can do to the two tables.\<close>

lemma Handle_spec:
  assumes ok: "gorm_ok db acct marked" and quiet: "quiet p acct marked" and fresh: "fresh_ulid inputs acct"
    and run: "CreditLoyalty_Handle inputs (gorm_credit_handler u n db p) cmd w = (res, w')"
  shows "case res of
           Inl e \<Rightarrow> marked w' = marked w
             \<and> (acct w' = acct w \<or> credited cmd (acct w) (acct w') \<and> 0 < cr_Points cmd
                  \<and> (cr_CausationEventID cmd \<noteq> [] \<longrightarrow> \<not> marked w (cr_CausationEventID cmd)))
         | Inr resp \<Rightarrow> credited cmd (acct w) (acct w')
             \<and> (cr_CausationEventID cmd \<noteq> [] \<longrightarrow> \<not> marked w (cr_CausationEventID cmd))
             \<and> marked w' = (if cr_CausationEventID cmd = [] then marked w else (marked w)(cr_CausationEventID cmd := True))
             \<and> 0 < cr_Points cmd
             \<and> cp_NewBalance resp = wrap64 (stored_balance (acct w (cr_CustomerID cmd)) + cr_Points cmd)
             \<and> cp_NewTier resp = tier_for (cp_NewBalance resp)"
proof -
  obtain r1 w1 where p: "credit_prepare inputs (gorm_credit_handler u n db p) cmd w = (r1, w1)" by (metis prod.exhaust)
  note w1 = credit_prepare_spec [OF ok fresh p]
  show ?thesis
  proof (cases r1)
    case (Inl e)
    with run p w1 show ?thesis by (auto simp: CreditLoyalty_Handle_def)
  next
    case (Inr ac)
    then obtain a ci where ac: "r1 = Inr (a, ci)" by (cases ac) auto
    from run p ac have "credit_commit (gorm_credit_handler u n db p) cmd a ci w1 = (res, w')"
      by (simp add: CreditLoyalty_Handle_def)
    from credit_commit_spec [OF ok quiet _ this] w1 ac show ?thesis
      by (cases res) (auto simp: prepared_for_def)
  qed
qed

section \<open>A table to run on\<close>

text \<open>
  An instance of the database for concrete runs: accounts whose identifier is derived from the
  customer, updated in place, and a bus that fails the first \<open>dw_fail\<close> publications.
\<close>

record demo_world =
  dw_rows :: "string \<Rightarrow> (int \<times> string \<times> int) option"
  dw_keys :: "string \<Rightarrow> bool"
  dw_fail :: nat
  dw_sent :: "string list"

definition demo_acct :: "demo_world accounts" where
  "demo_acct w c = map_option (\<lambda>(b, t, u). \<lparr>lr_ID = ''id-'' @ c, lr_CustomerID = c, lr_Balance = b, lr_Tier = t,
     lr_CreatedAt = 0, lr_UpdatedAt = u\<rparr>) (dw_rows w c)"

definition demo_db :: "demo_world gorm_db" where
  "demo_db =
     \<lparr>db_first_by_customer = (\<lambda>c w. (case demo_acct w c of None \<Rightarrow> Inl ErrRecordNotFound | Some r \<Rightarrow> Inr r, w)),
      db_upsert_account = (\<lambda>r w.
        if lr_ID r = ''id-'' @ lr_CustomerID r \<and> dw_rows w (lr_CustomerID r) \<noteq> None
        then (None, w\<lparr>dw_rows := (dw_rows w)(lr_CustomerID r \<mapsto> (lr_Balance r, lr_Tier r, lr_UpdatedAt r))\<rparr>)
        else (Some (ErrorString ''refused''), w)),
      db_count_keys = (\<lambda>k w. ((if dw_keys w k then 1 else 0, None), w)),
      db_create_key = (\<lambda>r w. if dw_keys w (ik_CausationEventID r) then (Some (ErrorString ''duplicate key''), w)
        else (None, w\<lparr>dw_keys := (dw_keys w)(ik_CausationEventID r := True)\<rparr>))\<rparr>"

definition demo_publish :: "demo_world publish" where
  "demo_publish es w =
     (if 0 < dw_fail w then (Some (ErrorString ''bus down''), w\<lparr>dw_fail := dw_fail w - 1\<rparr>)
      else (None, w\<lparr>dw_sent := dw_sent w @ map ev_EventName es\<rparr>))"

definition demo_inputs :: "demo_world \<Rightarrow> credit_inputs" where
  "demo_inputs w = \<lparr>ci_account_ulid = ''new'', ci_created = 0, ci_updated = 0, ci_unix = 7, ci_now = 7,
     ci_event_ulid = (\<lambda>i. ''ev'')\<rparr>"

definition demo_start :: "nat \<Rightarrow> demo_world" where
  "demo_start n = \<lparr>dw_rows = [''c'' \<mapsto> (450, ''BRONZE'', 0)], dw_keys = (\<lambda>k. False), dw_fail = n, dw_sent = []\<rparr>"

definition demo_cmd :: CreditLoyaltyRequest where
  "demo_cmd = \<lparr>cr_CustomerID = ''c'', cr_OrderID = ''o'', cr_Points = 100, cr_CorrelationID = ''x'', cr_CausationEventID = ''e1''\<rparr>"

abbreviation demo_credit :: "CreditLoyaltyRequest \<Rightarrow> demo_world \<Rightarrow> CreditLoyaltyResponse result \<times> demo_world" where
  "demo_credit \<equiv> CreditLoyalty_Handle demo_inputs
     (gorm_credit_handler (\<lambda>w. ''u'') (\<lambda>w. 0) demo_db demo_publish)"

lemma demo_upserted:
  assumes "lr_ID r = ''id-'' @ lr_CustomerID r" "dw_rows w (lr_CustomerID r) \<noteq> None"
  shows "upserted r (demo_acct w)
    (demo_acct (w\<lparr>dw_rows := (dw_rows w)(lr_CustomerID r \<mapsto> (lr_Balance r, lr_Tier r, lr_UpdatedAt r))\<rparr>))"
proof -
  have ex: "\<exists>c x. demo_acct w c = Some x \<and> lr_ID x = lr_ID r"
    using assms by (auto simp: demo_acct_def intro: exI [of _ "lr_CustomerID r"])
  have "demo_acct (w\<lparr>dw_rows := (dw_rows w)(lr_CustomerID r \<mapsto> (lr_Balance r, lr_Tier r, lr_UpdatedAt r))\<rparr>) c
      = map_option (\<lambda>x. if lr_ID x = lr_ID r then x\<lparr>lr_Balance := lr_Balance r, lr_Tier := lr_Tier r,
          lr_UpdatedAt := lr_UpdatedAt r\<rparr> else x) (demo_acct w c)" for c
    using assms by (cases "dw_rows w c") (auto simp: demo_acct_def)
  with ex show ?thesis by (simp add: upserted_def fun_eq_iff)
qed

lemma demo_ok: "gorm_ok demo_db demo_acct dw_keys"
proof -
  have same: "demo_acct (w\<lparr>dw_keys := k\<rparr>) = demo_acct w" for w k by (simp add: demo_acct_def fun_eq_iff)
  have "rows_ok demo_acct" by (auto simp: rows_ok_def demo_acct_def)
  moreover have "first_ok demo_db demo_acct dw_keys"
    by (auto simp: first_ok_def demo_db_def split: option.splits)
  moreover have "upsert_ok demo_db demo_acct dw_keys"
    by (auto simp: upsert_ok_def demo_db_def demo_upserted split: if_splits)
  moreover have "keys_ok demo_db demo_acct dw_keys"
    by (auto simp: keys_ok_def demo_db_def same split: if_splits)
  ultimately show ?thesis by (simp add: gorm_ok_def)
qed

lemma demo_quiet: "quiet demo_publish demo_acct dw_keys"
  by (auto simp: quiet_def demo_publish_def demo_acct_def fun_eq_iff)

lemma demo_fresh: "fresh_ulid demo_inputs demo_acct"
  by (auto simp: fresh_ulid_def demo_inputs_def demo_acct_def)

abbreviation demo_handler :: "demo_world CreditLoyaltyHandler" where
  "demo_handler \<equiv> gorm_credit_handler (\<lambda>w. ''u'') (\<lambda>w. 0) demo_db demo_publish"

definition demo_agg :: "int \<Rightarrow> LoyaltyAggregate" where
  "demo_agg b =
     \<lparr>ag_account = \<lparr>la_ID = ''id-c'', la_CustomerID = ''c'', la_Balance = \<lparr>pt_value = b\<rparr>, la_Tier = ''SILVER'',
        la_CreatedAt = 0, la_UpdatedAt = 7\<rparr>,
      ag_domainEvents = [CreditedEvent \<lparr>lc_LoyaltyAccountID = ''id-c'', lc_CustomerID = ''c'', lc_OrderID = ''o'',
        lc_PointsEarned = 100, lc_NewBalance = b, lc_NewTier = ''SILVER'', lc_occurredAt = 7\<rparr>]\<rparr>"

lemma prepare_any_publisher:
  "credit_prepare inputs (gorm_credit_handler u n db p) = credit_prepare inputs (gorm_credit_handler u n db p')"
  unfolding fun_eq_iff credit_prepare_def gorm_credit_handler_def NewCreditLoyaltyHandler_def CreditLoyaltyHandler.select_convs
  by blast

lemma demo_prepare:
  assumes "dw_keys w = (\<lambda>k. False)" "dw_rows w ''c'' = Some (b, t, u)" "400 \<le> b" "b < 1900"
  shows "credit_prepare demo_inputs demo_handler demo_cmd w = (Inr (demo_agg (b + 100), demo_inputs w), w)"
  using assms
  by (simp add: credit_prepare_def idem_Exists_def write_FindByCustomerID_def CreditPoints_def NewPoints_def
      Points_IsZero_def Points_Add_def demo_db_def demo_acct_def demo_cmd_def demo_inputs_def Let_def
      wrap64_id int64_def Reconstitute_def NewLoyaltyCreditedEvent_def CalculateTier_tier_for tier_for_def
      TierSilver_def demo_agg_def)

lemma demo_commit_fail:
  assumes "dw_rows w ''c'' \<noteq> None" "0 < dw_fail w"
  shows "credit_commit demo_handler demo_cmd (demo_agg b) ci w =
     (Inl (ErrorString ''bus down''), w\<lparr>dw_rows := (dw_rows w)(''c'' \<mapsto> (b, ''SILVER'', 7)), dw_fail := dw_fail w - 1\<rparr>)"
  using assms
  by (simp add: credit_commit_def write_Save_def demo_agg_def demo_db_def demo_publish_def FlushEvents_def)

lemma demo_commit_ok:
  assumes "dw_rows w ''c'' \<noteq> None" "dw_fail w = 0" "dw_keys w = (\<lambda>k. False)"
  shows "credit_commit demo_handler demo_cmd (demo_agg b) ci w =
     (Inr \<lparr>cp_LoyaltyAccountID = ''id-c'', cp_NewBalance = b, cp_NewTier = ''SILVER''\<rparr>,
      w\<lparr>dw_rows := (dw_rows w)(''c'' \<mapsto> (b, ''SILVER'', 7)), dw_sent := dw_sent w @ [LoyaltyCredited],
        dw_keys := (\<lambda>k. k = ''e1'')\<rparr>)"
  using assms
  by (simp add: credit_commit_def write_Save_def demo_agg_def demo_db_def demo_publish_def FlushEvents_def
      demo_cmd_def idem_Mark_def Balance_def credited_envelopes_def fun_upd_def)

lemmas demo_run = CreditLoyalty_Handle_def demo_prepare demo_commit_fail demo_commit_ok demo_start_def

lemma Handle_duplicate:
  assumes "gorm_ok db acct marked" and "cr_CausationEventID cmd \<noteq> []" and "marked w (cr_CausationEventID cmd)"
  shows "\<exists>e w'. CreditLoyalty_Handle inputs (gorm_credit_handler uuid now db publish) cmd w = (Inl e, w')
           \<and> acct w' = acct w \<and> marked w' = marked w \<and> w' = snd (idem_Exists db (cr_CausationEventID cmd) w)
           \<and> (snd (fst (idem_Exists db (cr_CausationEventID cmd) w)) = None \<longrightarrow> e = ErrDuplicateEvent)"
proof -
  obtain b err w1 where ex: "idem_Exists db (cr_CausationEventID cmd) w = ((b, err), w1)" by (metis prod.exhaust)
  from idem_Exists_spec [OF assms(1) ex] assms(2,3) ex show ?thesis
    by (cases err) (auto simp: CreditLoyalty_Handle_def credit_prepare_def)
qed

section \<open>Properties\<close>

text \<open>
  C1. A successful credit changes exactly what it should: the customer's account gains the points
  (at the width of \<^verbatim>\<open>int\<close>) and the tier of its new balance, no other account changes, the
  event that caused it was not processed before and is marked now, and the response tells the
  stored balance and tier.
\<close>

theorem credit_success:
  assumes "gorm_ok db acct marked" and "quiet publish acct marked" and "fresh_ulid inputs acct"
    and "CreditLoyalty_Handle inputs (gorm_credit_handler uuid now db publish) cmd w = (Inr resp, w')"
  shows "credited cmd (acct w) (acct w') \<and> 0 < cr_Points cmd
       \<and> (cr_CausationEventID cmd \<noteq> [] \<longrightarrow>
            \<not> marked w (cr_CausationEventID cmd) \<and> marked w' = (marked w)(cr_CausationEventID cmd := True))
       \<and> cp_NewBalance resp = stored_balance (acct w' (cr_CustomerID cmd))
       \<and> cp_NewTier resp = tier_for (cp_NewBalance resp)"
  using Handle_spec [OF assms] by (auto simp: credited_def stored_balance_def)

theorem credit_success_witness:
  "credited demo_cmd (demo_acct (demo_start 0)) (demo_acct (snd (demo_credit demo_cmd (demo_start 0))))"
proof -
  obtain resp w' where "demo_credit demo_cmd (demo_start 0) = (Inr resp, w')"
    by (simp add: demo_run)
  with credit_success [OF demo_ok demo_quiet demo_fresh this] show ?thesis by simp
qed

text \<open>
  C2. Idempotency: once an event is marked, crediting it again fails, changes neither table and
  publishes nothing (the world is the one the key lookup left); unless the lookup itself fails,
  the error is the one that says the event was processed.
\<close>

theorem credit_duplicate_rejected:
  assumes "gorm_ok db acct marked" and "cr_CausationEventID cmd \<noteq> []" and "marked w (cr_CausationEventID cmd)"
  shows "\<exists>e w'. CreditLoyalty_Handle inputs (gorm_credit_handler uuid now db publish) cmd w = (Inl e, w')
           \<and> acct w' = acct w \<and> marked w' = marked w \<and> w' = snd (idem_Exists db (cr_CausationEventID cmd) w)
           \<and> (snd (fst (idem_Exists db (cr_CausationEventID cmd) w)) = None \<longrightarrow> e = ErrDuplicateEvent)"
  using assms by (rule Handle_duplicate)

theorem credit_duplicate_rejected_witness:
  "fst (demo_credit demo_cmd ((demo_start 0)\<lparr>dw_keys := (\<lambda>k. k = ''e1'')\<rparr>)) = Inl ErrDuplicateEvent"
  using credit_duplicate_rejected [OF demo_ok, of demo_cmd "(demo_start 0)\<lparr>dw_keys := (\<lambda>k. k = ''e1'')\<rparr>"
      demo_inputs "\<lambda>w. ''u''" "\<lambda>w. 0" demo_publish]
  by (auto simp: demo_cmd_def idem_Exists_def demo_db_def)

text \<open>
  C26. A failed credit never marks its event. It leaves the accounts alone, or it has already
  credited the account: the six steps do not run in one transaction.
\<close>

theorem credit_failure:
  assumes "gorm_ok db acct marked" and "quiet publish acct marked" and "fresh_ulid inputs acct"
    and "CreditLoyalty_Handle inputs (gorm_credit_handler uuid now db publish) cmd w = (Inl e, w')"
  shows "marked w' = marked w \<and> (acct w' = acct w \<or> credited cmd (acct w) (acct w'))"
  using Handle_spec [OF assms] by auto

theorem credit_failure_witness:
  "dw_keys (snd (demo_credit demo_cmd (demo_start 1))) = dw_keys (demo_start 1)
   \<and> credited demo_cmd (demo_acct (demo_start 1)) (demo_acct (snd (demo_credit demo_cmd (demo_start 1))))"
proof -
  obtain e w' where run: "demo_credit demo_cmd (demo_start 1) = (Inl e, w')" "dw_rows w' ''c'' = Some (550, ''SILVER'', 7)"
    by (simp add: demo_run)
  then have "demo_acct w' ''c'' \<noteq> demo_acct (demo_start 1) ''c''" by (simp add: demo_acct_def demo_start_def)
  with credit_failure [OF demo_ok demo_quiet demo_fresh run(1)] run show ?thesis by auto
qed

text \<open>
  What that means for a retry: when a credit fails after the account was saved, and the same
  command is handled again on the same tables and succeeds, the customer has the points twice.
\<close>

theorem credit_retry_twice:
  assumes "gorm_ok db acct marked" and "quiet publish acct marked" and "fresh_ulid inputs acct"
    and "CreditLoyalty_Handle inputs (gorm_credit_handler uuid now db publish) cmd w = (Inl e, w1)"
    and "acct w1 \<noteq> acct w" and "acct w2 = acct w1"
    and "CreditLoyalty_Handle inputs (gorm_credit_handler uuid now db publish) cmd w2 = (Inr resp, w3)"
  shows "stored_balance (acct w3 (cr_CustomerID cmd)) =
           wrap64 (wrap64 (stored_balance (acct w (cr_CustomerID cmd)) + cr_Points cmd) + cr_Points cmd)"
  using Handle_spec [OF assms(1-4)] Handle_spec [OF assms(1-3,7)] assms(5,6)
  by (auto simp: credited_def stored_balance_def)

theorem credit_retry_twice_witness:
  "stored_balance (demo_acct (snd (demo_credit demo_cmd (snd (demo_credit demo_cmd (demo_start 1))))) ''c'')
     = 450 + 2 * 100"
proof -
  define w1 where "w1 = snd (demo_credit demo_cmd (demo_start 1))"
  have run: "demo_credit demo_cmd (demo_start 1) = (Inl (ErrorString ''bus down''), w1)"
    and w1: "dw_rows w1 ''c'' = Some (550, ''SILVER'', 7)" "dw_fail w1 = 0" "dw_keys w1 = (\<lambda>k. False)"
    by (simp_all add: w1_def demo_run)
  obtain resp w3 where again: "demo_credit demo_cmd w1 = (Inr resp, w3)"
    using w1 by (simp add: demo_run)
  have "demo_acct w1 ''c'' \<noteq> demo_acct (demo_start 1) ''c''" using w1 by (simp add: demo_acct_def demo_start_def)
  then have "demo_acct w1 \<noteq> demo_acct (demo_start 1)" by metis
  from credit_retry_twice [OF demo_ok demo_quiet demo_fresh run this refl again] run again show ?thesis
    by (simp add: demo_cmd_def stored_balance_def demo_acct_def demo_start_def wrap64_id int64_def)
qed

text \<open>
  C35. The 10 per cent rule: whatever the amount, and whatever the platform makes of a value out
  of range, at least one point is credited; for a whole amount below \<open>2 ^ 50\<close> the floating-point
  computation gives exactly a tenth of it, rounded down.
\<close>

theorem order_points_rule:
  "1 \<le> order_points oor amount
   \<and> (\<forall>a. 0 \<le> a \<and> a < 2 ^ 50 \<longrightarrow> order_points oor (Fin (of_int a)) = max 1 (a div 10))"
proof (intro conjI allI impI)
  show "1 \<le> order_points oor amount" by (simp add: order_points_def Let_def)
  fix a :: int
  assume a: "0 \<le> a \<and> a < 2 ^ 50"
  then obtain v where v: "fmul (Fin (of_int a)) (Fin tenth) = Fin v" "trunc v = a div 10"
    using trunc_tenth [of a] by metis
  have "int64 (a div 10)" using a by (auto simp: int64_def)
  with v show "order_points oor (Fin (of_int a)) = max 1 (a div 10)"
    by (simp add: order_points_def fround_tenth int_of_float_def Let_def max_def)
qed

theorem order_points_rule_witness:
  "order_points (\<lambda>f. 0) (Fin 1234) = 123"
  using order_points_rule [of "\<lambda>f. 0" "Fin 1234"] by (auto dest: spec [of _ 1234])

text \<open>
  Reading your own write: after a successful credit, asking for the balance of the customer
  on the resulting tables, with the cache the program installs, gives the balance and the tier of
  the response, or the error of the query itself; it never says that there is no account.
\<close>

theorem balance_after_credit:
  assumes "gorm_ok db acct marked" and "quiet publish acct marked" and "fresh_ulid inputs acct"
    and "CreditLoyalty_Handle inputs (gorm_credit_handler uuid now db publish) cmd w = (Inr resp, w')"
    and "db_first_by_customer db (cr_CustomerID cmd) w' = (res, w'')"
  shows "case res of
           Inr row \<Rightarrow> fst (balance_handler_func db \<lparr>gb_CustomerID = cr_CustomerID cmd\<rparr> w') =
             Inr (AnyBalance \<lparr>gr_LoyaltyAccountID = lr_ID row, gr_CustomerID = cr_CustomerID cmd,
                    gr_Balance = cp_NewBalance resp, gr_Tier = cp_NewTier resp\<rparr>)
         | Inl e \<Rightarrow> fst (balance_handler_func db \<lparr>gb_CustomerID = cr_CustomerID cmd\<rparr> w') = Inl e"
proof -
  have "\<exists>r. acct w' (cr_CustomerID cmd) = Some r \<and> lr_Balance r = cp_NewBalance resp \<and> lr_Tier r = cp_NewTier resp
      \<and> lr_CustomerID r = cr_CustomerID cmd"
    using Handle_spec [OF assms(1-4)] by (auto simp: credited_def)
  with gorm_first [OF assms(1,5)] assms(5) show ?thesis
    by (cases res) (auto simp: balance_handler_func_def GetLoyaltyBalance_Handle_def NewGetLoyaltyBalanceHandler_def
        NewLoyaltyReadGormRepository_def NewNoopLoyaltyCacheRepository_def noop_GetBalance_def noop_SetBalance_def
        read_GetBalanceByCustomerID_def)
qed

theorem balance_after_credit_witness:
  "fst (balance_handler_func demo_db \<lparr>gb_CustomerID = cr_CustomerID demo_cmd\<rparr> (snd (demo_credit demo_cmd (demo_start 0)))) =
     Inr (AnyBalance \<lparr>gr_LoyaltyAccountID = ''id-c'', gr_CustomerID = ''c'', gr_Balance = 550, gr_Tier = ''SILVER''\<rparr>)"
proof -
  define w' where "w' = snd (demo_credit demo_cmd (demo_start 0))"
  have run: "demo_credit demo_cmd (demo_start 0) =
      (Inr \<lparr>cp_LoyaltyAccountID = ''id-c'', cp_NewBalance = 550, cp_NewTier = ''SILVER''\<rparr>, w')"
    and w': "dw_rows w' ''c'' = Some (550, ''SILVER'', 7)"
    by (simp_all add: w'_def demo_run)
  have first: "db_first_by_customer demo_db (cr_CustomerID demo_cmd) w' =
      (Inr \<lparr>lr_ID = ''id-c'', lr_CustomerID = ''c'', lr_Balance = 550, lr_Tier = ''SILVER'', lr_CreatedAt = 0,
        lr_UpdatedAt = 7\<rparr>, w')"
    using w' by (simp add: demo_db_def demo_acct_def demo_cmd_def)
  from balance_after_credit [OF demo_ok demo_quiet demo_fresh run first] show ?thesis
    by (simp add: w'_def demo_cmd_def)
qed

text \<open>
  Redelivery of an order that was credited before: the wired event handler acknowledges the
  event, leaves the tables alone, and publishes the compensating failure event for an order whose
  points were in fact credited.
\<close>

theorem redelivery_compensates:
  assumes "gorm_ok db acct marked" and "ev_EventID env \<noteq> []" and "marked w (ev_EventID env)"
    and "ev_Payload env = Some (OrderCompletedEvent payload)"
    and "idem_Exists db (ev_EventID env) w = ((True, None), w1)"
    and "registerLoyalty x db (newCommandBus, newQueryBus, evt) = (cmdBus, qryBus, evtBus)"
  shows "OnOrderCompleted_Handle (lx_oor x) (lx_ulid x) (lx_now x)
           (NewOnOrderCompletedHandler (commandBus_Dispatch CommandName cmdBus) (bus_publish x evt)) env w =
         (None, snd (bus_publish x evt
            [\<lparr>ev_EventID = lx_ulid x w1, ev_CorrelationID = ev_CorrelationID env, ev_CausationID = ev_EventID env,
              ev_EventName = LoyaltyCreditFailed, ev_OccurredAt = zero_time, ev_OtelCarrier = None,
              ev_Payload = Some (CreditFailedEvent (NewLoyaltyCreditFailedEvent (lx_now x w1) (oc_CustomerID payload)
                (oc_OrderID payload) ''event already processed (idempotency)''))\<rparr>] w1))
       \<and> acct w1 = acct w \<and> marked w1 = marked w"
proof -
  define cmd where "cmd = \<lparr>cr_CustomerID = oc_CustomerID payload, cr_OrderID = oc_OrderID payload,
      cr_Points = order_points (lx_oor x) (oc_TotalAmount payload), cr_CorrelationID = ev_CorrelationID env,
      cr_CausationEventID = ev_EventID env\<rparr>"
  have "commandBus_Dispatch CommandName cmdBus cmd w = credit_handler_func x db (bus_publish x evt) cmd w"
    using assms(6) by (auto simp: registerLoyalty_def Let_def cb.dispatch_register CommandName_def)
  also have "\<dots> = (Inl ErrDuplicateEvent, w1)"
    using assms(2,5) by (simp add: cmd_def credit_handler_func_def CreditLoyalty_Handle_def credit_prepare_def
        NewCreditLoyaltyHandler_def NewIdempotencyGormRepository_def)
  finally show ?thesis
    using assms(4) idem_Exists_spec [OF assms(1,5)]
    by (simp add: OnOrderCompleted_Handle_def NewOnOrderCompletedHandler_def cmd_def ErrDuplicateEvent_def)
qed

definition demo_ctx :: "demo_world loyalty_ctx" where
  "demo_ctx = \<lparr>lx_inputs = demo_inputs, lx_uuid = (\<lambda>w. ''u''), lx_now = (\<lambda>w. 0), lx_ulid = (\<lambda>w. ''f''),
     lx_oor = (\<lambda>f. 0), lx_carrier = (\<lambda>w. mempty), lx_msg_uuid = (\<lambda>w i. ''m''),
     lx_chan_publish = (\<lambda>u t m w. (None, w\<lparr>dw_sent := dw_sent w @ [t]\<rparr>))\<rparr>"

definition demo_evt :: "demo_world event_bus" where
  "demo_evt = newEventBus (\<lambda>t m w. (None, w\<lparr>dw_sent := dw_sent w @ [t]\<rparr>)) ()"

definition demo_order :: "DomainEvent EventEnvelope" where
  "demo_order = zero_envelope\<lparr>ev_EventID := ''e1'', ev_EventName := OrderCompleted,
     ev_Payload := Some (OrderCompletedEvent \<lparr>oc_OrderID = ''o'', oc_CustomerID = ''c'', oc_TotalAmount = Fin 1000\<rparr>)\<rparr>"

lemma demo_evt_publish:
  "ev_OccurredAt e = zero_time \<Longrightarrow> ev_Payload e = Some (CreditFailedEvent f) \<Longrightarrow>
   bus_publish demo_ctx demo_evt [e] w = (None, w\<lparr>dw_sent := dw_sent w @ [ev_EventName e]\<rparr>)"
proof -
  have "json_time zero_time = Inr (JTime zero_time)" by code_simp
  then show "ev_OccurredAt e = zero_time \<Longrightarrow> ev_Payload e = Some (CreditFailedEvent f) \<Longrightarrow> ?thesis"
    by (simp add: bus_publish_def demo_ctx_def demo_evt_def newEventBus_def json_envelope_def Let_def)
qed

theorem redelivery_compensates_witness:
  "dw_sent (snd (OnOrderCompleted_Handle (lx_oor demo_ctx) (lx_ulid demo_ctx) (lx_now demo_ctx)
      (NewOnOrderCompletedHandler (commandBus_Dispatch CommandName
         (fst (registerLoyalty demo_ctx demo_db (newCommandBus, newQueryBus, demo_evt))))
         (bus_publish demo_ctx demo_evt))
      demo_order ((demo_start 0)\<lparr>dw_keys := (\<lambda>k. k = ''e1'')\<rparr>))) = [LoyaltyCreditFailed]"
proof -
  let ?w = "(demo_start 0)\<lparr>dw_keys := (\<lambda>k. k = ''e1'')\<rparr>"
  obtain cb qb eb where reg: "registerLoyalty demo_ctx demo_db (newCommandBus, newQueryBus, demo_evt) = (cb, qb, eb)"
    by (metis prod.exhaust)
  have ex: "idem_Exists demo_db (ev_EventID demo_order) ?w = ((True, None), ?w)"
    by (simp add: idem_Exists_def demo_db_def demo_order_def)
  have "dw_keys ?w (ev_EventID demo_order)" "ev_EventID demo_order \<noteq> []"
    "ev_Payload demo_order = Some (OrderCompletedEvent \<lparr>oc_OrderID = ''o'', oc_CustomerID = ''c'', oc_TotalAmount = Fin 1000\<rparr>)"
    by (simp_all add: demo_order_def)
  from redelivery_compensates [OF demo_ok this(2,1,3) ex reg] reg show ?thesis
    by (simp add: demo_evt_publish demo_start_def)
qed

text \<open>
  The two ways to wire the domain agree. Read as a watermill bus, the FX event bus that the
  registrar leaves has the same subscriptions as the one of \<^verbatim>\<open>registerLoyalty\<close>, and
  commands and queries get the same answers from both pairs of buses.
\<close>

lemma wirings_agree:
  assumes "registerLoyalty x db (newCommandBus, newQueryBus, abs_bus (lx_chan_publish x) evt) = (cmd, qry, evt1)"
    and "Registrar_Register x db (fx_newCommandBus, fx_newQueryBus, evt) = (fcmd, fqry, evt2)"
  shows "commandBus_Dispatch CommandName cmd = fx_commandBus_Dispatch CommandName fcmd
       \<and> queryBus_Ask QueryName qry = fx_queryBus_Ask QueryName fqry
       \<and> evt1 = abs_bus (lx_chan_publish x) evt2"
proof -
  have pub: "bus_publish x (abs_bus (lx_chan_publish x) evt) = fx_bus_publish x evt"
    by (simp add: fun_eq_iff bus_publish_def fx_bus_publish_def publish_abs_bus)
  from assms have "cmd = commandBus_Register ''loyalty.credit_loyalty'' (credit_handler_func x db (fx_bus_publish x evt)) newCommandBus"
    "fcmd = fx_commandBus_RegisterHandler ''loyalty.credit_loyalty'' (credit_handler_func x db (fx_bus_publish x evt)) fx_newCommandBus"
    by (auto simp: registerLoyalty_def Registrar_Register_def Let_def pub)
  then have disp: "commandBus_Dispatch CommandName cmd = fx_commandBus_Dispatch CommandName fcmd"
    by (simp add: fun_eq_iff cb.dispatch_register fcb.dispatch_register cb.dispatch_start fcb.dispatch_start)
  moreover have "queryBus_Ask QueryName qry = fx_queryBus_Ask QueryName fqry"
    using assms by (auto simp: registerLoyalty_def Registrar_Register_def Let_def fun_eq_iff qb.dispatch_register
        fqb.dispatch_register qb.dispatch_start fqb.dispatch_start)
  moreover have "evt1 = abs_bus (lx_chan_publish x) evt2"
    using assms disp by (auto simp: registerLoyalty_def Registrar_Register_def Let_def pub subscribe_abs_bus)
  ultimately show ?thesis by blast
qed

end
