(* ===== verification/Loyalty_Ledger.thy ===== *)
theory Loyalty_Ledger
  imports Loyalty_Handlers
begin

text \<open>
  What the credit command promises, apart from its repositories: a ledger with a balance per customer and the set of events it has
  seen. The handler on the GORM repositories refines the ledger, also over sequences of commands with
  redeliveries, as a message transport delivers them.
\<close>

section \<open>The ledger\<close>

record ledger =
  ld_balance :: "string \<Rightarrow> int"
  ld_seen :: "string \<Rightarrow> bool"

definition book :: "CreditLoyaltyRequest \<Rightarrow> ledger \<Rightarrow> ledger" where
  "book cmd l = l\<lparr>ld_balance :=
     (ld_balance l)(cr_CustomerID cmd := wrap64 (ld_balance l (cr_CustomerID cmd) + cr_Points cmd))\<rparr>"

definition note_event :: "CreditLoyaltyRequest \<Rightarrow> ledger \<Rightarrow> ledger" where
  "note_event cmd l =
     (if cr_CausationEventID cmd = [] then l else l\<lparr>ld_seen := (ld_seen l)(cr_CausationEventID cmd := True)\<rparr>)"

definition bookable :: "CreditLoyaltyRequest \<Rightarrow> ledger \<Rightarrow> bool" where
  "bookable cmd l \<longleftrightarrow> 0 < cr_Points cmd \<and> (cr_CausationEventID cmd = [] \<or> \<not> ld_seen l (cr_CausationEventID cmd))"

text \<open>
  A command is booked and answered with the new balance, or refused without a change. The third step is the gap in the
  code: the command is booked and answered with an error, and its event is not noted.
\<close>

inductive ledger_step :: "CreditLoyaltyRequest \<Rightarrow> int option \<Rightarrow> ledger \<Rightarrow> ledger \<Rightarrow> bool" where
  booked: "bookable cmd l \<Longrightarrow>
     ledger_step cmd (Some (ld_balance (book cmd l) (cr_CustomerID cmd))) l (note_event cmd (book cmd l))"
| refused: "ledger_step cmd None l l"
| unnoted: "bookable cmd l \<Longrightarrow> ledger_step cmd None l (book cmd l)"

inductive_simps ledger_step_Some: "ledger_step cmd (Some b) l l'"
inductive_simps ledger_step_None: "ledger_step cmd None l l'"

inductive ledger_run :: "(CreditLoyaltyRequest \<times> int option) list \<Rightarrow> ledger \<Rightarrow> ledger \<Rightarrow> bool" where
  run_end: "ledger_run [] l l"
| run_step: "ledger_step cmd r l l1 \<Longrightarrow> ledger_run xs l1 l2 \<Longrightarrow> ledger_run ((cmd, r) # xs) l l2"

text \<open>The ledger without the gap: a command is booked, noted and answered, or refused and nothing is changed.\<close>

inductive ideal_run :: "(CreditLoyaltyRequest \<times> int option) list \<Rightarrow> ledger \<Rightarrow> ledger \<Rightarrow> bool" where
  ideal_end: "ideal_run [] l l"
| ideal_booked: "bookable cmd l \<Longrightarrow> ideal_run xs (note_event cmd (book cmd l)) l' \<Longrightarrow>
     ideal_run ((cmd, Some (ld_balance (book cmd l) (cr_CustomerID cmd))) # xs) l l'"
| ideal_refused: "ideal_run xs l l' \<Longrightarrow> ideal_run ((cmd, None) # xs) l l'"

section \<open>Sequences of commands\<close>

text \<open>The ledger that the two tables hold, the answer to a command, and one command after the other.\<close>

definition ledger_of :: "(string \<Rightarrow> LoyaltyAccountRow option) \<Rightarrow> (string \<Rightarrow> bool) \<Rightarrow> ledger" where
  "ledger_of rows keys = \<lparr>ld_balance = (\<lambda>c. stored_balance (rows c)), ld_seen = keys\<rparr>"

definition reply :: "CreditLoyaltyResponse result \<Rightarrow> int option" where
  "reply r = (case r of Inl e \<Rightarrow> None | Inr resp \<Rightarrow> Some (cp_NewBalance resp))"

fun run_credits ::
  "('w \<Rightarrow> credit_inputs) \<Rightarrow> 'w CreditLoyaltyHandler \<Rightarrow> CreditLoyaltyRequest list \<Rightarrow> 'w \<Rightarrow> CreditLoyaltyResponse result list \<times> 'w" where
  "run_credits inputs h [] w = ([], w)"
| "run_credits inputs h (cmd # cmds) w =
     (case CreditLoyalty_Handle inputs h cmd w of
        (r, w1) \<Rightarrow> (case run_credits inputs h cmds w1 of (rs, w2) \<Rightarrow> (r # rs, w2)))"

text \<open>The commands that were answered with a balance, the sum of the points for one customer, the events of commands.\<close>

definition replied :: "(CreditLoyaltyRequest \<times> int option) list \<Rightarrow> CreditLoyaltyRequest list" where
  "replied xs = map fst (filter (\<lambda>(cmd, r). r \<noteq> None) xs)"

definition points_of :: "string \<Rightarrow> CreditLoyaltyRequest list \<Rightarrow> int" where
  "points_of c cmds = sum_list (map cr_Points (filter (\<lambda>cmd. cr_CustomerID cmd = c) cmds))"

definition event_ids :: "CreditLoyaltyRequest list \<Rightarrow> string list" where
  "event_ids cmds = filter (\<lambda>k. k \<noteq> []) (map cr_CausationEventID cmds)"

text \<open>A transport and a table of keys that do not fail.\<close>

definition dependable :: "'w gorm_db \<Rightarrow> 'w publish \<Rightarrow> ('w \<Rightarrow> string \<Rightarrow> bool) \<Rightarrow> bool" where
  "dependable db p marked \<longleftrightarrow>
     (\<forall>es w. fst (p es w) = None)
   \<and> (\<forall>key w. \<not> marked w (ik_CausationEventID key) \<longrightarrow> fst (db_create_key db key w) = None)"

section \<open>Lemmas\<close>

lemma credited_book:
  "credited cmd rows rows' \<Longrightarrow> ledger_of rows' keys = book cmd (ledger_of rows keys)"
  by (auto simp: credited_def ledger_of_def book_def stored_balance_def fun_eq_iff)

lemma ledger_of_note:
  "ledger_of rows (if cr_CausationEventID cmd = [] then keys else keys(cr_CausationEventID cmd := True))
     = note_event cmd (ledger_of rows keys)"
  by (simp add: ledger_of_def note_event_def)

text \<open>One command on the tables is one step of the ledger.\<close>

lemma Handle_ledger_step:
  assumes "gorm_ok db acct marked" "quiet p acct marked" "fresh_ulid inputs acct"
    and run: "CreditLoyalty_Handle inputs (gorm_credit_handler u n db p) cmd w = (res, w')"
  shows "ledger_step cmd (reply res) (ledger_of (acct w) (marked w)) (ledger_of (acct w') (marked w'))"
proof -
  let ?l = "ledger_of (acct w) (marked w)"
  note spec = Handle_spec [OF assms]
  show ?thesis
  proof (cases res)
    case (Inl e)
    from spec Inl have "marked w' = marked w" "acct w' = acct w \<or> credited cmd (acct w) (acct w') \<and> bookable cmd ?l"
      by (auto simp: bookable_def ledger_of_def)
    then show ?thesis
      using credited_book [of cmd "acct w" "acct w'" "marked w"] Inl
      by (auto simp: reply_def intro: refused unnoted)
  next
    case (Inr resp)
    with spec have c: "credited cmd (acct w) (acct w')" and ok: "bookable cmd ?l"
      and m: "marked w' = (if cr_CausationEventID cmd = [] then marked w else (marked w)(cr_CausationEventID cmd := True))"
      and b: "cp_NewBalance resp = wrap64 (stored_balance (acct w (cr_CustomerID cmd)) + cr_Points cmd)"
      by (auto simp: bookable_def ledger_of_def)
    have "reply res = Some (ld_balance (book cmd ?l) (cr_CustomerID cmd))"
      using Inr b by (simp add: reply_def book_def ledger_of_def)
    moreover have "ledger_of (acct w') (marked w') = note_event cmd (book cmd ?l)"
      unfolding m ledger_of_note by (simp add: credited_book [OF c])
    ultimately show ?thesis using booked [OF ok] by simp
  qed
qed

lemma run_credits_Cons:
  assumes "run_credits inputs h (cmd # cmds) w = (rs, w2)"
  obtains r w1 rs' where "CreditLoyalty_Handle inputs h cmd w = (r, w1)" "run_credits inputs h cmds w1 = (rs', w2)" "rs = r # rs'"
  using assms by (auto split: prod.splits)

lemma run_credits_ledger:
  assumes "gorm_ok db acct marked" "quiet p acct marked" "fresh_ulid inputs acct"
    and "run_credits inputs (gorm_credit_handler u n db p) cmds w = (rs, w')"
  shows "ledger_run (zip cmds (map reply rs)) (ledger_of (acct w) (marked w)) (ledger_of (acct w') (marked w'))"
  using assms(4)
proof (induction cmds arbitrary: w rs)
  case Nil
  then show ?case by (simp add: run_end)
next
  case (Cons cmd cmds)
  then obtain r w1 rs' where h: "CreditLoyalty_Handle inputs (gorm_credit_handler u n db p) cmd w = (r, w1)"
    and t: "run_credits inputs (gorm_credit_handler u n db p) cmds w1 = (rs', w')" "rs = r # rs'"
    by (elim run_credits_Cons) blast
  show ?case
    unfolding t(2) list.map zip_Cons_Cons
    using Handle_ledger_step [OF assms(1-3) h] Cons.IH [OF t(1)] by (rule run_step)
qed

subsection \<open>What the ledger guarantees\<close>

lemma replied_simps [simp]:
  "replied [] = []"
  "replied ((cmd, None) # xs) = replied xs"
  "replied ((cmd, Some b) # xs) = cmd # replied xs"
  by (simp_all add: replied_def)

lemma event_ids_simps [simp]:
  "event_ids [] = []"
  "event_ids (cmd # cmds) = (if cr_CausationEventID cmd = [] then event_ids cmds else cr_CausationEventID cmd # event_ids cmds)"
  by (simp_all add: event_ids_def)

lemma seen_simps [simp]:
  "ld_seen (book cmd l) = ld_seen l"
  "ld_seen (note_event cmd l) = (\<lambda>k. ld_seen l k \<or> k \<noteq> [] \<and> k = cr_CausationEventID cmd)"
  "ld_balance (note_event cmd l) = ld_balance l"
  by (auto simp: book_def note_event_def fun_eq_iff)

text \<open>No event is answered with a balance twice, and exactly those answered with one are noted.\<close>

lemma ledger_run_ids:
  "ledger_run xs l l' \<Longrightarrow>
     distinct (event_ids (replied xs)) \<and> (\<forall>k \<in> set (event_ids (replied xs)). \<not> ld_seen l k)
   \<and> ld_seen l' = (\<lambda>k. ld_seen l k \<or> k \<in> set (event_ids (replied xs)))"
proof (induction rule: ledger_run.induct)
  case (run_step cmd r l l1 xs l2)
  from run_step.hyps(1) run_step.IH show ?case
    by (cases rule: ledger_step.cases) (auto simp: bookable_def fun_eq_iff)
qed simp

lemma points_of_simps [simp]:
  "points_of c [] = 0"
  "points_of c (cmd # cmds) = (if cr_CustomerID cmd = c then cr_Points cmd else 0) + points_of c cmds"
  by (simp_all add: points_of_def)

lemma ideal_run_balance:
  "ideal_run xs l l' \<Longrightarrow> wrap64 (ld_balance l' c) = wrap64 (ld_balance l c + points_of c (replied xs))"
proof (induction rule: ideal_run.induct)
  case (ideal_booked cmd l xs l')
  have "wrap64 (ld_balance (book cmd l) c + points_of c (replied xs)) =
      wrap64 (ld_balance l c + (if cr_CustomerID cmd = c then cr_Points cmd else 0) + points_of c (replied xs))"
    by (simp add: book_def wrap64_add)
  then show ?case using ideal_booked.IH by (simp add: add.assoc)
qed simp_all

lemma ideal_run_is_run: "ideal_run xs l l' \<Longrightarrow> ledger_run xs l l'"
  by (induction rule: ideal_run.induct) (auto intro: run_end run_step booked refused)

subsection \<open>A dependable transport\<close>

lemma commit_dependable:
  assumes "gorm_ok db acct marked" "quiet p acct marked" "dependable db p marked" "prepared_for cmd (acct w) a"
    and "cr_CausationEventID cmd \<noteq> [] \<Longrightarrow> \<not> marked w (cr_CausationEventID cmd)"
    and run: "credit_commit (gorm_credit_handler u n db p) cmd a ci w = (Inl e, w')"
  shows "acct w' = acct w"
proof -
  obtain e3 w3 where s: "write_Save db a w = (e3, w3)" by (metis prod.exhaust)
  obtain e4 w4 where b: "p (credited_envelopes (ci_event_ulid ci) cmd (ag_domainEvents a)) w3 = (e4, w4)"
    by (metis prod.exhaust)
  note w3 = save_prepared [OF assms(1,4) s] and w4 = quietD [OF assms(2) b]
  have e4: "e4 = None" using assms(3) b unfolding dependable_def by (metis fst_conv)
  have e5: "fst (idem_Mark db (u w4) (n w4) (cr_CausationEventID cmd) w4) = None" if "cr_CausationEventID cmd \<noteq> []"
    using assms(3) assms(5) [OF that] w3 w4 by (simp add: dependable_def idem_Mark_def)
  show ?thesis
  proof (cases e3)
    case (Some err)
    then show ?thesis using run s w3 by (auto simp: credit_commit_def)
  next
    case None
    then show ?thesis
      using run s b e4 e5 by (auto simp: credit_commit_def FlushEvents_def split: prod.splits option.splits if_splits)
  qed
qed

lemma Handle_dependable:
  assumes "gorm_ok db acct marked" "quiet p acct marked" "fresh_ulid inputs acct" "dependable db p marked"
    and run: "CreditLoyalty_Handle inputs (gorm_credit_handler u n db p) cmd w = (Inl e, w')"
  shows "acct w' = acct w \<and> marked w' = marked w"
proof -
  obtain r w1 where p: "credit_prepare inputs (gorm_credit_handler u n db p) cmd w = (r, w1)" by (metis prod.exhaust)
  note w1 = credit_prepare_spec [OF assms(1,3) p]
  have "marked w' = marked w" using Handle_spec [OF assms(1-3) run] by simp
  moreover have "acct w' = acct w"
  proof (cases r)
    case (Inl x)
    then show ?thesis using run p w1 by (simp add: CreditLoyalty_Handle_def)
  next
    case (Inr ac)
    then obtain a ci where ac: "r = Inr (a, ci)" by (cases ac) auto
    from run p ac have c: "credit_commit (gorm_credit_handler u n db p) cmd a ci w1 = (Inl e, w')"
      by (simp add: CreditLoyalty_Handle_def)
    show ?thesis using commit_dependable [OF assms(1,2,4) _ _ c] w1 ac by simp
  qed
  ultimately show ?thesis by blast
qed

lemma run_credits_ideal:
  assumes "gorm_ok db acct marked" "quiet p acct marked" "fresh_ulid inputs acct" "dependable db p marked"
    and "run_credits inputs (gorm_credit_handler u n db p) cmds w = (rs, w')"
  shows "ideal_run (zip cmds (map reply rs)) (ledger_of (acct w) (marked w)) (ledger_of (acct w') (marked w'))"
  using assms(5)
proof (induction cmds arbitrary: w rs)
  case Nil
  then show ?case by (simp add: ideal_end)
next
  case (Cons cmd cmds)
  then obtain r w1 rs' where h: "CreditLoyalty_Handle inputs (gorm_credit_handler u n db p) cmd w = (r, w1)"
    and t: "run_credits inputs (gorm_credit_handler u n db p) cmds w1 = (rs', w')" "rs = r # rs'"
    by (elim run_credits_Cons) blast
  note step = Handle_ledger_step [OF assms(1-3) h]
  show ?case
  proof (cases r)
    case (Inl e)
    then have "acct w1 = acct w \<and> marked w1 = marked w" using Handle_dependable [OF assms(1-4)] h by blast
    then show ?thesis using Cons.IH [OF t(1)] Inl t(2) by (simp add: reply_def ideal_refused)
  next
    case (Inr resp)
    then show ?thesis
      using step Cons.IH [OF t(1)] t(2) by (auto simp: reply_def ledger_step_Some intro: ideal_booked)
  qed
qed

lemma ideal_run_int64: "ideal_run xs l l' \<Longrightarrow> (\<And>c. int64 (ld_balance l c)) \<Longrightarrow> int64 (ld_balance l' c)"
proof (induction arbitrary: c rule: ideal_run.induct)
  case (ideal_booked cmd l xs l')
  then show ?case by (simp add: book_def)
qed simp_all

section \<open>Properties\<close>

text \<open>
  C23. The credit command refines the ledger: a sequence of commands on the GORM repositories is a run of the ledger with the same
  answers, between the ledgers that the tables hold before and after; no event is answered with a balance twice,
  and the noted events are exactly the earlier ones and those answered with a balance, whatever fails in between.
\<close>

theorem credits_refine_ledger:
  assumes "gorm_ok db acct marked" and "quiet p acct marked" and "fresh_ulid inputs acct"
    and "run_credits inputs (gorm_credit_handler u n db p) cmds w = (rs, w')"
  shows "ledger_run (zip cmds (map reply rs)) (ledger_of (acct w) (marked w)) (ledger_of (acct w') (marked w'))
       \<and> distinct (event_ids (replied (zip cmds (map reply rs))))
       \<and> marked w' = (\<lambda>k. marked w k \<or> k \<in> set (event_ids (replied (zip cmds (map reply rs)))))"
  using run_credits_ledger [OF assms] ledger_run_ids [OF run_credits_ledger [OF assms]] by (simp add: ledger_of_def)


text \<open>A run with a redelivery: the first command is credited, the second one is refused as a duplicate.\<close>

abbreviation silent :: "demo_world publish" where
  "silent \<equiv> (\<lambda>es w. (None, w))"

abbreviation demo_silent_handler :: "demo_world CreditLoyaltyHandler" where
  "demo_silent_handler \<equiv> gorm_credit_handler (\<lambda>w. ''u'') (\<lambda>w. 0) demo_db silent"

lemma demo_silent: "quiet silent demo_acct dw_keys" "dependable demo_db silent dw_keys"
  by (simp_all add: quiet_def dependable_def demo_db_def)

lemma demo_redelivery:
  "\<exists>e w'. run_credits demo_inputs demo_silent_handler [demo_cmd, demo_cmd] (demo_start 0) =
     ([Inr \<lparr>cp_LoyaltyAccountID = ''id-c'', cp_NewBalance = 550, cp_NewTier = ''SILVER''\<rparr>, Inl e], w')"
proof -
  define w1 where "w1 = (demo_start 0)\<lparr>dw_rows := [''c'' \<mapsto> (550, ''SILVER'', 7)], dw_keys := (\<lambda>k. k = ''e1'')\<rparr>"
  have prep: "credit_prepare demo_inputs demo_silent_handler demo_cmd (demo_start 0) = (Inr (demo_agg 550, demo_inputs (demo_start 0)), demo_start 0)"
    unfolding prepare_any_publisher [of demo_inputs "\<lambda>w. ''u''" "\<lambda>w. 0" demo_db silent demo_publish]
    using demo_prepare [of "demo_start 0" 450 "''BRONZE''" 0] by (simp add: demo_start_def)
  have save: "write_Save demo_db (demo_agg 550) (demo_start 0) = (None, (demo_start 0)\<lparr>dw_rows := [''c'' \<mapsto> (550, ''SILVER'', 7)]\<rparr>)"
    by (simp add: write_Save_def demo_agg_def demo_db_def demo_start_def)
  have "credit_commit demo_silent_handler demo_cmd (demo_agg 550) ci (demo_start 0) =
      (Inr \<lparr>cp_LoyaltyAccountID = ''id-c'', cp_NewBalance = 550, cp_NewTier = ''SILVER''\<rparr>, w1)" for ci
    by (simp add: credit_commit_def save FlushEvents_def)
      (simp add: demo_agg_def demo_db_def demo_start_def demo_cmd_def idem_Mark_def Balance_def fun_upd_def w1_def)
  then have first: "CreditLoyalty_Handle demo_inputs demo_silent_handler demo_cmd (demo_start 0) =
      (Inr \<lparr>cp_LoyaltyAccountID = ''id-c'', cp_NewBalance = 550, cp_NewTier = ''SILVER''\<rparr>, w1)"
    by (simp add: CreditLoyalty_Handle_def prep)
  have "cr_CausationEventID demo_cmd \<noteq> []" "dw_keys w1 (cr_CausationEventID demo_cmd)" by (simp_all add: demo_cmd_def w1_def)
  from Handle_duplicate [OF demo_ok this] obtain e w' where
    "CreditLoyalty_Handle demo_inputs demo_silent_handler demo_cmd w1 = (Inl e, w')" by blast
  then have "run_credits demo_inputs demo_silent_handler [demo_cmd, demo_cmd] (demo_start 0) =
     ([Inr \<lparr>cp_LoyaltyAccountID = ''id-c'', cp_NewBalance = 550, cp_NewTier = ''SILVER''\<rparr>, Inl e], w')"
    unfolding run_credits.simps first by (simp del: CreditLoyaltyResponse.ext_inject)
  then show ?thesis by blast
qed

theorem credits_refine_ledger_witness:
  "\<exists>rs w'. run_credits demo_inputs demo_silent_handler [demo_cmd, demo_cmd] (demo_start 0) = (rs, w')
     \<and> ledger_run [(demo_cmd, Some 550), (demo_cmd, None)]
         (ledger_of (demo_acct (demo_start 0)) (dw_keys (demo_start 0))) (ledger_of (demo_acct w') (dw_keys w'))
     \<and> dw_keys w' = (\<lambda>k. k = ''e1'')"
proof -
  obtain e w' where run: "run_credits demo_inputs demo_silent_handler [demo_cmd, demo_cmd] (demo_start 0) =
     ([Inr \<lparr>cp_LoyaltyAccountID = ''id-c'', cp_NewBalance = 550, cp_NewTier = ''SILVER''\<rparr>, Inl e], w')"
    using demo_redelivery by blast
  note res = credits_refine_ledger [OF demo_ok demo_silent(1) demo_fresh run]
  have "ledger_run [(demo_cmd, Some 550), (demo_cmd, None)]
      (ledger_of (demo_acct (demo_start 0)) (dw_keys (demo_start 0))) (ledger_of (demo_acct w') (dw_keys w'))"
    using conjunct1 [OF res] by (simp add: reply_def)
  moreover have "dw_keys w' = (\<lambda>k. k = ''e1'')" using res by (simp add: reply_def demo_start_def demo_cmd_def)
  ultimately show ?thesis using run by blast
qed


end
