(* ===== verification/Operations.thy ===== *)
theory Operations
  imports Go_Strings
begin

text \<open>
  The commands of the process manager, \<^verbatim>\<open>use_cases/operation\<close>, and the enumerations of
  \<^verbatim>\<open>use_cases/bus\<close>: message types with their names, the command and its envelope, and the
  registry through which the master executes commands by name. The system core that a handler
  receives is part of the world \<open>'w\<close> it works on.
\<close>

section \<open>Message types\<close>

type_synonym MsgType = int

definition Shutdown :: MsgType where "Shutdown = 0"
definition Drain :: MsgType where "Drain = 1"
definition Ping :: MsgType where "Ping = 2"
definition Pong :: MsgType where "Pong = 3"
definition Chat :: MsgType where "Chat = 4"
definition EventStats :: MsgType where "EventStats = 5"
definition ConfigReload :: MsgType where "ConfigReload = 6"

definition commandNames :: "(MsgType, string) gomap" where
  "commandNames = [(Shutdown, ''SHUTDOWN''), (Drain, ''DRAIN''), (Ping, ''PING''), (Chat, ''CHAT''),
     (Pong, ''PONG''), (EventStats, ''EVENT_STATS''), (ConfigReload, ''CONFIG_RELOAD'')]"

definition MsgType_String :: "MsgType \<Rightarrow> string" where
  "MsgType_String c =
     (case mget commandNames c of
        Some s \<Rightarrow> s
      | None \<Rightarrow> (case mget commandNames Shutdown of None \<Rightarrow> [] | Some s \<Rightarrow> s))"

text \<open>The enumeration of the bus, which has only four commands.\<close>

definition busCommandNames :: "(int, string) gomap" where
  "busCommandNames = [(0, ''DIE''), (1, ''DRAIN''), (2, ''PING''), (3, ''PONG'')]"

definition busCommand_String :: "int \<Rightarrow> string" where
  "busCommand_String c = (case mget busCommandNames c of Some s \<Rightarrow> s | None \<Rightarrow> ''DIE'')"

definition networks :: "(int, string) gomap" where
  "networks = [(0, ''tcp''), (1, ''udp'')]"

definition NetworkType_String :: "int \<Rightarrow> string" where
  "NetworkType_String c =
     (case mget networks c of
        Some s \<Rightarrow> s
      | None \<Rightarrow> (case mget networks 0 of None \<Rightarrow> [] | Some s \<Rightarrow> s))"

section \<open>Commands\<close>

text \<open>A payload is a slice of bytes; \<open>None\<close> is the nil slice.\<close>

record Command =
  cmd_Name :: string
  cmd_Description :: string
  cmd_Usage :: string
  cmd_Type :: MsgType
  cmd_Payload :: "string option"

definition zero_command :: Command where
  "zero_command = \<lparr>cmd_Name = [], cmd_Description = [], cmd_Usage = [], cmd_Type = 0, cmd_Payload = None\<rparr>"

record MessagePayload =
  mp_ID :: string
  mp_FromPID :: int
  mp_Payload :: Command
  mp_Timestamp :: int

section \<open>The registry of the master\<close>

type_synonym 'w MasterControlHandler = "Command \<Rightarrow> 'w \<Rightarrow> go_error option \<times> 'w"

record 'w MasterRegistry =
  mr_commands :: "(string, 'w MasterControlHandler) gomap"

definition NewMasterRegistry :: "'w MasterRegistry" where
  "NewMasterRegistry = \<lparr>mr_commands = mempty\<rparr>"

definition MasterRegistry_Register ::
  "string \<Rightarrow> string \<Rightarrow> string \<Rightarrow> 'w MasterControlHandler \<Rightarrow> 'w MasterRegistry \<Rightarrow> 'w MasterRegistry" where
  "MasterRegistry_Register name desc usage handler r =
     r\<lparr>mr_commands := mput (ToUpper name) handler (mr_commands r)\<rparr>"

definition unknown_command :: "string \<Rightarrow> string" where
  "unknown_command name = ''Unknown command: '' @ name @ ''. Type HELP for list.''"

definition MasterRegistry_Execute ::
  "'w MasterRegistry \<Rightarrow> Command \<Rightarrow> 'w \<Rightarrow> (string \<times> go_error option) \<times> 'w" where
  "MasterRegistry_Execute r cmd w =
     (case mget (mr_commands r) (cmd_Name cmd) of
        None \<Rightarrow> ((unknown_command (cmd_Name cmd), Some (ErrorString (unknown_command (cmd_Name cmd)))), w)
      | Some cmdFn \<Rightarrow>
          (case cmdFn cmd w of (Some err, w') \<Rightarrow> (([], Some err), w') | (None, w') \<Rightarrow> (([], None), w')))"

text \<open>What the driver of the master registers.\<close>

definition RegisterCommand :: "'w MasterRegistry" where
  "RegisterCommand = MasterRegistry_Register ''noop'' ''description'' ''usage'' (\<lambda>cmd w. (None, w)) NewMasterRegistry"

section \<open>Lemmas\<close>

definition registry_get :: "'w MasterRegistry \<Rightarrow> string \<Rightarrow> 'w MasterControlHandler option" where
  "registry_get r name = mget (mr_commands r) name"

interpretation mreg: keyed_store NewMasterRegistry "\<lambda>name. MasterRegistry_Register name desc usage" registry_get ToUpper
  by unfold_locales (auto simp: NewMasterRegistry_def MasterRegistry_Register_def registry_get_def)

lemma Execute_registered:
  "registry_get r (cmd_Name cmd) = Some f \<Longrightarrow>
   MasterRegistry_Execute r cmd w = (let (err, w') = f cmd w in (([], err), w'))"
  by (auto simp: MasterRegistry_Execute_def registry_get_def split: prod.splits option.splits)

lemma Execute_unknown:
  "registry_get r (cmd_Name cmd) = None \<Longrightarrow>
   MasterRegistry_Execute r cmd w =
     ((unknown_command (cmd_Name cmd), Some (ErrorString (unknown_command (cmd_Name cmd)))), w)"
  by (simp add: MasterRegistry_Execute_def registry_get_def)

section \<open>Properties\<close>

text \<open>
  Commands are registered in upper case but looked up as they arrive: whatever was
  registered, a command whose name has a lower-case letter is unknown, gives an error and does
  nothing; the upper-case spelling of a registered name reaches the handler registered last for it.
\<close>

theorem MasterRegistry_case_sensitive:
  fixes regs :: "(string \<times> 'w MasterControlHandler) list" and desc usage :: string
  defines "r \<equiv> fold (\<lambda>(n, f). MasterRegistry_Register n desc usage f) regs NewMasterRegistry"
  shows "(cmd_Name cmd \<noteq> ToUpper (cmd_Name cmd) \<longrightarrow>
            MasterRegistry_Execute r cmd w =
              ((unknown_command (cmd_Name cmd), Some (ErrorString (unknown_command (cmd_Name cmd)))), w))
       \<and> (\<forall>n f earlier later. regs = earlier @ (n, f) # later \<and> cmd_Name cmd = ToUpper n
            \<and> (\<forall>(m, g) \<in> set later. ToUpper m \<noteq> ToUpper n) \<longrightarrow>
            MasterRegistry_Execute r cmd w = (let (err, w') = f cmd w in (([], err), w')))"
proof (intro conjI impI allI)
  assume lower: "cmd_Name cmd \<noteq> ToUpper (cmd_Name cmd)"
  have "registry_get r (cmd_Name cmd) = None"
  proof (rule ccontr)
    assume "registry_get r (cmd_Name cmd) \<noteq> None"
    then obtain f where "registry_get r (cmd_Name cmd) = Some f" by blast
    then obtain n where "ToUpper n = cmd_Name cmd"
      unfolding r_def using mreg.get_puts_empty_Some [of desc usage regs "cmd_Name cmd" f] by blast
    with lower show False using ToUpper_idem by metis
  qed
  then show "MasterRegistry_Execute r cmd w =
      ((unknown_command (cmd_Name cmd), Some (ErrorString (unknown_command (cmd_Name cmd)))), w)"
    by (rule Execute_unknown)
next
  fix n f earlier later
  assume a: "regs = earlier @ (n, f) # later \<and> cmd_Name cmd = ToUpper n \<and> (\<forall>(m, g) \<in> set later. ToUpper m \<noteq> ToUpper n)"
  then have "registry_get r (cmd_Name cmd) = Some f"
    unfolding r_def using mreg.get_puts_last [of n "ToUpper n" later desc usage earlier f NewMasterRegistry] by auto
  then show "MasterRegistry_Execute r cmd w = (let (err, w') = f cmd w in (([], err), w'))"
    by (rule Execute_registered)
qed

theorem MasterRegistry_case_sensitive_witness:
  "MasterRegistry_Execute (fold (\<lambda>(n, f). MasterRegistry_Register n ''description'' ''usage'' f)
      [(''noop'', \<lambda>cmd w. (None, w))] NewMasterRegistry) (zero_command\<lparr>cmd_Name := ''noop''\<rparr>) () =
     ((unknown_command ''noop'', Some (ErrorString (unknown_command ''noop''))), ())"
proof -
  have "''noop'' \<noteq> ToUpper ''noop''" by code_simp
  then show ?thesis
    using MasterRegistry_case_sensitive [of "zero_command\<lparr>cmd_Name := ''noop''\<rparr>" "''description''" "''usage''"
        "[(''noop'', \<lambda>cmd w. (None, w))]" "()"]
    by simp
qed

end
