(* ===== verification/Worker_Wire.thy ===== *)
theory Worker_Wire
  imports Operations Go_Json
begin

text \<open>
  The messages between master and workers: a \<^verbatim>\<open>MessagePayload\<close> is written as one line of
  JSON (its byte payload in base 64) and read back by the loop
  \<^verbatim>\<open>Worker.ReceiveMessage\<close> of \<^verbatim>\<open>use_cases/workercore/worker.go\<close>. A line that is
  not JSON at all is \<open>None\<close>.
\<close>

section \<open>Base 64\<close>

definition b64_table :: string where
  "b64_table = ''ABCDEFGHIJKLMNOPQRSTUVWXYZabcdefghijklmnopqrstuvwxyz0123456789+/''"

definition b64_char :: "nat \<Rightarrow> char" where
  "b64_char n = b64_table ! n"

fun index_of :: "'a \<Rightarrow> 'a list \<Rightarrow> nat option" where
  "index_of c [] = None"
| "index_of c (x # xs) = (if c = x then Some 0 else map_option Suc (index_of c xs))"

definition b64_val :: "char \<Rightarrow> nat option" where
  "b64_val c = index_of c b64_table"

fun b64_encode :: "string \<Rightarrow> string" where
  "b64_encode [] = []"
| "b64_encode [x] =
     (let a = of_char x in [b64_char (a div 4), b64_char (a mod 4 * 16), CHR ''='', CHR ''=''])"
| "b64_encode [x, y] =
     (let a = of_char x; b = of_char y
      in [b64_char (a div 4), b64_char (a mod 4 * 16 + b div 16), b64_char (b mod 16 * 4), CHR ''=''])"
| "b64_encode (x # y # z # s) =
     (let a = of_char x; b = of_char y; c = of_char z
      in [b64_char (a div 4), b64_char (a mod 4 * 16 + b div 16), b64_char (b mod 16 * 4 + c div 64),
          b64_char (c mod 64)] @ b64_encode s)"

text \<open>Decoding a text without line breaks.\<close>

fun b64_decode :: "string \<Rightarrow> string option" where
  "b64_decode [] = Some []"
| "b64_decode (p # q # r # t # s) =
     (case (b64_val p, b64_val q) of
        (Some a, Some b) \<Rightarrow>
          (if t = CHR ''='' \<and> s = [] then
             (if r = CHR ''='' then Some [char_of (a * 4 + b div 16)]
              else case b64_val r of
                     None \<Rightarrow> None
                   | Some c \<Rightarrow> Some [char_of (a * 4 + b div 16), char_of (b mod 16 * 16 + c div 4)])
           else case (b64_val r, b64_val t, b64_decode s) of
                  (Some c, Some d, Some rest) \<Rightarrow>
                    Some ([char_of (a * 4 + b div 16), char_of (b mod 16 * 16 + c div 4), char_of (c mod 4 * 64 + d)] @ rest)
                | _ \<Rightarrow> None)
      | _ \<Rightarrow> None)"
| "b64_decode _ = None"

section \<open>Messages as JSON\<close>

definition json_command :: "Command \<Rightarrow> json" where
  "json_command c = JObj
     [(''Name'', JStr (cmd_Name c)), (''Description'', JStr (cmd_Description c)), (''Usage'', JStr (cmd_Usage c)),
      (''Type'', JNum (of_int (cmd_Type c))),
      (''Payload'', case cmd_Payload c of None \<Rightarrow> JNull | Some b \<Rightarrow> JStr (b64_encode b))]"

definition json_message :: "MessagePayload \<Rightarrow> json result" where
  "json_message m = Inr (JObj
     [(''ID'', JStr (mp_ID m)), (''FromPID'', JNum (of_int (mp_FromPID m))),
      (''Payload'', json_command (mp_Payload m)), (''Timestamp'', JNum (of_int (mp_Timestamp m)))])"

fun read_int :: "string \<Rightarrow> int \<Rightarrow> json \<Rightarrow> int result" where
  "read_int field old JNull = Inr old"
| "read_int field old (JNum r) =
     (if r = of_int \<lfloor>r\<rfloor> \<and> int64 \<lfloor>r\<rfloor> then Inr \<lfloor>r\<rfloor> else Inl (type_error (JNum r) field ''int''))"
| "read_int field old j = Inl (type_error j field ''int'')"

definition read_b64 :: "string \<Rightarrow> string option result" where
  "read_b64 s = (case b64_decode s of None \<Rightarrow> Inl (ErrorString ''illegal base64 data'') | Some b \<Rightarrow> Inr (Some b))"

fun read_byte_list :: "json list \<Rightarrow> string option" where
  "read_byte_list [] = Some []"
| "read_byte_list (JNum r # js) =
     (if r = of_int \<lfloor>r\<rfloor> \<and> 0 \<le> \<lfloor>r\<rfloor> \<and> \<lfloor>r\<rfloor> < 256
      then map_option ((#) (char_of (nat \<lfloor>r\<rfloor>))) (read_byte_list js) else None)"
| "read_byte_list (JNull # js) = map_option ((#) (char_of (0 :: nat))) (read_byte_list js)"
| "read_byte_list (_ # js) = None"

fun read_bytes :: "string \<Rightarrow> json \<Rightarrow> string option result" where
  "read_bytes field JNull = Inr None"
| "read_bytes field (JStr s) = read_b64 s"
| "read_bytes field (JTime t) = read_b64 (rfc3339 t)"
| "read_bytes field (JArr js) =
     (case read_byte_list js of None \<Rightarrow> Inl (type_error (JArr js) field ''uint8'') | Some b \<Rightarrow> Inr (Some b))"
| "read_bytes field j = Inl (type_error j field ''[]uint8'')"

definition read_command_field :: "string \<Rightarrow> json \<Rightarrow> Command \<Rightarrow> Command result" where
  "read_command_field f j c =
     (if f = ''Name'' then map_sum id (\<lambda>s. c\<lparr>cmd_Name := s\<rparr>) (read_string ''Command.Name'' (cmd_Name c) j)
      else if f = ''Description'' then
        map_sum id (\<lambda>s. c\<lparr>cmd_Description := s\<rparr>) (read_string ''Command.Description'' (cmd_Description c) j)
      else if f = ''Usage'' then map_sum id (\<lambda>s. c\<lparr>cmd_Usage := s\<rparr>) (read_string ''Command.Usage'' (cmd_Usage c) j)
      else if f = ''Type'' then map_sum id (\<lambda>n. c\<lparr>cmd_Type := n\<rparr>) (read_int ''Command.Type'' (cmd_Type c) j)
      else map_sum id (\<lambda>b. c\<lparr>cmd_Payload := b\<rparr>) (read_bytes ''Command.Payload'' j))"

fun read_command :: "Command \<Rightarrow> json \<Rightarrow> Command result" where
  "read_command c JNull = Inr c"
| "read_command c (JObj kvs) =
     read_object [''Name'', ''Description'', ''Usage'', ''Type'', ''Payload''] read_command_field kvs c"
| "read_command c j = Inl (type_error j ''MessagePayload.Payload'' ''operation.Command'')"

definition read_message_field :: "string \<Rightarrow> json \<Rightarrow> MessagePayload \<Rightarrow> MessagePayload result" where
  "read_message_field f j m =
     (if f = ''ID'' then map_sum id (\<lambda>s. m\<lparr>mp_ID := s\<rparr>) (read_string ''MessagePayload.ID'' (mp_ID m) j)
      else if f = ''FromPID'' then
        map_sum id (\<lambda>n. m\<lparr>mp_FromPID := n\<rparr>) (read_int ''MessagePayload.FromPID'' (mp_FromPID m) j)
      else if f = ''Payload'' then map_sum id (\<lambda>c. m\<lparr>mp_Payload := c\<rparr>) (read_command (mp_Payload m) j)
      else map_sum id (\<lambda>n. m\<lparr>mp_Timestamp := n\<rparr>) (read_int ''MessagePayload.Timestamp'' (mp_Timestamp m) j))"

definition zero_message :: MessagePayload where
  "zero_message = \<lparr>mp_ID = [], mp_FromPID = 0, mp_Payload = zero_command, mp_Timestamp = 0\<rparr>"

fun read_message :: "json \<Rightarrow> MessagePayload result" where
  "read_message JNull = Inr zero_message"
| "read_message (JObj kvs) =
     read_object [''ID'', ''FromPID'', ''Payload'', ''Timestamp''] read_message_field kvs zero_message"
| "read_message j = Inl (ErrorString (''json: cannot unmarshal '' @ json_kind j
     @ '' into Go value of type operation.MessagePayload''))"

section \<open>The receiving loop\<close>

fun find_index :: "('a \<Rightarrow> bool) \<Rightarrow> 'a list \<Rightarrow> nat option" where
  "find_index P [] = None"
| "find_index P (x # xs) = (if P x then Some 0 else map_option Suc (find_index P xs))"

text \<open>
  \<open>ctx_done i\<close> says whether the context is done when iteration \<open>i\<close> starts; the list holds
  the lines up to the end of the connection. The result says whether the loop called
  \<^verbatim>\<open>cancelFunc\<close> and how many lines it consumed.
\<close>

fun ReceiveMessage :: "(nat \<Rightarrow> bool) \<Rightarrow> nat \<Rightarrow> json option list \<Rightarrow> bool \<times> nat" where
  "ReceiveMessage ctx_done i [] = (\<not> ctx_done i, i)"
| "ReceiveMessage ctx_done i (l # ls) =
     (if ctx_done i then (False, i)
      else case l of
             None \<Rightarrow> (True, Suc i)
           | Some j \<Rightarrow>
               (case read_message j of
                  Inl err \<Rightarrow> (True, Suc i)
                | Inr body \<Rightarrow>
                    if cmd_Type (mp_Payload body) = Shutdown then (True, Suc i)
                    else ReceiveMessage ctx_done (Suc i) ls))"

section \<open>Lemmas\<close>

lemma b64_val_char: "n < 64 \<Longrightarrow> b64_val (b64_char n) = Some n"
proof -
  have "list_all (\<lambda>n. b64_val (b64_char n) = Some n) [0..<64]" by code_simp
  then show "n < 64 \<Longrightarrow> ?thesis" by (simp add: list_all_iff)
qed

lemma b64_char_not_pad: "n < 64 \<Longrightarrow> b64_char n \<noteq> CHR ''=''"
proof -
  have "b64_val (CHR ''='') = None" by code_simp
  then show "n < 64 \<Longrightarrow> ?thesis" using b64_val_char by fastforce
qed

lemma byte_less: "(of_char x :: nat) < 256"
  by (rule nat_of_char_less_256)

lemma div_mod_low: "(b :: nat) < k \<Longrightarrow> (a * k + b) div k = a" "(b :: nat) < k \<Longrightarrow> (a * k + b) mod k = b"
  by simp_all

text \<open>Three bytes as four six-bit numbers and back.\<close>

lemma b64_split:
  fixes a b c :: nat
  assumes "a < 256" "b < 256" "c < 256"
  shows "a div 4 < 64" "a mod 4 * 16 + b div 16 < 64" "b mod 16 * 4 + c div 64 < 64" "c mod 64 < 64"
    and "a div 4 * 4 + (a mod 4 * 16 + b div 16) div 16 = a"
    and "(a mod 4 * 16 + b div 16) mod 16 * 16 + (b mod 16 * 4 + c div 64) div 4 = b"
    and "(b mod 16 * 4 + c div 64) mod 4 * 64 + c mod 64 = c"
proof -
  have high: "a div 4 < 64" "b div 16 < 16" "c div 64 < 4" using assms by auto
  have low: "a mod 4 < 4" "b mod 16 < 16" by simp_all
  show "a div 4 < 64" "c mod 64 < 64" using high by simp_all
  show "a mod 4 * 16 + b div 16 < 64" "b mod 16 * 4 + c div 64 < 64" using high low by linarith+
  show "a div 4 * 4 + (a mod 4 * 16 + b div 16) div 16 = a" unfolding div_mod_low(1) [OF high(2)] by simp
  show "(a mod 4 * 16 + b div 16) mod 16 * 16 + (b mod 16 * 4 + c div 64) div 4 = b"
    unfolding div_mod_low(2) [OF high(2)] div_mod_low(1) [OF high(3)] by simp
  show "(b mod 16 * 4 + c div 64) mod 4 * 64 + c mod 64 = c" unfolding div_mod_low(2) [OF high(3)] by simp
qed

lemma b64_decode_block:
  assumes "a < 64" "b < 64" "c < 64" "d < 64"
  shows "b64_decode [b64_char a, b64_char b, CHR ''='', CHR ''=''] = Some [char_of (a * 4 + b div 16)]"
    and "b64_decode [b64_char a, b64_char b, b64_char c, CHR ''=''] =
      Some [char_of (a * 4 + b div 16), char_of (b mod 16 * 16 + c div 4)]"
    and "b64_decode s = Some rest \<Longrightarrow> b64_decode (b64_char a # b64_char b # b64_char c # b64_char d # s) =
      Some (char_of (a * 4 + b div 16) # char_of (b mod 16 * 16 + c div 4) # char_of (c mod 4 * 64 + d) # rest)"
  using assms by (simp_all add: b64_val_char b64_char_not_pad)

lemma b64_round_trip: "b64_decode (b64_encode s) = Some s"
proof (induction s rule: b64_encode.induct)
  case (2 x)
  have z: "(0 :: nat) < 256" "(0 :: nat) < 64" by simp_all
  have a: "of_char x div 4 < (64 :: nat)" "of_char x mod 4 * 16 < (64 :: nat)"
    using b64_split(1,2) [OF byte_less [of x] z(1) z(1)] by simp_all
  have e: "of_char x div 4 * 4 + of_char x mod 4 * 16 div 16 = (of_char x :: nat)" by simp
  show ?case unfolding b64_encode.simps Let_def b64_decode_block(1) [OF a z(2) z(2)] e by simp
next
  case (3 x y)
  have z: "(0 :: nat) < 256" "(0 :: nat) < 64" by simp_all
  note t = b64_split [OF byte_less [of x] byte_less [of y] z(1)]
  have b: "of_char y mod 16 * 4 < (64 :: nat)" using t(3) by simp
  have e: "(of_char x mod 4 * 16 + of_char y div 16) mod 16 * 16 + of_char y mod 16 * 4 div 4 = (of_char y :: nat)"
    using t(6) by simp
  show ?case unfolding b64_encode.simps Let_def b64_decode_block(2) [OF t(1,2) b z(2)] t(5) e by simp
next
  case (4 x y z s)
  note t = b64_split [OF byte_less [of x] byte_less [of y] byte_less [of z]]
  have ih: "b64_decode (b64_encode s) = Some s" using 4 by simp
  show ?case
    unfolding b64_encode.simps Let_def append.simps b64_decode_block(3) [OF t(1-4) ih] t(5-7) by simp
qed simp

definition command_ok :: "Command \<Rightarrow> bool" where
  "command_ok c = int64 (cmd_Type c)"

definition message_ok :: "MessagePayload \<Rightarrow> bool" where
  "message_ok m = (int64 (mp_FromPID m) \<and> int64 (mp_Timestamp m) \<and> command_ok (mp_Payload m))"

lemma read_int_of_int: "int64 n \<Longrightarrow> read_int f old (JNum (of_int n)) = Inr n"
  by simp

lemma read_command_round_trip: "command_ok c \<Longrightarrow> read_command zero_command (json_command c) = Inr c"
  by (cases "cmd_Payload c")
    (simp_all add: json_command_def command_ok_def find_exact read_command_field_def read_b64_def
      b64_round_trip zero_command_def del: read_int.simps add: read_int_of_int)

lemma read_message_round_trip:
  assumes "message_ok m" "json_message m = Inr j"
  shows "read_message j = Inr m"
proof -
  have "int64 (mp_FromPID m)" "int64 (mp_Timestamp m)" "command_ok (mp_Payload m)"
    using assms(1) by (simp_all add: message_ok_def)
  then show ?thesis
    using assms(2) read_command_round_trip [of "mp_Payload m"]
    by (auto simp: json_message_def find_exact read_message_field_def zero_message_def read_int_of_int
        simp del: read_int.simps)
qed

section \<open>Properties\<close>





end
