(* ===== verification/Worker_Registry.thy ===== *)
theory Worker_Registry
  imports Worker_Wire
begin

text \<open>
  The master's side of its workers: the client object of \<^verbatim>\<open>use_cases/workerclient\<close>, the
  message bus of \<^verbatim>\<open>use_cases/bus/event.go\<close> and the registry of
  \<^verbatim>\<open>use_cases/mastercore/registry.go\<close> with its health check. Client objects are shared
  through pointers, so they live in a heap; \<open>wr\<close> is what writing a line to a connection does
  to the network \<open>'n\<close>. A shutdown sends its message from a goroutine of its own: the goroutines
  that have not run yet are in \<open>mw_pending\<close>. Timestamps are arguments.
\<close>

section \<open>The client object\<close>

datatype WorkerClientState = Disconnected | Connected | Connecting | Starting | ErrorState | Retrying | Idle

record WorkerClient =
  wc_status :: WorkerClientState
  wc_pid :: int
  wc_l :: "nat option"

type_synonym addr = nat
type_synonym 'n writer = "nat \<Rightarrow> json \<Rightarrow> 'n \<Rightarrow> (int \<times> go_error option) \<times> 'n"

record 'n mworld =
  mw_heap :: "addr \<Rightarrow> WorkerClient"
  mw_net :: 'n
  mw_pending :: "addr list"

definition NewWorkerClient :: "nat option \<Rightarrow> int \<Rightarrow> WorkerClient" where
  "NewWorkerClient l pid = \<lparr>wc_status = Connecting, wc_pid = pid, wc_l = l\<rparr>"

definition set_status :: "WorkerClientState \<Rightarrow> addr \<Rightarrow> 'n mworld \<Rightarrow> 'n mworld" where
  "set_status s a w = w\<lparr>mw_heap := (mw_heap w)(a := (mw_heap w a)\<lparr>wc_status := s\<rparr>)\<rparr>"

definition WorkerClient_Send ::
  "'n writer \<Rightarrow> addr \<Rightarrow> MessagePayload \<Rightarrow> 'n mworld \<Rightarrow> (int \<times> go_error option) \<times> 'n mworld" where
  "WorkerClient_Send wr a msg w =
     (case wc_l (mw_heap w a) of
        None \<Rightarrow> ((0, Some (ErrorString (''worker '' @ Itoa (wc_pid (mw_heap w a)) @ '' has no active connection''))), w)
      | Some conn \<Rightarrow>
          (case json_message msg of
             Inl err \<Rightarrow> ((0, Some (WrapError ''failed to marshal message: '' err '''')), w)
           | Inr line \<Rightarrow>
               (case wr conn line (mw_net w) of
                  ((n, Some err), net) \<Rightarrow>
                    ((0, Some (WrapError (''failed to send message to worker '' @ Itoa (wc_pid (mw_heap w a)) @ '': '') err '''')),
                     w\<lparr>mw_net := net\<rparr>)
                | ((n, None), net) \<Rightarrow> ((n, None), w\<lparr>mw_net := net\<rparr>))))"

definition WorkerClient_Drain :: "'n writer \<Rightarrow> int \<Rightarrow> addr \<Rightarrow> 'n mworld \<Rightarrow> go_error option \<times> 'n mworld" where
  "WorkerClient_Drain wr now a w =
     (case WorkerClient_Send wr a
             \<lparr>mp_ID = ''123'', mp_FromPID = wc_pid (mw_heap w a), mp_Payload = zero_command\<lparr>cmd_Type := Drain\<rparr>,
              mp_Timestamp = now\<rparr> w of
        ((n, err), w') \<Rightarrow> (err, w'))"

definition WorkerClient_IsAlive :: "addr \<Rightarrow> 'n mworld \<Rightarrow> bool" where
  "WorkerClient_IsAlive a w = (wc_status (mw_heap w a) = Connected)"

definition WorkerClient_Shutdown :: "addr \<Rightarrow> 'n mworld \<Rightarrow> go_error option \<times> 'n mworld" where
  "WorkerClient_Shutdown a w0 =
     (let w = set_status Disconnected a w0
      in if wc_l (mw_heap w a) = None then (None, w)
         else (None, w\<lparr>mw_pending := mw_pending w @ [a]\<rparr>))"

text \<open>The body of the goroutine that a shutdown starts.\<close>

definition send_shutdown :: "'n writer \<Rightarrow> int \<Rightarrow> addr \<Rightarrow> 'n mworld \<Rightarrow> 'n mworld" where
  "send_shutdown wr now a w =
     snd (WorkerClient_Send wr a
       \<lparr>mp_ID = ''123'', mp_FromPID = - 1, mp_Payload = zero_command\<lparr>cmd_Type := Shutdown\<rparr>, mp_Timestamp = now\<rparr> w)"

definition WorkerClient_Start :: "'n writer \<Rightarrow> int \<Rightarrow> addr \<Rightarrow> 'n mworld \<Rightarrow> go_error option \<times> 'n mworld" where
  "WorkerClient_Start wr now a w0 =
     (let w = set_status Connected a w0
      in case WorkerClient_Send wr a
                \<lparr>mp_ID = [], mp_FromPID = wc_pid (mw_heap w a), mp_Payload = zero_command\<lparr>cmd_Type := Ping\<rparr>,
                 mp_Timestamp = now\<rparr> w of
           ((n, err), w') \<Rightarrow> (err, w'))"

section \<open>The bus\<close>

definition EventBus_Send :: "'n writer \<Rightarrow> MessagePayload \<Rightarrow> addr \<Rightarrow> 'n mworld \<Rightarrow> go_error option \<times> 'n mworld" where
  "EventBus_Send wr msg a w =
     (case WorkerClient_Send wr a msg w of ((n, Some err), w') \<Rightarrow> (Some err, w') | ((n, None), w') \<Rightarrow> (None, w'))"

fun EventBus_Broadcast ::
  "'n writer \<Rightarrow> MessagePayload \<Rightarrow> addr list \<Rightarrow> 'n mworld \<Rightarrow> go_error option \<times> 'n mworld" where
  "EventBus_Broadcast wr payload [] w = (None, w)"
| "EventBus_Broadcast wr payload (v # workers) w =
     (if wc_status (mw_heap w v) = Disconnected then EventBus_Broadcast wr payload workers w
      else case EventBus_Send wr payload v w of
             (Some err, w') \<Rightarrow> EventBus_Broadcast wr payload workers (snd (WorkerClient_Shutdown v w'))
           | (None, w') \<Rightarrow> EventBus_Broadcast wr payload workers w')"

section \<open>The registry\<close>

type_synonym conns = "(int, addr) gomap"

definition Registry_Remove :: "int \<Rightarrow> conns \<Rightarrow> go_error option \<times> conns" where
  "Registry_Remove pid c = (Some (ErrorString ''no worker found to remove''), mdel pid c)"

definition Registry_Get :: "conns \<Rightarrow> int \<Rightarrow> addr option" where
  "Registry_Get c pid = mget c pid"

text \<open>Loops over the map take the order of the visit as an argument.\<close>

definition Registry_GetAll :: "int list \<Rightarrow> conns \<Rightarrow> addr list" where
  "Registry_GetAll ks c = map (\<lambda>k. the (mget c k)) ks"

definition Registry_Total :: "conns \<Rightarrow> int" where
  "Registry_Total c = int (mlen c)"

definition Registry_Broadcast :: "'n writer \<Rightarrow> int \<Rightarrow> string \<Rightarrow> int list \<Rightarrow> conns \<Rightarrow> 'n mworld \<Rightarrow> 'n mworld" where
  "Registry_Broadcast wr now payload ks c w =
     snd (EventBus_Broadcast wr
       \<lparr>mp_ID = [], mp_FromPID = 0, mp_Payload = zero_command\<lparr>cmd_Type := Chat, cmd_Payload := Some payload\<rparr>,
        mp_Timestamp = now\<rparr> (Registry_GetAll ks c) w)"

definition ping_message :: "int \<Rightarrow> MessagePayload" where
  "ping_message now = \<lparr>mp_ID = [], mp_FromPID = - 1, mp_Payload = zero_command\<lparr>cmd_Type := Ping\<rparr>, mp_Timestamp = now\<rparr>"

definition pingWorkers :: "'n writer \<Rightarrow> int \<Rightarrow> int list \<Rightarrow> conns \<Rightarrow> 'n mworld \<Rightarrow> 'n mworld" where
  "pingWorkers wr now ks c w = snd (EventBus_Broadcast wr (ping_message now) (Registry_GetAll ks c) w)"

fun eliminateWorkers :: "int list \<Rightarrow> conns \<Rightarrow> 'n mworld \<Rightarrow> conns" where
  "eliminateWorkers [] c w = c"
| "eliminateWorkers (pid # ks) c w =
     (case mget c pid of
        None \<Rightarrow> eliminateWorkers ks c w
      | Some worker \<Rightarrow>
          if wc_status (mw_heap w worker) = Disconnected
          then eliminateWorkers ks (snd (Registry_Remove pid c)) w
          else eliminateWorkers ks c w)"

text \<open>One tick of \<^verbatim>\<open>CheckHealthWorkers\<close>, with the orders of its two loops.\<close>

definition health_tick ::
  "'n writer \<Rightarrow> int \<Rightarrow> int list \<Rightarrow> int list \<Rightarrow> conns \<Rightarrow> 'n mworld \<Rightarrow> conns \<times> 'n mworld" where
  "health_tick wr now ks1 ks2 c w = (let w' = pingWorkers wr now ks1 c w in (eliminateWorkers ks2 c w', w'))"

fun CloseAllConnections :: "int list \<Rightarrow> conns \<Rightarrow> 'n mworld \<Rightarrow> 'n mworld" where
  "CloseAllConnections [] c w = w"
| "CloseAllConnections (pid # ks) c w =
     (case mget c pid of
        None \<Rightarrow> CloseAllConnections ks c w
      | Some v \<Rightarrow>
          (case WorkerClient_Shutdown v w of (err, w') \<Rightarrow> CloseAllConnections ks c w'))"

definition Registry_Add :: "addr \<Rightarrow> conns \<Rightarrow> 'n mworld \<Rightarrow> go_error option \<times> conns" where
  "Registry_Add worker c w = (None, mput (wc_pid (mw_heap w worker)) worker c)"

section \<open>Lemmas\<close>

text \<open>Connections on which writing fails, as long as that does not change meanwhile.\<close>

definition broken_conns :: "'n writer \<Rightarrow> (nat \<Rightarrow> bool) \<Rightarrow> bool" where
  "broken_conns wr bad \<longleftrightarrow> (\<forall>c j n. snd (fst (wr c j n)) \<noteq> None \<longleftrightarrow> bad c)"

text \<open>The clients that a message does not reach, and those that stay registered.\<close>

definition unreachable :: "(nat \<Rightarrow> bool) \<Rightarrow> WorkerClient \<Rightarrow> bool" where
  "unreachable bad c = (case wc_l c of None \<Rightarrow> True | Some conn \<Rightarrow> bad conn)"

definition healthy :: "(nat \<Rightarrow> bool) \<Rightarrow> WorkerClient \<Rightarrow> bool" where
  "healthy bad c = (wc_status c \<noteq> Disconnected \<and> \<not> unreachable bad c)"

definition reg_inv :: "conns \<Rightarrow> 'n mworld \<Rightarrow> bool" where
  "reg_inv c w \<longleftrightarrow> wf_map c \<and> (\<forall>p a. mget c p = Some a \<longrightarrow> wc_pid (mw_heap w a) = p)"

lemma Send_frame [simp]:
  "mw_heap (snd (WorkerClient_Send wr a m w)) = mw_heap w"
  "mw_pending (snd (WorkerClient_Send wr a m w)) = mw_pending w"
  by (auto simp: WorkerClient_Send_def split: option.splits sum.splits prod.splits)

lemma Send_fails:
  assumes "broken_conns wr bad"
  shows "snd (fst (WorkerClient_Send wr a m w)) \<noteq> None \<longleftrightarrow> unreachable bad (mw_heap w a)"
proof (cases "wc_l (mw_heap w a)")
  case None
  then show ?thesis by (simp add: WorkerClient_Send_def unreachable_def)
next
  case (Some conn)
  obtain j where j: "json_message m = Inr j" by (simp add: json_message_def)
  obtain n err net where wr: "wr conn j (mw_net w) = ((n, err), net)" by (metis prod.exhaust)
  then have "err \<noteq> None \<longleftrightarrow> bad conn" using assms unfolding broken_conns_def by (metis fst_conv snd_conv)
  with Some j wr show ?thesis by (cases err) (simp_all add: WorkerClient_Send_def unreachable_def)
qed

lemma Bus_Send:
  "mw_heap (snd (EventBus_Send wr m a w)) = mw_heap w"
  "mw_pending (snd (EventBus_Send wr m a w)) = mw_pending w"
  "fst (EventBus_Send wr m a w) = snd (fst (WorkerClient_Send wr a m w))"
  using Send_frame [of wr a m w]
  by (auto simp: EventBus_Send_def simp del: Send_frame split: prod.splits option.splits)

lemma Shutdown_heap:
  "mw_heap (snd (WorkerClient_Shutdown a w)) = (mw_heap w)(a := (mw_heap w a)\<lparr>wc_status := Disconnected\<rparr>)"
  by (simp add: WorkerClient_Shutdown_def set_status_def Let_def)

lemma Shutdown_pending:
  "mw_pending (snd (WorkerClient_Shutdown a w)) = mw_pending w @ (if wc_l (mw_heap w a) = None then [] else [a])"
  by (simp add: WorkerClient_Shutdown_def set_status_def Let_def)

lemma Start_heap:
  "mw_heap (snd (WorkerClient_Start wr now a w)) = (mw_heap w)(a := (mw_heap w a)\<lparr>wc_status := Connected\<rparr>)"
  "mw_pending (snd (WorkerClient_Start wr now a w)) = mw_pending w"
  by (auto simp: WorkerClient_Start_def Let_def set_status_def case_prod_unfold)

text \<open>A broadcast disconnects exactly the clients it cannot reach.\<close>

lemma Broadcast_heap:
  assumes "broken_conns wr bad"
  shows "mw_heap (snd (EventBus_Broadcast wr m ws w)) a =
    (if a \<in> set ws \<and> wc_status (mw_heap w a) \<noteq> Disconnected \<and> unreachable bad (mw_heap w a)
     then (mw_heap w a)\<lparr>wc_status := Disconnected\<rparr> else mw_heap w a)"
proof (induction ws arbitrary: w)
  case (Cons v ws)
  obtain err w1 where s: "EventBus_Send wr m v w = (err, w1)" by (metis prod.exhaust)
  then have w1: "mw_heap w1 = mw_heap w" "err \<noteq> None \<longleftrightarrow> unreachable bad (mw_heap w v)"
    using Bus_Send [of wr m v w] Send_fails [OF assms, of v m w] by auto
  show ?case
  proof (cases "wc_status (mw_heap w v) \<noteq> Disconnected \<and> err \<noteq> None")
    case True
    then obtain e where "err = Some e" by blast
    with True s w1 have "mw_heap (snd (EventBus_Broadcast wr m (v # ws) w)) a =
        mw_heap (snd (EventBus_Broadcast wr m ws (snd (WorkerClient_Shutdown v w1)))) a" by simp
    with True w1 Cons.IH [of "snd (WorkerClient_Shutdown v w1)"] show ?thesis
      by (auto simp: Shutdown_heap unreachable_def)
  next
    case False
    with s w1 Cons.IH [of w] Cons.IH [of w1] show ?thesis by (cases err) auto
  qed
qed simp

lemma Broadcast_pid [simp]: "wc_pid (mw_heap (snd (EventBus_Broadcast wr m ws w)) a) = wc_pid (mw_heap w a)"
proof (induction ws arbitrary: w)
  case (Cons v ws)
  obtain err w1 where s: "EventBus_Send wr m v w = (err, w1)" by (metis prod.exhaust)
  then have "mw_heap w1 = mw_heap w" using Bus_Send(1) [of wr m v w] by simp
  with s Cons.IH show ?case by (cases err) (auto simp: Shutdown_heap)
qed simp

lemma eliminate_get:
  "mget (eliminateWorkers ks c w) p =
     (case mget c p of
        None \<Rightarrow> None
      | Some a \<Rightarrow> if p \<in> set ks \<and> wc_status (mw_heap w a) = Disconnected then None else Some a)"
  by (induction ks c w rule: eliminateWorkers.induct)
    (auto simp: Registry_Remove_def mget_mdel split: option.splits if_splits)

lemma eliminate_wf: "wf_map c \<Longrightarrow> wf_map (eliminateWorkers ks c w)"
  by (induction ks c w rule: eliminateWorkers.induct)
    (auto simp: Registry_Remove_def wf_mdel split: option.splits)

lemma GetAll_mem: "range_order c ks \<Longrightarrow> mget c p = Some a \<Longrightarrow> a \<in> set (Registry_GetAll ks c)"
  using range_order_mem [of c ks p] by (force simp: Registry_GetAll_def)

lemma reg_inv_tick: "reg_inv c w \<Longrightarrow> reg_inv (fst (health_tick wr now ks1 ks2 c w)) (snd (health_tick wr now ks1 ks2 c w))"
  by (auto simp: reg_inv_def health_tick_def Let_def pingWorkers_def eliminate_get eliminate_wf
      split: option.splits if_splits)

lemma reg_inv_Add: "reg_inv c w \<Longrightarrow> reg_inv (snd (Registry_Add a c w)) w"
  by (auto simp: reg_inv_def Registry_Add_def wf_mput mget_mput)

lemma CloseAll_heap:
  "mw_heap (CloseAllConnections ks c w) a =
     (if \<exists>p \<in> set ks. mget c p = Some a then (mw_heap w a)\<lparr>wc_status := Disconnected\<rparr> else mw_heap w a)"
proof (induction ks arbitrary: w)
  case (Cons k ks)
  show ?case
  proof (cases "mget c k")
    case None
    then show ?thesis using Cons.IH [of w] by simp
  next
    case (Some v)
    then show ?thesis using Cons.IH [of "snd (WorkerClient_Shutdown v w)"]
      by (auto simp: case_prod_unfold Shutdown_heap)
  qed
qed simp

text \<open>A network that records what is written and fails on some connections.\<close>

definition log_writer :: "(nat \<Rightarrow> bool) \<Rightarrow> (nat \<times> json) list writer" where
  "log_writer bad conn j ls =
     (if bad conn then ((0, Some (ErrorString ''broken pipe'')), ls) else ((1, None), ls @ [(conn, j)]))"

lemma log_writer_broken: "broken_conns (log_writer bad) bad"
  by (simp add: broken_conns_def log_writer_def)

definition sent_to :: "MessagePayload \<Rightarrow> WorkerClient \<Rightarrow> nat \<times> json" where
  "sent_to m c = (the (wc_l c), projr (json_message m))"

lemma Send_log:
  "mw_net (snd (EventBus_Send (log_writer bad) m a w)) =
     (if unreachable bad (mw_heap w a) then mw_net w else mw_net w @ [sent_to m (mw_heap w a)])"
proof -
  have "json_message m = Inr (projr (json_message m))" by (simp add: json_message_def)
  then show ?thesis
    by (cases "wc_l (mw_heap w a)")
      (auto simp: EventBus_Send_def WorkerClient_Send_def log_writer_def unreachable_def sent_to_def split: sum.splits)
qed

lemma Shutdown_net: "mw_net (snd (WorkerClient_Shutdown a w)) = mw_net w"
  by (simp add: WorkerClient_Shutdown_def set_status_def Let_def)

lemma Broadcast_log:
  assumes "distinct ws"
  shows "mw_net (snd (EventBus_Broadcast (log_writer bad) m ws w)) =
     mw_net w @ map (\<lambda>a. sent_to m (mw_heap w a)) (filter (\<lambda>a. healthy bad (mw_heap w a)) ws)"
  using assms
proof (induction ws arbitrary: w)
  case (Cons v ws)
  obtain err w1 where s: "EventBus_Send (log_writer bad) m v w = (err, w1)" by (metis prod.exhaust)
  then have w1: "mw_heap w1 = mw_heap w" "err \<noteq> None \<longleftrightarrow> unreachable bad (mw_heap w v)"
    "mw_net w1 = (if unreachable bad (mw_heap w v) then mw_net w else mw_net w @ [sent_to m (mw_heap w v)])"
    using Bus_Send [of "log_writer bad" m v w] Send_fails [OF log_writer_broken, of bad v m w] Send_log [of bad m v w]
    by auto
  have keep: "map (\<lambda>a. sent_to m (((mw_heap w)(v := x)) a)) (filter (\<lambda>a. healthy bad (((mw_heap w)(v := x)) a)) ws) =
      map (\<lambda>a. sent_to m (mw_heap w a)) (filter (\<lambda>a. healthy bad (mw_heap w a)) ws)" for x
    using Cons.prems by (intro arg_cong2 [where f = map] map_cong filter_cong refl) auto
  show ?case
  proof (cases "wc_status (mw_heap w v) = Disconnected \<or> err = None")
    case True
    with s w1 Cons.IH [of w] Cons.IH [of w1] Cons.prems show ?thesis
      by (cases err) (auto simp: healthy_def)
  next
    case False
    then obtain e where e: "err = Some e" "wc_status (mw_heap w v) \<noteq> Disconnected" by blast
    with s w1 Cons.IH [of "snd (WorkerClient_Shutdown v w1)"] Cons.prems keep show ?thesis
      by (simp add: Shutdown_heap Shutdown_net healthy_def)
  qed
qed simp

section \<open>Properties\<close>

text \<open>
  C7. One health check, for whatever order the runtime visits the registry in: exactly the
  workers that were connected and could be written to stay registered; every other entry is
  gone. No worker outside the registry is affected.
\<close>

theorem health_tick_keeps_healthy:
  assumes "broken_conns wr bad" and "wf_map c" and "range_order c ks1" and "range_order c ks2"
    and "health_tick wr now ks1 ks2 c w = (c', w')"
  shows "wf_map c'
       \<and> (\<forall>pid. mget c' pid =
            (case mget c pid of None \<Rightarrow> None | Some a \<Rightarrow> if healthy bad (mw_heap w a) then Some a else None))
       \<and> (\<forall>a. a \<notin> set (Registry_GetAll ks1 c) \<longrightarrow> mw_heap w' a = mw_heap w a)"
proof (intro conjI allI impI)
  from assms(5) have w': "w' = pingWorkers wr now ks1 c w" and c': "c' = eliminateWorkers ks2 c w'"
    by (auto simp: health_tick_def Let_def)
  note heap = Broadcast_heap [OF assms(1), of "ping_message now" "Registry_GetAll ks1 c" w]
  show "wf_map c'" using assms(2) by (simp add: c' eliminate_wf)
  show "mw_heap w' a = mw_heap w a" if "a \<notin> set (Registry_GetAll ks1 c)" for a
    using that heap [of a] by (simp add: w' pingWorkers_def)
  fix pid
  show "mget c' pid = (case mget c pid of None \<Rightarrow> None | Some a \<Rightarrow> if healthy bad (mw_heap w a) then Some a else None)"
  proof (cases "mget c pid")
    case None
    then show ?thesis by (simp add: c' eliminate_get)
  next
    case (Some a)
    have "pid \<in> set ks2" using Some assms(4) range_order_mem [of c ks2 pid] by simp
    with Some heap [of a] GetAll_mem [OF assms(3) Some] show ?thesis
      by (auto simp: c' w' eliminate_get pingWorkers_def healthy_def)
  qed
qed

definition demo_clients :: "addr \<Rightarrow> WorkerClient" where
  "demo_clients a = \<lparr>wc_status = (if a = 2 then Disconnected else Connected), wc_pid = int a, wc_l = Some a\<rparr>"

theorem health_tick_keeps_healthy_witness:
  "map_of (fst (health_tick (log_writer (\<lambda>c. c = 3)) 0 [3, 1, 2] [2, 3, 1] [(1, 1), (2, 2), (3, 3)]
      \<lparr>mw_heap = demo_clients, mw_net = [], mw_pending = []\<rparr>)) 1 = Some 1"
proof -
  let ?c = "[(1, 1), (2, 2), (3, 3)] :: conns"
  let ?w = "\<lparr>mw_heap = demo_clients, mw_net = [], mw_pending = []\<rparr>"
  obtain c' w' where run: "health_tick (log_writer (\<lambda>c. c = 3)) 0 [3, 1, 2] [2, 3, 1] ?c ?w = (c', w')"
    by (metis prod.exhaust)
  have "wf_map ?c" "range_order ?c [3, 1, 2]" "range_order ?c [2, 3, 1]"
    by (auto simp: wf_map_def range_order_def mkeys_def)
  from health_tick_keeps_healthy [OF log_writer_broken this run] have "mget c' 1 = Some 1"
    by (simp add: mget_def healthy_def unreachable_def demo_clients_def)
  with run show ?thesis by (simp add: mget_def)
qed

text \<open>
  C33. Broadcasting writes the message exactly once to every worker that is connected and
  reachable, in the order of the list, and to nobody else; a worker that cannot be reached does
  not keep the message from the others.
\<close>

theorem Broadcast_reaches_all:
  assumes "distinct ws"
  shows "fst (EventBus_Broadcast (log_writer bad) m ws w) = None
       \<and> mw_net (snd (EventBus_Broadcast (log_writer bad) m ws w)) =
           mw_net w @ map (\<lambda>a. sent_to m (mw_heap w a)) (filter (\<lambda>a. healthy bad (mw_heap w a)) ws)"
proof
  show "fst (EventBus_Broadcast (log_writer bad) m ws w) = None"
    by (induction "log_writer bad" m ws w rule: EventBus_Broadcast.induct) (auto split: prod.splits option.splits)
qed (rule Broadcast_log [OF assms])

theorem Broadcast_reaches_all_witness:
  "map fst (mw_net (snd (EventBus_Broadcast (log_writer (\<lambda>c. c = 3)) (ping_message 0) [3, 1, 2, 4]
      \<lparr>mw_heap = demo_clients, mw_net = [], mw_pending = []\<rparr>))) = [1, 4]"
  using Broadcast_reaches_all [of "[3, 1, 2, 4]" "\<lambda>c. c = 3" "ping_message 0"
      "\<lparr>mw_heap = demo_clients, mw_net = [], mw_pending = []\<rparr>"]
  by (simp add: healthy_def unreachable_def demo_clients_def sent_to_def)

text \<open>
  Closing all connections marks every registered worker as disconnected, whatever the order,
  so that the next health check empties the registry.
\<close>

theorem CloseAll_then_eliminate:
  assumes "range_order c ks1" and "range_order c ks2"
  shows "mget (eliminateWorkers ks2 c (CloseAllConnections ks1 c w)) pid = None"
proof (cases "mget c pid")
  case None
  then show ?thesis by (simp add: eliminate_get)
next
  case (Some a)
  then have "pid \<in> set ks1" "pid \<in> set ks2"
    using assms range_order_mem [of c ks1 pid] range_order_mem [of c ks2 pid] by auto
  with Some show ?thesis by (auto simp: eliminate_get CloseAll_heap)
qed

theorem CloseAll_then_eliminate_witness:
  "mget (eliminateWorkers [1, 2] [(1, 1), (2, 2)] (CloseAllConnections [2, 1] [(1, 1), (2, 2)]
      \<lparr>mw_heap = demo_clients, mw_net = (), mw_pending = []\<rparr>)) 1 = None"
  by (rule CloseAll_then_eliminate) (auto simp: range_order_def mkeys_def)

end
