(* ===== verification/Handshake.thy ===== *)
theory Handshake
  imports Worker_Registry
begin

text \<open>
  The handshake between the master's gateway (\<^verbatim>\<open>use_cases/bus/ipc_server.go\<close>) and a worker
  (\<^verbatim>\<open>use_cases/workercore\<close>, \<^verbatim>\<open>drivers/worker\<close>), the older one of
  \<^verbatim>\<open>mastercore/master.go\<close>, the two controller loops and the listening sockets. A unix
  connection is a number; what reading and writing on it does to the network \<open>'n\<close> is an argument.
  The bytes that arrive on a connection are a string that ends where the peer closes.
\<close>

section \<open>The worker\<close>

datatype WorkerState = WDisconnected | WConnected | WConnecting | WStarting | WError | WRetrying | WIdle

record Worker =
  wk_status :: WorkerState
  wk_pid :: int
  wk_ExtraFile :: "int option"
  wk_fd :: int
  wk_l :: "nat option"

definition zero_worker :: Worker where
  "zero_worker = \<lparr>wk_status = WDisconnected, wk_pid = 0, wk_ExtraFile = None, wk_fd = 0, wk_l = None\<rparr>"

definition NewWorker :: Worker where
  "NewWorker = zero_worker\<lparr>wk_status := WDisconnected\<rparr>"

definition NewWorkerBuilder :: Worker where
  "NewWorkerBuilder = zero_worker"

definition SetPID :: "int \<Rightarrow> Worker \<Rightarrow> Worker" where
  "SetPID pid d = d\<lparr>wk_pid := pid\<rparr>"

definition SetStatus :: "WorkerState \<Rightarrow> Worker \<Rightarrow> Worker" where
  "SetStatus status d = d\<lparr>wk_status := status\<rparr>"

definition SetListener :: "nat option \<Rightarrow> Worker \<Rightarrow> Worker" where
  "SetListener l d = d\<lparr>wk_l := l\<rparr>"

definition Build :: "Worker \<Rightarrow> Worker" where
  "Build d = d"

text \<open>
  A message with control data: the bytes, the length of the control data, and what parsing it gives,
  a list of control messages each of which parses as a list of descriptors.
\<close>

record unix_msg =
  um_payload :: string
  um_oobn :: nat
  um_msgs :: "int list result list result"

record 'n worker_net =
  wn_ReadMsgUnix :: "nat \<Rightarrow> 'n \<Rightarrow> unix_msg result \<times> 'n"
  wn_Write :: "nat \<Rightarrow> string \<Rightarrow> 'n \<Rightarrow> go_error option \<times> 'n"
  wn_Close :: "nat \<Rightarrow> 'n \<Rightarrow> go_error option \<times> 'n"
  wn_CloseFile :: "int \<Rightarrow> 'n \<Rightarrow> go_error option \<times> 'n"

definition EINVAL :: go_error where
  "EINVAL = Sentinel ''syscall.EINVAL'' ''invalid argument''"

text \<open>What \<^verbatim>\<open>receiveFD\<close> makes of the message it read; the buffer has 128 bytes.\<close>

definition receiveFD :: "unix_msg result \<Rightarrow> int \<times> string \<times> go_error option" where
  "receiveFD r =
     (case r of
        Inl err \<Rightarrow> (0, [], Some err)
      | Inr m \<Rightarrow>
          (let dummy = take 128 (um_payload m)
           in if um_oobn m = 0
              then (0, dummy, Some (ErrorString (''master kirim pesan '' @ [CHR 0x27] @ dummy @ [CHR 0x27] @ '' tapi OOB DATA KOSONG'')))
              else case um_msgs m of
                     Inl err \<Rightarrow> (0, [], Some (ErrorString (''parse control msg error: '' @ error_text err)))
                   | Inr [] \<Rightarrow> (0, [], Some (ErrorString ''control message kosong''))
                   | Inr (Inl err # _) \<Rightarrow> (0, [], Some (ErrorString (''parse unix rights error: '' @ error_text err)))
                   | Inr (Inr [] # _) \<Rightarrow> (0, [], Some (ErrorString ''paket OOB diterima tapi ARRAY FD KOSONG''))
                   | Inr (Inr (fd # _) # _) \<Rightarrow> (fd, dummy, None)))"

definition pid_report :: "int \<Rightarrow> string" where
  "pid_report pid = Itoa pid @ [newline]"

definition AcceptHandshake :: "'n worker_net \<Rightarrow> Worker \<Rightarrow> 'n \<Rightarrow> go_error option \<times> Worker \<times> 'n" where
  "AcceptHandshake net w n =
     (case wk_l w of
        None \<Rightarrow> (Some (WrapError ''gagal menerima FD: '' EINVAL []), w, n)
      | Some l \<Rightarrow>
          (case wn_ReadMsgUnix net l n of
             (r, n1) \<Rightarrow>
               (case receiveFD r of
                  (fd, msg, Some err) \<Rightarrow> (Some (WrapError ''gagal menerima FD: '' err []), w, n1)
                | (fd, msg, None) \<Rightarrow>
                    (let w1 = w\<lparr>wk_fd := fd, wk_ExtraFile := Some fd\<rparr>
                     in case wn_Write net l (pid_report (wk_pid w)) n1 of
                          (Some err, n2) \<Rightarrow> (Some (WrapError ''gagal kirim ack ke master: '' err []), w1, n2)
                        | (None, n2) \<Rightarrow> (None, w1, n2)))))"

definition Worker_Send :: "'n worker_net \<Rightarrow> string \<Rightarrow> Worker \<Rightarrow> 'n \<Rightarrow> go_error option \<times> 'n" where
  "Worker_Send net payload w n = (case wk_l w of None \<Rightarrow> (Some EINVAL, n) | Some l \<Rightarrow> wn_Write net l payload n)"

definition SendPing :: "'n worker_net \<Rightarrow> Worker \<Rightarrow> 'n \<Rightarrow> go_error option \<times> 'n" where
  "SendPing net w n = Worker_Send net (''PING'' @ [newline]) w n"

definition Worker_Shutdown :: "'n worker_net \<Rightarrow> Worker \<Rightarrow> 'n \<Rightarrow> go_error option \<times> Worker \<times> 'n" where
  "Worker_Shutdown net w n =
     (let w' = w\<lparr>wk_status := WDisconnected\<rparr>
      in case wk_l w of
           None \<Rightarrow> (None, w', n)
         | Some l \<Rightarrow>
             if wk_status w = WDisconnected then (Some (ErrorString ''connection already closed''), w', n)
             else (case wn_Write net l ''DIE'' n of
                     (Some err, n1) \<Rightarrow> (Some err, w', n1)
                   | (None, n1) \<Rightarrow>
                       (case (case wk_ExtraFile w of None \<Rightarrow> (Some EINVAL, n1) | Some fd \<Rightarrow> wn_CloseFile net fd n1) of
                          (Some err, n2) \<Rightarrow> (Some err, w', n2)
                        | (None, n2) \<Rightarrow> (case wn_Close net l n2 of (err, n3) \<Rightarrow> (err, w', n3)))))"

definition Worker_Start :: "Worker \<Rightarrow> go_error option \<times> Worker" where
  "Worker_Start w = (None, w\<lparr>wk_status := WStarting\<rparr>)"

section \<open>The driver of a worker\<close>

record WorkerAdapter =
  wa_workercore :: "Worker option"
  wa_conn :: "nat option"

definition NewWorkerAdapter :: WorkerAdapter where
  "NewWorkerAdapter = \<lparr>wa_workercore = None, wa_conn = None\<rparr>"

text \<open>
  \<open>dial\<close> is what connecting to the socket of the master gives. The boolean tells whether the
  receive loop was started.
\<close>

definition WorkerAdapter_Init ::
  "'n worker_net \<Rightarrow> ('n \<Rightarrow> nat result \<times> 'n) \<Rightarrow> int \<Rightarrow> WorkerAdapter \<Rightarrow> 'n \<Rightarrow> (go_error option \<times> bool) \<times> WorkerAdapter \<times> 'n" where
  "WorkerAdapter_Init net dial pid a n =
     (case dial n of
        (Inl err, n1) \<Rightarrow> ((Some err, False), a, n1)
      | (Inr conn, n1) \<Rightarrow>
          (case AcceptHandshake net (Build (SetPID pid (SetListener (Some conn) NewWorkerBuilder))) n1 of
             (Some err, w, n2) \<Rightarrow> ((Some err, False), a, n2)
           | (None, w, n2) \<Rightarrow> ((None, True), a\<lparr>wa_workercore := Some w, wa_conn := Some conn\<rparr>, n2)))"

definition WorkerAdapter_Close :: "'n worker_net \<Rightarrow> WorkerAdapter \<Rightarrow> 'n \<Rightarrow> go_error option \<times> 'n" where
  "WorkerAdapter_Close net a n = (case wa_conn a of Some conn \<Rightarrow> wn_Close net conn n | None \<Rightarrow> (None, n))"

section \<open>The gateway of the master\<close>

text \<open>
  A handshake ends with a client object for the registry or with the connection closed. The line
  comes from the bytes the worker sends.
\<close>

datatype 'a handshake = Registered 'a | Rejected string

definition handleHandshake :: "nat \<Rightarrow> string \<Rightarrow> WorkerClient handshake" where
  "handleHandshake conn bytes =
     (case ReadLine bytes of
        None \<Rightarrow> Rejected ''Handshake failed: cannot read PID''
      | Some (payload, rest) \<Rightarrow>
          (case Atoi (TrimSpace payload) of
             (pid, Some err) \<Rightarrow> Rejected ''Handshake failed: invalid PID format''
           | (pid, None) \<Rightarrow> Registered (NewWorkerClient (Some conn) pid)))"

text \<open>The older handshake of \<^verbatim>\<open>mastercore\<close>, which builds a worker and starts it.\<close>

definition master_handleHandshake :: "nat \<Rightarrow> string \<Rightarrow> Worker handshake" where
  "master_handleHandshake c bytes =
     (case ReadLine bytes of
        None \<Rightarrow> Rejected ''Handshake failed: cannot read PID''
      | Some (payload, rest) \<Rightarrow>
          (case Atoi (TrimSpace payload) of
             (pid, Some err) \<Rightarrow> Rejected ''Handshake failed: invalid PID format''
           | (pid, None) \<Rightarrow> Registered (Build (SetPID pid (SetListener (Some c) NewWorkerBuilder)))))"

definition spawnNewWorker :: "Worker \<Rightarrow> Worker" where
  "spawnNewWorker worker = snd (Worker_Start worker)"

text \<open>The message that hands the listening socket over: \<^verbatim>\<open>PROCEED\<close> with the rights to \<open>fd\<close>.\<close>

definition proceed_message :: "int \<Rightarrow> unix_msg" where
  "proceed_message fd = \<lparr>um_payload = ''PROCEED'', um_oobn = 24, um_msgs = Inr [Inr [fd]]\<rparr>"

definition writeProceedConnection ::
  "(nat \<Rightarrow> unix_msg \<Rightarrow> 'n \<Rightarrow> go_error option \<times> 'n) \<Rightarrow> int \<Rightarrow> nat \<Rightarrow> 'n \<Rightarrow> go_error option \<times> 'n" where
  "writeProceedConnection send fd conn n =
     (case send conn (proceed_message fd) n of
        (Some err, n1) \<Rightarrow> (Some (ErrorString (''gagal kirim msg unix: '' @ error_text err)), n1)
      | (None, n1) \<Rightarrow> (None, n1))"

text \<open>
  The accept loop, over what the listener gives: it goes on past errors and returns at the first
  connection, which a goroutine of its own serves. Running out of events stands for waiting.
\<close>

datatype accept_event = DeadlineError | AcceptError | Accepted nat

fun processWorker :: "accept_event list \<Rightarrow> (nat \<times> accept_event list) option" where
  "processWorker [] = None"
| "processWorker (Accepted conn # evs) = Some (conn, evs)"
| "processWorker (DeadlineError # evs) = processWorker evs"
| "processWorker (AcceptError # evs) = processWorker evs"

text \<open>
  The loop around it looks at the context before every round: \<open>ctx_done k\<close> tells whether it is
  cancelled in round \<open>k\<close>. The result has the connections served and whether the loop has ended.
\<close>

function handleWorker :: "(nat \<Rightarrow> bool) \<Rightarrow> nat \<Rightarrow> accept_event list \<Rightarrow> nat list \<times> bool" where
  "handleWorker ctx_done k evs =
     (if ctx_done k then ([], True)
      else case processWorker evs of
             None \<Rightarrow> ([], False)
           | Some (conn, rest) \<Rightarrow> (let (conns, ended) = handleWorker ctx_done (Suc k) rest in (conn # conns, ended)))"
  by pat_completeness auto

lemma processWorker_length: "processWorker evs = Some (conn, rest) \<Longrightarrow> length rest < length evs"
  by (induction evs rule: processWorker.induct) auto

termination handleWorker
  by (relation "measure (\<lambda>(d, k, evs). length evs)") (auto dest: processWorker_length)

declare handleWorker.simps [simp del]

text \<open>
  The file of the TCP listener: a listener that could not be opened is a nil interface, an error of \<open>file\<close> leaves a nil file, whose
  descriptor is -1.
\<close>

definition getFD :: "nat result \<Rightarrow> (nat \<Rightarrow> int result) \<Rightarrow> int option outcome" where
  "getFD l file =
     (case l of
        Inl err \<Rightarrow> Panic ''interface conversion: interface is nil, not *net.TCPListener''
      | Inr tcp \<Rightarrow> Ret (case file tcp of Inl err \<Rightarrow> None | Inr f \<Rightarrow> Some f))"

definition File_Fd :: "int option \<Rightarrow> int" where
  "File_Fd f = (case f of None \<Rightarrow> -1 | Some fd \<Rightarrow> fd)"

text \<open>Opening the sockets: \<open>tcp\<close> and \<open>unix\<close> are what listening on them gives. The first error is only logged.\<close>

datatype listening = Listening int nat | Stopped

definition ListenAndServe :: "nat result \<Rightarrow> (nat \<Rightarrow> int result) \<Rightarrow> nat result \<Rightarrow> listening outcome" where
  "ListenAndServe tcp file unix =
     (case unix of
        Inl err \<Rightarrow> Ret Stopped
      | Inr u \<Rightarrow> (case getFD tcp file of Panic m \<Rightarrow> Panic m | Ret f \<Rightarrow> Ret (Listening (File_Fd f) u)))"

section \<open>Controllers\<close>

record event =
  ev_SourceID :: string
  ev_Command :: Command

definition handleConnectionController :: "string \<Rightarrow> string \<Rightarrow> event list" where
  "handleConnectionController addr bytes =
     map (\<lambda>text. \<lparr>ev_SourceID = addr,
                  ev_Command = zero_command\<lparr>cmd_Name := text, cmd_Type := Ping, cmd_Payload := Some text\<rparr>\<rparr>)
       (ScanLines bytes)"

text \<open>
  The controller of the master driver, line by line: what it answers, and whether it asks the
  application to stop. \<open>ks\<close> is the order in which a broadcast visits the registry.
\<close>

fun handleInstruction ::
  "'n writer \<Rightarrow> int \<Rightarrow> int list \<Rightarrow> conns \<Rightarrow> string list \<Rightarrow> 'n mworld \<Rightarrow> string list \<times> bool \<times> 'n mworld" where
  "handleInstruction wr now ks c [] w = ([], False, w)"
| "handleInstruction wr now ks c (line # lines) w =
     (let command = TrimSpace line
      in if command = [] then handleInstruction wr now ks c lines w
         else if command = ''ping'' then
           (let (out, r) = handleInstruction wr now ks c lines w in ((''PONG'' @ [newline]) # out, r))
         else if command = ''status'' then
           (let (out, r) = handleInstruction wr now ks c lines w
            in ((''Active Workers: '' @ Itoa (Registry_Total c) @ [newline]) # out, r))
         else if HasPrefix command ''broadcast '' then
           handleInstruction wr now ks c lines (Registry_Broadcast wr now (''DIE'' @ [newline]) ks c w)
         else if command = ''exit'' then ([''Bye!'' @ [newline]], True, w)
         else (let (out, r) = handleInstruction wr now ks c lines w
               in ((''Unknown command: '' @ command @ [newline]) # out, r)))"

section \<open>Lemmas\<close>

lemma pid_report_read: "newline \<notin> set (Itoa pid)"
  using Itoa_no_space by blast

lemma handshake_pid:
  assumes "int64 pid"
  shows "ReadLine (pid_report pid @ rest) = Some (pid_report pid, rest)" "Atoi (TrimSpace (pid_report pid)) = (pid, None)"
  using ReadLine_line [OF pid_report_read, of pid rest] TrimSpace_append_space [of newline "Itoa pid"] Atoi_Itoa [OF assms]
  by (simp_all add: pid_report_def)

text \<open>Both handshakes accept the same lines, with the same process id.\<close>

lemma handshakes_agree:
  "(\<exists>msg. handleHandshake conn bytes = Rejected msg \<and> master_handleHandshake conn bytes = Rejected msg)
   \<or> (\<exists>pid. handleHandshake conn bytes = Registered (NewWorkerClient (Some conn) pid)
        \<and> master_handleHandshake conn bytes = Registered (zero_worker\<lparr>wk_l := Some conn, wk_pid := pid\<rparr>))"
  by (auto simp: handleHandshake_def master_handleHandshake_def Build_def SetPID_def SetListener_def NewWorkerBuilder_def
      split: option.splits prod.splits)

text \<open>
  A worker as its driver builds it counts as disconnected until it is started, so shutting it down is
  refused and its connection stays open.
\<close>

lemma built_worker_not_shut_down:
  "Worker_Shutdown net (Build (SetPID pid (SetListener (Some conn) NewWorkerBuilder))) n =
     (Some (ErrorString ''connection already closed''), Build (SetPID pid (SetListener (Some conn) NewWorkerBuilder)), n)"
  by (simp add: Worker_Shutdown_def Build_def SetPID_def SetListener_def NewWorkerBuilder_def zero_worker_def)

lemma receiveFD_proceed: "receiveFD (Inr (proceed_message fd)) = (fd, ''PROCEED'', None)"
  by (simp add: receiveFD_def proceed_message_def Let_def)

lemma processWorker_waits: "(\<forall>conn. Accepted conn \<notin> set evs) \<Longrightarrow> processWorker evs = None"
  by (induction evs rule: processWorker.induct) auto

text \<open>As long as nobody connects, the loop does not notice that its context was cancelled.\<close>

lemma handleWorker_stuck:
  "\<not> ctx_done k \<Longrightarrow> (\<forall>conn. Accepted conn \<notin> set evs) \<Longrightarrow> handleWorker ctx_done k evs = ([], False)"
  by (subst handleWorker.simps) (simp add: processWorker_waits)

lemma handleWorker_serves_all:
  "fst (handleWorker (\<lambda>_. False) k evs) = List.map_filter (\<lambda>e. case e of Accepted conn \<Rightarrow> Some conn | _ \<Rightarrow> None) evs"
proof (induction evs arbitrary: k)
  case Nil
  then show ?case by (subst handleWorker.simps) (simp add: List.map_filter_simps)
next
  case (Cons e evs)
  show ?case
  proof (cases e)
    case (Accepted conn)
    with Cons show ?thesis by (subst handleWorker.simps) (simp add: List.map_filter_simps split_beta)
  next
    case DeadlineError
    then have "handleWorker (\<lambda>_. False) k (e # evs) = handleWorker (\<lambda>_. False) k evs"
      by (subst (1 2) handleWorker.simps) simp
    with Cons DeadlineError show ?thesis by (simp add: List.map_filter_simps)
  next
    case AcceptError
    then have "handleWorker (\<lambda>_. False) k (e # evs) = handleWorker (\<lambda>_. False) k evs"
      by (subst (1 2) handleWorker.simps) simp
    with Cons AcceptError show ?thesis by (simp add: List.map_filter_simps)
  qed
qed

lemma ReceiveMessage_skips:
  assumes "message_ok m" "cmd_Type (mp_Payload m) \<noteq> Shutdown"
  shows "ReceiveMessage (\<lambda>_. False) i (Some (projr (json_message m)) # ls) = ReceiveMessage (\<lambda>_. False) (Suc i) ls"
proof -
  have "read_message (projr (json_message m)) = Inr m"
    by (rule read_message_round_trip [OF assms(1)]) (simp add: json_message_def)
  with assms(2) show ?thesis by simp
qed

lemma ReceiveMessage_skips_all:
  assumes "message_ok m" "cmd_Type (mp_Payload m) \<noteq> Shutdown"
  shows "ReceiveMessage (\<lambda>_. False) i (replicate n (Some (projr (json_message m))) @ ls) = ReceiveMessage (\<lambda>_. False) (i + n) ls"
  by (induction n arbitrary: i) (simp_all add: ReceiveMessage_skips [OF assms] del: ReceiveMessage.simps)

lemma CloseAll_pending:
  assumes "p \<in> set ks" "mget c p = Some a" "wc_l (mw_heap w a) \<noteq> None"
  shows "a \<in> set (mw_pending (CloseAllConnections ks c w))"
proof -
  have keep: "set (mw_pending w) \<subseteq> set (mw_pending (CloseAllConnections ks c w))" for ks and w :: "'n mworld"
  proof (induction ks arbitrary: w)
    case (Cons k ks)
    show ?case
    proof (cases "mget c k")
      case (Some v)
      have "set (mw_pending w) \<subseteq> set (mw_pending (snd (WorkerClient_Shutdown v w)))"
        by (auto simp: WorkerClient_Shutdown_def set_status_def Let_def)
      with Cons.IH [of "snd (WorkerClient_Shutdown v w)"] Some show ?thesis by (auto simp: case_prod_unfold)
    qed (use Cons in simp)
  qed simp
  show ?thesis
    using assms
  proof (induction ks arbitrary: w)
    case (Cons k ks)
    show ?case
    proof (cases "k = p")
      case True
      then show ?thesis
        using Cons.prems keep [of "snd (WorkerClient_Shutdown a w)" ks]
        by (auto simp: case_prod_unfold WorkerClient_Shutdown_def set_status_def Let_def)
    next
      case False
      show ?thesis
      proof (cases "mget c k")
        case None
        then show ?thesis using Cons False by auto
      next
        case (Some v)
        have "wc_l (mw_heap (snd (WorkerClient_Shutdown v w)) a) \<noteq> None" using Cons.prems(3) by (auto simp: Shutdown_heap)
        then show ?thesis using Cons False Some by (auto simp: case_prod_unfold)
      qed
    qed
  qed simp
qed

subsection \<open>A reliable wire\<close>

text \<open>Messages on their way down to a worker and bytes on their way up, per connection.\<close>

record wire_state =
  ws_down :: "nat \<Rightarrow> unix_msg list"
  ws_up :: "nat \<Rightarrow> string"

definition wire_send :: "nat \<Rightarrow> unix_msg \<Rightarrow> wire_state \<Rightarrow> go_error option \<times> wire_state" where
  "wire_send conn m n = (None, n\<lparr>ws_down := (ws_down n)(conn := ws_down n conn @ [m])\<rparr>)"

definition wire_net :: "wire_state worker_net" where
  "wire_net =
     \<lparr>wn_ReadMsgUnix = (\<lambda>conn n. case ws_down n conn of
          [] \<Rightarrow> (Inl (ErrorString ''EOF''), n) | m # ms \<Rightarrow> (Inr m, n\<lparr>ws_down := (ws_down n)(conn := ms)\<rparr>)),
      wn_Write = (\<lambda>conn s n. (None, n\<lparr>ws_up := (ws_up n)(conn := ws_up n conn @ s)\<rparr>)),
      wn_Close = (\<lambda>conn n. (None, n)), wn_CloseFile = (\<lambda>fd n. (None, n))\<rparr>"

section \<open>Properties\<close>



text \<open>
  What an operator's \<^verbatim>\<open>broadcast\<close> does: every connected and reachable worker gets one line,
  nothing is answered and nothing stops, and the receive loop of a worker skips that line, whatever
  follows it; the text after the word and the word DIE in the message have no effect.
\<close>

theorem broadcast_ignored_by_workers:
  assumes "int64 now" and "distinct (Registry_GetAll ks c)" and "HasPrefix (TrimSpace line) ''broadcast ''"
    and "handleInstruction (log_writer bad) now ks c [line] w = (out, stopped, w')"
  shows "out = [] \<and> \<not> stopped
       \<and> (\<exists>j. mw_net w' = mw_net w @ map (\<lambda>a. (the (wc_l (mw_heap w a)), j))
                (filter (\<lambda>a. healthy bad (mw_heap w a)) (Registry_GetAll ks c))
            \<and> (\<forall>i ls. ReceiveMessage (\<lambda>_. False) i (Some j # ls) = ReceiveMessage (\<lambda>_. False) (Suc i) ls))"
proof -
  let ?m = "\<lparr>mp_ID = [], mp_FromPID = 0, mp_Payload = zero_command\<lparr>cmd_Type := Chat, cmd_Payload := Some (''DIE'' @ [newline])\<rparr>,
        mp_Timestamp = now\<rparr>"
  have "TrimSpace line \<noteq> []" "TrimSpace line \<noteq> ''ping''" "TrimSpace line \<noteq> ''status''"
    using assms(3) by (auto simp: HasPrefix_def)
  then have r: "out = []" "\<not> stopped" "w' = Registry_Broadcast (log_writer bad) now (''DIE'' @ [newline]) ks c w"
    using assms(3,4) by (auto simp: Let_def)
  have "message_ok ?m" "cmd_Type (mp_Payload ?m) \<noteq> Shutdown"
    using assms(1) by (simp_all add: message_ok_def command_ok_def int64_def Chat_def Shutdown_def)
  note skip = ReceiveMessage_skips [OF this]
  have "mw_net w' = mw_net w @ map (\<lambda>a. (the (wc_l (mw_heap w a)), projr (json_message ?m)))
      (filter (\<lambda>a. healthy bad (mw_heap w a)) (Registry_GetAll ks c))"
    using Broadcast_log [OF assms(2), of bad ?m w] by (simp add: r(3) Registry_Broadcast_def sent_to_def)
  with r(1,2) skip show ?thesis by blast
qed

theorem broadcast_ignored_by_workers_witness:
  "\<exists>out stopped w'. handleInstruction (log_writer (\<lambda>_. False)) 0 [1, 4] [(1, 1), (4, 4)] [''broadcast hello'']
      \<lparr>mw_heap = demo_clients, mw_net = [], mw_pending = []\<rparr> = (out, stopped, w') \<and> map fst (mw_net w') = [1, 4]"
proof -
  let ?w = "\<lparr>mw_heap = demo_clients, mw_net = [], mw_pending = []\<rparr>"
  obtain out stopped w' where run: "handleInstruction (log_writer (\<lambda>_. False)) 0 [1, 4] [(1, 1), (4, 4)] [''broadcast hello''] ?w
      = (out, stopped, w')" by (metis prod.exhaust)
  have "HasPrefix (TrimSpace ''broadcast hello'') ''broadcast ''" by code_simp
  from broadcast_ignored_by_workers [OF _ _ this run] obtain j where
    "mw_net w' = map (\<lambda>a. (the (wc_l (demo_clients a)), j)) (filter (\<lambda>a. healthy (\<lambda>_. False) (demo_clients a))
      (Registry_GetAll [1, 4] [(1, 1), (4, 4)]))"
    by (auto simp: int64_def Registry_GetAll_def mget_def)
  then have "map fst (mw_net w') = [1, 4]"
    by (simp add: Registry_GetAll_def mget_def healthy_def unreachable_def demo_clients_def)
  with run show ?thesis by (intro exI conjI)
qed

text \<open>
  C9. What closing the master does: for every registered worker with a connection, closing all
  connections starts a goroutine that sends one line to it, and on that line the receive loop of the
  worker stops and asks its application to stop.
\<close>

theorem CloseAll_stops_workers:
  assumes "int64 now" and "range_order c ks" and "mget c p = Some a" and "wc_l (mw_heap w a) = Some conn" and "\<not> bad conn"
  shows "a \<in> set (mw_pending (CloseAllConnections ks c w))
       \<and> (\<exists>j. mw_net (send_shutdown (log_writer bad) now a (CloseAllConnections ks c w))
                = mw_net (CloseAllConnections ks c w) @ [(conn, j)]
            \<and> (\<forall>i ls. ReceiveMessage (\<lambda>_. False) i (Some j # ls) = (True, Suc i)))"
proof
  let ?m = "\<lparr>mp_ID = ''123'', mp_FromPID = - 1, mp_Payload = zero_command\<lparr>cmd_Type := Shutdown\<rparr>, mp_Timestamp = now\<rparr>"
  let ?w = "CloseAllConnections ks c w"
  have "p \<in> set ks" using assms(2,3) range_order_mem [of c ks p] by simp
  then show "a \<in> set (mw_pending ?w)" using CloseAll_pending assms(3,4) by fastforce
  have l: "wc_l (mw_heap ?w a) = Some conn" using assms(4) by (simp add: CloseAll_heap)
  have j: "json_message ?m = Inr (projr (json_message ?m))" by (simp add: json_message_def)
  have "read_message (projr (json_message ?m)) = Inr ?m"
    using assms(1) j by (intro read_message_round_trip) (simp_all add: message_ok_def command_ok_def int64_def Shutdown_def)
  then have stop: "ReceiveMessage (\<lambda>_. False) i (Some (projr (json_message ?m)) # ls) = (True, Suc i)" for i ls by simp
  have "mw_net (send_shutdown (log_writer bad) now a ?w) = mw_net ?w @ [(conn, projr (json_message ?m))]"
    unfolding send_shutdown_def WorkerClient_Send_def l using assms(5)
    by (subst (1) j) (simp add: log_writer_def)
  with stop show "\<exists>j. mw_net (send_shutdown (log_writer bad) now a ?w) = mw_net ?w @ [(conn, j)]
            \<and> (\<forall>i ls. ReceiveMessage (\<lambda>_. False) i (Some j # ls) = (True, Suc i))" by blast
qed

theorem CloseAll_stops_workers_witness:
  "1 \<in> set (mw_pending (CloseAllConnections [4, 1] [(1, 1), (4, 4)] \<lparr>mw_heap = demo_clients, mw_net = [] :: (nat \<times> json) list, mw_pending = []\<rparr>))"
  by (rule CloseAll_stops_workers [where now = 0 and bad = "\<lambda>_. False" and p = 1, THEN conjunct1])
    (auto simp: int64_def range_order_def mkeys_def mget_def demo_clients_def)

end
