(* ===== verification/Master_Run.thy ===== *)
theory Master_Run
  imports Handshake
begin

text \<open>
  The running master: the core of \<^verbatim>\<open>use_cases/mastercore/master.go\<close>, its orchestrator, the gateway
  it starts and the driver of \<^verbatim>\<open>drivers/master/master.go\<close>. The goroutines that \<^verbatim>\<open>Run\<close> starts
  interleave, so they are the rules of a step relation: the handshakes that wait to hand over
  their client, the goroutine that registers clients, the health check and the goroutines that a
  shutdown left behind. \<open>k\<close> is what the commands of the operator work on.
\<close>

section \<open>State\<close>

record gateway =
  gw_SocketPath :: string
  gw_Type :: int
  gw_Port :: int
  gw_Event :: "event list"
  gw_WorkerEvent :: "addr list"
  gw_l :: "int option"

definition NewIPCServerGateway :: "string \<Rightarrow> string \<Rightarrow> int \<Rightarrow> int \<Rightarrow> gateway" where
  "NewIPCServerGateway socketPath host port type =
     \<lparr>gw_SocketPath = socketPath, gw_Type = type, gw_Port = port, gw_Event = [], gw_WorkerEvent = [], gw_l = None\<rparr>"

text \<open>Closing the gateway: an error is only logged, and without a listener there is nothing to do.\<close>

definition gateway_Close :: "(int \<Rightarrow> go_error option) \<Rightarrow> gateway \<Rightarrow> bool" where
  "gateway_Close close g = (case gw_l g of None \<Rightarrow> False | Some l \<Rightarrow> close l = None)"

record 'k Master =
  ms_workers :: conns
  ms_control :: "'k MasterRegistry option"
  ms_server :: "gateway option"

definition NewMasterCore :: "'k Master" where
  "NewMasterCore = \<lparr>ms_workers = mempty, ms_control = None, ms_server = None\<rparr>"

definition SetOperations :: "'k MasterRegistry \<Rightarrow> 'k Master \<Rightarrow> 'k Master" where
  "SetOperations control m = m\<lparr>ms_control := Some control\<rparr>"

definition Connections :: "'k Master \<Rightarrow> conns" where
  "Connections m = ms_workers m"

definition Master_Stop :: "(int \<Rightarrow> go_error option) \<Rightarrow> 'k Master \<Rightarrow> bool outcome" where
  "Master_Stop close m =
     (case ms_server m of
        None \<Rightarrow> Panic ''invalid memory address or nil pointer dereference''
      | Some g \<Rightarrow> Ret (gateway_Close close g))"

text \<open>
  The registering goroutine waits, holds a started client that it has not added yet, or has
  returned. The health check waits for its ticker or has pinged.
\<close>

datatype registrar = Waiting | Adding addr | Returned

record ('n, 'k) running =
  rn_master :: "'k Master"
  rn_world :: "'n mworld"
  rn_next :: addr
  rn_handing :: "addr list"
  rn_registrar :: registrar
  rn_pinged :: bool

text \<open>\<open>Run\<close> makes the gateway and starts the goroutines.\<close>

definition Master_Run :: "'n mworld \<Rightarrow> addr \<Rightarrow> 'k Master \<Rightarrow> ('n, 'k) running" where
  "Master_Run w next m =
     (let server = NewIPCServerGateway ''/tmp/http_mgr.sock'' ''localhost'' 1111 0
      in \<lparr>rn_master = m\<lparr>ms_server := Some server\<rparr>, rn_world = w, rn_next = next,
          rn_handing = [], rn_registrar = Waiting, rn_pinged = False\<rparr>)"

section \<open>The goroutines\<close>

text \<open>The channel on which the gateway hands over new clients.\<close>

definition worker_events :: "('n, 'k) running \<Rightarrow> addr list" where
  "worker_events s = (case ms_server (rn_master s) of None \<Rightarrow> [] | Some g \<Rightarrow> gw_WorkerEvent g)"

definition set_worker_events :: "addr list \<Rightarrow> ('n, 'k) running \<Rightarrow> ('n, 'k) running" where
  "set_worker_events evt s =
     s\<lparr>rn_master := (rn_master s)\<lparr>ms_server := map_option (gw_WorkerEvent_update (\<lambda>_. evt)) (ms_server (rn_master s))\<rparr>\<rparr>"

text \<open>The body of the loop over the events of controllers: it returns at the first error.\<close>

fun listen_messages :: "'k MasterRegistry \<Rightarrow> event list \<Rightarrow> 'k \<Rightarrow> bool \<times> 'k" where
  "listen_messages control [] k = (True, k)"
| "listen_messages control (e # evt) k =
     (case MasterRegistry_Execute control (ev_Command e) k of
        ((_, Some err), k') \<Rightarrow> (False, k')
      | ((_, None), k') \<Rightarrow> listen_messages control evt k')"

text \<open>One turn of the loop over new clients, in two parts: starting the client and adding it.\<close>

definition start_next :: "'n writer \<Rightarrow> int \<Rightarrow> ('n, 'k) running \<Rightarrow> ('n, 'k) running" where
  "start_next wr now s =
     (case worker_events s of
        [] \<Rightarrow> s
      | e # evt \<Rightarrow>
          (case WorkerClient_Start wr now e (rn_world s) of
             (err, w) \<Rightarrow>
               (set_worker_events evt s)\<lparr>rn_world := w,
                 rn_registrar := (if err = None then Adding e else Returned)\<rparr>))"

definition add_started :: "addr \<Rightarrow> ('n, 'k) running \<Rightarrow> ('n, 'k) running" where
  "add_started e s =
     s\<lparr>rn_master := (rn_master s)\<lparr>ms_workers := snd (Registry_Add e (ms_workers (rn_master s)) (rn_world s))\<rparr>,
       rn_registrar := Waiting\<rparr>"

text \<open>A handshake that succeeds allocates its client and waits to send it.\<close>

definition new_client :: "WorkerClient \<Rightarrow> ('n, 'k) running \<Rightarrow> ('n, 'k) running" where
  "new_client worker s =
     s\<lparr>rn_world := (rn_world s)\<lparr>mw_heap := (mw_heap (rn_world s))(rn_next s := worker)\<rparr>,
       rn_next := Suc (rn_next s), rn_handing := rn_handing s @ [rn_next s]\<rparr>"

text \<open>The channel has room for one client.\<close>

inductive master_step :: "'n writer \<Rightarrow> ('n, 'k) running \<Rightarrow> ('n, 'k) running \<Rightarrow> bool" for wr where
  listen: "ListenAndServe tcp file unix = Ret (Listening fd u) \<Longrightarrow>
    master_step wr s (s\<lparr>rn_master := (rn_master s)\<lparr>ms_server := map_option (gw_l_update (\<lambda>_. Some fd)) (ms_server (rn_master s))\<rparr>\<rparr>)"
| handshake: "handleHandshake conn bytes = Registered worker \<Longrightarrow> master_step wr s (new_client worker s)"
| hand_over: "rn_handing s = before @ worker # after \<Longrightarrow> length (worker_events s) < 1 \<Longrightarrow>
    master_step wr s (set_worker_events (worker_events s @ [worker]) (s\<lparr>rn_handing := before @ after\<rparr>))"
| start: "rn_registrar s = Waiting \<Longrightarrow> worker_events s \<noteq> [] \<Longrightarrow> master_step wr s (start_next wr now s)"
| add: "rn_registrar s = Adding e \<Longrightarrow> master_step wr s (add_started e s)"
| ping: "\<not> rn_pinged s \<Longrightarrow> range_order (ms_workers (rn_master s)) ks \<Longrightarrow>
    master_step wr s (s\<lparr>rn_world := pingWorkers wr now ks (ms_workers (rn_master s)) (rn_world s), rn_pinged := True\<rparr>)"
| eliminate: "rn_pinged s \<Longrightarrow> range_order (ms_workers (rn_master s)) ks \<Longrightarrow>
    master_step wr s (s\<lparr>rn_master := (rn_master s)\<lparr>ms_workers := eliminateWorkers ks (ms_workers (rn_master s)) (rn_world s)\<rparr>,
      rn_pinged := False\<rparr>)"
| last_message: "mw_pending (rn_world s) = before @ a # after \<Longrightarrow>
    master_step wr s (s\<lparr>rn_world := send_shutdown wr now a ((rn_world s)\<lparr>mw_pending := before @ after\<rparr>)\<rparr>)"
| close: "range_order (ms_workers (rn_master s)) ks \<Longrightarrow>
    master_step wr s (s\<lparr>rn_world := CloseAllConnections ks (ms_workers (rn_master s)) (rn_world s)\<rparr>)"

section \<open>The driver\<close>

text \<open>The driver sets up the core and runs it; what closing leaves is given by the two calls.\<close>

definition MasterAdapter_Init :: "'n mworld \<Rightarrow> addr \<Rightarrow> go_error option \<times> ('n, 'k) running" where
  "MasterAdapter_Init w next = (None, Master_Run w next (SetOperations RegisterCommand NewMasterCore))"

definition MasterAdapter_Close ::
  "(int \<Rightarrow> go_error option) \<Rightarrow> int list \<Rightarrow> 'k Master \<Rightarrow> 'n mworld \<Rightarrow> (go_error option \<times> bool \<times> 'n mworld) outcome" where
  "MasterAdapter_Close close ks m w =
     (let w' = CloseAllConnections ks (Connections m) w
      in case Master_Stop close m of
           Panic msg \<Rightarrow> Panic msg
         | Ret was_closed \<Rightarrow> Ret (None, was_closed, w'))"

text \<open>
  The accept loops of controllers, over what accepting gives: the connections they serve, each from
  a goroutine of its own, and whether they have returned. Every error ends them.
\<close>

fun handleController :: "nat result list \<Rightarrow> nat list \<times> bool" where
  "handleController [] = ([], False)"
| "handleController (Inl err # accepts) = ([], True)"
| "handleController (Inr conn # accepts) = (let (conns, ended) = handleController accepts in (conn # conns, ended))"

fun serveMainListener :: "nat result list \<Rightarrow> nat list \<times> bool" where
  "serveMainListener [] = ([], False)"
| "serveMainListener (Inl err # accepts) = ([], True)"
| "serveMainListener (Inr conn # accepts) = (let (conns, ended) = serveMainListener accepts in (conn # conns, ended))"

text \<open>The older start of the driver with its own accept loop for workers.\<close>

fun master_processWorker :: "accept_event list \<Rightarrow> (nat \<times> accept_event list) option" where
  "master_processWorker [] = None"
| "master_processWorker (DeadlineError # evs) = master_processWorker evs"
| "master_processWorker (AcceptError # evs) = master_processWorker evs"
| "master_processWorker (Accepted conn # evs) = Some (conn, evs)"

lemma master_processWorker_eq: "master_processWorker evs = processWorker evs"
  by (induction evs rule: processWorker.induct) auto

function ListenWorker :: "(nat \<Rightarrow> bool) \<Rightarrow> nat \<Rightarrow> accept_event list \<Rightarrow> nat list \<times> bool" where
  "ListenWorker ctx_done k evs =
     (if ctx_done k then ([], True)
      else case master_processWorker evs of
             None \<Rightarrow> ([], False)
           | Some (conn, rest) \<Rightarrow> (let (conns, ended) = ListenWorker ctx_done (Suc k) rest in (conn # conns, ended)))"
  by pat_completeness auto

termination ListenWorker
  by (relation "measure (\<lambda>(d, k, evs). length evs)") (auto simp: master_processWorker_eq dest: processWorker_length)

declare ListenWorker.simps [simp del]

definition master_writeProceedConnection ::
  "(nat \<Rightarrow> unix_msg \<Rightarrow> 'n \<Rightarrow> go_error option \<times> 'n) \<Rightarrow> int option \<Rightarrow> nat \<Rightarrow> 'n \<Rightarrow> go_error option \<times> 'n" where
  "master_writeProceedConnection send listenerFile conn n =
     (case send conn (proceed_message (File_Fd listenerFile)) n of
        (Some err, n1) \<Rightarrow> (Some (ErrorString (''gagal kirim msg unix: '' @ error_text err)), n1)
      | (None, n1) \<Rightarrow> (None, n1))"

text \<open>
  The older start takes the listener's file, so a port that is taken panics; the Unix listener's
  error is dropped. It gives the file and the core.
\<close>

definition MasterAdapter_getFD :: "nat result \<Rightarrow> (nat \<Rightarrow> int result) \<Rightarrow> int option outcome" where
  "MasterAdapter_getFD l file =
     (case l of
        Inl err \<Rightarrow> Panic ''interface conversion: interface is nil, not *net.TCPListener''
      | Inr tcp \<Rightarrow> Ret (case file tcp of Inl err \<Rightarrow> None | Inr f \<Rightarrow> Some f))"

definition MasterAdapter_InitOld :: "nat result \<Rightarrow> (nat \<Rightarrow> int result) \<Rightarrow> (int option \<times> 'k Master) outcome" where
  "MasterAdapter_InitOld l file =
     (case MasterAdapter_getFD l file of
        Panic m \<Rightarrow> Panic m
      | Ret f \<Rightarrow> Ret (f, NewMasterCore))"

text \<open>The operator's view of the core.\<close>

definition GetTotalWorkers :: "conns \<Rightarrow> int" where
  "GetTotalWorkers provider = Registry_Total provider"

definition CheckHealth :: string where
  "CheckHealth = ''HEALTHY''"

definition ScaleUp :: "unit outcome" where
  "ScaleUp = Panic ''unimplemented''"

definition ScaleDown :: "unit outcome" where
  "ScaleDown = Panic ''unimplemented''"

section \<open>Lemmas\<close>

text \<open>The older accept loop and message are those of the gateway.\<close>

lemma ListenWorker_eq: "ListenWorker ctx_done k evs = handleWorker ctx_done k evs"
proof (induction ctx_done k evs rule: ListenWorker.induct)
  case (1 ctx_done k evs)
  then show ?case
    by (subst ListenWorker.simps, subst handleWorker.simps)
      (auto simp: master_processWorker_eq split: option.splits)
qed

lemma writeProceed_eq: "master_writeProceedConnection send f = writeProceedConnection send (File_Fd f)"
  by (intro ext) (simp add: master_writeProceedConnection_def writeProceedConnection_def)

lemma handleController_eq: "handleController accepts = serveMainListener accepts"
  by (induction accepts rule: handleController.induct) auto

text \<open>
  Of the commands a controller may send, the master knows \<^verbatim>\<open>NOOP\<close> alone: any other name ends the
  loop over its events, whatever is queued behind it.
\<close>

lemma listen_messages_stops:
  assumes "cmd_Name (ev_Command e) \<noteq> ''NOOP''"
    and "\<forall>e' \<in> set before. cmd_Name (ev_Command e') = ''NOOP''"
  shows "listen_messages RegisterCommand (before @ e # after) k = (False, k)"
proof -
  have upper: "ToUpper ''noop'' = ''NOOP''" by code_simp
  show ?thesis
    using assms(2)
    by (induction before)
      (auto simp: MasterRegistry_Execute_def RegisterCommand_def MasterRegistry_Register_def NewMasterRegistry_def
        mget_mput upper assms(1))
qed

lemma Broadcast_status:
  "mw_heap (snd (EventBus_Broadcast wr m ws w)) a \<in> {mw_heap w a, (mw_heap w a)\<lparr>wc_status := Disconnected\<rparr>}"
proof (induction ws arbitrary: w)
  case (Cons v ws)
  obtain err w1 where s: "EventBus_Send wr m v w = (err, w1)" by (metis prod.exhaust)
  then have w1: "mw_heap w1 = mw_heap w" using Bus_Send(1) [of wr m v w] by simp
  show ?case
    using s w1 Cons.IH [of w] Cons.IH [of w1] Cons.IH [of "snd (WorkerClient_Shutdown v w1)"]
    by (cases err) (auto simp: Shutdown_heap split: if_splits)
qed simp

text \<open>Whatever happens to a client, it keeps its process id and its connection.\<close>

definition same_client :: "WorkerClient \<Rightarrow> WorkerClient \<Rightarrow> bool" where
  "same_client c c' \<longleftrightarrow> wc_pid c' = wc_pid c \<and> wc_l c' = wc_l c
     \<and> (wc_status c' = wc_status c \<or> wc_status c' \<in> {Connected, Disconnected})"

definition frame :: "'n mworld \<Rightarrow> 'n mworld \<Rightarrow> bool" where
  "frame w w' \<longleftrightarrow> (\<forall>a. same_client (mw_heap w a) (mw_heap w' a))"

lemma frame_refl [simp]: "mw_heap w' = mw_heap w \<Longrightarrow> frame w w'"
  by (simp add: frame_def same_client_def)

lemma frame_ping: "frame w (pingWorkers wr now ks c w)"
  unfolding frame_def pingWorkers_def
proof
  fix a
  show "same_client (mw_heap w a) (mw_heap (snd (EventBus_Broadcast wr (ping_message now) (Registry_GetAll ks c) w)) a)"
    using Broadcast_status [of wr "ping_message now" "Registry_GetAll ks c" w a] by (auto simp: same_client_def)
qed

lemma frame_start: "frame w (snd (WorkerClient_Start wr now a w))"
  by (simp add: frame_def same_client_def Start_heap)

lemma frame_close: "frame w (CloseAllConnections ks c w)"
  by (simp add: frame_def same_client_def CloseAll_heap)

lemma frame_shutdown: "frame w (send_shutdown wr now a (w\<lparr>mw_pending := p\<rparr>))"
  by (rule frame_refl) (simp add: send_shutdown_def)

lemmas frames = frame_ping frame_start frame_close frame_shutdown

text \<open>
  The invariant: the channel holds at most one client, every allocated client comes from a
  handshake, and every registered one was started and is filed under its own process id.
\<close>

definition shaken :: "WorkerClient \<Rightarrow> bool" where
  "shaken c \<longleftrightarrow> (\<exists>conn bytes. wc_l c = Some conn \<and> handleHandshake conn bytes = Registered (NewWorkerClient (Some conn) (wc_pid c)))"

definition started :: "WorkerClient \<Rightarrow> bool" where
  "started c \<longleftrightarrow> wc_status c \<in> {Connected, Disconnected}"

definition clients_ok :: "addr \<Rightarrow> addr \<Rightarrow> 'n mworld \<Rightarrow> bool" where
  "clients_ok base next w \<longleftrightarrow> (\<forall>a. base \<le> a \<and> a < next \<longrightarrow> shaken (mw_heap w a))"

definition registered_ok :: "addr \<Rightarrow> addr \<Rightarrow> conns \<Rightarrow> 'n mworld \<Rightarrow> bool" where
  "registered_ok base next c w \<longleftrightarrow> reg_inv c w \<and>
     (\<forall>pid a. mget c pid = Some a \<longrightarrow> base \<le> a \<and> a < next \<and> started (mw_heap w a))"

definition running_inv :: "addr \<Rightarrow> ('n, 'k) running \<Rightarrow> bool" where
  "running_inv base s \<longleftrightarrow> ms_server (rn_master s) \<noteq> None \<and> length (worker_events s) \<le> 1 \<and> base \<le> rn_next s
     \<and> clients_ok base (rn_next s) (rn_world s)
     \<and> (\<forall>a \<in> set (rn_handing s @ worker_events s). base \<le> a \<and> a < rn_next s)
     \<and> (\<forall>a. rn_registrar s = Adding a \<longrightarrow> base \<le> a \<and> a < rn_next s \<and> started (mw_heap (rn_world s) a))
     \<and> registered_ok base (rn_next s) (ms_workers (rn_master s)) (rn_world s)"

lemma worker_events_simps [simp]:
  "worker_events (s\<lparr>rn_handing := h\<rparr>) = worker_events s"
  "worker_events (s\<lparr>rn_world := w\<rparr>) = worker_events s"
  "worker_events (s\<lparr>rn_next := n\<rparr>) = worker_events s"
  "worker_events (s\<lparr>rn_registrar := r\<rparr>) = worker_events s"
  "worker_events (s\<lparr>rn_pinged := b\<rparr>) = worker_events s"
  "worker_events (s\<lparr>rn_master := (rn_master s)\<lparr>ms_workers := c\<rparr>\<rparr>) = worker_events s"
  "ms_server (rn_master s) \<noteq> None \<Longrightarrow> worker_events (set_worker_events evt s) = evt"
  by (auto simp: worker_events_def set_worker_events_def)

lemma set_worker_events_simps [simp]:
  "rn_world (set_worker_events evt s) = rn_world s" "rn_next (set_worker_events evt s) = rn_next s"
  "rn_handing (set_worker_events evt s) = rn_handing s" "rn_registrar (set_worker_events evt s) = rn_registrar s"
  "rn_pinged (set_worker_events evt s) = rn_pinged s"
  "ms_workers (rn_master (set_worker_events evt s)) = ms_workers (rn_master s)"
  "ms_server (rn_master (set_worker_events evt s)) = None \<longleftrightarrow> ms_server (rn_master s) = None"
  by (auto simp: set_worker_events_def)

lemma frame_client:
  assumes "frame w w'"
  shows "shaken (mw_heap w a) \<Longrightarrow> shaken (mw_heap w' a)" "started (mw_heap w a) \<Longrightarrow> started (mw_heap w' a)"
    "wc_pid (mw_heap w' a) = wc_pid (mw_heap w a)"
proof -
  have "same_client (mw_heap w a) (mw_heap w' a)" using assms by (simp add: frame_def)
  then show "shaken (mw_heap w a) \<Longrightarrow> shaken (mw_heap w' a)" "started (mw_heap w a) \<Longrightarrow> started (mw_heap w' a)"
    "wc_pid (mw_heap w' a) = wc_pid (mw_heap w a)"
    by (auto simp: same_client_def shaken_def started_def)
qed

lemma frame_clients: "clients_ok base next w \<Longrightarrow> frame w w' \<Longrightarrow> clients_ok base next w'"
  by (simp add: clients_ok_def frame_client(1))

lemma frame_registered: "registered_ok base next c w \<Longrightarrow> frame w w' \<Longrightarrow> registered_ok base next c w'"
  by (simp add: registered_ok_def reg_inv_def frame_client)

lemma frame_inv:
  assumes "running_inv base s" and "frame (rn_world s) w'"
  shows "running_inv base (s\<lparr>rn_world := w'\<rparr>)"
  using assms by (simp add: running_inv_def frame_clients [OF _ assms(2)] frame_registered [OF _ assms(2)] frame_client [OF assms(2)])

lemma inv_new_client:
  assumes "running_inv base s" and "handleHandshake conn bytes = Registered worker"
  shows "running_inv base (new_client worker s)"
proof -
  have w: "worker = NewWorkerClient (Some conn) (wc_pid worker)"
    using assms(2) by (auto simp: handleHandshake_def NewWorkerClient_def split: option.splits prod.splits)
  then have "wc_l worker = Some conn" by (metis NewWorkerClient_def WorkerClient.select_convs(3))
  with w assms(2) have "shaken worker" unfolding shaken_def by metis
  with assms(1) show ?thesis
    by (auto simp: running_inv_def new_client_def clients_ok_def registered_ok_def reg_inv_def less_Suc_eq)
qed

lemma inv_start_next:
  assumes "running_inv base s"
  shows "running_inv base (start_next wr now s)"
proof (cases "worker_events s")
  case (Cons e evt)
  obtain err w where st: "WorkerClient_Start wr now e (rn_world s) = (err, w)" by (metis prod.exhaust)
  then have "frame (rn_world s) w" "started (mw_heap w e)"
    using frame_start [of "rn_world s" wr now e] Start_heap(1) [of wr now e "rn_world s"] by (auto simp: started_def)
  with frame_inv [OF assms] have "running_inv base (s\<lparr>rn_world := w\<rparr>)" "started (mw_heap w e)" by auto
  with Cons st assms show ?thesis
    by (auto simp: running_inv_def start_next_def)
qed (simp add: start_next_def assms)

lemma inv_registry:
  assumes "running_inv base s" and "registered_ok base (rn_next s) c (rn_world s)"
  shows "running_inv base (s\<lparr>rn_master := (rn_master s)\<lparr>ms_workers := c\<rparr>\<rparr>)"
  using assms by (simp add: running_inv_def)

lemma registered_add:
  assumes "registered_ok base next c w" and "base \<le> e" and "e < next" and "started (mw_heap w e)"
  shows "registered_ok base next (snd (Registry_Add e c w)) w"
  using assms reg_inv_Add [of c w e] by (auto simp: registered_ok_def Registry_Add_def mget_mput split: if_splits)

lemma registered_eliminate:
  assumes "registered_ok base next c w"
  shows "registered_ok base next (eliminateWorkers ks c w) w"
  using assms by (auto simp: registered_ok_def reg_inv_def eliminate_get eliminate_wf split: option.splits if_splits)

text \<open>Fields that the invariant does not read.\<close>

lemma inv_pinged [simp]: "running_inv base (s\<lparr>rn_pinged := b\<rparr>) = running_inv base s"
  by (simp add: running_inv_def)

lemma running_inv_step: "master_step wr s s' \<Longrightarrow> running_inv base s \<Longrightarrow> running_inv base s'"
proof (induction rule: master_step.induct)
  case (listen tcp f unix fd u s)
  then show ?case by (auto simp: running_inv_def worker_events_def)
next
  case (handshake conn bytes worker s)
  then show ?case by (rule inv_new_client [rotated])
next
  case (hand_over s before worker after)
  then show ?case by (auto simp: running_inv_def)
next
  case (start s now)
  then show ?case by (auto intro: inv_start_next)
next
  case (add s e)
  then have "registered_ok base (rn_next s) (snd (Registry_Add e (ms_workers (rn_master s)) (rn_world s))) (rn_world s)"
    by (intro registered_add) (auto simp: running_inv_def)
  from inv_registry [OF add.prems this] show ?case by (simp add: running_inv_def add_started_def)
next
  case (ping s ks now)
  from frame_inv [OF ping.prems frame_ping] show ?case by simp
next
  case (eliminate s ks)
  then have "registered_ok base (rn_next s) (eliminateWorkers ks (ms_workers (rn_master s)) (rn_world s)) (rn_world s)"
    by (intro registered_eliminate) (simp add: running_inv_def)
  from inv_registry [OF eliminate.prems this] show ?case by simp
next
  case (last_message s before a after now)
  from frame_inv [OF last_message.prems frame_shutdown] show ?case .
next
  case (close s ks)
  from frame_inv [OF close.prems frame_close] show ?case .
qed

lemma running_inv_Run:
  assumes "ms_workers m = mempty"
  shows "running_inv base (Master_Run w base m)"
  using assms by (auto simp: running_inv_def Master_Run_def worker_events_def NewIPCServerGateway_def clients_ok_def
      registered_ok_def reg_inv_def wf_mempty)

lemma running_inv_reachable:
  "(master_step wr)\<^sup>*\<^sup>* s s' \<Longrightarrow> running_inv base s \<Longrightarrow> running_inv base s'"
  by (induction rule: rtranclp_induct) (auto intro: running_inv_step)

text \<open>A registering goroutine that has returned stays so, and from then on the registry only shrinks.\<close>

lemma returned_step:
  "master_step wr s s' \<Longrightarrow> rn_registrar s = Returned \<Longrightarrow>
     rn_registrar s' = Returned
   \<and> (\<forall>pid a. mget (ms_workers (rn_master s')) pid = Some a \<longrightarrow> mget (ms_workers (rn_master s)) pid = Some a)"
  by (induction rule: master_step.induct) (auto simp: new_client_def eliminate_get split: option.splits if_splits)

lemma returned_reachable:
  "(master_step wr)\<^sup>*\<^sup>* s s' \<Longrightarrow> rn_registrar s = Returned \<Longrightarrow>
     rn_registrar s' = Returned
   \<and> (\<forall>pid a. mget (ms_workers (rn_master s')) pid = Some a \<longrightarrow> mget (ms_workers (rn_master s)) pid = Some a)"
proof (induction rule: rtranclp_induct)
  case (step s1 s2)
  then show ?case using returned_step [OF step.hyps(2)] by blast
qed simp

lemma Start_ok:
  assumes "broken_conns wr bad" and "\<not> unreachable bad (mw_heap w a)"
  shows "fst (WorkerClient_Start wr now a w) = None"
  using assms Send_fails [OF assms(1), of a _ "set_status Connected a w"]
  by (auto simp: WorkerClient_Start_def Let_def set_status_def unreachable_def case_prod_unfold)

text \<open>The registering goroutine and the handshakes alone bring every waiting client into the registry.\<close>

definition pending_clients :: "('n, 'k) running \<Rightarrow> addr set" where
  "pending_clients s = set (rn_handing s) \<union> set (worker_events s) \<union>
     (case rn_registrar s of Adding e \<Rightarrow> {e} | _ \<Rightarrow> {})"

definition work_left :: "('n, 'k) running \<Rightarrow> nat" where
  "work_left s = 3 * length (rn_handing s) + 2 * length (worker_events s) + (if rn_registrar s = Waiting then 0 else 1)"

definition filed :: "('n, 'k) running \<Rightarrow> int \<Rightarrow> bool" where
  "filed s pid = (mget (ms_workers (rn_master s)) pid \<noteq> None)"

lemma drain_step:
  assumes "broken_conns wr bad" and "ms_server (rn_master s) \<noteq> None" and "rn_registrar s \<noteq> Returned"
    and "\<forall>a \<in> pending_clients s. \<not> unreachable bad (mw_heap (rn_world s) a)" and "work_left s \<noteq> 0"
  shows "\<exists>s1. master_step wr s s1 \<and> work_left s1 < work_left s \<and> ms_server (rn_master s1) \<noteq> None \<and> rn_registrar s1 \<noteq> Returned
     \<and> (\<forall>a. wc_pid (mw_heap (rn_world s1) a) = wc_pid (mw_heap (rn_world s) a) \<and> wc_l (mw_heap (rn_world s1) a) = wc_l (mw_heap (rn_world s) a))
     \<and> pending_clients s1 \<subseteq> pending_clients s
     \<and> (\<forall>pid. filed s pid \<longrightarrow> filed s1 pid)
     \<and> (\<forall>a \<in> pending_clients s - pending_clients s1. filed s1 (wc_pid (mw_heap (rn_world s) a)))"
proof (cases "rn_registrar s")
  case (Adding e)
  then show ?thesis
    by (intro exI [of _ "add_started e s"] conjI master_step.add)
      (auto simp: add_started_def work_left_def pending_clients_def filed_def Registry_Add_def mget_mput assms(2))
next
  case Waiting
  show ?thesis
  proof (cases "worker_events s")
    case (Cons e evt)
    with assms(1,4) have ok: "fst (WorkerClient_Start wr 0 e (rn_world s)) = None"
      by (intro Start_ok) (auto simp: pending_clients_def)
    obtain w where st: "WorkerClient_Start wr 0 e (rn_world s) = (None, w)" using ok by (metis prod.collapse)
    then have "mw_heap w = (mw_heap (rn_world s))(e := (mw_heap (rn_world s) e)\<lparr>wc_status := Connected\<rparr>)"
      using Start_heap(1) [of wr 0 e "rn_world s"] by simp
    with Cons Waiting st assms(2) show ?thesis
      by (intro exI [of _ "start_next wr 0 s"] conjI master_step.start)
        (auto simp: start_next_def work_left_def pending_clients_def filed_def)
  next
    case Nil
    with Waiting assms(5) obtain h hs where h: "rn_handing s = h # hs" by (cases "rn_handing s") (auto simp: work_left_def)
    with master_step.hand_over [of s "[]" h hs wr] Nil have
      "master_step wr s (set_worker_events [h] (s\<lparr>rn_handing := hs\<rparr>))" by simp
    with Nil Waiting h assms(2) show ?thesis
      by (intro exI [of _ "set_worker_events [h] (s\<lparr>rn_handing := hs\<rparr>)"] conjI)
        (auto simp: work_left_def pending_clients_def filed_def)
  qed
qed (use assms(3) in simp)

lemma drain:
  assumes "broken_conns wr bad" and "ms_server (rn_master s) \<noteq> None" and "rn_registrar s \<noteq> Returned"
    and "\<forall>a \<in> pending_clients s. \<not> unreachable bad (mw_heap (rn_world s) a)"
  shows "\<exists>s'. (master_step wr)\<^sup>*\<^sup>* s s' \<and> work_left s' = 0 \<and> (\<forall>pid. filed s pid \<longrightarrow> filed s' pid)
     \<and> (\<forall>a \<in> pending_clients s. filed s' (wc_pid (mw_heap (rn_world s) a)))"
  using assms
proof (induction "work_left s" arbitrary: s rule: less_induct)
  case less
  show ?case
  proof (cases "work_left s = 0")
    case True
    then have "pending_clients s = {}"
      by (auto simp: work_left_def pending_clients_def split: registrar.splits if_splits)
    with True show ?thesis by auto
  next
    case False
    from drain_step [OF less.prems False] obtain s1 where s1: "master_step wr s s1" "work_left s1 < work_left s"
        "ms_server (rn_master s1) \<noteq> None" "rn_registrar s1 \<noteq> Returned"
        "\<And>a. wc_pid (mw_heap (rn_world s1) a) = wc_pid (mw_heap (rn_world s) a)"
        "\<And>a. wc_l (mw_heap (rn_world s1) a) = wc_l (mw_heap (rn_world s) a)"
        "pending_clients s1 \<subseteq> pending_clients s" "\<And>pid. filed s pid \<Longrightarrow> filed s1 pid"
        "\<And>a. a \<in> pending_clients s - pending_clients s1 \<Longrightarrow> filed s1 (wc_pid (mw_heap (rn_world s) a))" by auto
    have "\<forall>a \<in> pending_clients s1. \<not> unreachable bad (mw_heap (rn_world s1) a)"
      using less.prems(4) s1(6,7) by (auto simp: unreachable_def)
    from less.hyps [OF s1(2) less.prems(1) s1(3,4) this] obtain s' where
      s': "(master_step wr)\<^sup>*\<^sup>* s1 s'" "work_left s' = 0" "\<And>pid. filed s1 pid \<Longrightarrow> filed s' pid"
        "\<And>a. a \<in> pending_clients s1 \<Longrightarrow> filed s' (wc_pid (mw_heap (rn_world s1) a))" by auto
    have "(master_step wr)\<^sup>*\<^sup>* s s'" using s1(1) s'(1) by (rule converse_rtranclp_into_rtranclp)
    moreover have "filed s' (wc_pid (mw_heap (rn_world s) a))" if "a \<in> pending_clients s" for a
      using that s1(5,9) s'(3,4) [of] by (cases "a \<in> pending_clients s1") (metis DiffI)+
    ultimately show ?thesis using s1(8) s'(2,3) by blast
  qed
qed

text \<open>A master whose first worker, with process id 7 on connection 3, has shaken hands and waits in the channel.\<close>

definition demo_world :: "(nat \<times> json) list mworld" where
  "demo_world = \<lparr>mw_heap = (\<lambda>_. NewWorkerClient None 0), mw_net = [], mw_pending = []\<rparr>"

definition demo_shaken :: "((nat \<times> json) list, unit) running" where
  "demo_shaken = new_client (NewWorkerClient (Some 3) 7) (snd (MasterAdapter_Init demo_world 0))"

definition demo_queued :: "((nat \<times> json) list, unit) running" where
  "demo_queued = set_worker_events [0] (demo_shaken\<lparr>rn_handing := []\<rparr>)"

lemma demo_handshake: "handleHandshake 3 (pid_report 7) = Registered (NewWorkerClient (Some 3) 7)"
proof -
  have "int64 7" by (simp add: int64_def)
  from handshake_pid(1) [OF this, of "[]"] handshake_pid(2) [OF this] show ?thesis
    by (simp add: handleHandshake_def)
qed

lemma demo_simps [simp]:
  "worker_events demo_shaken = []" "rn_handing demo_shaken = [0]" "worker_events demo_queued = [0]"
  "rn_registrar demo_shaken = Waiting" "rn_registrar demo_queued = Waiting" "rn_handing demo_queued = []"
  "mw_heap (rn_world demo_shaken) 0 = NewWorkerClient (Some 3) 7"
  "mw_heap (rn_world demo_queued) 0 = NewWorkerClient (Some 3) 7"
  "ms_workers (rn_master demo_queued) = mempty"
  by (simp_all add: demo_shaken_def demo_queued_def new_client_def MasterAdapter_Init_def Master_Run_def
      NewIPCServerGateway_def worker_events_def SetOperations_def NewMasterCore_def demo_world_def set_worker_events_def)

lemma demo_run: "(master_step wr)\<^sup>*\<^sup>* (snd (MasterAdapter_Init demo_world 0)) demo_shaken" "(master_step wr)\<^sup>*\<^sup>* demo_shaken demo_queued"
proof -
  show "(master_step wr)\<^sup>*\<^sup>* (snd (MasterAdapter_Init demo_world 0)) demo_shaken"
    unfolding demo_shaken_def by (rule r_into_rtranclp [of "master_step wr"], rule master_step.handshake [OF demo_handshake])
  show "(master_step wr)\<^sup>*\<^sup>* demo_shaken demo_queued"
    using master_step.hand_over [of demo_shaken "[]" 0 "[]" wr] by (simp add: demo_queued_def r_into_rtranclp)
qed

section \<open>Properties\<close>





text \<open>
  C36. One worker that is gone when it is first pinged stops all registration: the registering
  goroutine returns, and whatever happens afterwards no process id is ever added or moved to
  another client; the registry can only shrink.
\<close>

theorem registration_stops_for_good:
  assumes "rn_registrar s = Waiting" and "worker_events s = e # evt"
    and "fst (WorkerClient_Start wr now e (rn_world s)) \<noteq> None"
    and "(master_step wr)\<^sup>*\<^sup>* (start_next wr now s) s'"
  shows "rn_registrar s' = Returned
       \<and> (\<forall>pid a. Registry_Get (Connections (rn_master s')) pid = Some a \<longrightarrow> Registry_Get (Connections (rn_master s)) pid = Some a)"
proof -
  have "rn_registrar (start_next wr now s) = Returned" "ms_workers (rn_master (start_next wr now s)) = ms_workers (rn_master s)"
    using assms(2,3) by (auto simp: start_next_def case_prod_unfold)
  with returned_reachable [OF assms(4)] show ?thesis by (simp add: Registry_Get_def Connections_def)
qed

theorem registration_stops_for_good_witness:
  "Registry_Get (Connections (rn_master (new_client (NewWorkerClient (Some 3) 7)
     (start_next (log_writer (\<lambda>c. c = 3)) 0 demo_queued)))) 7 = None"
proof -
  let ?wr = "log_writer (\<lambda>c. c = 3)" let ?s = "start_next ?wr 0 demo_queued"
  have r: "(master_step ?wr)\<^sup>*\<^sup>* ?s (new_client (NewWorkerClient (Some 3) 7) ?s)"
    by (rule r_into_rtranclp [of "master_step ?wr"], rule master_step.handshake [OF demo_handshake])
  have "fst (WorkerClient_Start ?wr 0 0 (rn_world demo_queued)) \<noteq> None"
    by (simp add: WorkerClient_Start_def Let_def set_status_def WorkerClient_Send_def NewWorkerClient_def log_writer_def
        json_message_def)
  from registration_stops_for_good [OF _ _ this r] show ?thesis
    by (cases "Registry_Get (Connections (rn_master (new_client (NewWorkerClient (Some 3) 7) ?s))) 7")
      (auto simp: Registry_Get_def Connections_def)
qed

end
