(* ===== verification/Driver_Manager.thy ===== *)
theory Driver_Manager
  imports Go_Prelude
begin

text \<open>
  The two driver managers, \<^verbatim>\<open>pkg/driver/driver.go\<close> (version 1) and
  \<^verbatim>\<open>pkg/driver/v2/driver.go\<close> (version 2). A driver is a value of the interface
  \<^verbatim>\<open>IDriver\<close>; its methods may change the world \<open>'w\<close> and its instance is of type \<open>'i\<close>,
  with \<open>None\<close> for a nil interface value. Version 1 keeps a driver whose \<^verbatim>\<open>Init\<close> failed,
  version 2 does not; both close in the order of registration.
\<close>

section \<open>Drivers\<close>

record ('i, 'w) IDriver =
  drv_Name :: string
  drv_Init :: "'w \<Rightarrow> go_error option \<times> 'w"
  drv_Instance :: "'w \<Rightarrow> 'i option"
  drv_Close :: "'w \<Rightarrow> go_error option \<times> 'w"

section \<open>Version 1\<close>

text \<open>The slice of drivers is nil (\<open>None\<close>) after \<^verbatim>\<open>CloseAllDriver\<close>.\<close>

record ('i, 'w) Driver =
  v1_drivers :: "('i, 'w) IDriver list option"

definition NewDriver :: "('i, 'w) Driver" where
  "NewDriver = \<lparr>v1_drivers = Some []\<rparr>"

fun find_instance :: "('i, 'w) IDriver list \<Rightarrow> string \<Rightarrow> 'w \<Rightarrow> 'i option" where
  "find_instance [] name w = None"
| "find_instance (d # ds) name w =
     (if drv_Name d = name then drv_Instance d w else find_instance ds name w)"

definition Driver_Instance :: "('i, 'w) Driver \<Rightarrow> string \<Rightarrow> 'w \<Rightarrow> 'i option" where
  "Driver_Instance d name w =
     (case v1_drivers d of None \<Rightarrow> None | Some ds \<Rightarrow> find_instance ds name w)"

definition slice_append :: "'a list option \<Rightarrow> 'a \<Rightarrow> 'a list option" where
  "slice_append xs x = Some (case xs of None \<Rightarrow> [x] | Some ys \<Rightarrow> ys @ [x])"

definition Driver_RunDriver ::
  "('i, 'w) IDriver option \<Rightarrow> ('i, 'w) Driver \<Rightarrow> 'w \<Rightarrow> go_error option \<times> ('i, 'w) Driver \<times> 'w"
where
  "Driver_RunDriver driver d w =
     (case driver of
        None \<Rightarrow> (Some (ErrorString ''Driver cannot be nil''), d, w)
      | Some x \<Rightarrow>
          (case drv_Init x w of
             (err, w') \<Rightarrow> (err, d\<lparr>v1_drivers := slice_append (v1_drivers d) x\<rparr>, w')))"

fun v1_close_loop ::
  "(string \<Rightarrow> go_error \<Rightarrow> 'w \<Rightarrow> 'w) \<Rightarrow> ('i, 'w) IDriver list \<Rightarrow> 'w \<Rightarrow> 'w" where
  "v1_close_loop handleError [] w = w"
| "v1_close_loop handleError (d # ds) w =
     (case drv_Close d w of
        (Some e, w') \<Rightarrow> v1_close_loop handleError ds (handleError (drv_Name d) e w')
      | (None, w') \<Rightarrow> v1_close_loop handleError ds w')"

definition Driver_CloseAllDriver ::
  "(string \<Rightarrow> go_error \<Rightarrow> 'w \<Rightarrow> 'w) \<Rightarrow> ('i, 'w) Driver \<Rightarrow> 'w \<Rightarrow> go_error option \<times> ('i, 'w) Driver \<times> 'w"
where
  "Driver_CloseAllDriver handleError d w =
     (let w' = (case v1_drivers d of
                  None \<Rightarrow> w
                | Some ds \<Rightarrow> if length ds > 0 then v1_close_loop handleError ds w else w)
      in (None, d\<lparr>v1_drivers := None\<rparr>, w'))"

section \<open>Version 2\<close>

record ('i, 'w) Manager =
  v2_drivers :: "('i, 'w) IDriver list"

definition NewManagerV2 :: "('i, 'w) Manager" where
  "NewManagerV2 = \<lparr>v2_drivers = []\<rparr>"

definition Manager_Instance :: "('i, 'w) Manager \<Rightarrow> string \<Rightarrow> 'w \<Rightarrow> 'i option" where
  "Manager_Instance m name w = find_instance (v2_drivers m) name w"

fun has_name :: "('i, 'w) IDriver list \<Rightarrow> string \<Rightarrow> bool" where
  "has_name [] name = False"
| "has_name (d # ds) name = (if drv_Name d = name then True else has_name ds name)"

definition Manager_Has :: "('i, 'w) Manager \<Rightarrow> string \<Rightarrow> bool" where
  "Manager_Has m name = has_name (v2_drivers m) name"

definition Manager_RunDriver ::
  "('i, 'w) IDriver option \<Rightarrow> ('i, 'w) Manager \<Rightarrow> 'w \<Rightarrow> go_error option \<times> ('i, 'w) Manager \<times> 'w"
where
  "Manager_RunDriver driver m w =
     (case driver of
        None \<Rightarrow> (Some (ErrorString ''driver cannot be nil''), m, w)
      | Some d \<Rightarrow>
          (case drv_Init d w of
             (Some err, w') \<Rightarrow>
               (Some (WrapError (''failed to initialize driver '' @ quoted (drv_Name d) @ '': '') err ''''),
                m, w')
           | (None, w') \<Rightarrow> (None, m\<lparr>v2_drivers := v2_drivers m @ [d]\<rparr>, w')))"

definition close_error :: "string \<Rightarrow> go_error \<Rightarrow> go_error" where
  "close_error name e = WrapError (''driver '' @ quoted name @ '': '') e ''''"

fun v2_close_loop ::
  "(string \<Rightarrow> go_error \<Rightarrow> 'w \<Rightarrow> 'w) \<Rightarrow> ('i, 'w) IDriver list \<Rightarrow> 'w \<Rightarrow> go_error list \<times> 'w" where
  "v2_close_loop handleError [] w = ([], w)"
| "v2_close_loop handleError (d # ds) w =
     (case drv_Close d w of
        (Some e, w') \<Rightarrow>
          (case v2_close_loop handleError ds (handleError (drv_Name d) e w') of
             (errs, w'') \<Rightarrow> (close_error (drv_Name d) e # errs, w''))
      | (None, w') \<Rightarrow> v2_close_loop handleError ds w')"

definition Manager_CloseAllDriver ::
  "(string \<Rightarrow> go_error \<Rightarrow> 'w \<Rightarrow> 'w) \<Rightarrow> ('i, 'w) Manager \<Rightarrow> 'w \<Rightarrow> go_error option \<times> ('i, 'w) Manager \<times> 'w"
where
  "Manager_CloseAllDriver handleError m w =
     (case v2_close_loop handleError (v2_drivers m) w of
        (errs, w') \<Rightarrow> (errors_Join (map Some errs), m\<lparr>v2_drivers := []\<rparr>, w'))"

text \<open>
  \<^verbatim>\<open>Get[T]\<close>: \<open>cast\<close> is the type assertion to \<open>T\<close>, \<open>tyname\<close> what the verb
  \<^verbatim>\<open>%T\<close> prints for the instance and \<open>want\<close> what it prints for the zero value of \<open>T\<close>.
\<close>

definition Manager_Get ::
  "('i \<Rightarrow> 't option) \<Rightarrow> ('i \<Rightarrow> string) \<Rightarrow> string \<Rightarrow> ('i, 'w) Manager \<Rightarrow> string \<Rightarrow> 'w \<Rightarrow> 't result" where
  "Manager_Get cast tyname want m name w =
     (case Manager_Instance m name w of
        None \<Rightarrow> Inl (ErrorString (''driver '' @ quoted name @ '' not found''))
      | Some raw \<Rightarrow>
          (case cast raw of
             None \<Rightarrow> Inl (ErrorString (''driver '' @ quoted name @ '' is '' @ tyname raw @ '', expected '' @ want))
           | Some typed \<Rightarrow> Inr typed))"

definition Manager_MustGet ::
  "('i \<Rightarrow> 't option) \<Rightarrow> ('i \<Rightarrow> string) \<Rightarrow> string \<Rightarrow> ('i, 'w) Manager \<Rightarrow> string \<Rightarrow> 'w \<Rightarrow> 't outcome" where
  "Manager_MustGet cast tyname want m name w =
     (case Manager_Get cast tyname want m name w of
        Inl err \<Rightarrow> Panic (''driver.MustGet: '' @ error_text err)
      | Inr v \<Rightarrow> Ret v)"

section \<open>Specification of a shutdown\<close>

text \<open>One driver closed, with its error reported.\<close>

definition close_one :: "(string \<Rightarrow> go_error \<Rightarrow> 'w \<Rightarrow> 'w) \<Rightarrow> ('i, 'w) IDriver \<Rightarrow> 'w \<Rightarrow> 'w" where
  "close_one handleError d w =
     (case drv_Close d w of (Some e, w') \<Rightarrow> handleError (drv_Name d) e w' | (None, w') \<Rightarrow> w')"

definition v1_list :: "('i, 'w) Driver \<Rightarrow> ('i, 'w) IDriver list" where
  "v1_list d = (case v1_drivers d of None \<Rightarrow> [] | Some ds \<Rightarrow> ds)"

section \<open>The interface of a driver registry\<close>

lemma find_app: "find P (xs @ ys) = (case find P xs of None \<Rightarrow> find P ys | Some x \<Rightarrow> Some x)"
  by (induction xs) auto

text \<open>
  Both managers find a driver by the first registration under a name; a later driver of the same
  name is never seen. The law is about the registration step alone; \<open>drivers\<close> lists what is
  registered.
\<close>

locale driver_registry =
  fixes drivers :: "'r \<Rightarrow> ('i, 'w) IDriver list"
    and register :: "('i, 'w) IDriver \<Rightarrow> 'r \<Rightarrow> 'r"
    and inst :: "'r \<Rightarrow> string \<Rightarrow> 'w \<Rightarrow> 'i option"
  assumes drivers_register: "drivers (register d r) = drivers r @ [d]"
    and inst_first: "inst r name w =
      (case find (\<lambda>d. drv_Name d = name) (drivers r) of None \<Rightarrow> None | Some d \<Rightarrow> drv_Instance d w)"
begin

lemma drivers_registers: "drivers (fold register ds r) = drivers r @ ds"
  by (induction ds arbitrary: r) (simp_all add: drivers_register)

lemma inst_register_other: "drv_Name d \<noteq> name \<Longrightarrow> inst (register d r) name w = inst r name w"
  by (simp add: inst_first drivers_register find_app split: option.splits)

lemma inst_register_new:
  assumes "drv_Name d = name" "name \<notin> drv_Name ` set (drivers r)"
  shows "inst (register d r) name w = drv_Instance d w"
proof -
  have "find (\<lambda>d. drv_Name d = name) (drivers r) = None"
    using assms(2) by (auto simp: find_None_iff)
  then show ?thesis using assms(1) by (simp add: inst_first drivers_register find_app)
qed

lemma inst_shadowed:
  "name \<in> drv_Name ` set (drivers r) \<Longrightarrow> inst (register d r) name w = inst r name w"
  by (auto simp: inst_first drivers_register find_app find_None_iff split: option.splits)

end

section \<open>Lemmas\<close>

lemma find_instance_find:
  "find_instance ds name w =
     (case find (\<lambda>d. drv_Name d = name) ds of None \<Rightarrow> None | Some d \<Rightarrow> drv_Instance d w)"
  by (induction ds) auto

lemma has_name_iff: "has_name ds name \<longleftrightarrow> name \<in> drv_Name ` set ds"
  by (induction ds) auto

interpretation dr1: driver_registry v1_list
  "\<lambda>d r. r\<lparr>v1_drivers := slice_append (v1_drivers r) d\<rparr>" Driver_Instance
  by unfold_locales
    (auto simp: v1_list_def slice_append_def Driver_Instance_def find_instance_find split: option.splits)

interpretation dr2: driver_registry v2_drivers "\<lambda>d r. r\<lparr>v2_drivers := v2_drivers r @ [d]\<rparr>" Manager_Instance
  by unfold_locales (auto simp: Manager_Instance_def find_instance_find)

lemma v1_close_loop_fold: "v1_close_loop handleError ds w = fold (close_one handleError) ds w"
  by (induction ds arbitrary: w) (auto simp: close_one_def split: prod.splits option.splits)

lemma v2_close_loop_fold: "snd (v2_close_loop handleError ds w) = fold (close_one handleError) ds w"
  by (induction ds arbitrary: w) (auto simp: close_one_def case_prod_unfold split: option.splits)

text \<open>The errors of a shutdown, read off the worlds in which the drivers are closed.\<close>

lemma v2_close_loop_errs:
  "fst (v2_close_loop handleError ds w) =
     concat (map (\<lambda>i. case fst (drv_Close (ds ! i) (fold (close_one handleError) (take i ds) w)) of
                        None \<Rightarrow> [] | Some e \<Rightarrow> [close_error (drv_Name (ds ! i)) e]) [0..<length ds])"
proof (induction ds arbitrary: w)
  case Nil
  then show ?case by simp
next
  case (Cons d ds)
  have shift: "[0..<length (d # ds)] = 0 # map Suc [0..<length ds]"
    by (simp add: upt_conv_Cons map_Suc_upt del: upt_Suc)
  show ?case
    unfolding shift
    by (simp add: close_one_def o_def case_prod_unfold Cons.IH cong: option.case_cong split: option.split)
qed

lemma errors_Join_filter:
  "errors_Join (map Some (concat (map (\<lambda>i. case f i of None \<Rightarrow> [] | Some e \<Rightarrow> [g i e]) xs)))
     = errors_Join (map (\<lambda>i. map_option (g i) (f i)) xs)"
proof -
  have "filter (\<lambda>e. e \<noteq> None) (map Some (concat (map (\<lambda>i. case f i of None \<Rightarrow> [] | Some e \<Rightarrow> [g i e]) xs)))
      = filter (\<lambda>e. e \<noteq> None) (map (\<lambda>i. map_option (g i) (f i)) xs)"
    by (induction xs) (auto split: option.splits)
  then show ?thesis unfolding errors_Join_def by presburger
qed

section \<open>Properties\<close>

text \<open>
  A version 2 manager registers a driver exactly when its \<^verbatim>\<open>Init\<close> succeeds: the call
  returns nil, and the name becomes known, in that case only; on failure the manager is unchanged
  and the error wraps the error of \<^verbatim>\<open>Init\<close>.
\<close>

theorem Manager_RunDriver_registers_on_success:
  assumes "Manager_RunDriver (Some d) m w = (r, m', w')"
  shows "w' = snd (drv_Init d w)
       \<and> (r = None \<longleftrightarrow> fst (drv_Init d w) = None)
       \<and> (\<forall>name. Manager_Has m' name \<longleftrightarrow>
             Manager_Has m name \<or> fst (drv_Init d w) = None \<and> name = drv_Name d)
       \<and> (\<forall>e. fst (drv_Init d w) = Some e \<longrightarrow>
             m' = m \<and> error_text (the r) =
               ''failed to initialize driver '' @ quoted (drv_Name d) @ '': '' @ error_text e)"
  using assms
  by (auto simp: Manager_RunDriver_def Manager_Has_def has_name_iff split: prod.splits option.splits)

definition demo_driver :: "string \<Rightarrow> go_error option \<Rightarrow> (nat, string list) IDriver" where
  "demo_driver n e = \<lparr>drv_Name = n, drv_Init = (\<lambda>w. (e, w @ [n])), drv_Instance = (\<lambda>w. Some (length w)),
     drv_Close = (\<lambda>w. (e, w @ [''close '' @ n]))\<rparr>"

theorem Manager_RunDriver_registers_on_success_witness:
  "fst (Manager_RunDriver (Some (demo_driver ''db'' None)) NewManagerV2 []) = None
   \<and> Manager_Has (fst (snd (Manager_RunDriver (Some (demo_driver ''db'' None)) NewManagerV2 []))) ''db''"
proof -
  obtain r m' w' where run: "Manager_RunDriver (Some (demo_driver ''db'' None)) NewManagerV2 [] = (r, m', w')"
    by (cases "Manager_RunDriver (Some (demo_driver ''db'' None)) NewManagerV2 []") auto
  from Manager_RunDriver_registers_on_success [OF run] run show ?thesis
    by (simp add: demo_driver_def)
qed

text \<open>
  C32. \<^verbatim>\<open>CloseAllDriver\<close> of version 2 closes every registered driver exactly once, in the order
  of registration and past failures, reports each failure, leaves the manager empty, and returns
  the join of exactly the failures, each with the name of its driver (nil when there are none).
  Version 1 does the same to the world but always returns nil.
\<close>

theorem CloseAllDriver_closes_all:
  "Manager_CloseAllDriver handleError m w =
     (errors_Join (map (\<lambda>i.
        map_option (close_error (drv_Name (v2_drivers m ! i)))
          (fst (drv_Close (v2_drivers m ! i) (fold (close_one handleError) (take i (v2_drivers m)) w))))
        [0..<length (v2_drivers m)]),
      NewManagerV2, fold (close_one handleError) (v2_drivers m) w)
   \<and> Driver_CloseAllDriver handleError d w =
     (None, \<lparr>v1_drivers = None\<rparr>, fold (close_one handleError) (v1_list d) w)"
proof
  let ?step = "\<lambda>i. fst (drv_Close (v2_drivers m ! i) (fold (close_one handleError) (take i (v2_drivers m)) w))"
  show "Manager_CloseAllDriver handleError m w = (errors_Join (map (\<lambda>i.
      map_option (close_error (drv_Name (v2_drivers m ! i))) (?step i)) [0..<length (v2_drivers m)]),
      NewManagerV2, fold (close_one handleError) (v2_drivers m) w)"
    using v2_close_loop_fold [of handleError "v2_drivers m" w] v2_close_loop_errs [of handleError "v2_drivers m" w]
    by (auto simp: Manager_CloseAllDriver_def NewManagerV2_def errors_Join_filter split: prod.splits)
  show "Driver_CloseAllDriver handleError d w =
      (None, \<lparr>v1_drivers = None\<rparr>, fold (close_one handleError) (v1_list d) w)"
    by (auto simp: Driver_CloseAllDriver_def v1_list_def v1_close_loop_fold split: option.splits)
qed

end
