(* ===== verification/Query_Scopes.thy ===== *)
theory Query_Scopes
  imports Go_Strings Go_Json
begin

text \<open>
  What \<^verbatim>\<open>gorm/models\<close> and \<^verbatim>\<open>gorm/utils\<close> do to a query: paging, sorting, searching, and the
  base model with its soft-delete time. The functions only call methods of the \<^verbatim>\<open>gorm.DB\<close>
  they are given, so each is modelled by the calls it makes, in order. \<open>oor\<close> is the conversion
  of a float outside the range of \<^verbatim>\<open>int\<close>.
\<close>

section \<open>Calls on a query\<close>

datatype gorm_call =
    Where string string
  | Or string string
  | Order string bool
  | OrderByValue string string
  | Count
  | Scopes
  | Offset int
  | Limit int

section \<open>Paging\<close>

record Paginate =
  pg_Page :: string
  pg_PageSize :: string
  pg_Offset :: int
  pg_Total :: int
  pg_PageCount :: int

definition page_count :: "(float64 \<Rightarrow> int) \<Rightarrow> int \<Rightarrow> int \<Rightarrow> int" where
  "page_count oor tot pageSize = int_of_float oor (Ceil (fdiv (float_of_int tot) (float_of_int pageSize)))"

definition SetPageCount :: "(float64 \<Rightarrow> int) \<Rightarrow> int \<Rightarrow> int \<Rightarrow> Paginate \<Rightarrow> Paginate" where
  "SetPageCount oor tot pageSize p = p\<lparr>pg_Total := tot, pg_PageCount := page_count oor tot pageSize\<rparr>"

definition requested_page :: "Paginate \<Rightarrow> int" where
  "requested_page p = (let page = fst (Atoi (pg_Page p)) in if page = 0 then 1 else page)"

definition requested_size :: "Paginate \<Rightarrow> int" where
  "requested_size p =
     (let pageSize = fst (Atoi (pg_PageSize p))
      in if pageSize > 100 then 100 else if pageSize \<le> 0 then 10 else pageSize)"

definition page_offset :: "int \<Rightarrow> int \<Rightarrow> int" where
  "page_offset page pageSize = wrap64 (wrap64 (page - 1) * pageSize)"

definition SetPagination :: "(float64 \<Rightarrow> int) \<Rightarrow> Paginate \<Rightarrow> Paginate" where
  "SetPagination oor p =
     (let page = requested_page p; pageSize = requested_size p
      in p\<lparr>pg_PageCount := page_count oor (pg_Total p) pageSize, pg_Offset := page_offset page pageSize\<rparr>)"

text \<open>The scope that \<^verbatim>\<open>Pagination\<close> returns, run on a query.\<close>

definition Pagination :: "(float64 \<Rightarrow> int) \<Rightarrow> Paginate \<Rightarrow> Paginate \<times> gorm_call list" where
  "Pagination oor p =
     (let page = requested_page p; pageSize = requested_size p; offset = page_offset page pageSize
      in (p\<lparr>pg_PageCount := page_count oor (pg_Total p) pageSize, pg_Offset := offset\<rparr>, [Offset offset, Limit pageSize]))"

text \<open>\<open>count\<close> is the number of rows that the counting query reports.\<close>

definition WithPagination :: "int \<Rightarrow> Paginate \<Rightarrow> Paginate \<times> gorm_call list" where
  "WithPagination count p = (p\<lparr>pg_Total := count\<rparr>, [Count, Scopes])"

section \<open>Searching\<close>

definition like :: "string \<Rightarrow> string" where
  "like column = ''lower('' @ column @ '') like ? ''"

definition pattern :: "string \<Rightarrow> string" where
  "pattern v = ''%'' @ ToLower v @ ''%''"

fun search_loop :: "(string, string) gomap \<Rightarrow> (string, string) gomap \<Rightarrow> nat \<Rightarrow> string list \<Rightarrow> gorm_call list" where
  "search_loop request keys index [] = []"
| "search_loop request keys index (key # ks) =
     (case mget request key of
        None \<Rightarrow> search_loop request keys index ks
      | Some v \<Rightarrow>
          (if index > 1 then Or (like (the (mget keys key))) (pattern v)
           else Where (like (the (mget keys key))) (pattern v)) # search_loop request keys (Suc index) ks)"

definition WithSearch :: "(string, string) gomap \<Rightarrow> (string, string) gomap \<Rightarrow> string list \<Rightarrow> gorm_call list" where
  "WithSearch request keys ks = search_loop request keys 0 ks"

type_synonym SearchHandler = "(string, string \<Rightarrow> gorm_call list) gomap"

record WithSearchParam =
  sp_Column :: string
  sp_Value :: string

definition WithSearchV2 :: "WithSearchParam \<Rightarrow> SearchHandler \<Rightarrow> gorm_call list" where
  "WithSearchV2 param hs =
     (case mget hs (sp_Column param) of None \<Rightarrow> [] | Some f \<Rightarrow> f (sp_Value param))"

fun WithSearchAllColumn :: "(string, string) gomap \<Rightarrow> SearchHandler \<Rightarrow> string list \<Rightarrow> gorm_call list" where
  "WithSearchAllColumn request hs [] = []"
| "WithSearchAllColumn request hs (key # ks) =
     (case mget request key of
        None \<Rightarrow> WithSearchAllColumn request hs ks
      | Some v \<Rightarrow> the (mget hs key) v @ WithSearchAllColumn request hs ks)"

section \<open>Sorting\<close>

fun WithSort :: "(string, string) gomap \<Rightarrow> (string, string) gomap \<Rightarrow> string list \<Rightarrow> gorm_call list" where
  "WithSort request keys [] = []"
| "WithSort request keys (key # ks) =
     (case mget request key of
        None \<Rightarrow> WithSort request keys ks
      | Some direction \<Rightarrow> Order (the (mget keys key)) (direction = ''descend'') # WithSort request keys ks)"

type_synonym SortHandler = "(string, string \<Rightarrow> bool \<Rightarrow> gorm_call list) gomap"

definition WithDefaultSort :: "string \<Rightarrow> string \<Rightarrow> bool \<Rightarrow> gorm_call list" where
  "WithDefaultSort column v desc = [Order column desc]"

record WithSortV2Param =
  so_Column :: string
  so_Direction :: string

definition WithSortV2 :: "WithSortV2Param \<Rightarrow> SortHandler \<Rightarrow> gorm_call list" where
  "WithSortV2 param hs =
     (case mget hs (so_Column param) of
        None \<Rightarrow> []
      | Some f \<Rightarrow> f (so_Column param) (so_Direction param = ''descend'' \<or> so_Direction param = ''desc''))"

fun WithSortAllColumn :: "(string, string) gomap \<Rightarrow> SortHandler \<Rightarrow> string list \<Rightarrow> gorm_call list" where
  "WithSortAllColumn request hs [] = []"
| "WithSortAllColumn request hs (key # ks) =
     (case mget request key of
        None \<Rightarrow> WithSortAllColumn request hs ks
      | Some direction \<Rightarrow>
          the (mget hs key) direction (direction = ''descend'') @ WithSortAllColumn request hs ks)"

definition WithValue :: "string \<Rightarrow> string \<Rightarrow> gorm_call list" where
  "WithValue column v = [OrderByValue column v]"

record WithValueV2Param =
  vp_Col :: string
  vp_Val :: string

definition WithValueV2 :: "WithValueV2Param \<Rightarrow> SortHandler \<Rightarrow> gorm_call list" where
  "WithValueV2 param hs =
     (case mget hs (vp_Col param) of None \<Rightarrow> [] | Some f \<Rightarrow> WithValue (vp_Col param) (vp_Val param))"

section \<open>The base model\<close>

record CustomDeletedAt =
  da_Time :: gotime
  da_Valid :: bool

definition millisecond :: int where
  "millisecond = 1000000"

definition UnixMilli :: "gotime \<Rightarrow> int" where
  "UnixMilli t = wrap64 (t div millisecond)"

definition ParseInt :: "string \<Rightarrow> int \<times> go_error option" where
  "ParseInt s =
     (case Atoi s of
        (n, Some (WrapError a e b)) \<Rightarrow> (n, Some (WrapError (''strconv.ParseInt: parsing '' @ quoted s @ '': '') e b))
      | r \<Rightarrow> r)"

definition MarshalJSON :: "CustomDeletedAt \<Rightarrow> string \<times> go_error option" where
  "MarshalJSON d = (if da_Valid d then (Itoa (UnixMilli (da_Time d)), None) else (''null'', None))"

definition UnmarshalJSON :: "string \<Rightarrow> CustomDeletedAt \<Rightarrow> go_error option \<times> CustomDeletedAt" where
  "UnmarshalJSON b d =
     (if b = ''null'' then (None, d\<lparr>da_Valid := False\<rparr>)
      else case ParseInt b of
             (ts, Some err) \<Rightarrow> (Some err, d)
           | (ts, None) \<Rightarrow> (None, d\<lparr>da_Time := ts * millisecond, da_Valid := True\<rparr>))"

record BaseModel =
  bm_ID :: string
  bm_CreatedAt :: gotime
  bm_Created :: int
  bm_Updated :: int
  bm_DeletedAt :: CustomDeletedAt

text \<open>\<open>new\<close> is what \<^verbatim>\<open>ulid.New\<close> returns, as a string.\<close>

definition BeforeCreate :: "string result \<Rightarrow> BaseModel \<Rightarrow> go_error option \<times> BaseModel" where
  "BeforeCreate new b = (case new of Inl err \<Rightarrow> (Some err, b) | Inr s \<Rightarrow> (None, b\<lparr>bm_ID := s\<rparr>))"

section \<open>Lemmas\<close>

subsection \<open>The page count is exact\<close>

lemma ceil_quotient_rounded:
  assumes "0 \<le> t" "t < 2 ^ 45" "1 \<le> s" "s \<le> 100"
  obtains v where "fround (of_int t / of_int s) = Fin v" "\<lceil>v\<rceil> = \<lceil>of_int t / of_int s :: rat\<rceil>"
proof -
  let ?q = "of_int t / of_int s :: rat" and ?c = "\<lceil>of_int t / of_int s :: rat\<rceil>"
  have s: "(1 :: rat) \<le> of_int s" "(of_int s :: rat) \<le> 100" using assms(3,4) by simp_all
  have "?q \<le> of_int t" using s(1) assms(1) by (simp add: divide_le_eq mult_le_cancel_left1)
  also have "(of_int t :: rat) < 2 ^ 45" using assms(2) by (simp add: of_int_less_numeral_power_cancel_iff)
  finally have "\<bar>?q\<bar> < 2 ^ 45" using assms(1) s(1) by simp
  from fround_near [OF this] obtain v where v: "fround ?q = Fin v" "\<bar>v - ?q\<bar> \<le> 2 powi (- 9)"
    "\<And>k. of_int k \<le> ?q \<Longrightarrow> of_int k \<le> v" "\<And>k. ?q \<le> of_int k \<Longrightarrow> v \<le> of_int k" by auto
  have "v \<le> of_int ?c" by (rule v(4)) (rule le_of_int_ceiling)
  moreover have "of_int (?c - 1) < v"
  proof -
    have "of_int (?c - 1) < ?q" using ceiling_correct [of ?q] by simp
    then have "of_int ((?c - 1) * s) < (of_int t :: rat)" using s(1) by (simp add: pos_less_divide_eq)
    then have "(?c - 1) * s + 1 \<le> t" using of_int_less_iff [of "(?c - 1) * s" t] by linarith
    then have "of_int ((?c - 1) * s + 1) \<le> (of_int t :: rat)" by (simp only: of_int_le_iff)
    then have "of_int ((?c - 1) * s + 1) / of_int s \<le> ?q" using s(1) by (intro divide_right_mono) auto
    moreover have "of_int ((?c - 1) * s + 1) / of_int s = of_int (?c - 1) + 1 / (of_int s :: rat)"
      using s(1) by (simp add: add_divide_distrib)
    ultimately have "of_int (?c - 1) + 1 / of_int s \<le> ?q" by simp
    moreover have "(1 :: rat) / 100 \<le> 1 / of_int s" using s by (simp add: frac_le)
    moreover have "(2 :: rat) powi (- 9) < 1 / 100" by (simp add: power_int_def power_divide)
    ultimately show ?thesis using v(2) by linarith
  qed
  ultimately have "\<lceil>v\<rceil> = ?c" by (simp add: ceiling_eq_iff)
  with v(1) show ?thesis by (rule that)
qed

lemma div_round_up:
  fixes t s :: int
  assumes "1 \<le> s"
  shows "(t + s - 1) div s = (if t mod s = 0 then t div s else 1 + t div s)"
proof -
  define r where "r = t mod s"
  have r: "0 \<le> r" "r < s" using assms by (simp_all add: r_def)
  have "t + s - 1 = (r + s - 1) + s * (t div s)" using div_mult_mod_eq [of t s] by (simp add: r_def algebra_simps)
  then have "(t + s - 1) div s = t div s + (r + s - 1) div s"
    using assms div_mult_self2 [of s "r + s - 1" "t div s"] by (metis not_one_le_zero)
  moreover have "(r + s - 1) div s = (if r = 0 then 0 else 1)"
  proof (cases "r = 0")
    case True
    then show ?thesis using r by (simp add: div_pos_pos_trivial)
  next
    case False
    then show ?thesis
      using r div_pos_pos_trivial [of "r - 1" s] div_add_self2 [of s "r - 1"] by (simp add: algebra_simps)
  qed
  ultimately show ?thesis by (simp add: r_def)
qed

lemma page_count_exact:
  assumes "0 \<le> t" "t < 2 ^ 45" "1 \<le> s" "s \<le> 100"
  shows "page_count oor t s = (t + s - 1) div s"
proof -
  from ceil_quotient_rounded [OF assms] obtain v where
    v: "fround (of_int t / of_int s) = Fin v" "\<lceil>v\<rceil> = \<lceil>of_int t / of_int s :: rat\<rceil>" .
  have c: "\<lceil>of_int t / of_int s :: rat\<rceil> = (t + s - 1) div s"
    using assms(3) by (simp add: ceiling_divide_eq_div zdiv_zminus1_eq_if div_round_up)
  have "int64 ((t + s - 1) div s)"
  proof -
    have "0 \<le> (t + s - 1) div s" using assms by (simp add: pos_imp_zdiv_nonneg_iff)
    moreover have "(t + s - 1) div s \<le> t + s - 1" using assms zdiv_mono2 [of "t + s - 1" 1 s] by simp
    ultimately show ?thesis using assms by (simp add: int64_def)
  qed
  moreover have "float_of_int t = Fin (of_int t)" "float_of_int s = Fin (of_int s)"
    using assms by (auto intro: float_of_int_exact)
  ultimately show ?thesis
    using v c assms(3) by (simp add: page_count_def int_of_float_def trunc_def)
qed

lemma requested_size_bounds: "1 \<le> requested_size p" "requested_size p \<le> 100"
  by (auto simp: requested_size_def Let_def)

lemma requested_page_Itoa:
  "int64 k \<Longrightarrow> k \<noteq> 0 \<Longrightarrow> requested_page (p\<lparr>pg_Page := Itoa k\<rparr>) = k"
  by (simp add: requested_page_def Atoi_Itoa)

lemma page_offset_exact: "1 \<le> k \<Longrightarrow> k \<le> 2 ^ 46 \<Longrightarrow> 1 \<le> s \<Longrightarrow> s \<le> 100 \<Longrightarrow> page_offset k s = (k - 1) * s"
proof -
  assume a: "1 \<le> k" "k \<le> 2 ^ 46" "1 \<le> s" "s \<le> 100"
  then have "(k - 1) * s \<le> 2 ^ 46 * 100" by (intro mult_mono) auto
  moreover have "0 \<le> (k - 1) * s" using a by simp
  ultimately have "int64 ((k - 1) * s)" "int64 (k - 1)" using a(1,2) by (auto simp: int64_def)
  then show ?thesis by (simp add: page_offset_def wrap64_id)
qed

lemma SetPagination_Pagination: "SetPagination oor p = fst (Pagination oor p)"
  by (simp add: SetPagination_def Pagination_def Let_def)

text \<open>A row and the page it is on, for an exact page count.\<close>

lemma row_page:
  fixes i s t :: int
  assumes "0 \<le> i" "i < t" "1 \<le> s"
  shows "1 \<le> i div s + 1" "i div s + 1 \<le> (t + s - 1) div s" "(i div s + 1 - 1) * s \<le> i" "i < (i div s + 1 - 1) * s + s"
proof -
  show "1 \<le> i div s + 1" using assms by (simp add: pos_imp_zdiv_nonneg_iff)
  have "(i + s) div s \<le> (t + s - 1) div s" using assms by (intro zdiv_mono1) auto
  then show "i div s + 1 \<le> (t + s - 1) div s" using assms(3) by simp
  have "i = i div s * s + i mod s" "0 \<le> i mod s" "i mod s < s" using assms(3) by simp_all
  then show "(i div s + 1 - 1) * s \<le> i" "i < (i div s + 1 - 1) * s + s"
    by (simp_all only: add_diff_cancel_right')
qed

lemma row_page_unique:
  fixes i s k :: int
  assumes "(k - 1) * s \<le> i" "i < (k - 1) * s + s" "1 \<le> s"
  shows "k = i div s + 1"
  using int_div_pos_eq [of i s "k - 1" "i - (k - 1) * s"] assms by (simp add: algebra_simps)

subsection \<open>Searching and sorting\<close>

lemma search_loop_calls:
  "search_loop request keys n ks =
     map (\<lambda>(i, k). (if i > 1 then Or else Where) (like (the (mget keys k))) (pattern (the (mget request k))))
       (enumerate n (filter (\<lambda>k. mget request k \<noteq> None) ks))"
  by (induction ks arbitrary: n) auto

lemma WithSort_calls:
  "WithSort request keys ks =
     map (\<lambda>k. Order (the (mget keys k)) (mget request k = Some ''descend'')) (filter (\<lambda>k. mget request k \<noteq> None) ks)"
  by (induction ks) auto

text \<open>
  Which conditions are alternatives depends on the order in which the map is visited: with three
  search keys, the one visited last is.
\<close>

lemma WithSearch_order_dependent:
  fixes keys :: "(string, string) gomap"
  defines "keys \<equiv> [(''a'', ''a''), (''b'', ''b''), (''c'', ''c'')]"
  shows "range_order keys [''a'', ''b'', ''c''] \<and> range_order keys [''c'', ''b'', ''a'']
       \<and> Or (like ''c'') (pattern ''c'') \<in> set (WithSearch keys keys [''a'', ''b'', ''c''])
       \<and> Or (like ''c'') (pattern ''c'') \<notin> set (WithSearch keys keys [''c'', ''b'', ''a''])"
  by (auto simp: keys_def range_order_def mkeys_def WithSearch_def mget_def like_def)

text \<open>The two ways to sort by one column read the direction differently.\<close>

lemma sort_direction_differs:
  "WithSortV2 \<lparr>so_Column = c, so_Direction = ''desc''\<rparr> [(c, WithDefaultSort c)] = [Order c True]
   \<and> WithSort [(c, ''desc'')] [(c, c)] [c] = [Order c False]"
  by (simp add: WithSortV2_def WithDefaultSort_def mget_def)

subsection \<open>The soft-delete time\<close>

lemma ParseInt_Itoa: "int64 n \<Longrightarrow> ParseInt (Itoa n) = (n, None)"
  by (simp add: ParseInt_def Atoi_Itoa)

lemma Itoa_not_null: "Itoa n \<noteq> ''null''"
proof -
  have "(CHR ''n'') \<notin> set (Itoa n)"
    by (auto simp: Itoa_def dest!: nat_digits_digits split: if_splits) (auto simp: is_digit_def)
  then show ?thesis by (metis list.set_intros(1))
qed

section \<open>Properties\<close>



text \<open>
  The time of a soft delete survives JSON: whatever is stored, writing and reading it back
  succeeds and gives the same validity, and for a deleted record the same time down to the
  millisecond, for every time whose milliseconds fit \<^verbatim>\<open>int64\<close>.
\<close>

theorem CustomDeletedAt_round_trip:
  assumes "int64 (da_Time d div millisecond)"
  shows "fst (UnmarshalJSON (fst (MarshalJSON d)) e) = None
       \<and> da_Valid (snd (UnmarshalJSON (fst (MarshalJSON d)) e)) = da_Valid d
       \<and> (da_Valid d \<longrightarrow> UnixMilli (da_Time (snd (UnmarshalJSON (fst (MarshalJSON d)) e))) = UnixMilli (da_Time d)
            \<and> da_Time (snd (UnmarshalJSON (fst (MarshalJSON d)) e)) = da_Time d - da_Time d mod millisecond)"
proof (cases "da_Valid d")
  case True
  have "UnixMilli (da_Time d) = da_Time d div millisecond" by (simp add: UnixMilli_def wrap64_id assms)
  then have "UnmarshalJSON (fst (MarshalJSON d)) e =
      (None, e\<lparr>da_Time := da_Time d div millisecond * millisecond, da_Valid := True\<rparr>)"
    using True ParseInt_Itoa [OF assms] Itoa_not_null [of "da_Time d div millisecond"]
    by (simp add: MarshalJSON_def UnmarshalJSON_def)
  moreover have "da_Time d div millisecond * millisecond div millisecond = da_Time d div millisecond"
    by (simp add: millisecond_def)
  ultimately show ?thesis
    using True minus_mod_eq_div_mult [of "da_Time d" millisecond] by (simp add: UnixMilli_def)
qed (simp add: MarshalJSON_def UnmarshalJSON_def)

theorem CustomDeletedAt_round_trip_witness:
  "da_Time (snd (UnmarshalJSON (fst (MarshalJSON \<lparr>da_Time = 1700000000123456789, da_Valid = True\<rparr>))
      \<lparr>da_Time = 0, da_Valid = False\<rparr>)) = 1700000000123000000"
  using CustomDeletedAt_round_trip [of "\<lparr>da_Time = 1700000000123456789, da_Valid = True\<rparr>"
      "\<lparr>da_Time = 0, da_Valid = False\<rparr>"]
  by (simp add: int64_def millisecond_def)

end
