(* ===== verification/Http_Api.thy ===== *)
theory Http_Api
  imports Query_Scopes
begin

text \<open>
  The \<^verbatim>\<open>api\<close> package of \<^verbatim>\<open>drivers/http\<close>, apart from its controllers: the error values with
  \<^verbatim>\<open>exceptions\<close>, the responses and the binder of query parameters. Binding is a call of echo and
  an argument here, and so are times.
\<close>

section \<open>Errors\<close>

definition NewBaseException :: "int \<Rightarrow> string \<Rightarrow> go_error" where
  "NewBaseException code message = BaseException code 0 message"

fun BaseException_WithStatus :: "int \<Rightarrow> go_error \<Rightarrow> go_error" where
  "BaseException_WithStatus status (BaseException c s m) = BaseException c status m"
| "BaseException_WithStatus status e = e"

definition statusNames :: "(int, string) gomap" where
  "statusNames = [(0, ''ERROR''), (1, ''INVALID_INPUT'')]"

definition Status_String :: "int \<Rightarrow> string" where
  "Status_String s = (case mget statusNames s of Some name \<Rightarrow> name | None \<Rightarrow> ''unknown'')"

text \<open>\<^verbatim>\<open>errors.As\<close> for the two error types of the program: the first one in the chain.\<close>

definition first_some :: "'a option list \<Rightarrow> 'a option" where
  "first_some xs = (case filter (\<lambda>x. x \<noteq> None) xs of [] \<Rightarrow> None | x # _ \<Rightarrow> x)"

fun as_base :: "go_error \<Rightarrow> (int \<times> int \<times> string) option" where
  "as_base (BaseException c s m) = Some (c, s, m)"
| "as_base (WrapError a e b) = as_base e"
| "as_base (JoinError es) = first_some (map as_base es)"
| "as_base _ = None"

fun as_api :: "go_error \<Rightarrow> api_error option" where
  "as_api (ApiErr a) = Some a"
| "as_api (WrapError a e b) = as_api e"
| "as_api (JoinError es) = first_some (map as_api es)"
| "as_api _ = None"

definition NewApiError :: "int \<Rightarrow> int \<Rightarrow> string \<Rightarrow> go_any \<Rightarrow> api_error" where
  "NewApiError now status message data =
     \<lparr>ae_Code = status, ae_RequestId = [], ae_Message = TrimSpace message, ae_Status = [], ae_Time = now, ae_rawData = data\<rparr>"

definition ApiError_WithStatus :: "int \<Rightarrow> api_error \<Rightarrow> api_error" where
  "ApiError_WithStatus status b = b\<lparr>ae_Status := Status_String status\<rparr>"

definition NewInternalServerError :: "int \<Rightarrow> go_error \<Rightarrow> api_error" where
  "NewInternalServerError now err = ApiError_WithStatus 0 (NewApiError now 500 (error_text err) NilAny)"

definition NewServiceError :: "int \<Rightarrow> go_error \<Rightarrow> api_error" where
  "NewServiceError now err =
     (case as_base err of
        Some (code, status, message) \<Rightarrow> ApiError_WithStatus status (NewApiError now code message NilAny)
      | None \<Rightarrow> NewInternalServerError now err)"

definition NewNotFoundError :: "int \<Rightarrow> string \<Rightarrow> go_any \<Rightarrow> api_error" where
  "NewNotFoundError now message data =
     NewApiError now 404 (if message = [] then ''The requested resource wasn'' @ [CHR 0x27] @ ''t found.'' else message) data"

definition NewBadRequestError :: "int \<Rightarrow> string \<Rightarrow> go_any \<Rightarrow> api_error" where
  "NewBadRequestError now message data =
     ApiError_WithStatus 0
       (NewApiError now 400 (if message = [] then ''Something went wrong while processing your request.'' else message) data)"

definition NewForbiddenError :: "int \<Rightarrow> string \<Rightarrow> go_any \<Rightarrow> api_error" where
  "NewForbiddenError now message data =
     NewApiError now 403 (if message = [] then ''You are not allowed to perform this request.'' else message) data"

definition NewUnauthorizedError :: "int \<Rightarrow> string \<Rightarrow> go_any \<Rightarrow> api_error" where
  "NewUnauthorizedError now message data =
     ApiError_WithStatus 0
       (NewApiError now 401 (if message = [] then ''Missing or invalid authentication token.'' else message) data)"

definition NewValidationErrorV2 :: "int \<Rightarrow> string result \<Rightarrow> go_error \<Rightarrow> api_error" where
  "NewValidationErrorV2 now marshalled err =
     (case marshalled of
        Inl errParse \<Rightarrow> ApiError_WithStatus 0 (NewApiError now 500 (error_text errParse) NilAny)
      | Inr b \<Rightarrow> ApiError_WithStatus 0 (NewApiError now 422 (error_text err) (BytesAny b)))"

section \<open>Responses\<close>

record 'd ApiResponse =
  ar_Path :: string
  ar_Time :: int
  ar_Data :: 'd
  ar_Code :: int
  ar_RequestId :: string

definition NewApiResponse :: "int \<Rightarrow> string \<Rightarrow> 'd \<Rightarrow> int \<Rightarrow> 'd ApiResponse" where
  "NewApiResponse now path data code =
     \<lparr>ar_Path = path, ar_Time = now, ar_Data = data, ar_Code = code, ar_RequestId = []\<rparr>"

text \<open>The fields of the pagination, by their JSON tags, are put beside the data.\<close>

datatype 'd page_value = PageData 'd | PageText string | PageInt int

definition paginate_fields :: "Paginate \<Rightarrow> (string \<times> 'd page_value) list" where
  "paginate_fields p = [(''page'', PageText (pg_Page p)), (''page_size'', PageText (pg_PageSize p)),
     (''-'', PageInt (pg_Offset p)), (''total'', PageInt (pg_Total p)), (''page_count'', PageInt (pg_PageCount p))]"

definition NewApiPaginationResponse :: "string \<Rightarrow> Paginate \<Rightarrow> 'd \<Rightarrow> (string, 'd page_value) gomap" where
  "NewApiPaginationResponse key meta data =
     fold (\<lambda>(tag, v) res. mput tag v res) (paginate_fields meta) (mput key (PageData data) mempty)"

section \<open>Binding query parameters\<close>

text \<open>
  A key in brackets after a prefix of seven characters: the text between the brackets. The slice
  panics when its bounds cross.
\<close>

definition bracket_key :: "string \<Rightarrow> string outcome" where
  "bracket_key key =
     (if 7 \<le> length key - 1 then Ret (take (length key - 1 - 7) (drop 7 key)) else Panic ''slice bounds out of range'')"

fun bracket_loop ::
  "string \<Rightarrow> (string, string list) gomap \<Rightarrow> string list \<Rightarrow> (string, string) gomap \<Rightarrow> (string, string) gomap outcome" where
  "bracket_loop prefix q [] m = Ret m"
| "bracket_loop prefix q (key # ks) m =
     (if HasPrefix key prefix \<and> HasSuffix key '']'' then
        (case bracket_key key of
           Panic msg \<Rightarrow> Panic msg
         | Ret sortKey \<Rightarrow>
             (case mget q key of
                Some (v # _) \<Rightarrow> bracket_loop prefix q ks (mput sortKey v m)
              | _ \<Rightarrow> Panic ''index out of range''))
      else bracket_loop prefix q ks m)"

text \<open>
  \<open>bound\<close> is what binding gives; \<open>sorter\<close> and \<open>search\<close> say whether the parameter has these map
  fields; \<open>ks1\<close> and \<open>ks2\<close> are the orders of the two loops over the query.
\<close>

definition fill_map ::
  "bool \<Rightarrow> string \<Rightarrow> (string, string list) gomap \<Rightarrow> string list \<Rightarrow> (string, string) gomap option outcome" where
  "fill_map has prefix q ks =
     (if has then (case bracket_loop prefix q ks mempty of Panic msg \<Rightarrow> Panic msg | Ret m \<Rightarrow> Ret (Some m)) else Ret None)"

definition requestBinder ::
  "go_error option \<Rightarrow> bool \<Rightarrow> bool \<Rightarrow> (string, string list) gomap \<Rightarrow> string list \<Rightarrow> string list
     \<Rightarrow> ((string, string) gomap option \<times> (string, string) gomap option) result outcome" where
  "requestBinder bound sorter search q ks1 ks2 =
     (case bound of
        Some err \<Rightarrow> Ret (Inl err)
      | None \<Rightarrow>
          (case fill_map sorter ''sorter['' q ks1 of
             Panic msg \<Rightarrow> Panic msg
           | Ret m1 \<Rightarrow>
               (case fill_map search ''search['' q ks2 of Panic msg \<Rightarrow> Panic msg | Ret m2 \<Rightarrow> Ret (Inr (m1, m2)))))"

section \<open>Lemmas\<close>

subsection \<open>Keys in brackets\<close>

lemma bracket_shape:
  assumes "length prefix = 7" and "last prefix \<noteq> CHR '']''" and "HasPrefix key prefix" and "HasSuffix key '']''"
  obtains k where "key = prefix @ k @ '']''" "bracket_key key = Ret k"
proof -
  have key: "key = prefix @ drop 7 key"
    using assms(1,3) by (metis HasPrefix_def append_take_drop_id)
  have "rev key \<noteq> [] \<and> hd (rev key) = CHR '']''"
    using assms(4) by (cases "rev key") (simp_all add: HasSuffix_def HasPrefix_def)
  then have l: "key \<noteq> []" "last key = CHR '']''" by (simp_all add: hd_rev)
  have rest: "drop 7 key \<noteq> []"
  proof
    assume "drop 7 key = []"
    with key have "key = prefix" by simp
    with l(2) assms(2) show False by simp
  qed
  with l(2) key have "last (drop 7 key) = CHR '']''" by (metis last_appendR)
  with rest have "drop 7 key = butlast (drop 7 key) @ '']''" by (metis append_butlast_last_id)
  with key have shape: "key = prefix @ butlast (drop 7 key) @ '']''" by simp
  have "7 < length key" using rest by simp
  then have "bracket_key key = Ret (butlast (drop 7 key))"
    by (simp add: bracket_key_def butlast_conv_take diff_commute)
  with shape show ?thesis by (rule that)
qed

lemma bracket_match: "HasPrefix (prefix @ k @ '']'') prefix \<and> HasSuffix (prefix @ k @ '']'') '']''"
  by (simp add: HasPrefix_def HasSuffix_def)

lemma bracket_loop_spec:
  assumes "length prefix = 7" and "last prefix \<noteq> CHR '']''"
  shows "\<forall>key \<in> set ks. \<exists>v vs. mget q key = Some (v # vs) \<Longrightarrow>
    \<exists>m'. bracket_loop prefix q ks m = Ret m' \<and>
      (\<forall>k. mget m' k = (if prefix @ k @ '']'' \<in> set ks then map_option hd (mget q (prefix @ k @ '']'')) else mget m k))"
proof (induction ks arbitrary: m)
  case (Cons key ks)
  from Cons.prems obtain v vs where v: "mget q key = Some (v # vs)" by auto
  have prems: "\<forall>key \<in> set ks. \<exists>v vs. mget q key = Some (v # vs)" using Cons.prems by simp
  show ?case
  proof (cases "HasPrefix key prefix \<and> HasSuffix key '']''")
    case True
    then obtain k where k: "key = prefix @ k @ '']''" "bracket_key key = Ret k"
      using bracket_shape [OF assms] by blast
    from Cons.IH [OF prems, of "mput k v m"] obtain m' where m': "bracket_loop prefix q ks (mput k v m) = Ret m'"
      "\<And>j. mget m' j = (if prefix @ j @ '']'' \<in> set ks then map_option hd (mget q (prefix @ j @ '']'')) else mget (mput k v m) j)"
      by blast
    have "mget m' j = (if prefix @ j @ '']'' \<in> set (key # ks) then map_option hd (mget q (prefix @ j @ '']'')) else mget m j)" for j
      using m'(2) [of j] v k(1) by (auto simp: mget_mput)
    with True k(2) v m'(1) show ?thesis by simp
  next
    case False
    then have "prefix @ j @ '']'' \<noteq> key" for j using bracket_match by blast
    with False Cons.IH [OF prems, of m] show ?thesis by auto
  qed
qed simp

definition bracketed :: "string \<Rightarrow> (string, string list) gomap \<Rightarrow> string \<Rightarrow> string option" where
  "bracketed prefix q k = map_option hd (mget q (prefix @ k @ '']''))"

lemma fill_map_spec:
  assumes "length prefix = 7" and "last prefix \<noteq> CHR '']''" and "range_order q ks" and "wf_map q"
    and "\<forall>vs \<in> set (map snd q). vs \<noteq> []"
  shows "\<exists>m. fill_map True prefix q ks = Ret (Some m) \<and> mget m = bracketed prefix q"
proof -
  have dom: "key \<in> set ks \<longleftrightarrow> mget q key \<noteq> None" for key using assms(3) by (auto simp: range_order_mem)
  have "\<forall>key \<in> set ks. \<exists>v vs. mget q key = Some (v # vs)"
  proof
    fix key assume "key \<in> set ks"
    with dom obtain vs where vs: "mget q key = Some vs" by auto
    then have "vs \<in> set (map snd q)" by (force simp: mget_def dest: map_of_SomeD)
    with assms(5) vs show "\<exists>v vs. mget q key = Some (v # vs)" by (cases vs) auto
  qed
  from bracket_loop_spec [OF assms(1,2) this, of mempty] obtain m where
    "bracket_loop prefix q ks mempty = Ret m"
    "\<And>k. mget m k = (if prefix @ k @ '']'' \<in> set ks then map_option hd (mget q (prefix @ k @ '']'')) else None)" by auto
  moreover from this(2) dom have "mget m = bracketed prefix q" by (auto simp: bracketed_def fun_eq_iff)
  ultimately show ?thesis by (auto simp: fill_map_def)
qed

subsection \<open>Errors\<close>

text \<open>An error without a base exception inside becomes a 500 with its whole text.\<close>

lemma NewServiceError_foreign:
  "as_base err = None \<Longrightarrow> NewServiceError now err =
     \<lparr>ae_Code = 500, ae_RequestId = [], ae_Message = TrimSpace (error_text err), ae_Status = ''ERROR'', ae_Time = now,
      ae_rawData = NilAny\<rparr>"
  by (simp add: NewServiceError_def NewInternalServerError_def ApiError_WithStatus_def NewApiError_def
      Status_String_def statusNames_def mget_def)

text \<open>Wrapping a base exception keeps its code, status and message and drops the text around it.\<close>

lemma NewServiceError_wrapped:
  "NewServiceError now (WrapError a (BaseException_WithStatus 1 (NewBaseException code m)) b) =
     \<lparr>ae_Code = code, ae_RequestId = [], ae_Message = TrimSpace m, ae_Status = ''INVALID_INPUT'', ae_Time = now,
      ae_rawData = NilAny\<rparr>"
  by (simp add: NewServiceError_def NewBaseException_def ApiError_WithStatus_def NewApiError_def
      Status_String_def statusNames_def mget_def)

text \<open>
  The pagination response: the data is lost when its key is the tag of a field, and the field
  tagged as hidden is sent under the key \<^verbatim>\<open>-\<close>.
\<close>

lemma pagination_response_keys:
  "mget (NewApiPaginationResponse key p d) ''-'' = Some (PageInt (pg_Offset p))"
  "mget (NewApiPaginationResponse key p d) key =
     (if key \<in> {''page'', ''page_size'', ''-'', ''total'', ''page_count''}
      then map_of (paginate_fields p) key else Some (PageData d))"
  by (auto simp: NewApiPaginationResponse_def paginate_fields_def mget_mput)

section \<open>Properties\<close>

text \<open>
  The binder reads the bracketed parameters: whatever the query, and in whatever order it is
  visited, binding a parameter with both map fields returns without panicking, and a key is in
  the sorter (in the search) exactly if the query has it in brackets after that word, with the first
  of its values.
\<close>

theorem requestBinder_maps:
  assumes "wf_map q" and "range_order q ks1" and "range_order q ks2" and "\<forall>vs \<in> set (map snd q). vs \<noteq> []"
  shows "\<exists>sorter search. requestBinder None True True q ks1 ks2 = Ret (Inr (Some sorter, Some search))
       \<and> (\<forall>k. mget sorter k = map_option hd (mget q (''sorter['' @ k @ '']'')))
       \<and> (\<forall>k. mget search k = map_option hd (mget q (''search['' @ k @ '']'')))"
proof -
  obtain m1 where "fill_map True ''sorter['' q ks1 = Ret (Some m1)" "mget m1 = bracketed ''sorter['' q"
    using fill_map_spec [of "''sorter[''" q ks1] assms by auto
  moreover obtain m2 where "fill_map True ''search['' q ks2 = Ret (Some m2)" "mget m2 = bracketed ''search['' q"
    using fill_map_spec [of "''search[''" q ks2] assms by auto
  ultimately show ?thesis by (simp add: requestBinder_def bracketed_def)
qed

theorem requestBinder_maps_witness:
  "\<exists>sorter search. requestBinder None True True
       [(''page'', [''2'']), (''sorter[name]'', [''descend'', ''ascend'']), (''search[]'', [''x''])]
       [''search[]'', ''page'', ''sorter[name]''] [''page'', ''sorter[name]'', ''search[]''] = Ret (Inr (Some sorter, Some search))
     \<and> mget sorter ''name'' = Some ''descend'' \<and> mget search [] = Some ''x''"
proof -
  let ?q = "[(''page'', [''2'']), (''sorter[name]'', [''descend'', ''ascend'']), (''search[]'', [''x''])]"
  have "\<exists>sorter search. requestBinder None True True ?q
       [''search[]'', ''page'', ''sorter[name]''] [''page'', ''sorter[name]'', ''search[]''] = Ret (Inr (Some sorter, Some search))
       \<and> (\<forall>k. mget sorter k = map_option hd (mget ?q (''sorter['' @ k @ '']'')))
       \<and> (\<forall>k. mget search k = map_option hd (mget ?q (''search['' @ k @ '']'')))"
    by (rule requestBinder_maps) (auto simp: wf_map_def range_order_def mkeys_def)
  then obtain sorter search where r: "requestBinder None True True ?q
       [''search[]'', ''page'', ''sorter[name]''] [''page'', ''sorter[name]'', ''search[]''] = Ret (Inr (Some sorter, Some search))"
      "\<And>k. mget sorter k = map_option hd (mget ?q (''sorter['' @ k @ '']''))"
      "\<And>k. mget search k = map_option hd (mget ?q (''search['' @ k @ '']''))" by blast
  from r(2) [of "''name''"] r(3) [of "[]"] have "mget sorter ''name'' = Some ''descend''" "mget search [] = Some ''x''"
    by (simp_all add: mget_def)
  with r(1) show ?thesis by blast
qed


end
