(* ===== verification/Http.thy ===== *)
theory Http
  imports Loyalty_Handlers Master_Run Driver_Manager Http_Api
begin

text \<open>
  The HTTP driver of \<^verbatim>\<open>drivers/http\<close>: the loyalty controller, the routes of the master, the error
  handler and the adapter. Echo is third-party code: writing a response, binding
  a body and serving are arguments. Times are arguments too.
\<close>

section \<open>Routes\<close>

text \<open>A handler returns an error, or has written a response and returns nil.\<close>

type_synonym 'd handled = "go_error + 'd ApiResponse"

record ('r, 'w) LoyaltyController =
  lc_cmd :: "CreditLoyaltyRequest \<Rightarrow> 'w \<Rightarrow> 'r result \<times> 'w"
  lc_query :: "GetLoyaltyBalanceRequest \<Rightarrow> 'w \<Rightarrow> 'r result \<times> 'w"

definition NewLoyaltyController ::
  "(CreditLoyaltyRequest \<Rightarrow> 'w \<Rightarrow> 'r result \<times> 'w) \<Rightarrow> (GetLoyaltyBalanceRequest \<Rightarrow> 'w \<Rightarrow> 'r result \<times> 'w)
     \<Rightarrow> ('r, 'w) LoyaltyController" where
  "NewLoyaltyController cmd qry = \<lparr>lc_cmd = cmd, lc_query = qry\<rparr>"

definition type_assertion :: "'a outcome" where
  "type_assertion = Panic ''interface conversion''"

definition LoyaltyController_GetBalance ::
  "int \<Rightarrow> string \<Rightarrow> (any_response, 'w) LoyaltyController \<Rightarrow> string \<Rightarrow> 'w
     \<Rightarrow> GetLoyaltyBalanceResponse handled outcome \<times> 'w" where
  "LoyaltyController_GetBalance now path h customer_id w =
     (case lc_query h \<lparr>gb_CustomerID = customer_id\<rparr> w of
        (Inl err, w1) \<Rightarrow> (Ret (Inl (ApiErr (NewServiceError now err))), w1)
      | (Inr (AnyBalance b), w1) \<Rightarrow> (Ret (Inr (NewApiResponse now path b 200)), w1)
      | (Inr (AnyCredit c), w1) \<Rightarrow> (type_assertion, w1))"

definition LoyaltyController_CreditPoints ::
  "int \<Rightarrow> string \<Rightarrow> (any_response, 'w) LoyaltyController \<Rightarrow> CreditLoyaltyRequest result \<Rightarrow> 'w
     \<Rightarrow> CreditLoyaltyResponse handled outcome \<times> 'w" where
  "LoyaltyController_CreditPoints now path h bound w =
     (case bound of
        Inl err \<Rightarrow> (Ret (Inl (ApiErr (NewBadRequestError now (error_text err) NilAny))), w)
      | Inr req \<Rightarrow>
          (case lc_cmd h req w of
             (Inl err, w1) \<Rightarrow> (Ret (Inl (ApiErr (NewServiceError now err))), w1)
           | (Inr (AnyCredit c), w1) \<Rightarrow> (Ret (Inr (NewApiResponse now path c 201)), w1)
           | (Inr (AnyBalance b), w1) \<Rightarrow> (type_assertion, w1)))"

text \<open>The two routes of the master: status code and text, always with a nil error.\<close>

definition health_route :: "'k Master result \<Rightarrow> int \<times> string" where
  "health_route m = (case m of Inl err \<Rightarrow> (200, ''NOT HEALTHY'') | Inr master \<Rightarrow> (200, CheckHealth))"

definition workers_route :: "'k Master result \<Rightarrow> int \<times> string" where
  "workers_route m =
     (case m of Inl err \<Rightarrow> (400, ''WORKER NOT READY'')
      | Inr master \<Rightarrow> (200, Itoa (GetTotalWorkers (Connections master))))"

section \<open>The server\<close>

text \<open>A request is served, or the process exits.\<close>

datatype 'a served = Served 'a | Exits string

definition GetRequestId :: "string \<Rightarrow> string \<Rightarrow> string" where
  "GetRequestId request_header response_header = (if request_header = [] then response_header else request_header)"

definition hidden_message :: string where
  "hidden_message = ''Oops something went wrong, Contact Developer for the issue''"

text \<open>The status and the body that are sent for an error; a body of \<open>None\<close> is the JSON text \<^verbatim>\<open>null\<close>.\<close>

definition error_report :: "string \<Rightarrow> string \<Rightarrow> go_error \<Rightarrow> int \<times> api_error option" where
  "error_report mode requestId err =
     (case err of
        HttpError code msg txt \<Rightarrow> (code, None)
      | _ \<Rightarrow>
          (case as_api err of
             None \<Rightarrow> (500, None)
           | Some a \<Rightarrow>
               (let a1 = a\<lparr>ae_RequestId := requestId\<rparr>;
                    a2 = (if mode = ''production'' \<and> ae_Code a1 = 500 then a1\<lparr>ae_Message := hidden_message\<rparr> else a1)
                in (ae_Code a2, Some a2))))"

definition HttpErrorHandler ::
  "(int \<Rightarrow> api_error option \<Rightarrow> 'w \<Rightarrow> go_error option \<times> 'w) \<Rightarrow> string \<Rightarrow> string \<Rightarrow> go_error \<Rightarrow> 'w \<Rightarrow> 'w served" where
  "HttpErrorHandler write_json mode requestId err w =
     (case error_report mode requestId err of
        (code, body) \<Rightarrow>
          (case write_json code body w of
             (Some err2, w1) \<Rightarrow> Exits (''Cannot return anything '' @ error_text err2)
           | (None, w1) \<Rightarrow> Served w1))"

definition ErrServerClosed :: go_error where
  "ErrServerClosed = Sentinel ''http.ErrServerClosed'' ''http: Server closed''"

text \<open>The goroutine that serves, by the error with which serving ends.\<close>

definition echo_serve :: "go_error \<Rightarrow> unit served" where
  "echo_serve err = (if err \<noteq> ErrServerClosed then Exits (error_text err) else Served ())"

text \<open>Starting never fails: it gives the address that the goroutine serves.\<close>

definition EchoWebAdapter_Init :: "int \<Rightarrow> go_error option \<times> string" where
  "EchoWebAdapter_Init port = (None, '':'' @ Itoa port)"

definition EchoWebAdapter_Close :: "('w \<Rightarrow> go_error option \<times> 'w) \<Rightarrow> 'w \<Rightarrow> go_error option \<times> 'w" where
  "EchoWebAdapter_Close close w = close w"

section \<open>Lemmas\<close>

lemma error_report_api: "error_report mode rid (ApiErr a) =
    (ae_Code a, Some (if mode = ''production'' \<and> ae_Code a = 500
       then a\<lparr>ae_RequestId := rid, ae_Message := hidden_message\<rparr> else a\<lparr>ae_RequestId := rid\<rparr>))"
  by (simp add: error_report_def Let_def)

lemma error_report_body:
  "snd (error_report mode rid err) = Some a \<Longrightarrow>
     fst (error_report mode rid err) = ae_Code a \<and> ae_RequestId a = rid
     \<and> (mode = ''production'' \<and> ae_Code a = 500 \<longrightarrow> ae_Message a = hidden_message)"
  by (cases err) (auto simp: error_report_def Let_def split: option.splits if_splits)

lemma registered_credit:
  assumes "Registrar_Register x db (fx_newCommandBus, fx_newQueryBus, evt) = (cmd, qry, evt')"
  shows "fx_commandBus_Dispatch CommandName cmd req w =
    map_prod (map_sum id AnyCredit) id
      (CreditLoyalty_Handle (lx_inputs x) (gorm_credit_handler (lx_uuid x) (lx_now x) db (fx_bus_publish x evt)) req w)"
  using assms by (auto simp: Registrar_Register_def Let_def fcb.dispatch_register CommandName_def credit_handler_func_def
      gorm_credit_handler_def)

lemma registered_balance:
  assumes "Registrar_Register x db (fx_newCommandBus, fx_newQueryBus, evt) = (cmd, qry, evt')"
  shows "fx_queryBus_Ask QueryName qry q w = balance_handler_func db q w"
  using assms by (auto simp: Registrar_Register_def Let_def fqb.dispatch_register QueryName_def)

text \<open>A customer without an account gets a 500 as well, not a 404.\<close>

lemma unknown_customer_is_500:
  assumes "Registrar_Register x db (fx_newCommandBus, fx_newQueryBus, evt) = (cmd, qry, evt')"
    and "db_first_by_customer db c w = (Inl ErrRecordNotFound, w')"
  shows "LoyaltyController_GetBalance now path
           (NewLoyaltyController (fx_commandBus_Dispatch CommandName cmd) (fx_queryBus_Ask QueryName qry)) c w =
         (Ret (Inl (ApiErr \<lparr>ae_Code = 500, ae_RequestId = [], ae_Message = ''loyalty account not found'', ae_Status = ''ERROR'',
            ae_Time = now, ae_rawData = NilAny\<rparr>)), w')"
proof -
  have "balance_handler_func db \<lparr>gb_CustomerID = c\<rparr> w = (Inl ErrLoyaltyAccountNotFound, w')"
    using assms(2) by (simp add: balance_handler_func_def GetLoyaltyBalance_Handle_def NewGetLoyaltyBalanceHandler_def
        NewLoyaltyReadGormRepository_def NewNoopLoyaltyCacheRepository_def noop_GetBalance_def read_GetBalanceByCustomerID_def
        ErrRecordNotFound_def)
  moreover have "TrimSpace ''loyalty account not found'' = ''loyalty account not found''" by code_simp
  ultimately show ?thesis
    by (simp add: LoyaltyController_GetBalance_def NewLoyaltyController_def registered_balance [OF assms(1)]
        NewServiceError_foreign ErrLoyaltyAccountNotFound_def)
qed

section \<open>Properties\<close>

text \<open>
  What a client learns from an error. The body is \<^verbatim>\<open>null\<close> for every error that is not an API
  error, also for those of the router, whose status is kept; an API error is sent with its own code
  and the id of the request. In production the message of a 500 is always the generic one.
\<close>

theorem error_report_contents:
  "(as_api err = None \<longrightarrow> snd (error_report mode rid err) = None)
   \<and> fst (error_report mode rid (HttpError code m t)) = code
   \<and> (\<forall>a. snd (error_report mode rid err) = Some a \<longrightarrow>
        fst (error_report mode rid err) = ae_Code a \<and> ae_RequestId a = rid
      \<and> (mode = ''production'' \<and> ae_Code a = 500 \<longrightarrow> ae_Message a = hidden_message))"
proof (intro conjI allI impI)
  show "as_api err = None \<Longrightarrow> snd (error_report mode rid err) = None"
    by (cases err) (simp_all add: error_report_def)
  show "fst (error_report mode rid (HttpError code m t)) = code" by (simp add: error_report_def)
qed (use error_report_body in blast)+

theorem error_report_contents_witness:
  "error_report ''production'' ''r1'' (WrapError ''x: '' (ApiErr (NewInternalServerError 0 (ErrorString ''secret''))) []) =
     (500, Some \<lparr>ae_Code = 500, ae_RequestId = ''r1'', ae_Message = hidden_message, ae_Status = ''ERROR'', ae_Time = 0,
        ae_rawData = NilAny\<rparr>)"
proof -
  let ?e = "WrapError ''x: '' (ApiErr (NewInternalServerError 0 (ErrorString ''secret''))) []"
  have "\<exists>a. snd (error_report ''production'' ''r1'' ?e) = Some a \<and> ae_Code a = 500 \<and> ae_Status a = ''ERROR'' \<and> ae_Time a = 0
      \<and> ae_rawData a = NilAny"
    by (simp add: error_report_def Let_def NewInternalServerError_def ApiError_WithStatus_def NewApiError_def Status_String_def
        statusNames_def mget_def)
  then obtain a where a: "snd (error_report ''production'' ''r1'' ?e) = Some a" "ae_Code a = 500" "ae_Status a = ''ERROR''"
      "ae_Time a = 0" "ae_rawData a = NilAny" by blast
  with error_report_contents [of ?e "''production''" "''r1''"] show ?thesis by (simp add: prod_eq_iff)
qed

text \<open>
  Crediting the same event again over HTTP: through the controller, the bus and the handler
  that the registrar set up, the request changes no account and no key, and the client gets a 500,
  with the text of the duplicate in development and the generic text in production.
\<close>

theorem http_duplicate_credit:
  assumes "gorm_ok db acct marked" and "cr_CausationEventID req \<noteq> []" and "marked w (cr_CausationEventID req)"
    and "snd (fst (idem_Exists db (cr_CausationEventID req) w)) = None"
    and "Registrar_Register x db (fx_newCommandBus, fx_newQueryBus, evt) = (cmd, qry, evt')"
  shows "\<exists>e w' body. LoyaltyController_CreditPoints now path
            (NewLoyaltyController (fx_commandBus_Dispatch CommandName cmd) (fx_queryBus_Ask QueryName qry)) (Inr req) w = (Ret (Inl e), w')
       \<and> acct w' = acct w \<and> marked w' = marked w \<and> error_report mode rid e = (500, Some body)
       \<and> ae_Message body = (if mode = ''production'' then hidden_message else ''event already processed (idempotency)'')"
proof -
  from Handle_duplicate [OF assms(1-3)] assms(4) obtain w' where
    h: "CreditLoyalty_Handle (lx_inputs x) (gorm_credit_handler (lx_uuid x) (lx_now x) db (fx_bus_publish x evt)) req w = (Inl ErrDuplicateEvent, w')"
      "acct w' = acct w" "marked w' = marked w" by blast
  have trim: "TrimSpace ''event already processed (idempotency)'' = ''event already processed (idempotency)''" by code_simp
  let ?a = "\<lparr>ae_Code = 500, ae_RequestId = [], ae_Message = ''event already processed (idempotency)'', ae_Status = ''ERROR'',
      ae_Time = now, ae_rawData = NilAny\<rparr>"
  have "NewServiceError now ErrDuplicateEvent = ?a"
    by (subst NewServiceError_foreign) (simp_all add: ErrDuplicateEvent_def trim)
  with h(1) have "LoyaltyController_CreditPoints now path
      (NewLoyaltyController (fx_commandBus_Dispatch CommandName cmd) (fx_queryBus_Ask QueryName qry)) (Inr req) w = (Ret (Inl (ApiErr ?a)), w')"
    by (simp add: LoyaltyController_CreditPoints_def NewLoyaltyController_def registered_credit [OF assms(5)])
  with h(2,3) show ?thesis
    by (intro exI [of _ "ApiErr ?a"] exI [of _ w'] exI conjI) (auto simp: error_report_api)
qed

theorem http_duplicate_credit_witness:
  "\<exists>e w' body. LoyaltyController_CreditPoints 0 ''/api/v1/loyalty/credit''
       (NewLoyaltyController
         (fx_commandBus_Dispatch CommandName (fst (Registrar_Register demo_ctx demo_db (fx_newCommandBus, fx_newQueryBus, fx_newEventBus ()))))
         (fx_queryBus_Ask QueryName (fst (snd (Registrar_Register demo_ctx demo_db (fx_newCommandBus, fx_newQueryBus, fx_newEventBus ()))))))
       (Inr demo_cmd) ((demo_start 0)\<lparr>dw_keys := (\<lambda>k. k = ''e1'')\<rparr>) = (Ret (Inl e), w')
     \<and> error_report ''production'' ''r1'' e = (500, Some body) \<and> ae_Message body = hidden_message"
proof -
  let ?w = "(demo_start 0)\<lparr>dw_keys := (\<lambda>k. k = ''e1'')\<rparr>"
  obtain cb qb eb where reg: "Registrar_Register demo_ctx demo_db (fx_newCommandBus, fx_newQueryBus, fx_newEventBus ()) = (cb, qb, eb)"
    by (metis prod.exhaust)
  have "cr_CausationEventID demo_cmd \<noteq> []" "dw_keys ?w (cr_CausationEventID demo_cmd)"
    "snd (fst (idem_Exists demo_db (cr_CausationEventID demo_cmd) ?w)) = None"
    by (simp_all add: demo_cmd_def idem_Exists_def demo_db_def)
  from http_duplicate_credit [OF demo_ok this reg, where now = 0 and path = "''/api/v1/loyalty/credit''" and mode = "''production''" and rid = "''r1''"]
  show ?thesis unfolding reg fst_conv snd_conv by (elim exE conjE, intro exI conjI) simp_all
qed

end
