(* ===== verification/Config.thy ===== *)
theory Config
  imports Go_Strings
begin

text \<open>
  \<^verbatim>\<open>pkg/config\<close> and the path helpers of \<^verbatim>\<open>internal/base_app.go\<close>. The rules of
  \<^verbatim>\<open>ozzo-validation\<close> and the calls of \<^verbatim>\<open>viper\<close> are arguments; what is relied on of the rules
  is \<open>ozzo_ok\<close>. A field is validated by its rules, then by the \<^verbatim>\<open>Validate\<close> method of its type
  where it has one.
\<close>

section \<open>Rules\<close>

record ozzo =
  oz_Required_string :: "string \<Rightarrow> go_error option"
  oz_Required_int :: "int \<Rightarrow> go_error option"
  oz_Required_list :: "string list \<Rightarrow> go_error option"
  oz_Required_struct :: "go_error option"
  oz_In :: "string list \<Rightarrow> string \<Rightarrow> go_error option"
  oz_Each :: "go_error option list \<Rightarrow> go_error option"
  oz_ValidateStruct :: "(string \<times> go_error option list) list \<Rightarrow> go_error option"

text \<open>
  The documented rules: a value is required not to be empty (a struct never is), \<^verbatim>\<open>In\<close>
  accepts the listed values (and the empty string), a slice is valid when its elements are, and a
  struct when all its fields are.
\<close>

definition ozzo_ok :: "ozzo \<Rightarrow> bool" where
  "ozzo_ok oz =
     ((\<forall>s. oz_Required_string oz s = None \<longleftrightarrow> s \<noteq> [])
      \<and> (\<forall>n. oz_Required_int oz n = None \<longleftrightarrow> n \<noteq> 0)
      \<and> (\<forall>xs. oz_Required_list oz xs = None \<longleftrightarrow> xs \<noteq> [])
      \<and> oz_Required_struct oz = None
      \<and> (\<forall>xs s. oz_In oz xs s = None \<longleftrightarrow> s = [] \<or> s \<in> set xs)
      \<and> (\<forall>rs. oz_Each oz rs = None \<longleftrightarrow> (\<forall>r \<in> set rs. r = None))
      \<and> (\<forall>fs. oz_ValidateStruct oz fs = None \<longleftrightarrow> (\<forall>(n, rs) \<in> set fs. \<forall>r \<in> set rs. r = None)))"

section \<open>The configuration\<close>

record AppConfig =
  app_Name :: string
  app_Mode :: string
  app_Version :: int

definition AppConfig_Validate :: "ozzo \<Rightarrow> AppConfig \<Rightarrow> go_error option" where
  "AppConfig_Validate oz c =
     oz_ValidateStruct oz
       [(''Version'', [oz_Required_int oz (app_Version c)]),
        (''Name'', [oz_Required_string oz (app_Name c)]),
        (''Mode'', [oz_Required_string oz (app_Mode c), oz_In oz [''development'', ''production''] (app_Mode c)])]"

record Monitoring =
  mon_OtelEndpoint :: string
  mon_EnableCollectLog :: bool
  mon_EnableTelemetry :: bool

definition Monitoring_Validate :: "ozzo \<Rightarrow> Monitoring \<Rightarrow> go_error option" where
  "Monitoring_Validate oz c =
     oz_ValidateStruct oz [(''OtelEndpoint'', [oz_Required_string oz (mon_OtelEndpoint c)])]"

record Database =
  db_Adapter :: string
  db_Encoding :: string
  db_Reconnect :: bool
  db_DatabaseName :: string
  db_SSLMode :: bool
  db_Alias :: string
  db_Pool :: int
  db_Schema :: string
  db_Host :: string
  db_Port :: int
  db_Username :: string
  db_Password :: string
  db_Path :: string

definition isSQLite :: "Database \<Rightarrow> bool" where
  "isSQLite c = (db_Adapter c = ''sqlite'' \<or> db_Adapter c = ''sqlite-gorm'')"

definition Database_Validate :: "ozzo \<Rightarrow> Database \<Rightarrow> go_error option" where
  "Database_Validate oz c =
     (if isSQLite c then
        oz_ValidateStruct oz
          [(''Adapter'', [oz_Required_string oz (db_Adapter c)]), (''Alias'', [oz_Required_string oz (db_Alias c)])]
      else
        oz_ValidateStruct oz
          [(''Adapter'', [oz_Required_string oz (db_Adapter c)]),
           (''Encoding'', [oz_Required_string oz (db_Encoding c)]),
           (''DatabaseName'', [oz_Required_string oz (db_DatabaseName c)]),
           (''SSLMode'', []),
           (''Schema'', []),
           (''Alias'', [oz_Required_string oz (db_Alias c)]),
           (''Pool'', [oz_Required_int oz (db_Pool c)]),
           (''Port'', [oz_Required_int oz (db_Port c)]),
           (''Host'', [oz_Required_string oz (db_Host c)]),
           (''Username'', [oz_Required_string oz (db_Username c)]),
           (''Password'', [oz_Required_string oz (db_Password c)])])"

record CorsConfig =
  cors_AllowedOrigins :: "string list"
  cors_AllowedMethods :: "string list"

definition CorsConfig_Validate :: "ozzo \<Rightarrow> CorsConfig \<Rightarrow> go_error option" where
  "CorsConfig_Validate oz c =
     oz_ValidateStruct oz
       [(''AllowedOrigins'', [oz_Required_list oz (cors_AllowedOrigins c)]),
        (''AllowedMethods'', [oz_Required_list oz (cors_AllowedMethods c)])]"

record ApiConfig =
  api_Port :: int
  api_Cors :: CorsConfig

definition ApiConfig_Validate :: "ozzo \<Rightarrow> ApiConfig \<Rightarrow> go_error option" where
  "ApiConfig_Validate oz c =
     oz_ValidateStruct oz
       [(''Port'', [oz_Required_int oz (api_Port c)]),
        (''Cors'', [oz_Required_struct oz, CorsConfig_Validate oz (api_Cors c)])]"

record Config =
  cfg_App :: AppConfig
  cfg_Database :: Database
  cfg_Monitoring :: Monitoring
  cfg_ExternalDatabases :: "Database list"
  cfg_Api :: ApiConfig

definition Config_Validate :: "ozzo \<Rightarrow> Config \<Rightarrow> go_error option" where
  "Config_Validate oz c =
     oz_ValidateStruct oz
       [(''App'', [AppConfig_Validate oz (cfg_App c)]),
        (''Database'', [Database_Validate oz (cfg_Database c)]),
        (''ExternalDatabases'', [oz_Each oz (map (Database_Validate oz) (cfg_ExternalDatabases c))]),
        (''Api'', [ApiConfig_Validate oz (cfg_Api c)])]"

section \<open>Loading\<close>

record ConfigParam =
  cp_ConfigName :: string
  cp_ConfigType :: string
  cp_Path :: string

datatype read_error = ConfigFileNotFoundError | OtherReadError string

text \<open>The global \<^verbatim>\<open>viper\<close> instance is part of the world.\<close>

record 'w viper =
  vi_SetConfigName :: "string \<Rightarrow> 'w \<Rightarrow> 'w"
  vi_SetConfigType :: "string \<Rightarrow> 'w \<Rightarrow> 'w"
  vi_AddConfigPath :: "string \<Rightarrow> 'w \<Rightarrow> 'w"
  vi_ReadInConfig :: "'w \<Rightarrow> read_error option \<times> 'w"
  vi_Unmarshal :: "'w \<Rightarrow> Config result"

definition NewConfig :: "ozzo \<Rightarrow> 'w viper \<Rightarrow> ConfigParam \<Rightarrow> 'w \<Rightarrow> Config outcome \<times> 'w" where
  "NewConfig oz vi param w =
     (let w1 = vi_SetConfigType vi (cp_ConfigType param) (vi_SetConfigName vi (cp_ConfigName param) w);
          w2 = (if cp_Path param \<noteq> [] then vi_AddConfigPath vi (cp_Path param) w1 else w1)
      in case vi_ReadInConfig vi w2 of
           (Some ConfigFileNotFoundError, w3) \<Rightarrow> (Panic ''config not found'', w3)
         | (Some (OtherReadError e), w3) \<Rightarrow> (Panic (''Config error occured, '' @ e), w3)
         | (None, w3) \<Rightarrow>
             (case vi_Unmarshal vi w3 of
                Inl err \<Rightarrow> (Panic (''error while marshalling to struct '' @ error_text err), w3)
              | Inr config \<Rightarrow>
                  (case Config_Validate oz config of
                     Some err \<Rightarrow> (Panic (error_text err), w3)
                   | None \<Rightarrow> (Ret config, w3))))"

definition NewDefaultConfig :: "ozzo \<Rightarrow> 'w viper \<Rightarrow> 'w \<Rightarrow> Config outcome \<times> 'w" where
  "NewDefaultConfig oz vi w =
     NewConfig oz vi \<lparr>cp_ConfigName = ''config'', cp_ConfigType = ''toml'', cp_Path = ''.''\<rparr> w"

section \<open>Paths\<close>

definition getDirectoryPath :: "string \<Rightarrow> string" where
  "getDirectoryPath filePath = path_Dir filePath"

definition getFileName :: "string \<Rightarrow> string" where
  "getFileName filePath = (let base = path_Base filePath in TrimSuffix base (path_Ext base))"

definition loadConfig :: "ozzo \<Rightarrow> 'w viper \<Rightarrow> string \<Rightarrow> 'w \<Rightarrow> Config outcome \<times> 'w" where
  "loadConfig oz vi configPath w =
     (if configPath = [] then NewDefaultConfig oz vi w
      else NewConfig oz vi
             \<lparr>cp_ConfigName = getFileName configPath, cp_ConfigType = ''toml'', cp_Path = getDirectoryPath configPath\<rparr> w)"

section \<open>What a valid configuration is\<close>

definition app_valid :: "AppConfig \<Rightarrow> bool" where
  "app_valid c = (app_Version c \<noteq> 0 \<and> app_Name c \<noteq> [] \<and> app_Mode c \<in> {''development'', ''production''})"

definition database_valid :: "Database \<Rightarrow> bool" where
  "database_valid c =
     (db_Adapter c \<noteq> [] \<and> db_Alias c \<noteq> []
      \<and> (\<not> isSQLite c \<longrightarrow> [] \<notin> {db_Encoding c, db_DatabaseName c, db_Host c, db_Username c, db_Password c}
            \<and> 0 \<notin> {db_Pool c, db_Port c}))"

definition api_valid :: "ApiConfig \<Rightarrow> bool" where
  "api_valid c = (api_Port c \<noteq> 0 \<and> cors_AllowedOrigins (api_Cors c) \<noteq> [] \<and> cors_AllowedMethods (api_Cors c) \<noteq> [])"

definition config_valid :: "Config \<Rightarrow> bool" where
  "config_valid c =
     (app_valid (cfg_App c) \<and> database_valid (cfg_Database c)
      \<and> (\<forall>d \<in> set (cfg_ExternalDatabases c). database_valid d) \<and> api_valid (cfg_Api c))"

section \<open>Lemmas\<close>

lemma ozzo_rules:
  assumes "ozzo_ok oz"
  shows "oz_Required_string oz s = None \<longleftrightarrow> s \<noteq> []" "oz_Required_int oz n = None \<longleftrightarrow> n \<noteq> 0"
    "oz_Required_list oz xs = None \<longleftrightarrow> xs \<noteq> []" "oz_Required_struct oz = None"
    "oz_In oz ys s = None \<longleftrightarrow> s = [] \<or> s \<in> set ys" "oz_Each oz rs = None \<longleftrightarrow> (\<forall>r \<in> set rs. r = None)"
    "oz_ValidateStruct oz fs = None \<longleftrightarrow> (\<forall>(n, rs) \<in> set fs. \<forall>r \<in> set rs. r = None)"
  using assms by (simp_all add: ozzo_ok_def)

lemma AppConfig_Validate_iff: "ozzo_ok oz \<Longrightarrow> AppConfig_Validate oz c = None \<longleftrightarrow> app_valid c"
  by (auto simp: AppConfig_Validate_def ozzo_rules app_valid_def)

lemma Database_Validate_iff: "ozzo_ok oz \<Longrightarrow> Database_Validate oz c = None \<longleftrightarrow> database_valid c"
  by (auto simp: Database_Validate_def ozzo_rules database_valid_def isSQLite_def)

lemma ApiConfig_Validate_iff: "ozzo_ok oz \<Longrightarrow> ApiConfig_Validate oz c = None \<longleftrightarrow> api_valid c"
  by (auto simp: ApiConfig_Validate_def CorsConfig_Validate_def ozzo_rules api_valid_def)

lemma Config_Validate_iff: "ozzo_ok oz \<Longrightarrow> Config_Validate oz c = None \<longleftrightarrow> config_valid c"
  by (auto simp: Config_Validate_def ozzo_rules AppConfig_Validate_iff Database_Validate_iff ApiConfig_Validate_iff
      config_valid_def)

text \<open>
  Neither of the two fields that an SQLite connection needs is required, and the monitoring
  section is not looked at.
\<close>

lemma sqlite_path_unchecked:
  "ozzo_ok oz \<Longrightarrow> isSQLite c \<Longrightarrow> Database_Validate oz c = None \<Longrightarrow>
     Database_Validate oz (c\<lparr>db_Path := [], db_DatabaseName := []\<rparr>) = None"
  by (auto simp: Database_Validate_iff database_valid_def isSQLite_def)

lemma monitoring_unchecked: "Config_Validate oz (c\<lparr>cfg_Monitoring := m\<rparr>) = Config_Validate oz c"
  by (simp add: Config_Validate_def)

lemma NewConfig_Ret:
  assumes "NewConfig oz vi param w = (Ret c, w')"
  shows "Config_Validate oz c = None" and "vi_Unmarshal vi w' = Inr c"
  using assms
  by (simp_all add: NewConfig_def Let_def split: prod.splits option.splits read_error.splits sum.splits)

lemma path_Base_file: "slash \<notin> set f \<Longrightarrow> f \<noteq> [] \<Longrightarrow> path_Base (d @ [slash] @ f) = f"
proof -
  assume f: "slash \<notin> set f" "f \<noteq> []"
  then obtain c f' where "f = f' @ [c]" "c \<noteq> slash" by (cases f rule: rev_cases) auto
  then have "dropWhile (\<lambda>c. c = slash) (rev (d @ [slash] @ f)) = rev (d @ [slash] @ f)" by simp
  moreover have "takeWhile (\<lambda>c. c \<noteq> slash) (rev f @ slash # rev d) = rev f"
    using f(1) by (simp add: takeWhile_until)
  ultimately show ?thesis by (simp add: path_Base_def)
qed

lemma path_Ext_file:
  assumes "slash \<notin> set n" "slash \<notin> set e" "CHR ''.'' \<notin> set e"
  shows "path_Ext (n @ CHR ''.'' # e) = CHR ''.'' # e"
proof -
  have all: "takeWhile (\<lambda>c. c \<noteq> slash) (rev (n @ CHR ''.'' # e)) = rev (n @ CHR ''.'' # e)"
    using assms(1,2) by (intro takeWhile_eq_all_conv [THEN iffD2]) (auto simp: slash_def)
  have "takeWhile (\<lambda>c. c \<noteq> CHR ''.'') (rev e @ CHR ''.'' # rev n) = rev e"
    using assms(3) by (simp add: takeWhile_until)
  then show ?thesis unfolding path_Ext_def Let_def all by simp
qed

lemma TrimSuffix_append [simp]: "TrimSuffix (s @ suf) suf = s"
  by (simp add: TrimSuffix_def HasSuffix_def HasPrefix_def)

text \<open>The file name without its extension, as the configuration reader wants it.\<close>

lemma getFileName_file:
  assumes "slash \<notin> set n" "slash \<notin> set e" "CHR ''.'' \<notin> set e"
  shows "getFileName (d @ [slash] @ n @ CHR ''.'' # e) = n"
proof -
  have "path_Base (d @ [slash] @ n @ CHR ''.'' # e) = n @ CHR ''.'' # e"
    using assms by (intro path_Base_file) (auto simp: slash_def)
  then show ?thesis using path_Ext_file [OF assms] TrimSuffix_append [of n "CHR ''.'' # e"]
    by (simp add: getFileName_def)
qed

section \<open>Properties\<close>

text \<open>
  Loading gives a configuration only if it is valid: the call returns exactly when the file
  can be read, unmarshals, and satisfies every rule (a known mode, a version and a name, complete
  network databases, an API port with its CORS lists); in every other case it panics.
\<close>

theorem NewConfig_returns_valid:
  assumes "ozzo_ok oz"
  shows "(\<forall>c w'. NewConfig oz vi param w = (Ret c, w') \<longrightarrow> config_valid c \<and> vi_Unmarshal vi w' = Inr c)
       \<and> (\<forall>w' c. vi_ReadInConfig vi
              (let w1 = vi_SetConfigType vi (cp_ConfigType param) (vi_SetConfigName vi (cp_ConfigName param) w)
               in if cp_Path param \<noteq> [] then vi_AddConfigPath vi (cp_Path param) w1 else w1) = (None, w')
              \<and> vi_Unmarshal vi w' = Inr c \<and> config_valid c \<longrightarrow> NewConfig oz vi param w = (Ret c, w'))"
proof (intro conjI allI impI)
  fix c w'
  assume "NewConfig oz vi param w = (Ret c, w')"
  then show "config_valid c" "vi_Unmarshal vi w' = Inr c"
    using NewConfig_Ret [of oz vi param w c w'] Config_Validate_iff [OF assms, of c] by simp_all
next
  fix w' c
  assume "vi_ReadInConfig vi
              (let w1 = vi_SetConfigType vi (cp_ConfigType param) (vi_SetConfigName vi (cp_ConfigName param) w)
               in if cp_Path param \<noteq> [] then vi_AddConfigPath vi (cp_Path param) w1 else w1) = (None, w')
              \<and> vi_Unmarshal vi w' = Inr c \<and> config_valid c"
  then show "NewConfig oz vi param w = (Ret c, w')"
    using Config_Validate_iff [OF assms, of c] by (simp add: NewConfig_def Let_def)
qed

text \<open>An instance of the rules, and a configuration with a viper that reads it.\<close>

definition demo_ozzo :: ozzo where
  "demo_ozzo =
     (let bad = \<lambda>b. if b then Some (ErrorString ''invalid'') else None
      in \<lparr>oz_Required_string = (\<lambda>s. bad (s = [])), oz_Required_int = (\<lambda>n. bad (n = 0)),
          oz_Required_list = (\<lambda>xs. bad (xs = [])), oz_Required_struct = None,
          oz_In = (\<lambda>xs s. bad (s \<noteq> [] \<and> s \<notin> set xs)),
          oz_Each = (\<lambda>rs. bad (\<exists>r \<in> set rs. r \<noteq> None)),
          oz_ValidateStruct = (\<lambda>fs. bad (\<exists>(n, rs) \<in> set fs. \<exists>r \<in> set rs. r \<noteq> None))\<rparr>)"

lemma demo_ozzo_ok: "ozzo_ok demo_ozzo"
  by (auto simp: ozzo_ok_def demo_ozzo_def Let_def)

definition demo_config :: Config where
  "demo_config =
     \<lparr>cfg_App = \<lparr>app_Name = ''mox'', app_Mode = ''production'', app_Version = 1\<rparr>,
      cfg_Database = \<lparr>db_Adapter = ''sqlite'', db_Encoding = [], db_Reconnect = False, db_DatabaseName = [],
        db_SSLMode = False, db_Alias = ''default'', db_Pool = 0, db_Schema = [], db_Host = [], db_Port = 0,
        db_Username = [], db_Password = [], db_Path = []\<rparr>,
      cfg_Monitoring = \<lparr>mon_OtelEndpoint = [], mon_EnableCollectLog = False, mon_EnableTelemetry = True\<rparr>,
      cfg_ExternalDatabases = [],
      cfg_Api = \<lparr>api_Port = 8080, api_Cors = \<lparr>cors_AllowedOrigins = [''x''], cors_AllowedMethods = [''GET'']\<rparr>\<rparr>\<rparr>"

definition demo_viper :: "unit viper" where
  "demo_viper =
     \<lparr>vi_SetConfigName = (\<lambda>s w. w), vi_SetConfigType = (\<lambda>s w. w), vi_AddConfigPath = (\<lambda>s w. w),
      vi_ReadInConfig = (\<lambda>w. (None, w)), vi_Unmarshal = (\<lambda>w. Inr demo_config)\<rparr>"

theorem NewConfig_returns_valid_witness:
  "NewConfig demo_ozzo demo_viper \<lparr>cp_ConfigName = ''config'', cp_ConfigType = ''toml'', cp_Path = ''.''\<rparr> ()
     = (Ret demo_config, ())"
proof -
  have "config_valid demo_config"
    by (simp add: config_valid_def app_valid_def database_valid_def api_valid_def isSQLite_def demo_config_def)
  with NewConfig_returns_valid [OF demo_ozzo_ok, of demo_viper
      "\<lparr>cp_ConfigName = ''config'', cp_ConfigType = ''toml'', cp_Path = ''.''\<rparr>" "()"]
  show ?thesis by (simp add: demo_viper_def)
qed

end
