(* ===== verification/Data_Manager.thy ===== *)
theory Data_Manager
  imports Config
begin

text \<open>
  The data layer: the connection adapters of \<^verbatim>\<open>infrastructure/persistent\<close>, the SQL adapter
  collection of \<^verbatim>\<open>adapters\<close>, both data managers and the FX providers. The operations of
  \<^verbatim>\<open>database/sql\<close> drivers, \<^verbatim>\<open>pgx\<close> and \<^verbatim>\<open>gorm\<close> are arguments that act on a world \<open>'w\<close>;
  a handle is a number. The registered adapters are shared pointers: an adapter object is
  identified by its position in the list of adapters.
\<close>

section \<open>Drivers\<close>

record 'w db_driver =
  dr_Open :: "string \<Rightarrow> string \<Rightarrow> 'w \<Rightarrow> nat result \<times> 'w"
  dr_Exec :: "nat \<Rightarrow> string \<Rightarrow> 'w \<Rightarrow> go_error option \<times> 'w"
  dr_Ping :: "nat \<Rightarrow> 'w \<Rightarrow> go_error option \<times> 'w"
  dr_Close :: "nat \<Rightarrow> 'w \<Rightarrow> go_error option \<times> 'w"
  dr_SetConnMaxLifetime :: "nat \<Rightarrow> int \<Rightarrow> 'w \<Rightarrow> 'w"
  dr_SetMaxOpenConns :: "nat \<Rightarrow> int \<Rightarrow> 'w \<Rightarrow> 'w"
  dr_SetMaxIdleConns :: "nat \<Rightarrow> int \<Rightarrow> 'w \<Rightarrow> 'w"
  dr_pgxpool_New :: "string \<Rightarrow> 'w \<Rightarrow> nat result \<times> 'w"
  dr_pool_Ping :: "nat \<Rightarrow> 'w \<Rightarrow> go_error option \<times> 'w"
  dr_OpenDBFromPool :: "nat \<Rightarrow> 'w \<Rightarrow> nat \<times> 'w"
  dr_gorm_Open :: "nat \<Rightarrow> 'w \<Rightarrow> nat result \<times> 'w"
  dr_gorm_Use :: "nat \<Rightarrow> 'w \<Rightarrow> go_error option \<times> 'w"
  dr_gorm_DB :: "nat \<Rightarrow> 'w \<Rightarrow> nat result \<times> 'w"

datatype connection = SqlDB nat | GormDB nat

datatype adapter_type = PostgresT | MySQLT | PostgresGormT | SQLiteT | SQLiteGormT

record Adapter =
  ad_type :: adapter_type
  ad_db :: "nat option"
  ad_gorm :: "nat option"

fun DriverName :: "adapter_type \<Rightarrow> string" where
  "DriverName PostgresT = ''postgres-sql/db''"
| "DriverName MySQLT = ''mysql''"
| "DriverName PostgresGormT = ''postgres-gorm''"
| "DriverName SQLiteT = ''sqlite''"
| "DriverName SQLiteGormT = ''sqlite-gorm''"

definition RegisteredSQLAdapters :: "Adapter list" where
  "RegisteredSQLAdapters =
     map (\<lambda>t. \<lparr>ad_type = t, ad_db = None, ad_gorm = None\<rparr>) [PostgresT, MySQLT, PostgresGormT, SQLiteT, SQLiteGormT]"

definition nil_deref :: string where
  "nil_deref = ''runtime error: invalid memory address or nil pointer dereference''"

section \<open>Connecting\<close>

type_synonym 'w connect = "Database \<Rightarrow> Adapter \<Rightarrow> 'w \<Rightarrow> connection result \<times> Adapter \<times> 'w"

definition mysql_dsn :: "Database \<Rightarrow> string" where
  "mysql_dsn c = db_Username c @ '':'' @ db_Password c @ ''@tcp('' @ db_Host c @ '':'' @ Itoa (db_Port c) @ '')/'' @ db_DatabaseName c"

definition MySQL_Connect :: "'w db_driver \<Rightarrow> 'w connect" where
  "MySQL_Connect dr config m w =
     (case dr_Open dr ''mysql'' (mysql_dsn config) w of
        (Inl err, w1) \<Rightarrow> (Inl err, m, w1)
      | (Inr db, w1) \<Rightarrow>
          (let w2 = dr_SetMaxIdleConns dr db 10 (dr_SetMaxOpenConns dr db 10 (dr_SetConnMaxLifetime dr db 180000000000 w1))
           in case dr_Ping dr db w2 of
                (Some err, w3) \<Rightarrow> (Inl err, m, w3)
              | (None, w3) \<Rightarrow> (Inr (SqlDB db), m\<lparr>ad_db := Some db\<rparr>, w3)))"

definition postgres_dsn :: "Database \<Rightarrow> string" where
  "postgres_dsn c =
     (let sslmode = (if db_SSLMode c then ''enable'' else ''disable'');
          dsn = ''user='' @ db_Username c @ '' password='' @ db_Password c @ '' host='' @ db_Host c @ '' port=''
                @ Itoa (db_Port c) @ '' database='' @ db_DatabaseName c @ '' sslmode='' @ sslmode
      in if db_Schema c \<noteq> [] then dsn @ '' search_path='' @ db_Schema c else dsn)"

definition Postgres_Connect :: "'w db_driver \<Rightarrow> 'w connect" where
  "Postgres_Connect dr config p w =
     (case dr_pgxpool_New dr (postgres_dsn config) w of
        (Inl err, w1) \<Rightarrow> (Inl err, p, w1)
      | (Inr pool, w1) \<Rightarrow>
          (case dr_pool_Ping dr pool w1 of
             (Some err, w2) \<Rightarrow> (Inl err, p, w2)
           | (None, w2) \<Rightarrow> (let (db, w3) = dr_OpenDBFromPool dr pool w2 in (Inr (SqlDB db), p\<lparr>ad_db := Some db\<rparr>, w3))))"

definition PostgresGorm_Connect :: "'w db_driver \<Rightarrow> 'w connect" where
  "PostgresGorm_Connect dr config p w =
     (case Postgres_Connect dr config \<lparr>ad_type = PostgresT, ad_db = None, ad_gorm = None\<rparr> w of
        (Inr (SqlDB db), _, w1) \<Rightarrow>
          (let p1 = p\<lparr>ad_db := Some db\<rparr>
           in case dr_gorm_Open dr db w1 of
                (Inl err, w2) \<Rightarrow> (Inl err, p1, w2)
              | (Inr g, w2) \<Rightarrow>
                  (case dr_gorm_Use dr g w2 of
                     (Some err, w3) \<Rightarrow> (Inl err, p1, w3)
                   | (None, w3) \<Rightarrow> (Inr (GormDB g), p1\<lparr>ad_gorm := Some g\<rparr>, w3)))
      | (Inr (GormDB g), _, w1) \<Rightarrow> (Inr (GormDB g), p, w1)
      | (Inl err, _, w1) \<Rightarrow> (Inl err, p, w1))"

text \<open>The three pragmas of an SQLite connection: the handle is closed when one of them fails.\<close>

fun sqlite_pragmas :: "'w db_driver \<Rightarrow> nat \<Rightarrow> (string \<times> string) list \<Rightarrow> 'w \<Rightarrow> go_error option \<times> 'w" where
  "sqlite_pragmas dr db [] w = (None, w)"
| "sqlite_pragmas dr db ((q, msg) # ps) w =
     (case dr_Exec dr db q w of
        (Some err, w1) \<Rightarrow> (Some (WrapError msg err []), snd (dr_Close dr db w1))
      | (None, w1) \<Rightarrow> sqlite_pragmas dr db ps w1)"

definition pragmas :: "(string \<times> string) list" where
  "pragmas =
     [(''PRAGMA journal_mode=WAL'', ''failed to set WAL mode: ''),
      (''PRAGMA foreign_keys=ON'', ''failed to enable foreign keys: ''),
      (''PRAGMA busy_timeout=5000'', ''failed to set busy timeout: '')]"

definition sqlite_dsn :: "Database \<Rightarrow> string" where
  "sqlite_dsn cfg = (if db_Path cfg = [] then db_DatabaseName cfg else db_Path cfg)"

definition SQLite_Connect :: "'w db_driver \<Rightarrow> 'w connect" where
  "SQLite_Connect dr cfg s w =
     (if sqlite_dsn cfg = []
      then (Inl (ErrorString (''sqlite requires a file path via '' @ [CHR 0x27] @ ''path'' @ [CHR 0x27] @ '' or ''
              @ [CHR 0x27] @ ''database_name'' @ [CHR 0x27] @ '' config field'')), s, w)
      else case dr_Open dr ''sqlite'' (sqlite_dsn cfg) w of
             (Inl err, w1) \<Rightarrow> (Inl (WrapError ''failed to open sqlite database: '' err []), s, w1)
           | (Inr db, w1) \<Rightarrow>
               (case sqlite_pragmas dr db pragmas w1 of
                  (Some err, w2) \<Rightarrow> (Inl err, s, w2)
                | (None, w2) \<Rightarrow>
                    (case dr_Ping dr db w2 of
                       (Some err, w3) \<Rightarrow>
                         (Inl (WrapError ''failed to ping sqlite database: '' err []), s, snd (dr_Close dr db w3))
                     | (None, w3) \<Rightarrow>
                         (let pool = (if db_Pool cfg \<le> 0 then 1 else db_Pool cfg)
                          in (Inr (SqlDB db), s\<lparr>ad_db := Some db\<rparr>,
                              dr_SetMaxIdleConns dr db pool (dr_SetMaxOpenConns dr db pool w3))))))"

definition SQLiteGorm_Connect :: "'w db_driver \<Rightarrow> 'w connect" where
  "SQLiteGorm_Connect dr cfg s w =
     (case SQLite_Connect dr cfg \<lparr>ad_type = SQLiteT, ad_db = None, ad_gorm = None\<rparr> w of
        (Inr (SqlDB db), _, w1) \<Rightarrow>
          (let s1 = s\<lparr>ad_db := Some db\<rparr>
           in case dr_gorm_Open dr db w1 of
                (Inl err, w2) \<Rightarrow>
                  (Inl (WrapError ''failed to open gorm sqlite connection: '' err []), s1, snd (dr_Close dr db w2))
              | (Inr g, w2) \<Rightarrow>
                  (case dr_gorm_Use dr g w2 of
                     (Some err, w3) \<Rightarrow>
                       (Inl (WrapError ''failed to register otel tracing plugin: '' err []), s1, snd (dr_Close dr db w3))
                   | (None, w3) \<Rightarrow> (Inr (GormDB g), s1\<lparr>ad_gorm := Some g\<rparr>, w3)))
      | (Inr (GormDB g), _, w1) \<Rightarrow> (Inr (GormDB g), s, w1)
      | (Inl err, _, w1) \<Rightarrow> (Inl err, s, w1))"

fun Adapter_Connect :: "'w db_driver \<Rightarrow> adapter_type \<Rightarrow> 'w connect" where
  "Adapter_Connect dr PostgresT = Postgres_Connect dr"
| "Adapter_Connect dr MySQLT = MySQL_Connect dr"
| "Adapter_Connect dr PostgresGormT = PostgresGorm_Connect dr"
| "Adapter_Connect dr SQLiteT = SQLite_Connect dr"
| "Adapter_Connect dr SQLiteGormT = SQLiteGorm_Connect dr"

section \<open>Closing\<close>

definition close_db :: "'w db_driver \<Rightarrow> nat option \<Rightarrow> 'w \<Rightarrow> go_error option outcome \<times> 'w" where
  "close_db dr h w =
     (case h of None \<Rightarrow> (Panic nil_deref, w) | Some db \<Rightarrow> (let (err, w') = dr_Close dr db w in (Ret err, w')))"

definition PostgresGorm_Close :: "'w db_driver \<Rightarrow> Adapter \<Rightarrow> 'w \<Rightarrow> go_error option outcome \<times> 'w" where
  "PostgresGorm_Close dr p w =
     (case ad_gorm p of
        None \<Rightarrow> (Panic nil_deref, w)
      | Some g \<Rightarrow>
          (case dr_gorm_DB dr g w of
             (Inl err, w1) \<Rightarrow> (Panic nil_deref, w1)
           | (Inr db, w1) \<Rightarrow>
               (case close_db dr (ad_db p) w1 of
                  (Panic m, w2) \<Rightarrow> (Panic m, w2)
                | (Ret _, w2) \<Rightarrow> close_db dr (Some db) w2)))"

definition SQLite_Close :: "'w db_driver \<Rightarrow> Adapter \<Rightarrow> 'w \<Rightarrow> go_error option outcome \<times> 'w" where
  "SQLite_Close dr s w = (if ad_db s \<noteq> None then close_db dr (ad_db s) w else (Ret None, w))"

definition SQLiteGorm_Close :: "'w db_driver \<Rightarrow> Adapter \<Rightarrow> 'w \<Rightarrow> go_error option outcome \<times> 'w" where
  "SQLiteGorm_Close dr s w =
     (case ad_gorm s of
        Some g \<Rightarrow>
          (case dr_gorm_DB dr g w of
             (Inl err, w1) \<Rightarrow> (Ret (Some err), w1)
           | (Inr db, w1) \<Rightarrow> close_db dr (Some db) w1)
      | None \<Rightarrow> (if ad_db s \<noteq> None then close_db dr (ad_db s) w else (Ret None, w)))"

fun close_of :: "'w db_driver \<Rightarrow> adapter_type \<Rightarrow> Adapter \<Rightarrow> 'w \<Rightarrow> go_error option outcome \<times> 'w" where
  "close_of dr PostgresT p = close_db dr (ad_db p)"
| "close_of dr MySQLT p = close_db dr (ad_db p)"
| "close_of dr PostgresGormT p = PostgresGorm_Close dr p"
| "close_of dr SQLiteT p = SQLite_Close dr p"
| "close_of dr SQLiteGormT p = SQLiteGorm_Close dr p"

definition Adapter_Close :: "'w db_driver \<Rightarrow> Adapter \<Rightarrow> 'w \<Rightarrow> go_error option outcome \<times> 'w" where
  "Adapter_Close dr a = close_of dr (ad_type a) a"

section \<open>The SQL adapters\<close>

record SqlAdapters =
  sa_adapters :: "Adapter list"
  sa_alias :: "(string, nat) gomap"
  sa_result :: "(string, connection) gomap"
  sa_config :: Config

definition NewSqlAdapters :: "Config \<Rightarrow> Adapter list \<Rightarrow> SqlAdapters" where
  "NewSqlAdapters cfg adapters = \<lparr>sa_adapters = adapters, sa_alias = mempty, sa_result = mempty, sa_config = cfg\<rparr>"

fun adapter_index :: "nat \<Rightarrow> Adapter list \<Rightarrow> string \<Rightarrow> nat option" where
  "adapter_index i [] driver = None"
| "adapter_index i (a # as) driver = (if DriverName (ad_type a) = driver then Some i else adapter_index (Suc i) as driver)"

definition getAdapterByDriver :: "SqlAdapters \<Rightarrow> string \<Rightarrow> nat option" where
  "getAdapterByDriver a driver = adapter_index 0 (sa_adapters a) driver"

type_synonym 'w on_error = "go_error \<Rightarrow> 'w \<Rightarrow> 'w"

definition initConnection ::
  "'w db_driver \<Rightarrow> 'w on_error \<Rightarrow> Database \<Rightarrow> SqlAdapters \<Rightarrow> 'w \<Rightarrow> connection outcome \<times> SqlAdapters \<times> 'w" where
  "initConnection dr f cfg a w =
     (case getAdapterByDriver a (db_Adapter cfg) of
        None \<Rightarrow> (Panic [], a, f (ErrorString (''cannot find adapter for '' @ db_Adapter cfg)) w)
      | Some i \<Rightarrow>
          (case Adapter_Connect dr (ad_type (sa_adapters a ! i)) cfg (sa_adapters a ! i) w of
             (Inl err, ad, w1) \<Rightarrow>
               (Panic [], a\<lparr>sa_adapters := (sa_adapters a)[i := ad]\<rparr>,
                f (ErrorString (''cannot connect '' @ db_Alias cfg @ '' database detail='' @ error_text err)) w1)
           | (Inr db, ad, w1) \<Rightarrow> (Ret db, a\<lparr>sa_adapters := (sa_adapters a)[i := ad]\<rparr>, w1)))"

definition SqlAdapters_Get :: "string \<Rightarrow> SqlAdapters \<Rightarrow> connection option" where
  "SqlAdapters_Get connectionName a = mget (sa_result a) connectionName"

text \<open>
  Connecting one database and noting its connection and its adapter under the alias; the default
  database comes first, then the external ones.
\<close>

fun connect_loop ::
  "'w db_driver \<Rightarrow> 'w on_error \<Rightarrow> Database list \<Rightarrow> SqlAdapters \<Rightarrow> 'w \<Rightarrow> unit outcome \<times> SqlAdapters \<times> 'w" where
  "connect_loop dr f [] a w = (Ret (), a, w)"
| "connect_loop dr f (d # ds) a w =
     (case initConnection dr f d a w of
        (Panic m, a1, w1) \<Rightarrow> (Panic m, a1, w1)
      | (Ret db, a1, w1) \<Rightarrow>
          connect_loop dr f ds
            (a1\<lparr>sa_result := mput (db_Alias d) db (sa_result a1),
                sa_alias := mput (db_Alias d) (the (getAdapterByDriver a1 (db_Adapter d))) (sa_alias a1)\<rparr>) w1)"

definition SqlAdapters_Connect ::
  "'w db_driver \<Rightarrow> 'w on_error \<Rightarrow> SqlAdapters \<Rightarrow> 'w \<Rightarrow> unit outcome \<times> SqlAdapters \<times> 'w" where
  "SqlAdapters_Connect dr f a w =
     connect_loop dr f (cfg_Database (sa_config a) # cfg_ExternalDatabases (sa_config a)) a w"

fun disconnect_loop ::
  "'w db_driver \<Rightarrow> 'w on_error \<Rightarrow> string list \<Rightarrow> SqlAdapters \<Rightarrow> 'w \<Rightarrow> unit outcome \<times> 'w" where
  "disconnect_loop dr f [] a w = (Ret (), w)"
| "disconnect_loop dr f (k # ks) a w =
     (let ad = sa_adapters a ! the (mget (sa_alias a) k)
      in case Adapter_Close dr ad w of
           (Panic m, w1) \<Rightarrow> (Panic m, w1)
         | (Ret (Some err), w1) \<Rightarrow>
             disconnect_loop dr f ks a
               (f (ErrorString (''cannot close database '' @ DriverName (ad_type ad) @ '' detail='' @ error_text err)) w1)
         | (Ret None, w1) \<Rightarrow> disconnect_loop dr f ks a w1)"

definition SqlAdapters_Disconnect ::
  "'w db_driver \<Rightarrow> 'w on_error \<Rightarrow> string list \<Rightarrow> SqlAdapters \<Rightarrow> 'w \<Rightarrow> unit outcome \<times> 'w" where
  "SqlAdapters_Disconnect dr f ks a w = disconnect_loop dr f ks a w"

section \<open>The data managers\<close>

text \<open>
  The interface of an adapter with state \<open>'s\<close> and connections \<open>'c\<close>: what its three methods do.
\<close>

record ('s, 'c, 'w) DataAdapter =
  dt_Connect :: "'w on_error \<Rightarrow> 's \<Rightarrow> 'w \<Rightarrow> unit outcome \<times> 's \<times> 'w"
  dt_Get :: "string \<Rightarrow> 's \<Rightarrow> 'c option"
  dt_Disconnect :: "'w on_error \<Rightarrow> 's \<Rightarrow> 'w \<Rightarrow> unit outcome \<times> 'w"

definition sql_data_adapter ::
  "'w db_driver \<Rightarrow> (SqlAdapters \<Rightarrow> string list) \<Rightarrow> (SqlAdapters, connection, 'w) DataAdapter" where
  "sql_data_adapter dr order =
     \<lparr>dt_Connect = SqlAdapters_Connect dr, dt_Get = SqlAdapters_Get,
      dt_Disconnect = (\<lambda>f a. SqlAdapters_Disconnect dr f (order a) a)\<rparr>"

record 's DataManager =
  dm_adapter :: "(string, 's) gomap"

definition DataManager_New :: "'s DataManager" where
  "DataManager_New = \<lparr>dm_adapter = mempty\<rparr>"

definition AddAdapter :: "string \<Rightarrow> 's \<Rightarrow> 's DataManager \<Rightarrow> 's DataManager" where
  "AddAdapter key adapter d = d\<lparr>dm_adapter := mput key adapter (dm_adapter d)\<rparr>"

definition no_adapter :: "string \<Rightarrow> string" where
  "no_adapter dbType = ''cannot find adapter for type '' @ dbType"

definition DataManager_Get ::
  "('s, 'c, 'w) DataAdapter \<Rightarrow> 's DataManager \<Rightarrow> string \<Rightarrow> string \<Rightarrow> 'c option outcome" where
  "DataManager_Get ops d dbType connectionName =
     (case mget (dm_adapter d) dbType of
        None \<Rightarrow> Panic (no_adapter dbType)
      | Some adapter \<Rightarrow> Ret (dt_Get ops connectionName adapter))"

definition DataManager_Connect ::
  "('s, 'c, 'w) DataAdapter \<Rightarrow> string \<Rightarrow> 'w on_error \<Rightarrow> 's DataManager \<Rightarrow> 'w \<Rightarrow> unit outcome \<times> 's DataManager \<times> 'w" where
  "DataManager_Connect ops dbType f d w =
     (case mget (dm_adapter d) dbType of
        None \<Rightarrow> (Panic (no_adapter dbType), d, w)
      | Some adapter \<Rightarrow>
          (case dt_Connect ops f adapter w of (r, adapter', w') \<Rightarrow> (r, AddAdapter dbType adapter' d, w')))"

definition DataManager_Close ::
  "('s, 'c, 'w) DataAdapter \<Rightarrow> string \<Rightarrow> 'w on_error \<Rightarrow> 's DataManager \<Rightarrow> 'w \<Rightarrow> unit outcome \<times> 'w" where
  "DataManager_Close ops dbType f d w =
     (case mget (dm_adapter d) dbType of
        None \<Rightarrow> (Panic (no_adapter dbType), w)
      | Some adapter \<Rightarrow> dt_Disconnect ops f adapter w)"

text \<open>Version 2 has the same adapters and reports errors.\<close>

record 's DataManagerV2 =
  dm2_adapter :: "(string, 's) gomap"

definition V2_New :: "'s DataManagerV2" where
  "V2_New = \<lparr>dm2_adapter = mempty\<rparr>"

definition V2_AddAdapter :: "string \<Rightarrow> 's \<Rightarrow> 's DataManagerV2 \<Rightarrow> 's DataManagerV2" where
  "V2_AddAdapter key adapter d = d\<lparr>dm2_adapter := mput key adapter (dm2_adapter d)\<rparr>"

definition V2_Has :: "'s DataManagerV2 \<Rightarrow> string \<Rightarrow> bool" where
  "V2_Has d dbType = (mget (dm2_adapter d) dbType \<noteq> None)"

definition no_adapter_error :: "string \<Rightarrow> go_error" where
  "no_adapter_error dbType = ErrorString (''cannot find adapter for type '' @ quoted dbType)"

definition V2_GetRaw ::
  "('s, 'c, 'w) DataAdapter \<Rightarrow> 's DataManagerV2 \<Rightarrow> string \<Rightarrow> string \<Rightarrow> 'c option result" where
  "V2_GetRaw ops d dbType connectionName =
     (case mget (dm2_adapter d) dbType of
        None \<Rightarrow> Inl (no_adapter_error dbType)
      | Some adapter \<Rightarrow> Inr (dt_Get ops connectionName adapter))"

definition V2_Connect ::
  "('s, 'c, 'w) DataAdapter \<Rightarrow> string \<Rightarrow> 'w on_error \<Rightarrow> 's DataManagerV2 \<Rightarrow> 'w
     \<Rightarrow> go_error option outcome \<times> 's DataManagerV2 \<times> 'w" where
  "V2_Connect ops dbType f d w =
     (case mget (dm2_adapter d) dbType of
        None \<Rightarrow> (Ret (Some (no_adapter_error dbType)), d, w)
      | Some adapter \<Rightarrow>
          (case dt_Connect ops f adapter w of
             (Panic m, adapter', w') \<Rightarrow> (Panic m, V2_AddAdapter dbType adapter' d, w')
           | (Ret _, adapter', w') \<Rightarrow> (Ret None, V2_AddAdapter dbType adapter' d, w')))"

definition V2_Close ::
  "('s, 'c, 'w) DataAdapter \<Rightarrow> string \<Rightarrow> 'w on_error \<Rightarrow> 's DataManagerV2 \<Rightarrow> 'w \<Rightarrow> go_error option outcome \<times> 'w" where
  "V2_Close ops dbType f d w =
     (case mget (dm2_adapter d) dbType of
        None \<Rightarrow> (Ret (Some (no_adapter_error dbType)), w)
      | Some adapter \<Rightarrow>
          (case dt_Disconnect ops f adapter w of (Panic m, w') \<Rightarrow> (Panic m, w') | (Ret _, w') \<Rightarrow> (Ret None, w')))"

text \<open>
  The generic getters: a Go type is given by its name, what a connection is when asserted to have
  it, and the dynamic type names of connections.
\<close>

record ('c, 't) go_type =
  ty_name :: string
  ty_assert :: "'c \<Rightarrow> 't option"
  ty_of :: "'c \<Rightarrow> string"

definition V2_Get ::
  "('s, 'c, 'w) DataAdapter \<Rightarrow> ('c, 't) go_type \<Rightarrow> 's DataManagerV2 \<Rightarrow> string \<Rightarrow> string \<Rightarrow> 't result" where
  "V2_Get ops ty d dbType connectionName =
     (case V2_GetRaw ops d dbType connectionName of
        Inl err \<Rightarrow> Inl err
      | Inr None \<Rightarrow> Inl (ErrorString (''connection '' @ quoted connectionName @ '' not found in adapter '' @ quoted dbType))
      | Inr (Some raw) \<Rightarrow>
          (case ty_assert ty raw of
             None \<Rightarrow> Inl (ErrorString (''connection '' @ quoted connectionName @ '' in adapter '' @ quoted dbType
                       @ '' is '' @ ty_of ty raw @ '', expected '' @ ty_name ty))
           | Some typed \<Rightarrow> Inr typed))"

definition V2_MustGet ::
  "('s, 'c, 'w) DataAdapter \<Rightarrow> ('c, 't) go_type \<Rightarrow> 's DataManagerV2 \<Rightarrow> string \<Rightarrow> string \<Rightarrow> 't outcome" where
  "V2_MustGet ops ty d dbType connectionName =
     (case V2_Get ops ty d dbType connectionName of
        Inl err \<Rightarrow> Panic (''datamanager.MustGet: '' @ error_text err)
      | Inr val \<Rightarrow> Ret val)"

section \<open>The FX providers\<close>

fun as_gorm :: "connection \<Rightarrow> nat option" where
  "as_gorm (GormDB g) = Some g"
| "as_gorm (SqlDB db) = None"

fun as_sql :: "connection \<Rightarrow> nat option" where
  "as_sql (SqlDB db) = Some db"
| "as_sql (GormDB g) = None"

definition ProvideGorm :: "(SqlAdapters, connection, 'w) DataAdapter \<Rightarrow> string \<Rightarrow> SqlAdapters DataManager \<Rightarrow> nat outcome" where
  "ProvideGorm ops alias dm =
     (case DataManager_Get ops dm ''sql'' alias of
        Panic m \<Rightarrow> Panic m
      | Ret conn \<Rightarrow>
          (case Option.bind conn as_gorm of
             None \<Rightarrow> Panic (''datamanagerfx: connection alias '' @ quoted alias @ '' is not a *gorm.DB'')
           | Some db \<Rightarrow> Ret db))"

definition ProvideSQL :: "(SqlAdapters, connection, 'w) DataAdapter \<Rightarrow> string \<Rightarrow> SqlAdapters DataManager \<Rightarrow> nat outcome" where
  "ProvideSQL ops alias dm =
     (case DataManager_Get ops dm ''sql'' alias of
        Panic m \<Rightarrow> Panic m
      | Ret conn \<Rightarrow>
          (case Option.bind conn as_sql of
             None \<Rightarrow> Panic (''datamanagerfx: connection alias '' @ quoted alias @ '' is not a *sql.DB'')
           | Some db \<Rightarrow> Ret db))"

section \<open>Lemmas\<close>

interpretation dm1: keyed_store DataManager_New AddAdapter "\<lambda>d. mget (dm_adapter d)" "\<lambda>k. k"
  by unfold_locales (simp_all add: DataManager_New_def AddAdapter_def)

interpretation dm2: keyed_store V2_New V2_AddAdapter "\<lambda>d. mget (dm2_adapter d)" "\<lambda>k. k"
  by unfold_locales (simp_all add: V2_New_def V2_AddAdapter_def)

text \<open>Connecting leaves the type of the adapter object alone.\<close>

lemma Connect_types:
  "ad_type (fst (snd (MySQL_Connect dr cfg a w))) = ad_type a"
  "ad_type (fst (snd (Postgres_Connect dr cfg a w))) = ad_type a"
  "ad_type (fst (snd (PostgresGorm_Connect dr cfg a w))) = ad_type a"
  "ad_type (fst (snd (SQLite_Connect dr cfg a w))) = ad_type a"
  "ad_type (fst (snd (SQLiteGorm_Connect dr cfg a w))) = ad_type a"
      apply (simp add: MySQL_Connect_def Let_def split: prod.split sum.split option.split)
     apply (simp add: Postgres_Connect_def Let_def split: prod.split sum.split option.split)
    apply (simp add: PostgresGorm_Connect_def Let_def split: prod.split sum.split option.split connection.split)
   apply (simp add: SQLite_Connect_def Let_def split: prod.split sum.split option.split)
  apply (simp add: SQLiteGorm_Connect_def Let_def split: prod.split sum.split option.split connection.split)
  done

lemma Adapter_Connect_type: "ad_type (fst (snd (Adapter_Connect dr t cfg a w))) = ad_type a"
  by (cases t) (simp_all add: Connect_types)

lemma adapter_index_Some:
  "adapter_index i as driver = Some j \<Longrightarrow> i \<le> j \<and> j < i + length as \<and> DriverName (ad_type (as ! (j - i))) = driver"
proof (induction i as driver rule: adapter_index.induct)
  case (2 i a as driver)
  show ?case
  proof (cases "DriverName (ad_type a) = driver")
    case False
    with 2 have "Suc i \<le> j" "j < Suc i + length as" "DriverName (ad_type (as ! (j - Suc i))) = driver" by auto
    moreover from this(1) have "j - i = Suc (j - Suc i)" by simp
    ultimately show ?thesis by simp
  qed (use 2 in auto)
qed simp

lemma adapter_index_types: "map ad_type as = map ad_type bs \<Longrightarrow> adapter_index i as driver = adapter_index i bs driver"
proof (induction as arbitrary: bs i)
  case (Cons a as)
  then obtain b bs' where "bs = b # bs'" "ad_type b = ad_type a" "map ad_type as = map ad_type bs'" by (cases bs) auto
  with Cons.IH [of bs' "Suc i"] show ?case by simp
qed simp

lemma initConnection_Ret:
  assumes "initConnection dr f d a w = (Ret db, a1, w1)"
  shows "map ad_type (sa_adapters a1) = map ad_type (sa_adapters a)" "sa_result a1 = sa_result a" "sa_alias a1 = sa_alias a"
    "getAdapterByDriver a1 (db_Adapter d) = getAdapterByDriver a (db_Adapter d)" "getAdapterByDriver a (db_Adapter d) \<noteq> None"
proof -
  from assms obtain i ad where i: "getAdapterByDriver a (db_Adapter d) = Some i"
    and ad: "Adapter_Connect dr (ad_type (sa_adapters a ! i)) d (sa_adapters a ! i) w = (Inr db, ad, w1)"
    and a1: "a1 = a\<lparr>sa_adapters := (sa_adapters a)[i := ad]\<rparr>"
    unfolding initConnection_def by (simp split: option.splits prod.splits sum.splits)
  from ad Adapter_Connect_type [of dr "ad_type (sa_adapters a ! i)" d "sa_adapters a ! i" w]
  have "ad_type ad = ad_type (sa_adapters a ! i)" by simp
  then show types: "map ad_type (sa_adapters a1) = map ad_type (sa_adapters a)"
    using adapter_index_Some [of 0 "sa_adapters a" "db_Adapter d" i] i
    by (simp add: a1 map_update getAdapterByDriver_def list_update_same_conv)
  show "sa_result a1 = sa_result a" "sa_alias a1 = sa_alias a" by (simp_all add: a1)
  show "getAdapterByDriver a1 (db_Adapter d) = getAdapterByDriver a (db_Adapter d)"
    unfolding getAdapterByDriver_def by (rule adapter_index_types [OF types])
  show "getAdapterByDriver a (db_Adapter d) \<noteq> None" by (simp add: i)
qed

text \<open>What connecting the databases of a list leaves, relative to what was there.\<close>

definition served :: "Database list \<Rightarrow> SqlAdapters \<Rightarrow> bool" where
  "served ds a =
     ((\<forall>k. mget (sa_result a) k \<noteq> None \<longleftrightarrow> k \<in> db_Alias ` set ds)
      \<and> (\<forall>k. mget (sa_alias a) k \<noteq> None \<longleftrightarrow> k \<in> db_Alias ` set ds)
      \<and> (\<forall>k i. mget (sa_alias a) k = Some i \<longrightarrow>
           i < length (sa_adapters a) \<and> (\<exists>d \<in> set ds. db_Alias d = k \<and> DriverName (ad_type (sa_adapters a ! i)) = db_Adapter d)))"

lemma connect_loop_served:
  assumes "connect_loop dr f ds a w = (Ret (), a', w')" "served es a"
  shows "served (es @ ds) a'"
  using assms
proof (induction ds arbitrary: a w es)
  case (Cons d ds)
  from Cons.prems(1) obtain db a1 w1 where i: "initConnection dr f d a w = (Ret db, a1, w1)"
    by (auto split: prod.splits outcome.splits)
  note i' = initConnection_Ret [OF i]
  define a2 where "a2 = a1\<lparr>sa_result := mput (db_Alias d) db (sa_result a1),
                sa_alias := mput (db_Alias d) (the (getAdapterByDriver a1 (db_Adapter d))) (sa_alias a1)\<rparr>"
  from i'(4,5) obtain j where j: "getAdapterByDriver a1 (db_Adapter d) = Some j" by force
  then have idx: "j < length (sa_adapters a1)" "DriverName (ad_type (sa_adapters a1 ! j)) = db_Adapter d"
    unfolding getAdapterByDriver_def using adapter_index_Some [of 0] by fastforce+
  have len: "length (sa_adapters a1) = length (sa_adapters a)" by (metis i'(1) length_map)
  have type: "n < length (sa_adapters a) \<Longrightarrow> ad_type (sa_adapters a1 ! n) = ad_type (sa_adapters a ! n)" for n
    by (metis i'(1) len nth_map)
  have "served (es @ [d]) a2"
    using Cons.prems(2) idx j len type unfolding served_def a2_def
    by (auto simp: i'(2,3))
  moreover have "connect_loop dr f ds a2 w1 = (Ret (), a', w')" using Cons.prems(1) i by (simp add: a2_def)
  ultimately show ?case using Cons.IH by fastforce
qed simp

lemma served_New: "served [] (NewSqlAdapters cfg ads)"
  by (simp add: served_def NewSqlAdapters_def)

text \<open>Version 2 finds what version 1 finds, and reports an error where version 1 or the assertion would panic.\<close>

lemma V2_Get_refines_V1:
  assumes "dm2_adapter d2 = dm_adapter d1"
  shows "V2_Get ops ty d2 t n = Inr x \<longleftrightarrow> (\<exists>c. DataManager_Get ops d1 t n = Ret (Some c) \<and> ty_assert ty c = Some x)"
  by (simp add: V2_Get_def V2_GetRaw_def DataManager_Get_def assms split: option.splits)

subsection \<open>Open handles\<close>

text \<open>
  A driver that keeps the list of open handles and fails on chosen operations; gorm works on the
  handle it is given.
\<close>

record opens =
  op_open :: "nat list"
  op_next :: nat

definition failing :: "(string \<Rightarrow> bool) \<Rightarrow> string \<Rightarrow> go_error option" where
  "failing fails op = (if fails op then Some (ErrorString op) else None)"

definition open_handle :: "(string \<Rightarrow> bool) \<Rightarrow> string \<Rightarrow> opens \<Rightarrow> nat result \<times> opens" where
  "open_handle fails op w =
     (if fails op then (Inl (ErrorString op), w)
      else (Inr (op_next w), w\<lparr>op_open := op_next w # op_open w, op_next := Suc (op_next w)\<rparr>))"

definition track :: "(string \<Rightarrow> bool) \<Rightarrow> opens db_driver" where
  "track fails =
     \<lparr>dr_Open = (\<lambda>d dsn. open_handle fails ''open''),
      dr_Exec = (\<lambda>h q w. (failing fails q, w)),
      dr_Ping = (\<lambda>h w. (failing fails ''ping'', w)),
      dr_Close = (\<lambda>h w. (failing fails ''close'', w\<lparr>op_open := removeAll h (op_open w)\<rparr>)),
      dr_SetConnMaxLifetime = (\<lambda>h n w. w), dr_SetMaxOpenConns = (\<lambda>h n w. w), dr_SetMaxIdleConns = (\<lambda>h n w. w),
      dr_pgxpool_New = (\<lambda>dsn. open_handle fails ''open''),
      dr_pool_Ping = (\<lambda>h w. (failing fails ''ping'', w)),
      dr_OpenDBFromPool = (\<lambda>h w. (h, w)),
      dr_gorm_Open = (\<lambda>h w. (case failing fails ''gorm'' of None \<Rightarrow> Inr h | Some e \<Rightarrow> Inl e, w)),
      dr_gorm_Use = (\<lambda>h w. (failing fails ''plugin'', w)),
      dr_gorm_DB = (\<lambda>h w. (Inr h, w))\<rparr>"

definition opens_ok :: "opens \<Rightarrow> bool" where
  "opens_ok w = (\<forall>h \<in> set (op_open w). h < op_next w)"

lemma removeAll_fresh: "opens_ok w \<Longrightarrow> removeAll (op_next w) (op_open w) = op_open w"
  by (rule removeAll_id) (auto simp: opens_ok_def)

lemma track_ops [simp]:
  "dr_Open (track fails) d dsn w = open_handle fails ''open'' w"
  "dr_Exec (track fails) h q w = (failing fails q, w)"
  "dr_Ping (track fails) h w = (failing fails ''ping'', w)"
  "dr_Close (track fails) h w = (failing fails ''close'', w\<lparr>op_open := removeAll h (op_open w)\<rparr>)"
  "dr_SetMaxOpenConns (track fails) h n w = w" "dr_SetMaxIdleConns (track fails) h n w = w"
  "dr_gorm_Open (track fails) h w = (case failing fails ''gorm'' of None \<Rightarrow> Inr h | Some e \<Rightarrow> Inl e, w)"
  "dr_gorm_Use (track fails) h w = (failing fails ''plugin'', w)"
  "dr_gorm_DB (track fails) h w = (Inr h, w)"
  by (simp_all add: track_def)

lemma sqlite_pragmas_track:
  "sqlite_pragmas (track fails) h ps w =
     (case find (\<lambda>p. fails (fst p)) ps of
        None \<Rightarrow> (None, w)
      | Some (q, msg) \<Rightarrow> (Some (WrapError msg (ErrorString q) []), w\<lparr>op_open := removeAll h (op_open w)\<rparr>))"
  by (induction ps) (auto simp: failing_def)

lemma SQLite_Connect_track:
  assumes "opens_ok w"
  shows "(case SQLite_Connect (track fails) cfg a w of
            (Inl err, a', w') \<Rightarrow> a' = a \<and> op_open w' = op_open w
          | (Inr c, a', w') \<Rightarrow> c = SqlDB (op_next w) \<and> a' = a\<lparr>ad_db := Some (op_next w)\<rparr>
               \<and> w' = w\<lparr>op_open := op_next w # op_open w, op_next := Suc (op_next w)\<rparr>)"
proof (cases "sqlite_dsn cfg = [] \<or> fails ''open''")
  case True
  then show ?thesis by (auto simp: SQLite_Connect_def open_handle_def)
next
  case False
  let ?w1 = "w\<lparr>op_open := op_next w # op_open w, op_next := Suc (op_next w)\<rparr>"
  have op: "dr_Open (track fails) d dsn w = (Inr (op_next w), ?w1)" for d dsn
    using False by (simp add: open_handle_def)
  show ?thesis
  proof (cases "find (\<lambda>p. fails (fst p)) pragmas")
    case None
    then show ?thesis
      using False op assms
      by (simp add: SQLite_Connect_def sqlite_pragmas_track Let_def failing_def removeAll_fresh)
  next
    case (Some p)
    then show ?thesis
      using False op assms by (cases p) (simp add: SQLite_Connect_def sqlite_pragmas_track removeAll_fresh)
  qed
qed

text \<open>With nothing failing, and through the collection of registered adapters.\<close>

abbreviation healthy_driver :: "opens db_driver" where
  "healthy_driver \<equiv> track (\<lambda>_. False)"

lemma SQLite_Connect_healthy:
  "sqlite_dsn cfg \<noteq> [] \<Longrightarrow> SQLite_Connect healthy_driver cfg a w =
     (Inr (SqlDB (op_next w)), a\<lparr>ad_db := Some (op_next w)\<rparr>,
      w\<lparr>op_open := op_next w # op_open w, op_next := Suc (op_next w)\<rparr>)"
proof -
  have "find (\<lambda>p. False) ps = None" for ps :: "(string \<times> string) list" by (simp add: find_None_iff)
  then show "sqlite_dsn cfg \<noteq> [] \<Longrightarrow> ?thesis"
    by (simp add: SQLite_Connect_def open_handle_def sqlite_pragmas_track failing_def)
qed

definition sqlite_registered :: "nat option \<Rightarrow> Adapter list" where
  "sqlite_registered h = RegisteredSQLAdapters[3 := \<lparr>ad_type = SQLiteT, ad_db = h, ad_gorm = None\<rparr>]"

lemma initConnection_sqlite:
  assumes "db_Adapter d = ''sqlite''" "sqlite_dsn d \<noteq> []" "sa_adapters a = sqlite_registered h"
  shows "initConnection healthy_driver f d a w =
     (Ret (SqlDB (op_next w)), a\<lparr>sa_adapters := sqlite_registered (Some (op_next w))\<rparr>,
      w\<lparr>op_open := op_next w # op_open w, op_next := Suc (op_next w)\<rparr>)"
    and "getAdapterByDriver a ''sqlite'' = Some 3"
  using assms
  by (simp_all add: initConnection_def getAdapterByDriver_def sqlite_registered_def RegisteredSQLAdapters_def
      SQLite_Connect_healthy numeral_3_eq_3)

text \<open>Connections have the type of their adapter: a GORM handle exactly from the adapters for GORM.\<close>

definition gorm_adapter :: "adapter_type \<Rightarrow> bool" where
  "gorm_adapter t = (t = PostgresGormT \<or> t = SQLiteGormT)"

definition connections_typed :: "SqlAdapters \<Rightarrow> bool" where
  "connections_typed a =
     (\<forall>k c. mget (sa_result a) k = Some c \<longrightarrow>
        (\<exists>i. mget (sa_alias a) k = Some i \<and> i < length (sa_adapters a)
           \<and> (as_gorm c \<noteq> None \<longleftrightarrow> gorm_adapter (ad_type (sa_adapters a ! i)))))"

lemma Connect_connection:
  "MySQL_Connect dr cfg a w = (Inr c, a1, w1) \<Longrightarrow> as_gorm c = None"
  "Postgres_Connect dr cfg a w = (Inr c, a1, w1) \<Longrightarrow> as_gorm c = None"
  "PostgresGorm_Connect dr cfg a w = (Inr c, a1, w1) \<Longrightarrow> as_gorm c \<noteq> None"
  "SQLite_Connect dr cfg a w = (Inr c, a1, w1) \<Longrightarrow> as_gorm c = None"
  "SQLiteGorm_Connect dr cfg a w = (Inr c, a1, w1) \<Longrightarrow> as_gorm c \<noteq> None"
      apply (auto simp add: MySQL_Connect_def Let_def split: prod.splits sum.splits option.splits)[1]
     apply (auto simp add: Postgres_Connect_def Let_def split: prod.splits sum.splits option.splits)[1]
    apply (auto simp add: PostgresGorm_Connect_def Let_def split: prod.splits sum.splits option.splits connection.splits)[1]
   apply (auto simp add: SQLite_Connect_def Let_def split: prod.splits sum.splits option.splits if_splits)[1]
  apply (auto simp add: SQLiteGorm_Connect_def Let_def split: prod.splits sum.splits option.splits connection.splits if_splits)[1]
  done

lemma Adapter_Connect_connection:
  "Adapter_Connect dr t cfg a w = (Inr c, a1, w1) \<Longrightarrow> (as_gorm c \<noteq> None) = gorm_adapter t"
  by (cases t) (auto simp: gorm_adapter_def dest: Connect_connection)

lemma initConnection_state:
  assumes "initConnection dr f d a w = (r, a1, w1)"
  shows "map ad_type (sa_adapters a1) = map ad_type (sa_adapters a)" "sa_result a1 = sa_result a" "sa_alias a1 = sa_alias a"
proof -
  have "a1 = a \<or> (\<exists>i ad. a1 = a\<lparr>sa_adapters := (sa_adapters a)[i := ad]\<rparr> \<and> ad_type ad = ad_type (sa_adapters a ! i)
      \<and> i < length (sa_adapters a))"
  proof (cases "getAdapterByDriver a (db_Adapter d)")
    case None
    then show ?thesis using assms by (auto simp: initConnection_def)
  next
    case (Some i)
    obtain q ad w2 where c: "Adapter_Connect dr (ad_type (sa_adapters a ! i)) d (sa_adapters a ! i) w = (q, ad, w2)"
      by (metis prod.exhaust)
    have "ad_type ad = ad_type (sa_adapters a ! i)"
      using Adapter_Connect_type [of dr "ad_type (sa_adapters a ! i)" d "sa_adapters a ! i" w] c by simp
    moreover have "i < length (sa_adapters a)"
      using adapter_index_Some [of 0 "sa_adapters a" "db_Adapter d" i] Some by (simp add: getAdapterByDriver_def)
    ultimately show ?thesis
      using assms Some c by (cases q) (auto simp: initConnection_def)
  qed
  then show "map ad_type (sa_adapters a1) = map ad_type (sa_adapters a)" "sa_result a1 = sa_result a" "sa_alias a1 = sa_alias a"
    by (auto simp: map_update list_update_same_conv)
qed

lemma initConnection_typed:
  assumes "initConnection dr f d a w = (Ret db, a1, w1)"
  shows "\<exists>j. getAdapterByDriver a1 (db_Adapter d) = Some j \<and> j < length (sa_adapters a1)
       \<and> (as_gorm db \<noteq> None \<longleftrightarrow> gorm_adapter (ad_type (sa_adapters a1 ! j)))"
proof -
  note st = initConnection_state(1) [OF assms] initConnection_Ret(4,5) [OF assms]
  from st(2,3) obtain j where j: "getAdapterByDriver a (db_Adapter d) = Some j" "getAdapterByDriver a1 (db_Adapter d) = Some j"
    by force
  have len: "j < length (sa_adapters a)" "j < length (sa_adapters a1)"
    using j adapter_index_Some [of 0] unfolding getAdapterByDriver_def by fastforce+
  obtain ad where "Adapter_Connect dr (ad_type (sa_adapters a ! j)) d (sa_adapters a ! j) w = (Inr db, ad, w1)"
    using assms j(1) by (auto simp: initConnection_def split: prod.splits sum.splits)
  moreover have "ad_type (sa_adapters a ! j) = ad_type (sa_adapters a1 ! j)" using st(1) len by (metis nth_map)
  ultimately show ?thesis using j(2) len(2) Adapter_Connect_connection by metis
qed

lemma connections_typed_cong:
  assumes "map ad_type (sa_adapters a1) = map ad_type (sa_adapters a)" "sa_result a1 = sa_result a" "sa_alias a1 = sa_alias a"
    and "connections_typed a"
  shows "connections_typed a1"
  using assms(4) map_eq_imp_length_eq [OF assms(1)] nth_map [of _ "sa_adapters a" ad_type] nth_map [of _ "sa_adapters a1" ad_type]
  unfolding connections_typed_def assms(1-3) by (metis assms(1))

lemma connect_loop_typed: "connections_typed a \<Longrightarrow> connections_typed (fst (snd (connect_loop dr f ds a w)))"
proof (induction ds arbitrary: a w)
  case (Cons d ds)
  obtain r a1 w1 where i: "initConnection dr f d a w = (r, a1, w1)" by (metis prod.exhaust)
  have t1: "connections_typed a1"
    using connections_typed_cong [OF initConnection_state [OF i] Cons.prems] .
  show ?case
  proof (cases r)
    case (Panic m)
    then show ?thesis using i t1 by simp
  next
    case (Ret db)
    obtain j where j: "getAdapterByDriver a1 (db_Adapter d) = Some j" "j < length (sa_adapters a1)"
      "as_gorm db \<noteq> None \<longleftrightarrow> gorm_adapter (ad_type (sa_adapters a1 ! j))"
      using initConnection_typed [OF i [unfolded Ret]] by blast
    have "connections_typed (a1\<lparr>sa_result := mput (db_Alias d) db (sa_result a1),
        sa_alias := mput (db_Alias d) (the (getAdapterByDriver a1 (db_Adapter d))) (sa_alias a1)\<rparr>)"
      using t1 j by (simp add: connections_typed_def)
    then show ?thesis using Cons.IH i Ret by simp
  qed
qed simp

section \<open>Properties\<close>


text \<open>
  Connecting the configured databases: when it returns, exactly the aliases of the default and
  the external databases can be looked up, and each alias has an adapter object whose driver is the
  one configured for a database of that alias (so that closing never misses an adapter); otherwise it
  panics.
\<close>

theorem SqlAdapters_Connect_serves_aliases:
  assumes "SqlAdapters_Connect dr f (NewSqlAdapters cfg ads) w = (Ret (), a, w')"
  shows "(\<forall>k. SqlAdapters_Get k a \<noteq> None \<longleftrightarrow> k \<in> db_Alias ` set (cfg_Database cfg # cfg_ExternalDatabases cfg))
       \<and> (\<forall>k i. mget (sa_alias a) k = Some i \<longrightarrow> i < length (sa_adapters a)
             \<and> (\<exists>d \<in> set (cfg_Database cfg # cfg_ExternalDatabases cfg).
                  db_Alias d = k \<and> DriverName (ad_type (sa_adapters a ! i)) = db_Adapter d))"
proof -
  have "served (cfg_Database cfg # cfg_ExternalDatabases cfg) a"
    using connect_loop_served [OF _ served_New, of dr f _ cfg ads w a w'] assms
    by (simp add: SqlAdapters_Connect_def NewSqlAdapters_def)
  then show ?thesis by (simp add: served_def SqlAdapters_Get_def)
qed

definition demo_sqlite :: "string \<Rightarrow> Database" where
  "demo_sqlite name = (cfg_Database demo_config)\<lparr>db_Alias := name, db_Path := name\<rparr>"

definition two_databases :: Config where
  "two_databases = demo_config\<lparr>cfg_Database := demo_sqlite ''main'', cfg_ExternalDatabases := [demo_sqlite ''audit'']\<rparr>"

lemma demo_connect:
  assumes "cfg_Database cfg = d" "cfg_ExternalDatabases cfg = [e]" "db_Adapter d = ''sqlite''" "db_Adapter e = ''sqlite''"
    "sqlite_dsn d \<noteq> []" "sqlite_dsn e \<noteq> []"
  shows "SqlAdapters_Connect healthy_driver f (NewSqlAdapters cfg RegisteredSQLAdapters) \<lparr>op_open = [], op_next = 0\<rparr> =
     (Ret (), \<lparr>sa_adapters = sqlite_registered (Some 1), sa_alias = mput (db_Alias e) 3 (mput (db_Alias d) 3 mempty),
               sa_result = mput (db_Alias e) (SqlDB 1) (mput (db_Alias d) (SqlDB 0) mempty), sa_config = cfg\<rparr>,
      \<lparr>op_open = [1, 0], op_next = 2\<rparr>)"
proof -
  have "RegisteredSQLAdapters = sqlite_registered None" by (simp add: sqlite_registered_def RegisteredSQLAdapters_def numeral_3_eq_3)
  then show ?thesis
    using assms by (simp add: SqlAdapters_Connect_def NewSqlAdapters_def initConnection_sqlite)
qed

lemma two_sqlite:
  "cfg_Database two_databases = demo_sqlite ''main''" "cfg_ExternalDatabases two_databases = [demo_sqlite ''audit'']"
  "db_Adapter (demo_sqlite n) = ''sqlite''" "db_Alias (demo_sqlite n) = n" "n \<noteq> [] \<Longrightarrow> sqlite_dsn (demo_sqlite n) \<noteq> []"
  by (simp_all add: two_databases_def demo_sqlite_def demo_config_def sqlite_dsn_def)

theorem SqlAdapters_Connect_serves_aliases_witness:
  "\<exists>a w'. SqlAdapters_Connect healthy_driver (\<lambda>_ w. w) (NewSqlAdapters two_databases RegisteredSQLAdapters)
            \<lparr>op_open = [], op_next = 0\<rparr> = (Ret (), a, w')
        \<and> SqlAdapters_Get ''audit'' a \<noteq> None \<and> SqlAdapters_Get ''other'' a = None"
proof -
  have "\<exists>a w'. SqlAdapters_Connect healthy_driver (\<lambda>_ w. w)
      (NewSqlAdapters two_databases RegisteredSQLAdapters) \<lparr>op_open = [], op_next = 0\<rparr> = (Ret (), a, w')"
    by (rule exI, rule exI, rule demo_connect [OF two_sqlite(1,2)]) (simp_all add: two_sqlite)
  then obtain a w' where run: "SqlAdapters_Connect healthy_driver (\<lambda>_ w. w)
      (NewSqlAdapters two_databases RegisteredSQLAdapters) \<lparr>op_open = [], op_next = 0\<rparr> = (Ret (), a, w')"
    by (elim exE)
  note got = SqlAdapters_Connect_serves_aliases [OF run, THEN conjunct1, rule_format]
  have "SqlAdapters_Get ''audit'' a \<noteq> None" unfolding got by (simp add: two_sqlite)
  moreover have "\<not> SqlAdapters_Get ''other'' a \<noteq> None" unfolding got by (simp add: two_sqlite)
  then have "SqlAdapters_Get ''other'' a = None" by (simp only: not_not)
  ultimately show ?thesis using run by (intro exI [of _ a] exI [of _ w'] conjI)
qed

text \<open>
  C39. An SQLite connection never leaks: whatever fails on the way (opening, a pragma, the ping,
  gorm or its plugin), a failed connect leaves the open handles as they were; a successful one adds
  exactly one handle, and closing the adapter releases it.
\<close>

theorem sqlite_connect_no_leak:
  assumes "opens_ok w" and "ad_type a = t" and "t = SQLiteT \<or> t = SQLiteGormT"
    and "Adapter_Connect (track fails) t cfg a w = (r, a', w')"
  shows "(case r of
            Inl err \<Rightarrow> op_open w' = op_open w
          | Inr c \<Rightarrow> op_open w' = op_next w # op_open w \<and> op_open (snd (Adapter_Close (track fails) a' w')) = op_open w)"
proof (cases "t = SQLiteT")
  case True
  with assms show ?thesis
    using SQLite_Connect_track [OF assms(1), where fails = fails and cfg = cfg and a = a]
    by (cases r) (auto simp: Adapter_Close_def SQLite_Close_def close_db_def removeAll_fresh)
next
  case False
  let ?new = "\<lparr>ad_type = SQLiteT, ad_db = None, ad_gorm = None\<rparr>"
  have t: "t = SQLiteGormT" using assms(3) False by simp
  obtain r1 a1 w1 where c: "SQLite_Connect (track fails) cfg ?new w = (r1, a1, w1)" by (metis prod.exhaust)
  show ?thesis
  proof (cases r1)
    case (Inl err)
    with c t assms(4) SQLite_Connect_track [OF assms(1), where fails = fails and cfg = cfg and a = ?new] show ?thesis
      by (auto simp: SQLiteGorm_Connect_def)
  next
    case (Inr conn)
    with c SQLite_Connect_track [OF assms(1), where fails = fails and cfg = cfg and a = ?new]
    have c': "SQLite_Connect (track fails) cfg ?new w =
      (Inr (SqlDB (op_next w)), a1, w\<lparr>op_open := op_next w # op_open w, op_next := Suc (op_next w)\<rparr>)" by simp
    show ?thesis
      using assms(1,2,4) t removeAll_fresh [OF assms(1)]
      by (auto simp: SQLiteGorm_Connect_def c' Let_def failing_def Adapter_Close_def SQLiteGorm_Close_def
          close_db_def split: if_splits)
  qed
qed


theorem sqlite_connect_no_leak_witness:
  "op_open (snd (snd (Adapter_Connect (track (\<lambda>op. op = ''ping'')) SQLiteT (demo_sqlite ''x'')
      \<lparr>ad_type = SQLiteT, ad_db = None, ad_gorm = None\<rparr> \<lparr>op_open = [7], op_next = 8\<rparr>))) = [7]"
proof -
  let ?a = "\<lparr>ad_type = SQLiteT, ad_db = None, ad_gorm = None\<rparr>" and ?w = "\<lparr>op_open = [7], op_next = 8\<rparr>"
  let ?run = "Adapter_Connect (track (\<lambda>op. op = ''ping'')) SQLiteT (demo_sqlite ''x'') ?a ?w"
  have "find (\<lambda>p. fst p = ''ping'') pragmas = None" by (simp add: pragmas_def)
  then obtain e a' w' where run: "?run = (Inl e, a', w')"
    using two_sqlite(5) [of "''x''"] by (simp add: SQLite_Connect_def open_handle_def sqlite_pragmas_track failing_def)
  have "opens_ok ?w" by (simp add: opens_ok_def)
  from sqlite_connect_no_leak [OF this _ _ run] have "op_open w' = [7]" by simp
  with run show ?thesis by simp
qed

text \<open>
  Two databases of one driver: the registered adapters are shared and remember one handle, so
  the second connection overwrites the first. After connecting two SQLite databases under different
  aliases and disconnecting everything, in either order, the handle of the first is still open.
\<close>

theorem same_driver_handle_lost:
  assumes "cfg_ExternalDatabases cfg = [e]" and "db_Adapter (cfg_Database cfg) = ''sqlite''" and "db_Adapter e = ''sqlite''"
    and "sqlite_dsn (cfg_Database cfg) \<noteq> []" and "sqlite_dsn e \<noteq> []" and "db_Alias e \<noteq> db_Alias (cfg_Database cfg)"
    and "ks = [db_Alias e, db_Alias (cfg_Database cfg)] \<or> ks = [db_Alias (cfg_Database cfg), db_Alias e]"
  shows "\<exists>a w'. SqlAdapters_Connect healthy_driver f (NewSqlAdapters cfg RegisteredSQLAdapters) \<lparr>op_open = [], op_next = 0\<rparr>
                  = (Ret (), a, w')
              \<and> op_open w' = [1, 0] \<and> range_order (sa_alias a) ks
              \<and> op_open (snd (SqlAdapters_Disconnect healthy_driver f ks a w')) = [0]"
proof -
  have close: "Adapter_Close healthy_driver \<lparr>ad_type = SQLiteT, ad_db = Some 1, ad_gorm = None\<rparr> w
      = (Ret None, w\<lparr>op_open := removeAll 1 (op_open w)\<rparr>)" for w
    by (simp add: Adapter_Close_def SQLite_Close_def close_db_def failing_def)
  have third: "sqlite_registered h ! 3 = \<lparr>ad_type = SQLiteT, ad_db = h, ad_gorm = None\<rparr>" for h
    by (simp add: sqlite_registered_def RegisteredSQLAdapters_def)
  show ?thesis
    unfolding demo_connect [OF refl assms(1-5)]
    using assms(6,7) by (auto simp: SqlAdapters_Disconnect_def third close range_order_def Let_def simp del: One_nat_def)
qed

theorem same_driver_handle_lost_witness:
  "\<exists>a w'. SqlAdapters_Connect healthy_driver (\<lambda>_ w. w) (NewSqlAdapters two_databases RegisteredSQLAdapters)
            \<lparr>op_open = [], op_next = 0\<rparr> = (Ret (), a, w')
        \<and> op_open w' = [1, 0] \<and> range_order (sa_alias a) [''audit'', ''main'']
        \<and> op_open (snd (SqlAdapters_Disconnect healthy_driver (\<lambda>_ w. w) [''audit'', ''main''] a w')) = [0]"
  by (rule same_driver_handle_lost [where e = "demo_sqlite ''audit''"]) (simp_all add: two_sqlite)

end
