(* ===== verification/Logs.thy ===== *)
theory Logs
  imports Go_Json
begin

text \<open>
  The logging stack of \<^verbatim>\<open>tools/stack\<close> and \<^verbatim>\<open>tools/logs\<close>: the LIFO stack, the
  batching \<^verbatim>\<open>slog.Handler\<close>, the printer and the \<^verbatim>\<open>io.Writer\<close> adapter. The filter and the
  write function of a handler act on a world \<open>'w\<close>. A slice is its elements: handlers derived by
  \<^verbatim>\<open>WithAttrs\<close> or \<^verbatim>\<open>WithGroup\<close> are followed on their own, not the backing arrays they share
  with their parent.
\<close>

section \<open>The stack\<close>

record 'a Stack =
  sk_data :: "'a list"

definition Stack_New :: "'a Stack" where
  "Stack_New = \<lparr>sk_data = []\<rparr>"

definition Push :: "'a \<Rightarrow> 'a Stack \<Rightarrow> 'a Stack" where
  "Push x s = s\<lparr>sk_data := sk_data s @ [x]\<rparr>"

definition Pop :: "'a Stack \<Rightarrow> ('a \<times> 'a Stack) outcome" where
  "Pop s =
     (if sk_data s = [] then Panic ''runtime error: index out of range [-1]''
      else Ret (last (sk_data s), s\<lparr>sk_data := butlast (sk_data s)\<rparr>))"

fun pop_loop :: "nat \<Rightarrow> 'a list \<Rightarrow> 'a Stack \<Rightarrow> ('a list \<times> 'a Stack) outcome" where
  "pop_loop 0 result s = Ret (result, s)"
| "pop_loop (Suc n) result s =
     (case Pop s of Panic m \<Rightarrow> Panic m | Ret (x, s') \<Rightarrow> pop_loop n (result @ [x]) s')"

definition PopByLength :: "int \<Rightarrow> 'a Stack \<Rightarrow> ('a list \<times> 'a Stack) outcome" where
  "PopByLength n s = pop_loop (nat n) [] s"

definition Peek :: "'a Stack \<Rightarrow> 'a outcome" where
  "Peek s =
     (case sk_data s of [] \<Rightarrow> Panic ''runtime error: index out of range [0] with length 0'' | x # xs \<Rightarrow> Ret x)"

definition Len :: "'a Stack \<Rightarrow> int" where
  "Len s = int (length (sk_data s))"

section \<open>Attributes\<close>

text \<open>
  A \<^verbatim>\<open>slog.Value\<close>: \<open>VAny\<close> stands for every kind the handler does not treat by itself, with
  what \<^verbatim>\<open>%s\<close> prints for it; \<open>VLogValuer\<close> has the name of its type and the value its method gives.
\<close>

datatype slog_value =
    VInt64 int
  | VUint64 nat
  | VString string
  | VGroup "(string \<times> slog_value) list"
  | VAny go_any
  | VLogValuer string slog_value

type_synonym slog_attr = "string \<times> slog_value"

datatype log_data =
    DInt int
  | DUint nat
  | DString string
  | DAny go_any
  | DMap "(string \<times> log_data) list"

fun resolve_steps :: "nat \<Rightarrow> string \<Rightarrow> slog_value \<Rightarrow> slog_value" where
  "resolve_steps 0 orig v = VAny (ErrorAny (''LogValue called too many times on Value of type '' @ orig))"
| "resolve_steps (Suc n) orig (VLogValuer t u) = resolve_steps n orig u"
| "resolve_steps (Suc n) orig v = v"

definition Resolve :: "slog_value \<Rightarrow> slog_value" where
  "Resolve v = (case v of VLogValuer t u \<Rightarrow> resolve_steps 100 t v | _ \<Rightarrow> v)"

fun any_text :: "go_any \<Rightarrow> string" where
  "any_text NilAny = ''%!s(<nil>)''"
| "any_text (BytesAny s) = s"
| "any_text (ErrorAny s) = s"
| "any_text (OtherAny s) = s"

definition nul_bytes :: string where
  "nul_bytes = replicate 1024 (CHR 0x00)"

lemma size_resolve_steps: "size (resolve_steps n t v) \<le> size v + 1"
  by (induction n t v rule: resolve_steps.induct) auto

lemma Resolve_group: "Resolve v = VGroup attrs \<Longrightarrow> size (VGroup attrs) \<le> size v"
proof -
  have *: "resolve_steps n t u = VGroup attrs \<Longrightarrow> size (VGroup attrs) \<le> size u" for n t u
    by (induction n t u rule: resolve_steps.induct) auto
  assume "Resolve v = VGroup attrs"
  then show ?thesis by (cases v) (auto simp: Resolve_def simp del: slog_value.size dest!: *)
qed

text \<open>Appending an attribute to a map; the bytes are what the handler adds to its buffer.\<close>

function appendAttr :: "(string, log_data) gomap \<Rightarrow> slog_attr \<Rightarrow> string \<times> (string, log_data) gomap"
  and append_group :: "string \<Rightarrow> (string, log_data) gomap \<Rightarrow> string \<Rightarrow> slog_attr list \<Rightarrow> string \<times> (string, log_data) gomap"
where
  "appendAttr data (k, v0) =
     (case Resolve v0 of
        VInt64 v \<Rightarrow> (nul_bytes @ k @ ''='' @ Itoa v @ '' '', mput k (DInt v) data)
      | VUint64 v \<Rightarrow> (nul_bytes @ k @ ''='' @ Itoa (int v), mput k (DUint v) data)
      | VString v \<Rightarrow> (nul_bytes @ k @ ''='' @ v @ '' '', mput k (DString v) data)
      | VGroup attrs \<Rightarrow>
          if attrs = [] then ([], data)
          else (let (buf, groupData) = append_group k mempty nul_bytes attrs
                in (buf, if mlen groupData > 0 then mput k (DMap groupData) data else data))
      | VLogValuer t u \<Rightarrow> (nul_bytes, data)
      | VAny v \<Rightarrow>
          if k = [] \<and> v = NilAny then ([], data)
          else (case v of
                  ErrorAny e \<Rightarrow> (nul_bytes @ k @ ''='' @ e @ '' '', mput k (DString e) data)
                | _ \<Rightarrow> (nul_bytes @ k @ ''='' @ any_text v @ '' '', mput k (DAny v) data)))"
| "append_group k groupData buf [] = (buf, groupData)"
| "append_group k groupData buf (a # attrs) =
     (let (b, groupData') = appendAttr groupData a
      in append_group k groupData' (buf @ k @ ''.'' @ b) attrs)"
  by pat_completeness auto

termination
  by (relation "measure (\<lambda>x. case x of Inl (d, (k, v)) \<Rightarrow> size v | Inr (k, d, b, as) \<Rightarrow> size_list (size_prod (\<lambda>_. 0) size) as)")
    (auto dest!: Resolve_group simp: less_Suc_eq_le)

declare appendAttr.simps [simp del]

section \<open>The handler\<close>

record Log =
  lg_Time :: gotime
  lg_Message :: string
  lg_Level :: int
  lg_Data :: "(string, log_data) gomap"
  lg_Source :: string
  lg_Payload :: string

record 'w LogOptions =
  lo_AddSource :: bool
  lo_Filterrable :: "(string \<Rightarrow> Log \<Rightarrow> 'w \<Rightarrow> bool \<times> 'w) option"
  lo_WriteFunc :: "(Log list \<Rightarrow> 'w \<Rightarrow> go_error option \<times> 'w) option"
  lo_MinLevel :: "int option"
  lo_BatchSize :: int

record groupOrAttr =
  ga_group :: string
  ga_attrs :: "slog_attr list"

record 'w LogHandler =
  lh_options :: "'w LogOptions"
  lh_buf :: string
  lh_logs :: "Log list"
  lh_groups :: "groupOrAttr list"

definition LevelDebug :: int where "LevelDebug = - 4"
definition LevelInfo :: int where "LevelInfo = 0"
definition LevelWarn :: int where "LevelWarn = 4"
definition LevelError :: int where "LevelError = 8"

definition NewBaseLogHandler :: "'w LogOptions \<Rightarrow> 'w LogHandler outcome" where
  "NewBaseLogHandler opt =
     (if lo_WriteFunc opt = None then Panic ''WriteFunc must be set''
      else let opt1 = (if lo_MinLevel opt = None then opt\<lparr>lo_MinLevel := Some LevelInfo\<rparr> else opt);
               opt2 = (if lo_BatchSize opt1 = 0 then opt1\<lparr>lo_BatchSize := 100\<rparr> else opt1)
           in Ret \<lparr>lh_options = opt2, lh_buf = nul_bytes, lh_logs = [], lh_groups = []\<rparr>)"

definition Enabled :: "int \<Rightarrow> 'w LogHandler \<Rightarrow> bool" where
  "Enabled level l = (level \<ge> the (lo_MinLevel (lh_options l)))"

definition zero_group :: groupOrAttr where
  "zero_group = \<lparr>ga_group = [], ga_attrs = []\<rparr>"

definition withGroupAttrs :: "groupOrAttr \<Rightarrow> 'w LogHandler \<Rightarrow> 'w LogHandler" where
  "withGroupAttrs param l =
     (let gs = (lh_groups l @ [zero_group]) @ [param]
      in l\<lparr>lh_groups := gs[length gs - 1 := param]\<rparr>)"

definition WithAttrs :: "slog_attr list \<Rightarrow> 'w LogHandler \<Rightarrow> 'w LogHandler" where
  "WithAttrs attrs l = (if attrs = [] then l else withGroupAttrs \<lparr>ga_group = [], ga_attrs = attrs\<rparr> l)"

definition WithGroup :: "string \<Rightarrow> 'w LogHandler \<Rightarrow> 'w LogHandler" where
  "WithGroup name l = (if name = [] then l else withGroupAttrs \<lparr>ga_group = name, ga_attrs = []\<rparr> l)"

text \<open>A record: \<open>rc_frame\<close> is the file and line of its program counter when it has one.\<close>

record slog_record =
  rc_Time :: gotime
  rc_Message :: string
  rc_Level :: int
  rc_frame :: "(string \<times> int) option"
  rc_attrs :: "slog_attr list"

definition WriteAll :: "'w LogHandler \<Rightarrow> 'w \<Rightarrow> (go_error option \<times> 'w LogHandler \<times> 'w) outcome" where
  "WriteAll l w =
     (if lh_logs l = [] then Ret (None, l, w)
      else (case lo_WriteFunc (lh_options l) of
              None \<Rightarrow> Panic ''runtime error: invalid memory address or nil pointer dereference''
            | Some write_func \<Rightarrow>
                (case write_func (lh_logs l) w of (err, w') \<Rightarrow> Ret (err, l\<lparr>lh_logs := []\<rparr>, w'))))"

text \<open>Groups at the end of the list are dropped for a record without attributes.\<close>

definition trim_groups :: "groupOrAttr list \<Rightarrow> groupOrAttr list" where
  "trim_groups goas = rev (dropWhile (\<lambda>g. ga_group g \<noteq> []) (rev goas))"

text \<open>The attributes on the stack, popped one after the other into a map and the buffer.\<close>

fun append_all :: "slog_attr list \<Rightarrow> string \<Rightarrow> (string, log_data) gomap \<Rightarrow> string \<times> (string, log_data) gomap" where
  "append_all [] buf data = (buf, data)"
| "append_all (a # as) buf data = (let (b, data') = appendAttr data a in append_all as (buf @ b) data')"

definition pop_all :: "slog_attr Stack \<Rightarrow> slog_attr list" where
  "pop_all s = (case PopByLength (Len s) s of Ret (xs, s') \<Rightarrow> xs | Panic m \<Rightarrow> [])"

text \<open>The loop over the groups, from the last to the first.\<close>

fun group_loop ::
  "groupOrAttr list \<Rightarrow> slog_attr Stack \<Rightarrow> string \<Rightarrow> (string, log_data) gomap
     \<Rightarrow> slog_attr Stack \<times> string \<times> (string, log_data) gomap" where
  "group_loop [] st buf data = (st, buf, data)"
| "group_loop (g # gs) st buf data =
     (if ga_group g \<noteq> [] then
        (let (buf', key) = append_all (pop_all st) (buf @ ga_group g @ ''.'') mempty
         in group_loop gs Stack_New buf' (mput (ga_group g) (DMap key) data))
      else group_loop gs (fold Push (ga_attrs g) st) buf data)"

definition frame_text :: "string \<Rightarrow> int \<Rightarrow> string" where
  "frame_text file line = file @ '':'' @ Itoa line"

definition add_source ::
  "bool \<Rightarrow> (string \<times> int) option \<Rightarrow> (string, log_data) gomap \<Rightarrow> string \<times> (string, log_data) gomap" where
  "add_source on frame data =
     (case frame of
        Some (file, line) \<Rightarrow>
          if on then (frame_text (path_Base file) line,
                      snd (appendAttr data (''source'', VString (frame_text file line))))
          else ([], data)
      | None \<Rightarrow> ([], data))"

text \<open>The first part of \<^verbatim>\<open>Handle\<close>: the entry and the buffer it leaves.\<close>

definition make_log :: "'w LogHandler \<Rightarrow> slog_record \<Rightarrow> Log" where
  "make_log l r =
     (let goas = (if rc_attrs r = [] then trim_groups (lh_groups l) else lh_groups l);
          (st, buf1, data1) = group_loop (rev goas) Stack_New (lh_buf l) mempty;
          (buf2, data2) = append_all (pop_all st) buf1 data1;
          (source, data3) = add_source (lo_AddSource (lh_options l)) (rc_frame r) data2;
          (buf4, data4) = append_all (rc_attrs r) buf2 data3
      in \<lparr>lg_Time = rc_Time r, lg_Message = rc_Message r, lg_Level = rc_Level r, lg_Data = data4,
          lg_Source = source, lg_Payload = buf4\<rparr>)"

text \<open>The second part: the filter, the queue, and writing a full batch.\<close>

definition Handle :: "slog_record \<Rightarrow> 'w LogHandler \<Rightarrow> 'w \<Rightarrow> (go_error option \<times> 'w LogHandler \<times> 'w) outcome" where
  "Handle r l w =
     (let entry = make_log l r;
          l1 = l\<lparr>lh_buf := lg_Payload entry\<rparr>;
          (keep, w1) = (case lo_Filterrable (lh_options l) of None \<Rightarrow> (True, w) | Some f \<Rightarrow> f (lg_Payload entry) entry w)
      in if \<not> keep then Ret (None, l1, w1)
         else (let l2 = l1\<lparr>lh_logs := lh_logs l1 @ [entry], lh_buf := []\<rparr>
               in if int (length (lh_logs l2)) \<ge> lo_BatchSize (lh_options l2) \<and> lo_WriteFunc (lh_options l2) \<noteq> None
                  then WriteAll l2 w1
                  else Ret (None, l2, w1)))"

section \<open>Printing\<close>

definition level_name :: "string \<Rightarrow> int \<Rightarrow> string" where
  "level_name base d = (if d = 0 then base else base @ (if 0 < d then ''+'' else []) @ Itoa d)"

definition Level_String :: "int \<Rightarrow> string" where
  "Level_String l =
     (if l < LevelInfo then level_name ''DEBUG'' (l - LevelDebug)
      else if l < LevelWarn then level_name ''INFO'' (l - LevelInfo)
      else if l < LevelError then level_name ''WARN'' (l - LevelWarn)
      else level_name ''ERROR'' (l - LevelError))"

datatype color = BgGreen | FgHiBlack | FgBlue | FgRed | FgYellow | FgGreen

definition level_color :: "int \<Rightarrow> color" where
  "level_color l =
     (if l = LevelDebug then FgHiBlack else if l = LevelInfo then FgBlue
      else if l = LevelError then FgRed else if l = LevelWarn then FgYellow else BgGreen)"

text \<open>
  The line that \<^verbatim>\<open>PrintLog\<close> prints: \<open>sprint\<close> is the colouring of the \<^verbatim>\<open>color\<close> package,
  \<open>format\<close> the RFC 3339 text of a time in the local zone.
\<close>

definition PrintLog :: "(color \<Rightarrow> string \<Rightarrow> string) \<Rightarrow> (gotime \<Rightarrow> string) \<Rightarrow> Log \<Rightarrow> string \<Rightarrow> string" where
  "PrintLog sprint format entry payload =
     sprint FgGreen (format (lg_Time entry)) @ '' '' @ sprint (level_color (lg_Level entry)) (Level_String (lg_Level entry))
     @ '' ['' @ lg_Source entry @ ''] msg='' @ [CHR 0x27] @ lg_Message entry @ [CHR 0x27] @ '' || '' @ payload @ ''  ''
     @ [newline]"

record 'w SlogWriter =
  sw_Logger :: "int \<Rightarrow> string \<Rightarrow> slog_attr list \<Rightarrow> 'w \<Rightarrow> 'w"
  sw_Level :: int
  sw_App :: string

definition SlogWriter_Write :: "'w SlogWriter \<Rightarrow> string \<Rightarrow> 'w \<Rightarrow> (int \<times> go_error option) \<times> 'w" where
  "SlogWriter_Write sw p w =
     ((int (length p), None),
      if length p > 0 then sw_Logger sw (sw_Level sw) (TrimSpace p) [(''APP'', VString (sw_App sw))] w else w)"

section \<open>Lemmas\<close>

subsection \<open>The stack\<close>

lemma Pop_Push: "Pop (Push x s) = Ret (x, s)"
  by (simp add: Pop_def Push_def)

lemma sk_data_fold_Push: "sk_data (fold Push xs s) = sk_data s @ xs"
  by (induction xs arbitrary: s) (simp_all add: Push_def)

lemma pop_loop_length:
  "n \<le> length (sk_data s) \<Longrightarrow>
     pop_loop n acc s = Ret (acc @ take n (rev (sk_data s)), s\<lparr>sk_data := take (length (sk_data s) - n) (sk_data s)\<rparr>)"
proof (induction n arbitrary: acc s)
  case (Suc n)
  then have "sk_data s \<noteq> []" by auto
  then obtain xs x where "sk_data s = xs @ [x]" by (metis rev_exhaust)
  with Suc show ?case by (simp add: Pop_def)
qed simp

lemma PopByLength_Len: "PopByLength (Len s) s = Ret (rev (sk_data s), s\<lparr>sk_data := []\<rparr>)"
  by (simp add: PopByLength_def Len_def pop_loop_length)

lemma PopByLength_panics: "int (length (sk_data s)) < n \<Longrightarrow> \<exists>m. PopByLength n s = Panic m"
proof -
  have "length (sk_data s) < k \<Longrightarrow> \<exists>m. pop_loop k acc s = Panic m" for k acc and s :: "'a Stack"
  proof (induction k arbitrary: acc s)
    case (Suc k)
    then show ?case
      by (cases "sk_data s" rule: rev_cases) (auto simp: Pop_def)
  qed simp
  then show "int (length (sk_data s)) < n \<Longrightarrow> ?thesis" by (simp add: PopByLength_def)
qed

lemma pop_all_rev: "pop_all s = rev (sk_data s)"
  by (simp add: pop_all_def PopByLength_Len)

subsection \<open>The buffer only grows while a record is handled\<close>

lemma append_all_prefix: "\<exists>x. fst (append_all as buf data) = buf @ x"
  by (induction as arbitrary: buf data) (auto split: prod.splits simp: Let_def, metis append.assoc fst_conv)

lemma group_loop_prefix: "\<exists>x. fst (snd (group_loop gs st buf data)) = buf @ x"
proof (induction gs arbitrary: st buf data)
  case (Cons g gs)
  obtain buf' key where p: "append_all (pop_all st) (buf @ ga_group g @ ''.'') mempty = (buf', key)"
    by (metis prod.exhaust)
  then obtain y where "buf' = (buf @ ga_group g @ ''.'') @ y"
    using append_all_prefix [of "pop_all st" "buf @ ga_group g @ ''.''" mempty] by auto
  with p Cons show ?case by (metis (no_types, lifting) append.assoc group_loop.simps(2) prod.case)
qed simp

lemma make_log_payload: "\<exists>x. lg_Payload (make_log l r) = lh_buf l @ x"
proof -
  let ?goas = "if rc_attrs r = [] then trim_groups (lh_groups l) else lh_groups l"
  obtain st buf1 data1 where g: "group_loop (rev ?goas) Stack_New (lh_buf l) mempty = (st, buf1, data1)"
    by (metis prod.exhaust)
  obtain buf2 data2 where a: "append_all (pop_all st) buf1 data1 = (buf2, data2)" by (metis prod.exhaust)
  obtain x y where "buf1 = lh_buf l @ x" "buf2 = buf1 @ y"
    using g a group_loop_prefix [of "rev ?goas" Stack_New "lh_buf l" mempty] append_all_prefix [of "pop_all st" buf1 data1]
    by auto
  moreover have "lg_Payload (make_log l r) =
      fst (append_all (rc_attrs r) buf2 (snd (add_source (lo_AddSource (lh_options l)) (rc_frame r) data2)))"
    unfolding make_log_def Let_def g using a by (simp add: split_beta)
  ultimately show ?thesis using append_all_prefix [of "rc_attrs r" buf2] by (metis append.assoc)
qed

lemma make_log_fields [simp]:
  "lg_Message (make_log l r) = rc_Message r" "lg_Level (make_log l r) = rc_Level r" "lg_Time (make_log l r) = rc_Time r"
  by (simp_all add: make_log_def Let_def split_beta)

subsection \<open>Runs of a handler\<close>

text \<open>
  A sequence of records given to one handler. As \<^verbatim>\<open>slog.Logger\<close> does, the errors are dropped.
\<close>

fun handle_all :: "slog_record list \<Rightarrow> 'w LogHandler \<Rightarrow> 'w \<Rightarrow> ('w LogHandler \<times> 'w) outcome" where
  "handle_all [] l w = Ret (l, w)"
| "handle_all (r # rs) l w =
     (case Handle r l w of Panic m \<Rightarrow> Panic m | Ret (err, l', w') \<Rightarrow> handle_all rs l' w')"

text \<open>
  Options that filter by message and record every batch given to the write function, which may
  fail on some of them.
\<close>

definition recording :: "(string \<Rightarrow> bool) \<Rightarrow> (Log list \<Rightarrow> go_error option) \<Rightarrow> nat \<Rightarrow> Log list list LogOptions" where
  "recording keep fails n =
     \<lparr>lo_AddSource = True, lo_Filterrable = Some (\<lambda>b e w. (keep (lg_Message e), w)),
      lo_WriteFunc = Some (\<lambda>ls w. (fails ls, w @ [ls])), lo_MinLevel = Some LevelDebug, lo_BatchSize = int n\<rparr>"

definition batched :: "nat \<Rightarrow> Log list list LogHandler \<Rightarrow> Log list list \<Rightarrow> string list \<Rightarrow> bool" where
  "batched n l ws msgs =
     ((\<forall>b \<in> set ws. length b = n) \<and> length (lh_logs l) < n \<and> map lg_Message (concat ws @ lh_logs l) = msgs)"

lemma Handle_batched:
  assumes "0 < n" "lh_options l = recording keep fails n" "batched n l ws msgs"
  obtains err l' ws' where "Handle r l ws = Ret (err, l', ws')" "lh_options l' = recording keep fails n"
    "batched n l' ws' (msgs @ (if keep (rc_Message r) then [rc_Message r] else []))"
proof (cases "keep (rc_Message r)")
  case False
  with assms that show ?thesis by (fastforce simp: Handle_def recording_def batched_def Let_def)
next
  case True
  let ?l2 = "l\<lparr>lh_buf := [], lh_logs := lh_logs l @ [make_log l r]\<rparr>"
  show ?thesis
  proof (cases "Suc (length (lh_logs l)) = n")
    case full: True
    then have "Handle r l ws = Ret (fails (lh_logs ?l2), ?l2\<lparr>lh_logs := []\<rparr>, ws @ [lh_logs ?l2])"
      using True assms(2) by (auto simp: Handle_def WriteAll_def recording_def Let_def)
    then show ?thesis using that full True assms by (auto simp: batched_def)
  next
    case False
    then have "Handle r l ws = Ret (None, ?l2, ws)"
      using True assms by (auto simp: Handle_def recording_def Let_def batched_def)
    then show ?thesis using that False True assms by (auto simp: batched_def)
  qed
qed

lemma handle_all_batched:
  assumes "0 < n" "lh_options l = recording keep fails n" "batched n l ws msgs"
  shows "\<exists>l' ws'. handle_all rs l ws = Ret (l', ws') \<and> lh_options l' = recording keep fails n
           \<and> batched n l' ws' (msgs @ filter keep (map rc_Message rs))"
  using assms
proof (induction rs arbitrary: l ws msgs)
  case (Cons r rs)
  obtain err l1 ws1 where h: "Handle r l ws = Ret (err, l1, ws1)" "lh_options l1 = recording keep fails n"
    "batched n l1 ws1 (msgs @ (if keep (rc_Message r) then [rc_Message r] else []))"
    using Handle_batched [OF Cons.prems] by blast
  from Cons.IH [OF Cons.prems(1) h(2,3)] h(1) show ?case by auto
qed simp

section \<open>Properties\<close>

text \<open>
  C38. No record is lost, duplicated or reordered by batching. Whatever records are handled, and
  whichever batches the write function rejects, handling does not panic; the write function gets
  batches of exactly the batch size; the batches followed by what is still queued are the records
  the filter accepted, in order; fewer than a batch are queued; and a final \<^verbatim>\<open>WriteAll\<close> hands
  over the rest.
\<close>

theorem log_batches:
  assumes "0 < n" and "lh_options l = recording keep fails n" and "lh_logs l = []"
  shows "\<exists>l' ws. handle_all rs l [] = Ret (l', ws)
           \<and> (\<forall>b \<in> set ws. length b = n)
           \<and> length (lh_logs l') < n
           \<and> map lg_Message (concat ws @ lh_logs l') = filter keep (map rc_Message rs)
           \<and> (\<exists>err l'' ws''. WriteAll l' ws = Ret (err, l'', ws'') \<and> lh_logs l'' = []
                \<and> map lg_Message (concat ws'') = filter keep (map rc_Message rs))"
proof -
  have "batched n l [] []" using assms by (simp add: batched_def)
  from handle_all_batched [OF assms(1,2) this, of rs] obtain l' ws where
    run: "handle_all rs l [] = Ret (l', ws)" "lh_options l' = recording keep fails n"
    "batched n l' ws (filter keep (map rc_Message rs))" by auto
  moreover have "\<exists>err l'' ws''. WriteAll l' ws = Ret (err, l'', ws'') \<and> lh_logs l'' = []
      \<and> map lg_Message (concat ws'') = filter keep (map rc_Message rs)"
    using run(2,3) by (auto simp: WriteAll_def recording_def batched_def)
  ultimately show ?thesis by (auto simp: batched_def)
qed

theorem log_batches_witness:
  "\<exists>l' ws. handle_all [\<lparr>rc_Time = 0, rc_Message = ''test1'', rc_Level = 0, rc_frame = None, rc_attrs = []\<rparr>,
                       \<lparr>rc_Time = 1, rc_Message = ''test2'', rc_Level = 0, rc_frame = None, rc_attrs = []\<rparr>]
             \<lparr>lh_options = recording (\<lambda>m. m \<noteq> ''test2'') (\<lambda>_. None) 3, lh_buf = [], lh_logs = [], lh_groups = []\<rparr> []
             = Ret (l', ws) \<and> map lg_Message (concat ws @ lh_logs l') = [''test1'']"
  using log_batches [of 3 "\<lparr>lh_options = recording (\<lambda>m. m \<noteq> ''test2'') (\<lambda>_. None) 3, lh_buf = [], lh_logs = [], lh_groups = []\<rparr>"
      "\<lambda>m. m \<noteq> ''test2''" "\<lambda>_. None"
      "[\<lparr>rc_Time = 0, rc_Message = ''test1'', rc_Level = 0, rc_frame = None, rc_attrs = []\<rparr>,
        \<lparr>rc_Time = 1, rc_Message = ''test2'', rc_Level = 0, rc_frame = None, rc_attrs = []\<rparr>]"]
  by auto

text \<open>
  A rejected record leaks into the next one: the buffer is only reset when a record is
  accepted, so after a rejection the payload of the next record starts with the payload of the
  rejected one. After an accepted record the buffer is empty.
\<close>

theorem filtered_payload_leaks:
  assumes "lo_Filterrable (lh_options l) = Some f" and "Handle r l w = Ret (err, l', w')"
  shows "(\<not> fst (f (lg_Payload (make_log l r)) (make_log l r) w) \<longrightarrow>
            (\<exists>x. lg_Payload (make_log l' r') = lg_Payload (make_log l r) @ x))
       \<and> (fst (f (lg_Payload (make_log l r)) (make_log l r) w) \<longrightarrow> lh_buf l' = [])"
proof (cases "fst (f (lg_Payload (make_log l r)) (make_log l r) w)")
  case False
  with assms have "lh_buf l' = lg_Payload (make_log l r)"
    by (auto simp: Handle_def Let_def split_beta split: if_splits)
  with make_log_payload [of l' r'] False show ?thesis by simp
next
  case True
  with assms show ?thesis
    by (auto simp: Handle_def WriteAll_def Let_def split_beta split: if_splits option.splits prod.splits)
qed

theorem filtered_payload_leaks_witness:
  "\<exists>x. lg_Payload (make_log
        \<lparr>lh_options = recording (\<lambda>m. False) (\<lambda>_. None) 3, lh_buf = nul_bytes @ ''pin='' @ ''1234'' @ '' '', lh_logs = [], lh_groups = []\<rparr>
        \<lparr>rc_Time = 1, rc_Message = ''ok'', rc_Level = 0, rc_frame = None, rc_attrs = []\<rparr>) = (nul_bytes @ ''pin='' @ ''1234'' @ '' '') @ x"
proof -
  let ?l = "\<lparr>lh_options = recording (\<lambda>m. False) (\<lambda>_. None) 3, lh_buf = [], lh_logs = [], lh_groups = []\<rparr>"
  let ?r = "\<lparr>rc_Time = 0, rc_Message = ''secret'', rc_Level = 0, rc_frame = None, rc_attrs = [(''pin'', VString ''1234'')]\<rparr>"
  have payload: "lg_Payload (make_log ?l ?r) = nul_bytes @ ''pin='' @ ''1234'' @ '' ''"
    by (simp add: make_log_def add_source_def Resolve_def pop_all_rev Stack_New_def appendAttr.simps)
  then have run: "Handle ?r ?l [] = Ret (None, ?l\<lparr>lh_buf := nul_bytes @ ''pin='' @ ''1234'' @ '' ''\<rparr>, [])"
    by (simp add: Handle_def recording_def Let_def)
  from filtered_payload_leaks [OF _ run, of _ "\<lparr>rc_Time = 1, rc_Message = ''ok'', rc_Level = 0, rc_frame = None, rc_attrs = []\<rparr>"]
  show ?thesis using payload by (simp add: recording_def)
qed

end
