(* ===== verification/Watermill_Drivers.thy ===== *)
theory Watermill_Drivers
  imports Loyalty_Handlers Data_Manager Logs
begin

text \<open>
  The two owners of the buses: the driver of \<^verbatim>\<open>drivers/watermill/watermill.go\<close> and the FX module of
  \<^verbatim>\<open>drivers/watermill_fx/watermill.go\<close>, with the logger both give to the router. The router is third-party code: a value \<open>'r\<close>
  with what running and closing it does; the handlers added to it are in the model of the event bus.
\<close>

section \<open>The logger\<close>

text \<open>
  A structured logger is the attributes it adds to every record; \<open>emit\<close> writes a record. The fields
  are a map, gone through in the order \<open>ks\<close>.
\<close>

type_synonym ('v, 'w) emit = "int \<Rightarrow> string \<Rightarrow> (string \<times> 'v) list \<Rightarrow> 'w \<Rightarrow> 'w"

record 'v watermillSlogLogger =
  wl_attrs :: "(string \<times> 'v) list"

definition newWatermillLogger :: "(string \<times> 'v) list \<Rightarrow> 'v watermillSlogLogger" where
  "newWatermillLogger attrs = \<lparr>wl_attrs = attrs\<rparr>"

definition logFieldsToArgs :: "string list \<Rightarrow> (string, 'v) gomap \<Rightarrow> (string \<times> 'v) list" where
  "logFieldsToArgs ks flds = map (\<lambda>k. (k, the (mget flds k))) ks"

definition wl_Error ::
  "('v, 'w) emit \<Rightarrow> (string \<Rightarrow> 'v) \<Rightarrow> string list \<Rightarrow> 'v watermillSlogLogger \<Rightarrow> string \<Rightarrow> go_error option \<Rightarrow> (string, 'v) gomap \<Rightarrow> 'w \<Rightarrow> 'w" where
  "wl_Error emit strv ks l msg err flds w =
     (let args = logFieldsToArgs ks flds;
          args = (case err of None \<Rightarrow> args | Some e \<Rightarrow> args @ [(''error'', strv (error_text e))])
      in emit LevelError (''[watermill] '' @ msg) (wl_attrs l @ args) w)"

definition wl_Info ::
  "('v, 'w) emit \<Rightarrow> string list \<Rightarrow> 'v watermillSlogLogger \<Rightarrow> string \<Rightarrow> (string, 'v) gomap \<Rightarrow> 'w \<Rightarrow> 'w" where
  "wl_Info emit ks l msg flds w = emit LevelInfo (''[watermill] '' @ msg) (wl_attrs l @ logFieldsToArgs ks flds) w"

definition wl_Debug ::
  "('v, 'w) emit \<Rightarrow> string list \<Rightarrow> 'v watermillSlogLogger \<Rightarrow> string \<Rightarrow> (string, 'v) gomap \<Rightarrow> 'w \<Rightarrow> 'w" where
  "wl_Debug emit ks l msg flds w = emit LevelDebug (''[watermill] '' @ msg) (wl_attrs l @ logFieldsToArgs ks flds) w"

definition wl_Trace ::
  "('v, 'w) emit \<Rightarrow> string list \<Rightarrow> 'v watermillSlogLogger \<Rightarrow> string \<Rightarrow> (string, 'v) gomap \<Rightarrow> 'w \<Rightarrow> 'w" where
  "wl_Trace emit ks l msg flds w = emit LevelDebug (''[watermill:trace] '' @ msg) (wl_attrs l @ logFieldsToArgs ks flds) w"

definition wl_With :: "string list \<Rightarrow> 'v watermillSlogLogger \<Rightarrow> (string, 'v) gomap \<Rightarrow> 'v watermillSlogLogger" where
  "wl_With ks l flds = \<lparr>wl_attrs = wl_attrs l @ logFieldsToArgs ks flds\<rparr>"

section \<open>The driver\<close>

text \<open>
  \<open>rx_NewRouter\<close> makes a router, \<open>rx_Run\<close> starts it with a context \<open>'c\<close> in a goroutine and
  \<open>rx_Close\<close> closes it.
\<close>

record ('r, 'c) router_ops =
  rx_NewRouter :: "'r result"
  rx_Run :: "'c \<Rightarrow> 'r \<Rightarrow> 'r"
  rx_Close :: "'r \<Rightarrow> go_error option \<times> 'r"

record ('r, 'w) WatermillDriver =
  wd_router :: "'r option"
  wd_commandBus :: "'w command_bus option"
  wd_queryBus :: "'w query_bus option"
  wd_eventBus :: "'w event_bus option"

definition NewWatermillDriver :: "('r, 'w) WatermillDriver" where
  "NewWatermillDriver = \<lparr>wd_router = None, wd_commandBus = None, wd_queryBus = None, wd_eventBus = None\<rparr>"

text \<open>\<open>cast\<close> is the assertion that a connection is a GORM handle.\<close>

definition registerHandlers ::
  "'w loyalty_ctx \<Rightarrow> ('s, 'c, 'w) DataAdapter \<Rightarrow> 's DataManager \<Rightarrow> ('c \<Rightarrow> 'w gorm_db option)
     \<Rightarrow> 'w command_bus \<times> 'w query_bus \<times> 'w event_bus \<Rightarrow> ('w command_bus \<times> 'w query_bus \<times> 'w event_bus) outcome" where
  "registerHandlers x ops dm cast d =
     (case DataManager_Get ops dm ''sql'' ''gorm'' of
        Panic msg \<Rightarrow> Panic msg
      | Ret raw \<Rightarrow>
          (case Option.bind raw cast of
             None \<Rightarrow> Panic ''interface conversion''
           | Some db \<Rightarrow> Ret (registerLoyalty x db d)))"

definition WatermillDriver_Init ::
  "('r, 'k) router_ops \<Rightarrow> 'w loyalty_ctx \<Rightarrow> ('s, 'c, 'w) DataAdapter \<Rightarrow> 's DataManager \<Rightarrow> ('c \<Rightarrow> 'w gorm_db option)
     \<Rightarrow> 'k \<Rightarrow> ('r, 'w) WatermillDriver \<Rightarrow> (go_error option \<times> ('r, 'w) WatermillDriver) outcome" where
  "WatermillDriver_Init rx x ops dm cast ctx d =
     (case rx_NewRouter rx of
        Inl err \<Rightarrow> Ret (Some err, d)
      | Inr r \<Rightarrow>
          (case registerHandlers x ops dm cast (newCommandBus, newQueryBus, newEventBus (lx_chan_publish x ()) ()) of
             Panic msg \<Rightarrow> Panic msg
           | Ret (cmdBus, qryBus, evtBus) \<Rightarrow>
               Ret (None, d\<lparr>wd_router := Some (rx_Run rx ctx r), wd_commandBus := Some cmdBus,
                            wd_queryBus := Some qryBus, wd_eventBus := Some evtBus\<rparr>)))"

definition WatermillDriver_Close ::
  "('r, 'k) router_ops \<Rightarrow> ('r, 'w) WatermillDriver \<Rightarrow> go_error option \<times> ('r, 'w) WatermillDriver" where
  "WatermillDriver_Close rx d =
     (case wd_router d of
        None \<Rightarrow> (None, d)
      | Some r \<Rightarrow> (case rx_Close rx r of (err, r1) \<Rightarrow> (err, d\<lparr>wd_router := Some r1\<rparr>)))"

section \<open>The FX module\<close>

type_synonym 'w Buses = "'w fx_command_bus \<times> 'w fx_query_bus \<times> 'w fx_event_bus"
type_synonym 'w HandlerRegistrar = "'w Buses \<Rightarrow> 'w Buses"

text \<open>The hook of the life cycle: what starting with a context and stopping do to the router.\<close>

record ('r, 'k) fx_hook =
  hk_OnStart :: "'k \<Rightarrow> 'r \<Rightarrow> go_error option \<times> 'r"
  hk_OnStop :: "'k \<Rightarrow> 'r \<Rightarrow> go_error option \<times> 'r"

definition watermillfx_New ::
  "('r, 'k) router_ops \<Rightarrow> 'w HandlerRegistrar list \<Rightarrow> ('w Buses \<times> 'r \<times> ('r, 'k) fx_hook) result" where
  "watermillfx_New rx Registrars =
     (case rx_NewRouter rx of
        Inl err \<Rightarrow> Inl err
      | Inr r \<Rightarrow>
          (let buses = fold (\<lambda>reg b. reg b) Registrars (fx_newCommandBus, fx_newQueryBus, fx_newEventBus ())
           in Inr (buses, r,
                \<lparr>hk_OnStart = (\<lambda>ctx r. (None, rx_Run rx ctx r)), hk_OnStop = (\<lambda>ctx r. rx_Close rx r)\<rparr>)))"

section \<open>Lemmas\<close>

lemma logFieldsToArgs_complete:
  assumes "range_order flds ks"
  shows "map_of (logFieldsToArgs ks flds) = mget flds"
proof
  fix k
  have "k \<in> set ks \<longleftrightarrow> mget flds k \<noteq> None" using range_order_mem [OF assms] .
  moreover have "map_of (logFieldsToArgs ks flds) k = (if k \<in> set ks then Some (the (mget flds k)) else None)"
    by (induction ks) (auto simp: logFieldsToArgs_def)
  ultimately show "map_of (logFieldsToArgs ks flds) k = mget flds k" by auto
qed

text \<open>A logger made by \<open>With\<close> writes what its parent would write with the fields added in front.\<close>

lemma wl_With_Info:
  "wl_Info emit ks (wl_With ks0 l flds0) msg flds w =
     emit LevelInfo (''[watermill] '' @ msg) (wl_attrs l @ logFieldsToArgs ks0 flds0 @ logFieldsToArgs ks flds) w"
  by (simp add: wl_Info_def wl_With_def)

text \<open>
  The router as documented: it runs until the context it was started with is done, and no longer once it
  was closed. \<open>running\<close> tells, given which contexts are done, whether a router takes messages.
\<close>

definition router_contract :: "('r, 'k) router_ops \<Rightarrow> (('k \<Rightarrow> bool) \<Rightarrow> 'r \<Rightarrow> bool) \<Rightarrow> bool" where
  "router_contract rx running \<longleftrightarrow>
     (\<forall>r ctx dn. rx_NewRouter rx = Inr r \<longrightarrow> running dn (rx_Run rx ctx r) = (\<not> dn ctx))
   \<and> (\<forall>r dn. \<not> running dn (snd (rx_Close rx r)))"

lemma new_bus_abs: "newEventBus (lx_chan_publish x ()) () = abs_bus (lx_chan_publish x) (fx_newEventBus ())"
  by (simp add: newEventBus_def abs_bus_def fx_newEventBus_def)

lemma Init_without_database:
  assumes "rx_NewRouter rx = Inr r"
    and "DataManager_Get ops dm ''sql'' ''gorm'' = Ret None"
  shows "\<exists>msg. WatermillDriver_Init rx x ops dm cast ctx d = Panic msg"
  using assms by (simp add: WatermillDriver_Init_def registerHandlers_def)

section \<open>Properties\<close>

text \<open>
  C17. The two owners of the buses serve the same domain for different times. With a GORM connection under its
  name, both start; commands, queries and event subscriptions are the same. The router of the
  driver runs until the context of the application is done and not after \<open>Close\<close>; the one of the
  FX module runs only until the context of the start hook is done, which is that of the start and not of the application.
\<close>

theorem watermill_drivers_agree:
  assumes "router_contract rx running" and "rx_NewRouter rx = Inr r"
    and "DataManager_Get ops dm ''sql'' ''gorm'' = Ret (Some conn)" and "cast conn = Some db"
  shows "\<exists>d cmd qry fcmd fqry fevt hook.
      WatermillDriver_Init rx x ops dm cast app NewWatermillDriver = Ret (None, d)
    \<and> watermillfx_New rx [Registrar_Register x db] = Inr ((fcmd, fqry, fevt), r, hook)
    \<and> wd_commandBus d = Some cmd \<and> commandBus_Dispatch CommandName cmd = fx_commandBus_Dispatch CommandName fcmd
    \<and> wd_queryBus d = Some qry \<and> queryBus_Ask QueryName qry = fx_queryBus_Ask QueryName fqry
    \<and> wd_eventBus d = Some (abs_bus (lx_chan_publish x) fevt)
    \<and> (\<forall>dn. running dn (the (wd_router d)) = (\<not> dn app))
    \<and> (\<forall>dn. running dn (snd (hk_OnStart hook start r)) = (\<not> dn start))
    \<and> (\<forall>dn. \<not> running dn (the (wd_router (snd (WatermillDriver_Close rx d)))))
    \<and> (\<forall>dn. \<not> running dn (snd (hk_OnStop hook stop r)))"
proof -
  obtain cmd qry evt where reg: "registerLoyalty x db (newCommandBus, newQueryBus, newEventBus (lx_chan_publish x ()) ()) = (cmd, qry, evt)"
    by (metis prod.exhaust)
  obtain fcmd fqry fevt where freg: "Registrar_Register x db (fx_newCommandBus, fx_newQueryBus, fx_newEventBus ()) = (fcmd, fqry, fevt)"
    by (metis prod.exhaust)
  note agree = wirings_agree [OF reg [unfolded new_bus_abs] freg]
  let ?d = "\<lparr>wd_router = Some (rx_Run rx app r), wd_commandBus = Some cmd, wd_queryBus = Some qry, wd_eventBus = Some evt\<rparr>"
  let ?h = "\<lparr>hk_OnStart = (\<lambda>ctx r. (None, rx_Run rx ctx r)), hk_OnStop = (\<lambda>ctx r. rx_Close rx r)\<rparr>"
  have init: "WatermillDriver_Init rx x ops dm cast app NewWatermillDriver = Ret (None, ?d)"
    using assms(2-4) reg by (simp add: WatermillDriver_Init_def registerHandlers_def NewWatermillDriver_def)
  have new: "watermillfx_New rx [Registrar_Register x db] = Inr ((fcmd, fqry, fevt), r, ?h)"
    using assms(2) freg by (simp add: watermillfx_New_def)
  show ?thesis
    unfolding init new
    by (rule exI [of _ ?d], rule exI [of _ cmd], rule exI [of _ qry], rule exI [of _ fcmd], rule exI [of _ fqry],
        rule exI [of _ fevt], rule exI [of _ ?h])
      (use agree assms(1,2) in \<open>simp add: router_contract_def WatermillDriver_Close_def split_beta\<close>)
qed

text \<open>A router that is the context it runs with, none when it does not run.\<close>

definition demo_router :: "(nat option, nat) router_ops" where
  "demo_router = \<lparr>rx_NewRouter = Inr None, rx_Run = (\<lambda>ctx r. Some ctx), rx_Close = (\<lambda>r. (None, None))\<rparr>"

definition demo_running :: "(nat \<Rightarrow> bool) \<Rightarrow> nat option \<Rightarrow> bool" where
  "demo_running dn r = (case r of None \<Rightarrow> False | Some ctx \<Rightarrow> \<not> dn ctx)"

definition demo_adapter :: "(unit, unit, demo_world) DataAdapter" where
  "demo_adapter = \<lparr>dt_Connect = (\<lambda>f s w. (Ret (), s, w)), dt_Get = (\<lambda>name s. Some ()), dt_Disconnect = (\<lambda>f s w. (Ret (), w))\<rparr>"

lemma demo_router_contract: "router_contract demo_router demo_running"
  by (simp add: router_contract_def demo_router_def demo_running_def)

theorem watermill_drivers_agree_witness:
  "\<exists>d fb hook. WatermillDriver_Init demo_router demo_ctx demo_adapter (AddAdapter ''sql'' () DataManager_New) (\<lambda>c. Some demo_db)
        1 NewWatermillDriver = Ret (None, d)
     \<and> watermillfx_New demo_router [Registrar_Register demo_ctx demo_db] = Inr (fb, None, hook)
     \<and> demo_running (\<lambda>c. c = 2) (the (wd_router d))
     \<and> \<not> demo_running (\<lambda>c. c = 2) (snd (hk_OnStart hook 2 None))"
proof -
  have new: "rx_NewRouter demo_router = Inr None" by (simp add: demo_router_def)
  have get: "DataManager_Get demo_adapter (AddAdapter ''sql'' () DataManager_New) ''sql'' ''gorm'' = Ret (Some ())"
    by (simp add: DataManager_Get_def AddAdapter_def demo_adapter_def)
  from watermill_drivers_agree [where cast = "\<lambda>c. Some demo_db" and x = demo_ctx and app = 1 and start = 2 and stop = 3,
      OF demo_router_contract new get refl]
  show ?thesis by fastforce
qed


end
