(* ===== verification/Http_Server.thy ===== *)
theory Http_Server
  imports Http Watermill_Drivers
begin

text \<open>
  The server that \<^verbatim>\<open>NewEcho\<close> and \<^verbatim>\<open>NewEchoFX\<close> assemble from the controllers and handlers of \<open>Http\<close>: the engine with its
  middleware, the request log, the routes of \<^verbatim>\<open>api.InitRoutes\<close> and of the loyalty controller, and the hook of the life cycle.
  Echo itself is the parameter \<open>echo_lib\<close>; what is documented of it is \<open>echo_ok\<close>. The properties follow a
  request from the router through the middleware to the response and to the line in the log.
\<close>

section \<open>Requests, responses and the engine\<close>

record request =
  rq_Method :: string
  rq_Host :: string
  rq_Path :: string
  rq_URI :: string
  rq_RequestID :: string
  rq_QueryParam :: "string \<Rightarrow> string"

datatype response_body =
    TextBody string
  | ErrorBody "api_error option"
  | BalanceBody "GetLoyaltyBalanceResponse ApiResponse"
  | CreditBody "CreditLoyaltyResponse ApiResponse"

datatype log_level = Info | Warn | Error

text \<open>A line of the request log: level, message and the four attributes; the latency is printed as a duration.\<close>

record log_line =
  ll_level :: log_level
  ll_msg :: string
  ll_method :: string
  ll_status :: int
  ll_latency :: int
  ll_uri :: string

text \<open>
  The context of a request: the path of its route, the request id in the header of the response, the other headers, the
  status, what was sent, the lines logged so far, and the rest of the program.
\<close>

record 'w echo_context =
  cx_request :: request
  cx_Path :: string
  cx_requestId :: string
  cx_headers :: "(string \<times> string) list"
  cx_status :: int
  cx_body :: "response_body option"
  cx_log :: "log_line list"
  cx_world :: 'w

text \<open>A handler returns an error or nil, panics, or ends the process.\<close>

type_synonym 'w echo_handler = "'w echo_context \<Rightarrow> (go_error option outcome \<times> 'w echo_context) served"

record RequestLoggerValues =
  v_Host :: string
  v_Method :: string
  v_URI :: string
  v_Status :: int
  v_Latency :: int
  v_Error :: "go_error option"

type_synonym 'w log_func = "RequestLoggerValues \<Rightarrow> 'w echo_context \<Rightarrow> go_error option outcome \<times> 'w echo_context"

record 'w RequestLoggerConfig =
  rl_LogURI :: bool
  rl_LogStatus :: bool
  rl_LogMethod :: bool
  rl_LogHost :: bool
  rl_LogLatency :: bool
  rl_LogError :: bool
  rl_LogRequestID :: bool
  rl_HandleError :: bool
  rl_LogValuesFunc :: "'w log_func"

record CORSConfig =
  cs_AllowOrigins :: "string list"
  cs_ExposeHeaders :: "string list"
  cs_AllowHeaders :: "string list"

datatype 'w middleware = RequestLogger "'w RequestLoggerConfig" | RequestID | Recover | CORS CORSConfig

text \<open>A route; the name is \<open>None\<close> unless the program sets it.\<close>

record 'w route =
  rt_Method :: string
  rt_Path :: string
  rt_Name :: "string option"
  rt_Handler :: "'w echo_handler"

record 'w Echo =
  ec_Debug :: bool
  ec_HideBanner :: bool
  ec_HidePort :: bool
  ec_HTTPErrorHandler :: "go_error \<Rightarrow> 'w echo_context \<Rightarrow> 'w echo_context served"
  ec_middleware :: "'w middleware list"
  ec_routes :: "'w route list"

text \<open>
  What the program uses of echo: a new engine, what a middleware makes of the handler it wraps, the router, serving a
  request, \<^verbatim>\<open>c.String\<close> and \<^verbatim>\<open>c.JSON\<close>, binding a body, and the handlers of the swagger pages and of static files.
\<close>

record 'w echo_lib =
  el_New :: "'w Echo"
  el_middleware :: "'w Echo \<Rightarrow> 'w middleware \<Rightarrow> 'w echo_handler \<Rightarrow> 'w echo_handler"
  el_find :: "'w Echo \<Rightarrow> request \<Rightarrow> string \<times> 'w echo_handler"
  el_serve :: "'w Echo \<Rightarrow> request \<Rightarrow> 'w \<Rightarrow> (unit outcome \<times> 'w echo_context) served"
  el_send :: "int \<Rightarrow> response_body \<Rightarrow> 'w echo_context \<Rightarrow> go_error option \<times> 'w echo_context"
  el_Bind :: "request \<Rightarrow> CreditLoyaltyRequest result"
  el_swagger :: "'w echo_handler"
  el_static :: "string \<Rightarrow> 'w echo_handler"

text \<open>What the server uses of the application: the mode and the port of its configuration, the lookup of the master, the clock.\<close>

record ('k, 'w) server_app =
  sa_Mode :: string
  sa_Port :: int
  sa_master :: "'w \<Rightarrow> 'k Master result"
  sa_now :: "'w \<Rightarrow> int"

definition engine_Use :: "'w Echo \<Rightarrow> 'w middleware \<Rightarrow> 'w Echo" where
  "engine_Use e m = e\<lparr>ec_middleware := ec_middleware e @ [m]\<rparr>"

definition engine_Add :: "'w Echo \<Rightarrow> 'w route \<Rightarrow> 'w Echo" where
  "engine_Add e r = e\<lparr>ec_routes := ec_routes e @ [r]\<rparr>"

text \<open>A group only prefixes the paths of its routes.\<close>

definition group_Add :: "string \<Rightarrow> 'w Echo \<Rightarrow> string \<Rightarrow> string \<Rightarrow> 'w echo_handler \<Rightarrow> 'w Echo" where
  "group_Add prefix e meth path h = engine_Add e \<lparr>rt_Method = meth, rt_Path = prefix @ path, rt_Name = None, rt_Handler = h\<rparr>"

definition respond :: "'w echo_lib \<Rightarrow> int \<Rightarrow> response_body \<Rightarrow> 'w echo_handler" where
  "respond lib code body c = (case el_send lib code body c of (err, c1) \<Rightarrow> Served (Ret err, c1))"

section \<open>Handlers\<close>

definition health_handler :: "'w echo_lib \<Rightarrow> ('k, 'w) server_app \<Rightarrow> 'w echo_handler" where
  "health_handler lib app c =
     (case health_route (sa_master app (cx_world c)) of (code, txt) \<Rightarrow> respond lib code (TextBody txt) c)"

definition workers_handler :: "'w echo_lib \<Rightarrow> ('k, 'w) server_app \<Rightarrow> 'w echo_handler" where
  "workers_handler lib app c =
     (case workers_route (sa_master app (cx_world c)) of (code, txt) \<Rightarrow> respond lib code (TextBody txt) c)"

definition answer_with :: "'w echo_lib \<Rightarrow> ('d ApiResponse \<Rightarrow> response_body) \<Rightarrow> 'd handled outcome \<times> 'w \<Rightarrow> 'w echo_handler" where
  "answer_with lib body res c =
     (case res of
        (Panic s, w) \<Rightarrow> Served (Panic s, c\<lparr>cx_world := w\<rparr>)
      | (Ret (Inl err), w) \<Rightarrow> Served (Ret (Some err), c\<lparr>cx_world := w\<rparr>)
      | (Ret (Inr resp), w) \<Rightarrow> respond lib (ar_Code resp) (body resp) (c\<lparr>cx_world := w\<rparr>))"

definition balance_handler :: "'w echo_lib \<Rightarrow> ('w \<Rightarrow> int) \<Rightarrow> (any_response, 'w) LoyaltyController \<Rightarrow> 'w echo_handler" where
  "balance_handler lib now h c =
     answer_with lib BalanceBody
       (LoyaltyController_GetBalance (now (cx_world c)) (cx_Path c) h (rq_QueryParam (cx_request c) ''customer_id'') (cx_world c)) c"

definition credit_handler :: "'w echo_lib \<Rightarrow> ('w \<Rightarrow> int) \<Rightarrow> (any_response, 'w) LoyaltyController \<Rightarrow> 'w echo_handler" where
  "credit_handler lib now h c =
     answer_with lib CreditBody
       (LoyaltyController_CreditPoints (now (cx_world c)) (cx_Path c) h (el_Bind lib (cx_request c)) (cx_world c)) c"

definition LoyaltyController_Register ::
  "'w echo_lib \<Rightarrow> ('w \<Rightarrow> int) \<Rightarrow> (any_response, 'w) LoyaltyController \<Rightarrow> string \<Rightarrow> 'w Echo \<Rightarrow> 'w Echo" where
  "LoyaltyController_Register lib now h g e =
     group_Add g (group_Add g e ''GET'' ''/v1/loyalty'' (balance_handler lib now h))
       ''POST'' ''/v1/loyalty/credit'' (credit_handler lib now h)"

definition InitRoutes :: "'w echo_lib \<Rightarrow> ('k, 'w) server_app \<Rightarrow> 'w Echo \<Rightarrow> 'w Echo" where
  "InitRoutes lib app e =
     (let prefix = ''/api'';
          e1 = engine_Add e \<lparr>rt_Method = ''GET'', rt_Path = ''/excel*'', rt_Name = Some ''STATIC'', rt_Handler = el_static lib ''/writable''\<rparr>;
          e2 = group_Add prefix e1 ''GET'' ''/health'' (health_handler lib app)
      in group_Add prefix e2 ''GET'' ''/workers'' (workers_handler lib app))"

section \<open>The engine of the program\<close>

text \<open>The request log reads the text of the error for every status outside 101 to 399.\<close>

definition nil_dereference :: string where
  "nil_dereference = ''invalid memory address or nil pointer dereference''"

definition log_values :: "RequestLoggerValues \<Rightarrow> log_line outcome" where
  "log_values v =
     (let line = (\<lambda>level msg. \<lparr>ll_level = level, ll_msg = msg, ll_method = v_Method v, ll_status = v_Status v,
            ll_latency = v_Latency v, ll_uri = v_URI v\<rparr>);
          text_of = (\<lambda>level. case v_Error v of None \<Rightarrow> Panic nil_dereference | Some err \<Rightarrow> Ret (line level (error_text err)))
      in if 100 < v_Status v \<and> v_Status v < 400 then Ret (line Info (v_Host v))
         else if 400 \<le> v_Status v \<and> v_Status v < 500 then text_of Warn
         else if 500 \<le> v_Status v then text_of Error
         else text_of Error)"

definition LogValuesFunc :: "'w log_func" where
  "LogValuesFunc v c =
     (case log_values v of
        Panic s \<Rightarrow> (Panic s, c)
      | Ret line \<Rightarrow> (Ret None, c\<lparr>cx_log := cx_log c @ [line]\<rparr>))"

definition engine_error_handler :: "'w echo_lib \<Rightarrow> ('k, 'w) server_app \<Rightarrow> go_error \<Rightarrow> 'w echo_context \<Rightarrow> 'w echo_context served" where
  "engine_error_handler lib app err c =
     HttpErrorHandler (\<lambda>code body. el_send lib code (ErrorBody body)) (sa_Mode app)
       (GetRequestId (rq_RequestID (cx_request c)) (cx_requestId c)) err c"

definition logger_config :: "'w RequestLoggerConfig" where
  "logger_config = \<lparr>rl_LogURI = True, rl_LogStatus = True, rl_LogMethod = True, rl_LogHost = True, rl_LogLatency = True,
     rl_LogError = True, rl_LogRequestID = True, rl_HandleError = False, rl_LogValuesFunc = LogValuesFunc\<rparr>"

definition cors_config :: CORSConfig where
  "cors_config = \<lparr>cs_AllowOrigins = [''*''], cs_ExposeHeaders = [''Content-Disposition''],
     cs_AllowHeaders = [''Origin'', ''Authorization'', ''Content-Type'', ''module'', ''Content-Range'', ''Accept-Language'']\<rparr>"

definition NewEcho :: "'w echo_lib \<Rightarrow> ('k, 'w) server_app \<Rightarrow> 'w Echo" where
  "NewEcho lib app =
     (let e = (el_New lib)\<lparr>ec_Debug := False, ec_HideBanner := True, ec_HidePort := True\<rparr>;
          e1 = engine_Use e (RequestLogger logger_config);
          e2 = e1\<lparr>ec_HTTPErrorHandler := engine_error_handler lib app\<rparr>;
          e3 = engine_Use e2 RequestID;
          e4 = engine_Use e3 Recover;
          e5 = engine_Use e4 (CORS cors_config);
          e6 = (if sa_Mode app = ''development''
                then engine_Add e5 \<lparr>rt_Method = ''GET'', rt_Path = ''/swagger/*'', rt_Name = Some ''SWAGGER'', rt_Handler = el_swagger lib\<rparr>
                else e5)
      in InitRoutes lib app e6)"

section \<open>The FX module\<close>

type_synonym 'w EchoRoute = "string \<Rightarrow> 'w Echo \<Rightarrow> 'w Echo"

text \<open>
  The hook acts on the resources \<open>'r\<close> of the server: \<open>start\<close> is the goroutine that listens on an address, \<open>close\<close> closes
  the engine.
\<close>

definition NewEchoFX ::
  "'w echo_lib \<Rightarrow> ('k, 'w) server_app \<Rightarrow> (string \<Rightarrow> 'r \<Rightarrow> 'r) \<Rightarrow> ('r \<Rightarrow> go_error option \<times> 'r) \<Rightarrow> 'w EchoRoute list
     \<Rightarrow> ('r, 'x) fx_hook list \<Rightarrow> 'w Echo \<times> ('r, 'x) fx_hook list" where
  "NewEchoFX lib app start close Routes lc =
     (let e = fold (\<lambda>route. route ''/api'') Routes (NewEcho lib app)
      in (e, lc @ [\<lparr>hk_OnStart = (\<lambda>ctx r. case EchoWebAdapter_Init (sa_Port app) of (err, addr) \<Rightarrow> (err, start addr r)),
                    hk_OnStop = (\<lambda>ctx r. EchoWebAdapter_Close close r)\<rparr>]))"

text \<open>The module provides one route: the loyalty controller on the buses of the watermill module.\<close>

definition controller :: "'w Buses \<Rightarrow> (any_response, 'w) LoyaltyController" where
  "controller b = NewLoyaltyController (fx_commandBus_Dispatch CommandName (fst b)) (fx_queryBus_Ask QueryName (fst (snd b)))"

definition module_engine :: "'w echo_lib \<Rightarrow> ('k, 'w) server_app \<Rightarrow> 'w Buses \<Rightarrow> 'w Echo" where
  "module_engine lib app b =
     fst (NewEchoFX lib app (\<lambda>addr r. r) (\<lambda>r. (None, r)) [LoyaltyController_Register lib (sa_now app) (controller b)]
       ([] :: (unit, unit) fx_hook list))"

section \<open>What is documented of echo\<close>

text \<open>\<^verbatim>\<open>errors.As\<close> for an error of echo.\<close>

fun as_http :: "go_error \<Rightarrow> int option" where
  "as_http (HttpError code m t) = Some code"
| "as_http (WrapError a e b) = as_http e"
| "as_http (JoinError es) = first_some (map as_http es)"
| "as_http _ = None"

definition fresh_context :: "request \<Rightarrow> string \<Rightarrow> 'w \<Rightarrow> 'w echo_context" where
  "fresh_context rq path w = \<lparr>cx_request = rq, cx_Path = path, cx_requestId = [], cx_headers = [], cx_status = 200,
     cx_body = None, cx_log = [], cx_world = w\<rparr>"

text \<open>The middleware that was added first is the outermost one; an error that leaves the chain goes to the error handler.\<close>

definition serve_ok :: "'w echo_lib \<Rightarrow> bool" where
  "serve_ok lib \<longleftrightarrow> (\<forall>e rq w path h. el_find lib e rq = (path, h) \<longrightarrow>
     el_serve lib e rq w =
       (case foldr (el_middleware lib e) (ec_middleware e) h (fresh_context rq path w) of
          Exits m \<Rightarrow> Exits m
        | Served (Panic s, c) \<Rightarrow> Served (Panic s, c)
        | Served (Ret None, c) \<Rightarrow> Served (Ret (), c)
        | Served (Ret (Some err), c) \<Rightarrow>
            (case ec_HTTPErrorHandler e err c of Exits m \<Rightarrow> Exits m | Served c1 \<Rightarrow> Served (Ret (), c1))))"

text \<open>
  The request logger runs its function after the handler. Without \<^verbatim>\<open>HandleError\<close> the status is the code of an echo error,
  otherwise what the response has at that time.
\<close>

definition logged_values :: "int \<Rightarrow> go_error option \<Rightarrow> 'w echo_context \<Rightarrow> RequestLoggerValues" where
  "logged_values latency err c =
     \<lparr>v_Host = rq_Host (cx_request c), v_Method = rq_Method (cx_request c), v_URI = rq_URI (cx_request c),
      v_Status = (case Option.bind err as_http of Some code \<Rightarrow> code | None \<Rightarrow> cx_status c), v_Latency = latency, v_Error = err\<rparr>"

definition logs_all :: "'w RequestLoggerConfig \<Rightarrow> bool" where
  "logs_all cfg \<longleftrightarrow> rl_LogURI cfg \<and> rl_LogStatus cfg \<and> rl_LogMethod cfg \<and> rl_LogHost cfg \<and> rl_LogLatency cfg
     \<and> rl_LogError cfg \<and> \<not> rl_HandleError cfg"

definition logger_ok :: "'w echo_lib \<Rightarrow> bool" where
  "logger_ok lib \<longleftrightarrow> (\<forall>e cfg h c. logs_all cfg \<longrightarrow> (\<exists>latency.
     el_middleware lib e (RequestLogger cfg) h c =
       (case h c of
          Exits m \<Rightarrow> Exits m
        | Served (Panic s, c1) \<Rightarrow> Served (Panic s, c1)
        | Served (Ret err, c1) \<Rightarrow>
            (case rl_LogValuesFunc cfg (logged_values latency err c1) c1 of
               (Panic s, c2) \<Rightarrow> Served (Panic s, c2)
             | (Ret (Some err2), c2) \<Rightarrow> Served (Ret (Some err2), c2)
             | (Ret None, c2) \<Rightarrow> Served (Ret err, c2)))))"

text \<open>The request id is taken from the request or generated.\<close>

definition request_id_ok :: "'w echo_lib \<Rightarrow> bool" where
  "request_id_ok lib \<longleftrightarrow> (\<forall>e h c. \<exists>gen. gen \<noteq> [] \<and>
     el_middleware lib e RequestID h c =
       h (c\<lparr>cx_requestId := (if rq_RequestID (cx_request c) = [] then gen else rq_RequestID (cx_request c))\<rparr>))"

text \<open>\<^verbatim>\<open>Recover\<close> hands a panic to the error handler of the engine and swallows it.\<close>

definition recover_ok :: "'w echo_lib \<Rightarrow> bool" where
  "recover_ok lib \<longleftrightarrow> (\<forall>e h c. el_middleware lib e Recover h c =
     (case h c of
        Served (Panic s, c1) \<Rightarrow>
          (case ec_HTTPErrorHandler e (ErrorString s) c1 of Exits m \<Rightarrow> Exits m | Served c2 \<Rightarrow> Served (Ret None, c2))
      | r \<Rightarrow> r))"

text \<open>Requests other than preflight ones pass the CORS middleware, which only sets headers.\<close>

definition cors_ok :: "'w echo_lib \<Rightarrow> bool" where
  "cors_ok lib \<longleftrightarrow> (\<forall>e cfg h c. rq_Method (cx_request c) \<noteq> ''OPTIONS'' \<longrightarrow>
     (\<exists>hs. el_middleware lib e (CORS cfg) h c = h (c\<lparr>cx_headers := hs\<rparr>)))"

text \<open>A request to the path of the only route with its method and path is given to that route.\<close>

definition router_ok :: "'w echo_lib \<Rightarrow> bool" where
  "router_ok lib \<longleftrightarrow> (\<forall>e rq r. filter (\<lambda>r. rt_Method r = rq_Method rq \<and> rt_Path r = rq_Path rq) (ec_routes e) = [r]
     \<and> CHR ''*'' \<notin> set (rq_Path rq) \<and> CHR '':'' \<notin> set (rq_Path rq) \<longrightarrow> el_find lib e rq = (rt_Path r, rt_Handler r))"

text \<open>The first response of a request is sent with its status, or sending it fails.\<close>

definition send_ok :: "'w echo_lib \<Rightarrow> bool" where
  "send_ok lib \<longleftrightarrow> (\<forall>code body c. cx_body c = None \<longrightarrow> fst (el_send lib code body c) = None \<longrightarrow>
     el_send lib code body c = (None, c\<lparr>cx_status := code, cx_body := Some body\<rparr>))"

definition echo_ok :: "'w echo_lib \<Rightarrow> bool" where
  "echo_ok lib \<longleftrightarrow> serve_ok lib \<and> logger_ok lib \<and> request_id_ok lib \<and> recover_ok lib \<and> cors_ok lib \<and> router_ok lib \<and> send_ok lib
     \<and> ec_middleware (el_New lib) = [] \<and> ec_routes (el_New lib) = []"

section \<open>Lemmas\<close>

text \<open>What the request log makes of the end of a handler, and what the recovery does.\<close>

fun after_log :: "int \<Rightarrow> (go_error option outcome \<times> 'w echo_context) served \<Rightarrow> (go_error option outcome \<times> 'w echo_context) served" where
  "after_log latency (Exits m) = Exits m"
| "after_log latency (Served (Panic s, c)) = Served (Panic s, c)"
| "after_log latency (Served (Ret err, c)) =
     (case log_values (logged_values latency err c) of
        Panic s \<Rightarrow> Served (Panic s, c)
      | Ret line \<Rightarrow> Served (Ret err, c\<lparr>cx_log := cx_log c @ [line]\<rparr>))"

fun recovered :: "(go_error \<Rightarrow> 'w echo_context \<Rightarrow> 'w echo_context served) \<Rightarrow> (go_error option outcome \<times> 'w echo_context) served
    \<Rightarrow> (go_error option outcome \<times> 'w echo_context) served" where
  "recovered eh (Served (Panic s, c)) = (case eh (ErrorString s) c of Exits m \<Rightarrow> Exits m | Served c2 \<Rightarrow> Served (Ret None, c2))"
| "recovered eh r = r"

fun finished :: "(go_error \<Rightarrow> 'w echo_context \<Rightarrow> 'w echo_context served) \<Rightarrow> (go_error option outcome \<times> 'w echo_context) served
    \<Rightarrow> (unit outcome \<times> 'w echo_context) served" where
  "finished eh (Exits m) = Exits m"
| "finished eh (Served (Panic s, c)) = Served (Panic s, c)"
| "finished eh (Served (Ret None, c)) = Served (Ret (), c)"
| "finished eh (Served (Ret (Some err), c)) = (case eh err c of Exits m \<Rightarrow> Exits m | Served c1 \<Rightarrow> Served (Ret (), c1))"

lemma fx_engine:
  "ec_middleware (module_engine lib app b) = ec_middleware (el_New lib) @ [RequestLogger logger_config, RequestID, Recover, CORS cors_config]"
  "ec_HTTPErrorHandler (module_engine lib app b) = engine_error_handler lib app"
  by (simp_all add: module_engine_def NewEchoFX_def NewEcho_def InitRoutes_def LoyaltyController_Register_def group_Add_def
      engine_Add_def engine_Use_def Let_def)

lemma fx_routed:
  assumes "echo_ok lib"
  shows "\<lbrakk>rq_Method rq = ''POST''; rq_Path rq = ''/api/v1/loyalty/credit''\<rbrakk> \<Longrightarrow>
           el_find lib (module_engine lib app b) rq = (''/api/v1/loyalty/credit'', credit_handler lib (sa_now app) (controller b))"
    and "\<lbrakk>rq_Method rq = ''GET''; rq_Path rq = ''/api/v1/loyalty''\<rbrakk> \<Longrightarrow>
           el_find lib (module_engine lib app b) rq = (''/api/v1/loyalty'', balance_handler lib (sa_now app) (controller b))"
    and "\<lbrakk>rq_Method rq = ''GET''; rq_Path rq = ''/api/workers''\<rbrakk> \<Longrightarrow>
           el_find lib (module_engine lib app b) rq = (''/api/workers'', workers_handler lib app)"
    and "\<lbrakk>rq_Method rq = ''GET''; rq_Path rq = ''/api/health''\<rbrakk> \<Longrightarrow>
           el_find lib (module_engine lib app b) rq = (''/api/health'', health_handler lib app)"
proof -
  have r: "filter (\<lambda>r. rt_Method r = rq_Method rq \<and> rt_Path r = rq_Path rq) (ec_routes (module_engine lib app b)) = [r] \<Longrightarrow>
      CHR ''*'' \<notin> set (rq_Path rq) \<Longrightarrow> CHR '':'' \<notin> set (rq_Path rq) \<Longrightarrow>
      el_find lib (module_engine lib app b) rq = (rt_Path r, rt_Handler r)" for r
    using assms by (simp add: echo_ok_def router_ok_def)
  note defs = module_engine_def NewEchoFX_def NewEcho_def InitRoutes_def LoyaltyController_Register_def group_Add_def
      engine_Add_def engine_Use_def Let_def
  have new: "ec_routes (el_New lib) = []" using assms by (simp add: echo_ok_def)
  show "rq_Method rq = ''POST'' \<Longrightarrow> rq_Path rq = ''/api/v1/loyalty/credit'' \<Longrightarrow>
      el_find lib (module_engine lib app b) rq = (''/api/v1/loyalty/credit'', credit_handler lib (sa_now app) (controller b))"
    by (subst r, simp_all add: defs new, simp_all?)
  show "rq_Method rq = ''GET'' \<Longrightarrow> rq_Path rq = ''/api/v1/loyalty'' \<Longrightarrow>
      el_find lib (module_engine lib app b) rq = (''/api/v1/loyalty'', balance_handler lib (sa_now app) (controller b))"
    by (subst r, simp_all add: defs new, simp_all?)
  show "rq_Method rq = ''GET'' \<Longrightarrow> rq_Path rq = ''/api/workers'' \<Longrightarrow>
      el_find lib (module_engine lib app b) rq = (''/api/workers'', workers_handler lib app)"
    by (subst r, simp_all add: defs new, simp_all?)
  show "rq_Method rq = ''GET'' \<Longrightarrow> rq_Path rq = ''/api/health'' \<Longrightarrow>
      el_find lib (module_engine lib app b) rq = (''/api/health'', health_handler lib app)"
    by (subst r, simp_all add: defs new, simp_all?)
qed

text \<open>The documented behaviour, on the engine of the program.\<close>

lemma echo_recovers:
  assumes "echo_ok lib"
  shows "el_middleware lib e Recover h c = recovered (ec_HTTPErrorHandler e) (h c)"
proof -
  have "recover_ok lib" using assms by (simp add: echo_ok_def)
  then have "el_middleware lib e Recover h c = (case h c of
        Served (Panic s, c1) \<Rightarrow>
          (case ec_HTTPErrorHandler e (ErrorString s) c1 of Exits m \<Rightarrow> Exits m | Served c2 \<Rightarrow> Served (Ret None, c2))
      | r \<Rightarrow> r)" by (simp only: recover_ok_def)
  then show ?thesis by (simp split: served.split prod.split outcome.split)
qed

lemma echo_logs:
  assumes "echo_ok lib"
  shows "\<exists>latency. el_middleware lib e (RequestLogger logger_config) h c = after_log latency (h c)"
proof -
  have "logger_ok lib" using assms by (simp add: echo_ok_def)
  moreover have "logs_all logger_config" by (simp add: logs_all_def logger_config_def)
  ultimately obtain latency where "el_middleware lib e (RequestLogger logger_config) h c =
       (case h c of
          Exits m \<Rightarrow> Exits m
        | Served (Panic s, c1) \<Rightarrow> Served (Panic s, c1)
        | Served (Ret err, c1) \<Rightarrow>
            (case rl_LogValuesFunc logger_config (logged_values latency err c1) c1 of
               (Panic s, c2) \<Rightarrow> Served (Panic s, c2)
             | (Ret (Some err2), c2) \<Rightarrow> Served (Ret (Some err2), c2)
             | (Ret None, c2) \<Rightarrow> Served (Ret err, c2)))"
    unfolding logger_ok_def by blast
  then have "el_middleware lib e (RequestLogger logger_config) h c = after_log latency (h c)"
    by (simp add: logger_config_def LogValuesFunc_def split: served.split prod.split outcome.split)
  then show ?thesis by blast
qed

lemma echo_identifies:
  assumes "echo_ok lib"
  shows "\<exists>rid. rid \<noteq> [] \<and> el_middleware lib e RequestID h c = h (c\<lparr>cx_requestId := rid\<rparr>)"
proof -
  have "request_id_ok lib" using assms by (simp add: echo_ok_def)
  then obtain gen where "gen \<noteq> []" "el_middleware lib e RequestID h c =
       h (c\<lparr>cx_requestId := (if rq_RequestID (cx_request c) = [] then gen else rq_RequestID (cx_request c))\<rparr>)"
    unfolding request_id_ok_def by blast
  then show ?thesis by (cases "rq_RequestID (cx_request c) = []") auto
qed

lemma echo_serves:
  assumes "echo_ok lib" and "el_find lib e rq = (path, h)"
  shows "el_serve lib e rq w = finished (ec_HTTPErrorHandler e) (foldr (el_middleware lib e) (ec_middleware e) h (fresh_context rq path w))"
proof -
  have "serve_ok lib" using assms by (simp add: echo_ok_def)
  then have "el_serve lib e rq w =
       (case foldr (el_middleware lib e) (ec_middleware e) h (fresh_context rq path w) of
          Exits m \<Rightarrow> Exits m
        | Served (Panic s, c) \<Rightarrow> Served (Panic s, c)
        | Served (Ret None, c) \<Rightarrow> Served (Ret (), c)
        | Served (Ret (Some err), c) \<Rightarrow>
            (case ec_HTTPErrorHandler e err c of Exits m \<Rightarrow> Exits m | Served c1 \<Rightarrow> Served (Ret (), c1)))"
    unfolding serve_ok_def using assms(2) by blast
  then show ?thesis by (simp split: served.split prod.split outcome.split option.split)
qed

lemma served_chain:
  assumes "echo_ok lib" and "rq_Method rq \<noteq> ''OPTIONS''" and "el_find lib (module_engine lib app b) rq = (path, h)"
  shows "\<exists>latency rid hs. rid \<noteq> [] \<and> el_serve lib (module_engine lib app b) rq w =
           finished (engine_error_handler lib app) (after_log latency (recovered (engine_error_handler lib app)
             (h ((fresh_context rq path w)\<lparr>cx_requestId := rid, cx_headers := hs\<rparr>))))"
proof -
  define e where "e = module_engine lib app b"
  define c where "c = fresh_context rq path w"
  have eng: "ec_middleware e = [RequestLogger logger_config, RequestID, Recover, CORS cors_config]"
      "ec_HTTPErrorHandler e = engine_error_handler lib app"
    using assms(1) by (simp_all add: e_def fx_engine echo_ok_def)
  let ?h3 = "el_middleware lib e (CORS cors_config) h" let ?h2 = "el_middleware lib e Recover ?h3"
  let ?h1 = "el_middleware lib e RequestID ?h2"
  obtain latency where l: "el_middleware lib e (RequestLogger logger_config) ?h1 c = after_log latency (?h1 c)"
    using echo_logs [OF assms(1)] by blast
  obtain rid where r: "rid \<noteq> []" "?h1 c = ?h2 (c\<lparr>cx_requestId := rid\<rparr>)" using echo_identifies [OF assms(1)] by blast
  have "rq_Method (cx_request (c\<lparr>cx_requestId := rid\<rparr>)) \<noteq> ''OPTIONS''" using assms(2) by (simp add: c_def fresh_context_def)
  then obtain hs where h: "?h3 (c\<lparr>cx_requestId := rid\<rparr>) = h (c\<lparr>cx_requestId := rid, cx_headers := hs\<rparr>)"
    using assms(1) unfolding echo_ok_def cors_ok_def by blast
  have "el_serve lib e rq w = finished (engine_error_handler lib app) (after_log latency (recovered (engine_error_handler lib app)
             (h (c\<lparr>cx_requestId := rid, cx_headers := hs\<rparr>))))"
    unfolding echo_serves [OF assms(1,3), folded e_def] eng c_def [symmetric] foldr.simps o_apply id_apply l r(2)
      echo_recovers [OF assms(1)] h by simp
  then show ?thesis using r(1) unfolding e_def c_def by blast
qed

text \<open>The client takes what is sent to it.\<close>

definition sends :: "'w echo_lib \<Rightarrow> bool" where
  "sends lib \<longleftrightarrow> (\<forall>code body c. fst (el_send lib code body c) = None)"

lemma sent: "\<lbrakk>echo_ok lib; sends lib; cx_body c = None\<rbrakk> \<Longrightarrow> el_send lib code body c = (None, c\<lparr>cx_status := code, cx_body := Some body\<rparr>)"
  by (simp add: echo_ok_def sends_def send_ok_def)

lemma error_sent:
  assumes "echo_ok lib" and "sends lib" and "cx_body c = None"
    and "error_report (sa_Mode app) (GetRequestId (rq_RequestID (cx_request c)) (cx_requestId c)) err = (code, body)"
  shows "engine_error_handler lib app err c = Served (c\<lparr>cx_status := code, cx_body := Some (ErrorBody body)\<rparr>)"
  by (simp add: engine_error_handler_def HttpErrorHandler_def assms(4) sent [OF assms(1-3)])

text \<open>The line of a request that succeeded.\<close>

definition success_line :: "int \<Rightarrow> 'w echo_context \<Rightarrow> log_line" where
  "success_line latency c = \<lparr>ll_level = Info, ll_msg = rq_Host (cx_request c), ll_method = rq_Method (cx_request c),
     ll_status = cx_status c, ll_latency = latency, ll_uri = rq_URI (cx_request c)\<rparr>"

lemma answered_log:
  assumes "100 < cx_status c" and "cx_status c < 400" and "Option.bind err as_http = None"
  shows "after_log latency (Served (Ret err, c)) = Served (Ret err, c\<lparr>cx_log := cx_log c @ [success_line latency c]\<rparr>)"
  using assms by (simp add: log_values_def logged_values_def Let_def success_line_def)

lemma refused_log:
  "\<not> (100 < cx_status c \<and> cx_status c < 400) \<Longrightarrow> after_log latency (Served (Ret None, c)) = Served (Panic nil_dereference, c)"
  by (auto simp: log_values_def logged_values_def Let_def)

text \<open>The way of a response and of an error through the log and the error handler.\<close>

lemma chain_answered:
  assumes "100 < cx_status c" and "cx_status c < 400"
  shows "finished eh (after_log latency (recovered eh (Served (Ret None, c)))) =
     Served (Ret (), c\<lparr>cx_log := cx_log c @ [success_line latency c]\<rparr>)"
  using answered_log [OF assms, of None latency] by (simp del: after_log.simps)

lemma chain_failed:
  assumes "echo_ok lib" and "sends lib" and "cx_body c = None" and "cx_status c = 200" and "as_http err = None"
    and "error_report (sa_Mode app) (GetRequestId (rq_RequestID (cx_request c)) (cx_requestId c)) err = (code, body)"
  shows "finished (engine_error_handler lib app) (after_log latency (recovered (engine_error_handler lib app) (Served (Ret (Some err), c)))) =
     Served (Ret (), c\<lparr>cx_log := cx_log c @ [success_line latency c], cx_status := code, cx_body := Some (ErrorBody body)\<rparr>)"
proof -
  have "engine_error_handler lib app err (c\<lparr>cx_log := cx_log c @ [success_line latency c]\<rparr>) =
      Served (c\<lparr>cx_log := cx_log c @ [success_line latency c], cx_status := code, cx_body := Some (ErrorBody body)\<rparr>)"
    using assms(3,6) by (simp add: error_sent [OF assms(1,2)])
  then show ?thesis using answered_log [of c "Some err" latency] assms(4,5) by (simp del: after_log.simps)
qed

section \<open>Properties\<close>


text \<open>
  The worker count over HTTP: with a master the answer is its number of workers, and the request is logged. Without one the handler
  answers 400 itself, and the request ends in a panic that nothing recovers.
\<close>

theorem workers_request:
  assumes "echo_ok lib" and "sends lib" and "rq_Method rq = ''GET''" and "rq_Path rq = ''/api/workers''"
  shows "\<exists>c. cx_world c = w \<and>
    (case sa_master app w of
       Inr master \<Rightarrow> el_serve lib (module_engine lib app b) rq w = Served (Ret (), c) \<and> cx_status c = 200
         \<and> cx_body c = Some (TextBody (Itoa (int (mlen (ms_workers master))))) \<and> map ll_status (cx_log c) = [200]
     | Inl err \<Rightarrow> el_serve lib (module_engine lib app b) rq w = Served (Panic nil_dereference, c) \<and> cx_status c = 400
         \<and> cx_body c = Some (TextBody ''WORKER NOT READY'') \<and> cx_log c = [])"
proof -
  have opt: "rq_Method rq \<noteq> ''OPTIONS''" using assms(3) by simp
  obtain latency rid hs where serve: "el_serve lib (module_engine lib app b) rq w =
      finished (engine_error_handler lib app) (after_log latency (recovered (engine_error_handler lib app)
        (workers_handler lib app ((fresh_context rq ''/api/workers'' w)\<lparr>cx_requestId := rid, cx_headers := hs\<rparr>))))"
    using served_chain [OF assms(1) opt fx_routed(3) [OF assms(1,3,4)]] by blast
  define c where "c = (fresh_context rq ''/api/workers'' w)\<lparr>cx_requestId := rid, cx_headers := hs\<rparr>"
  have c: "cx_world c = w" "cx_body c = None" "cx_log c = []" by (simp_all add: c_def fresh_context_def)
  note send = sent [OF assms(1,2) c(2)]
  show ?thesis
  proof (cases "sa_master app w")
    case (Inl err)
    then show ?thesis unfolding serve c_def [symmetric]
      by (simp add: workers_handler_def workers_route_def respond_def send c refused_log del: after_log.simps)
  next
    case (Inr master)
    then show ?thesis unfolding serve c_def [symmetric]
      by (simp add: workers_handler_def workers_route_def GetTotalWorkers_def Connections_def Registry_Total_def respond_def send c
          answered_log del: after_log.simps)
        (simp add: success_line_def)
  qed
qed

subsection \<open>An instance\<close>

definition demo_mw :: "'w Echo \<Rightarrow> 'w middleware \<Rightarrow> 'w echo_handler \<Rightarrow> 'w echo_handler" where
  "demo_mw e m h c =
     (case m of
        RequestLogger cfg \<Rightarrow>
          (case h c of
             Exits x \<Rightarrow> Exits x
           | Served (Panic s, c1) \<Rightarrow> Served (Panic s, c1)
           | Served (Ret err, c1) \<Rightarrow>
               (case rl_LogValuesFunc cfg (logged_values 5 err c1) c1 of
                  (Panic s, c2) \<Rightarrow> Served (Panic s, c2)
                | (Ret (Some err2), c2) \<Rightarrow> Served (Ret (Some err2), c2)
                | (Ret None, c2) \<Rightarrow> Served (Ret err, c2)))
      | RequestID \<Rightarrow> h (c\<lparr>cx_requestId := (if rq_RequestID (cx_request c) = [] then ''r1'' else rq_RequestID (cx_request c))\<rparr>)
      | Recover \<Rightarrow>
          (case h c of
             Served (Panic s, c1) \<Rightarrow>
               (case ec_HTTPErrorHandler e (ErrorString s) c1 of Exits x \<Rightarrow> Exits x | Served c2 \<Rightarrow> Served (Ret None, c2))
           | r \<Rightarrow> r)
      | CORS cfg \<Rightarrow>
          (if rq_Method (cx_request c) = ''OPTIONS'' then Served (Ret None, c\<lparr>cx_status := 204\<rparr>)
           else h (c\<lparr>cx_headers := [(''Access-Control-Allow-Origin'', ''*'')]\<rparr>)))"

definition demo_find :: "'w Echo \<Rightarrow> request \<Rightarrow> string \<times> 'w echo_handler" where
  "demo_find e rq =
     (case filter (\<lambda>r. rt_Method r = rq_Method rq \<and> rt_Path r = rq_Path rq) (ec_routes e) of
        r # rs \<Rightarrow> (rt_Path r, rt_Handler r)
      | [] \<Rightarrow> ([], \<lambda>c. Served (Ret (Some (HttpError 404 ''Not Found'' ''code=404, message=Not Found'')), c)))"

definition demo_lib :: "'w echo_lib" where
  "demo_lib = \<lparr>el_New = \<lparr>ec_Debug = False, ec_HideBanner = False, ec_HidePort = False, ec_HTTPErrorHandler = (\<lambda>err c. Served c),
       ec_middleware = [], ec_routes = []\<rparr>,
     el_middleware = demo_mw, el_find = demo_find,
     el_serve = (\<lambda>e rq w. case demo_find e rq of (path, h) \<Rightarrow>
       finished (ec_HTTPErrorHandler e) (foldr (demo_mw e) (ec_middleware e) h (fresh_context rq path w))),
     el_send = (\<lambda>code body c. (None, if cx_body c = None then c\<lparr>cx_status := code, cx_body := Some body\<rparr> else c)),
     el_Bind = (\<lambda>rq. Inr demo_cmd), el_swagger = (\<lambda>c. Served (Ret None, c)), el_static = (\<lambda>root c. Served (Ret None, c))\<rparr>"

lemma demo_sends: "sends demo_lib"
  by (simp add: sends_def demo_lib_def)

lemma demo_echo: "echo_ok demo_lib"
proof -
  have "serve_ok demo_lib" "router_ok demo_lib" "send_ok demo_lib"
    by (simp_all add: serve_ok_def router_ok_def send_ok_def demo_lib_def demo_find_def
        split: served.split prod.split outcome.split option.split)
  moreover have "logger_ok demo_lib" unfolding logger_ok_def by (intro allI impI exI [of _ 5]) (simp add: demo_lib_def demo_mw_def)
  moreover have "request_id_ok demo_lib" unfolding request_id_ok_def
    by (intro allI exI [of _ "''r1''"]) (simp add: demo_lib_def demo_mw_def)
  moreover have "recover_ok demo_lib" "cors_ok demo_lib" unfolding recover_ok_def cors_ok_def
    by (simp_all add: demo_lib_def demo_mw_def) blast
  ultimately show ?thesis by (simp add: echo_ok_def demo_lib_def)
qed

definition demo_server_app :: "(unit, demo_world) server_app" where
  "demo_server_app = \<lparr>sa_Mode = ''production'', sa_Port = 8080, sa_master = (\<lambda>w. Inl (ErrorString ''no master'')), sa_now = (\<lambda>w. 0)\<rparr>"

definition demo_http_request :: "string \<Rightarrow> string \<Rightarrow> request" where
  "demo_http_request meth path = \<lparr>rq_Method = meth, rq_Host = ''localhost'', rq_Path = path, rq_URI = path, rq_RequestID = [],
     rq_QueryParam = (\<lambda>name. ''c'')\<rparr>"


end
