(* ===== verification/Orders.thy ===== *)
theory Orders
  imports Query_Scopes Config
begin

text \<open>
  The orders domain: \<^verbatim>\<open>use_cases/orders\<close> with its repository in \<^verbatim>\<open>repositories/\<close>, and the
  request of the loyalty domain for an order, \<^verbatim>\<open>use_cases/loyalty/order_detail_request_impl.go\<close>,
  which the order listener answers. GORM, NATS, the circuit breaker and protocol buffers are
  third-party code: a value of \<open>order_db\<close> is what the three chains of GORM calls do, the other
  calls are arguments. Spans and log lines are left out. The text of a message is the JSON value
  that it parses to, \<open>None\<close> standing for bytes that are not JSON (also for no bytes at all).
\<close>

section \<open>Data\<close>

record OrderItemRequest =
  it_ProductId :: string
  it_ProductName :: string
  it_Quantity :: int
  it_Price :: float64

record CreateOrderRequest =
  co_CustomerName :: string
  co_TotalAmount :: float64
  co_Address :: string
  co_Items :: "OrderItemRequest list"

record CreateOrderResponse =
  cs_Id :: string
  cs_CreatedAt :: int
  cs_UpdatedAt :: int
  cs_Status :: string
  cs_CustomerName :: string
  cs_TotalAmount :: float64
  cs_Address :: string
  cs_Items :: "OrderItemRequest list"

record CreateOrderRepositoryResult =
  rs_Id :: string
  rs_CustomerName :: string
  rs_TotalAmount :: float64
  rs_Address :: string
  rs_Items :: "OrderItemRequest list"
  rs_Status :: string
  rs_CreatedAt :: int
  rs_UpdatedAt :: int

record GetOrderByIDResult =
  go_Id :: string
  go_CustomerName :: string
  go_TotalAmount :: float64
  go_Address :: string
  go_Status :: string

text \<open>The rules of \<^verbatim>\<open>ozzo-validation\<close> on numbers that the requests use besides those of the configuration.\<close>

record order_ozzo = ozzo +
  oz_Required_float :: "float64 \<Rightarrow> go_error option"
  oz_Min :: "int \<Rightarrow> float64 \<Rightarrow> go_error option"

definition OrderItemRequest_Validate :: "order_ozzo \<Rightarrow> OrderItemRequest \<Rightarrow> go_error option" where
  "OrderItemRequest_Validate oz i =
     oz_ValidateStruct oz
       [(''Price'', [oz_Required_float oz (it_Price i)]),
        (''ProductId'', [oz_Required_string oz (it_ProductId i)]),
        (''ProductName'', [oz_Required_string oz (it_ProductName i)])]"

definition CreateOrderRequest_Validate :: "order_ozzo \<Rightarrow> CreateOrderRequest \<Rightarrow> go_error option" where
  "CreateOrderRequest_Validate oz payload =
     oz_ValidateStruct oz
       [(''customer_name'', [oz_Required_string oz (co_CustomerName payload)]),
        (''address'', []),
        (''total_amount'', [oz_Min oz 0 (co_TotalAmount payload)]),
        (''items'', [oz_Each oz (map (OrderItemRequest_Validate oz) (co_Items payload))])]"

definition ErrOrderFailedToCreate :: go_error where
  "ErrOrderFailedToCreate = Sentinel ''exception.ErrOrderFailedToCreate'' ''ErrOrderFailedToCreate''"

section \<open>The repository\<close>

record Order =
  od_Base :: BaseModel
  od_CustomerName :: string
  od_TotalAmount :: float64
  od_Status :: string
  od_Address :: string

record OrderItem =
  oi_Base :: BaseModel
  oi_ProductId :: string
  oi_ProductName :: string
  oi_Price :: float64

text \<open>A row that is created comes back with the fields that hooks and database filled in.\<close>

record 'w order_db =
  ob_create_item :: "OrderItem \<Rightarrow> 'w \<Rightarrow> OrderItem result \<times> 'w"
  ob_create_order :: "Order \<Rightarrow> 'w \<Rightarrow> Order result \<times> 'w"
  ob_first_order :: "string \<Rightarrow> 'w \<Rightarrow> Order result \<times> 'w"

definition zero_base :: BaseModel where
  "zero_base = \<lparr>bm_ID = [], bm_CreatedAt = zero_time, bm_Created = 0, bm_Updated = 0,
     bm_DeletedAt = \<lparr>da_Time = zero_time, da_Valid = False\<rparr>\<rparr>"

definition item_row :: "OrderItemRequest \<Rightarrow> OrderItem" where
  "item_row item = \<lparr>oi_Base = zero_base, oi_ProductId = it_ProductId item, oi_ProductName = it_ProductName item,
     oi_Price = it_Price item\<rparr>"

definition item_result :: "OrderItemRequest \<Rightarrow> OrderItemRequest" where
  "item_result item = \<lparr>it_ProductId = it_ProductId item, it_ProductName = it_ProductName item,
     it_Quantity = it_Quantity item, it_Price = Fin 0\<rparr>"

fun save_items :: "'w order_db \<Rightarrow> OrderItemRequest list \<Rightarrow> 'w \<Rightarrow> OrderItemRequest list result \<times> 'w" where
  "save_items db [] w = (Inr [], w)"
| "save_items db (item # items) w =
     (case ob_create_item db (item_row item) w of
        (Inl err, w1) \<Rightarrow> (Inl err, w1)
      | (Inr _, w1) \<Rightarrow>
          (case save_items db items w1 of
             (Inl err, w2) \<Rightarrow> (Inl err, w2)
           | (Inr saved, w2) \<Rightarrow> (Inr (item_result item # saved), w2)))"

definition SaveOrder :: "'w order_db \<Rightarrow> CreateOrderRequest \<Rightarrow> 'w \<Rightarrow> CreateOrderRepositoryResult result \<times> 'w" where
  "SaveOrder db payload w =
     (let p = \<lparr>od_Base = zero_base, od_CustomerName = co_CustomerName payload, od_TotalAmount = co_TotalAmount payload,
               od_Status = ''PENDING'', od_Address = co_Address payload\<rparr>
      in case save_items db (co_Items payload) w of
           (Inl err, w1) \<Rightarrow> (Inl err, w1)
         | (Inr items, w1) \<Rightarrow>
             (case ob_create_order db p w1 of
                (Inl err, w2) \<Rightarrow> (Inl err, w2)
              | (Inr q, w2) \<Rightarrow>
                  (Inr \<lparr>rs_Id = bm_ID (od_Base q), rs_CustomerName = od_CustomerName q, rs_TotalAmount = od_TotalAmount q,
                        rs_Address = od_Address q, rs_Items = items, rs_Status = [],
                        rs_CreatedAt = bm_Created (od_Base q), rs_UpdatedAt = bm_Updated (od_Base q)\<rparr>, w2)))"

definition FindByID :: "'w order_db \<Rightarrow> string \<Rightarrow> 'w \<Rightarrow> GetOrderByIDResult result \<times> 'w" where
  "FindByID db orderID w =
     (case ob_first_order db orderID w of
        (Inl err, w1) \<Rightarrow> (Inl err, w1)
      | (Inr m, w1) \<Rightarrow>
          (Inr \<lparr>go_Id = bm_ID (od_Base m), go_CustomerName = od_CustomerName m, go_TotalAmount = od_TotalAmount m,
                go_Address = od_Address m, go_Status = od_Status m\<rparr>, w1))"

section \<open>The service\<close>

text \<open>
  The collaborators of the service, each possibly nil: the customer request \<open>'c\<close>, the publisher
  \<open>'p\<close>, the tracer \<open>'t\<close> and the repository.
\<close>

record 'w OrderRepository =
  op_SaveOrder :: "CreateOrderRequest \<Rightarrow> 'w \<Rightarrow> CreateOrderRepositoryResult result \<times> 'w"
  op_FindByID :: "string \<Rightarrow> 'w \<Rightarrow> GetOrderByIDResult result \<times> 'w"

definition NewOrderPostgreRepository :: "'w order_db \<Rightarrow> 'w OrderRepository" where
  "NewOrderPostgreRepository db = \<lparr>op_SaveOrder = SaveOrder db, op_FindByID = FindByID db\<rparr>"

record ('c, 'p, 't, 'w) OrderServiceImpl =
  sv_customerReq :: "'c option"
  sv_orderRepo :: "'w OrderRepository option"
  sv_orderPublisher :: "'p option"
  sv_tracer :: "'t option"

type_synonym ('c, 'p, 't, 'w) OrderServiceConfiguration =
  "('c, 'p, 't, 'w) OrderServiceImpl \<Rightarrow> go_error option \<times> ('c, 'p, 't, 'w) OrderServiceImpl"

fun configure ::
  "('c, 'p, 't, 'w) OrderServiceConfiguration list \<Rightarrow> ('c, 'p, 't, 'w) OrderServiceImpl
     \<Rightarrow> ('c, 'p, 't, 'w) OrderServiceImpl result" where
  "configure [] srv = Inr srv"
| "configure (cfg # cfgs) srv =
     (case cfg srv of (Some err, _) \<Rightarrow> Inl err | (None, srv') \<Rightarrow> configure cfgs srv')"

definition NewOrderServiceImpl ::
  "'t \<Rightarrow> ('c, 'p, 't, 'w) OrderServiceConfiguration list \<Rightarrow> ('c, 'p, 't, 'w) OrderServiceImpl result" where
  "NewOrderServiceImpl tracer cfgs =
     configure cfgs \<lparr>sv_customerReq = None, sv_orderRepo = None, sv_orderPublisher = None, sv_tracer = Some tracer\<rparr>"

definition WithOrderPublisher :: "'p option \<Rightarrow> ('c, 'p, 't, 'w) OrderServiceConfiguration" where
  "WithOrderPublisher orderPublisher srv =
     (case orderPublisher of
        None \<Rightarrow> (Some (ErrorString ''OrderPublisher required''), srv)
      | Some p \<Rightarrow> (None, srv\<lparr>sv_orderPublisher := Some p\<rparr>))"

definition WithTracer :: "'t option \<Rightarrow> ('c, 'p, 't, 'w) OrderServiceConfiguration" where
  "WithTracer tracer srv = (None, srv\<lparr>sv_tracer := tracer\<rparr>)"

definition WithCustomerDetailRequest :: "'c option \<Rightarrow> ('c, 'p, 't, 'w) OrderServiceConfiguration" where
  "WithCustomerDetailRequest request srv =
     (case request of
        None \<Rightarrow> (Some (ErrorString ''CustomerDetailRequest required''), srv)
      | Some c \<Rightarrow> (None, srv\<lparr>sv_customerReq := Some c\<rparr>))"

definition WithOrderRepository :: "'w OrderRepository option \<Rightarrow> ('c, 'p, 't, 'w) OrderServiceConfiguration" where
  "WithOrderRepository orderRepo srv =
     (case orderRepo of
        None \<Rightarrow> (Some (ErrorString ''OrderRepository required''), srv)
      | Some r \<Rightarrow> (None, srv\<lparr>sv_orderRepo := Some r\<rparr>))"

definition CreateOrder ::
  "('c, 'p, 't, 'w) OrderServiceImpl \<Rightarrow> CreateOrderRequest \<Rightarrow> 'w \<Rightarrow> (CreateOrderResponse result \<times> 'w) outcome" where
  "CreateOrder srv payload w =
     (case sv_orderRepo srv of
        None \<Rightarrow> Panic ''invalid memory address or nil pointer dereference''
      | Some repo \<Rightarrow>
          (case op_SaveOrder repo payload w of
             (Inl err, w1) \<Rightarrow> Ret (Inl ErrOrderFailedToCreate, w1)
           | (Inr order, w1) \<Rightarrow>
               Ret (Inr \<lparr>cs_Id = rs_Id order, cs_CreatedAt = rs_CreatedAt order, cs_UpdatedAt = rs_UpdatedAt order,
                         cs_Status = rs_Status order, cs_CustomerName = rs_CustomerName order,
                         cs_TotalAmount = rs_TotalAmount order, cs_Address = rs_Address order,
                         cs_Items = rs_Items order\<rparr>, w1)))"

section \<open>Publishing\<close>

definition createId :: "string \<Rightarrow> string \<Rightarrow> string" where
  "createId orderId status = ''orders.'' @ orderId @ ''.'' @ status"

text \<open>\<open>oid\<close> reads the order id of a message, \<open>marshal\<close> is the protocol buffer encoder.\<close>

definition PublishOrder ::
  "('o \<Rightarrow> string) \<Rightarrow> ('o \<Rightarrow> string result) \<Rightarrow> (string \<Rightarrow> string \<Rightarrow> 'w \<Rightarrow> go_error option \<times> 'w)
     \<Rightarrow> 'o option \<Rightarrow> 'w \<Rightarrow> go_error option \<times> 'w" where
  "PublishOrder oid marshal publish payload w =
     (case payload of
        None \<Rightarrow> (Some (ErrorString ''payload cannot be nil''), w)
      | Some p \<Rightarrow>
          (case marshal p of
             Inl err \<Rightarrow> (Some err, w)
           | Inr data \<Rightarrow> publish (createId (oid p) ''PENDING'') data w))"

definition OrderReport_Receive :: "'o \<Rightarrow> 'w \<Rightarrow> go_error option \<times> 'w" where
  "OrderReport_Receive payload w = (None, w)"

section \<open>Requests behind a circuit breaker\<close>

text \<open>The counters of a breaker, and the two conditions on which it opens.\<close>

record Counts =
  ct_Requests :: "32 word"
  ct_TotalFailures :: "32 word"

definition customer_ReadyToTrip :: "Counts \<Rightarrow> bool" where
  "customer_ReadyToTrip counts =
     (let failureRatio = fdiv (float_of_int (uint (ct_TotalFailures counts))) (float_of_int (uint (ct_Requests counts)))
      in ct_Requests counts \<ge> 3 \<and> fge failureRatio (fround (3 / 5)))"

definition detail_ReadyToTrip :: "Counts \<Rightarrow> bool" where
  "detail_ReadyToTrip c =
     (if ct_Requests c < 3 then False
      else fge (fdiv (float_of_int (uint (ct_TotalFailures c))) (float_of_int (uint (ct_Requests c)))) (fround (3 / 5)))"

text \<open>\<open>execute\<close> is the \<^verbatim>\<open>Execute\<close> of the breaker, \<open>request\<close> the one of the NATS connection.\<close>

type_synonym ('m, 'w) breaker = "('w \<Rightarrow> 'm result \<times> 'w) \<Rightarrow> 'w \<Rightarrow> 'm result \<times> 'w"

definition ask_customer ::
  "('m, 'w) breaker \<Rightarrow> (string \<Rightarrow> string \<Rightarrow> int \<Rightarrow> 'w \<Rightarrow> 'm result \<times> 'w) \<Rightarrow> ('w \<Rightarrow> 'w) \<Rightarrow> string \<Rightarrow> 'w \<Rightarrow> 'w" where
  "ask_customer execute request sleep data w =
     (case execute (request ''customer.get.detail'' data (2 * second)) w of (_, w') \<Rightarrow> sleep w')"

definition GetDetailCustomer ::
  "('m, 'w) breaker \<Rightarrow> (string \<Rightarrow> string \<Rightarrow> int \<Rightarrow> 'w \<Rightarrow> 'm result \<times> 'w) \<Rightarrow> ('w \<Rightarrow> 'w)
     \<Rightarrow> ('q \<Rightarrow> string result) \<Rightarrow> 'r \<Rightarrow> 'q \<Rightarrow> 'w \<Rightarrow> 'r \<times> 'w" where
  "GetDetailCustomer execute request sleep marshal zero payload w =
     (let data = (case marshal payload of Inl _ \<Rightarrow> [] | Inr d \<Rightarrow> d)
      in (zero, (ask_customer execute request sleep data ^^ 50) w))"

section \<open>Order details for the loyalty domain\<close>

definition subjectGetOrderDetail :: string where
  "subjectGetOrderDetail = ''orders.get.detail''"

definition requestTimeout :: int where
  "requestTimeout = 2 * second"

record orderDetailRequestWire =
  qw_OrderID :: string

record orderDetailReplyWire =
  pw_OrderID :: string
  pw_CustomerName :: string
  pw_TotalAmount :: float64
  pw_Status :: string

definition json_detail_request :: "orderDetailRequestWire \<Rightarrow> json result" where
  "json_detail_request q = Inr (JObj [(''order_id'', JStr (qw_OrderID q))])"

definition json_detail_reply :: "orderDetailReplyWire \<Rightarrow> json result" where
  "json_detail_reply r =
     map_sum id (\<lambda>amount. JObj [(''order_id'', JStr (pw_OrderID r)), (''customer_name'', JStr (pw_CustomerName r)),
         (''total_amount'', amount), (''status'', JStr (pw_Status r))])
       (json_float (pw_TotalAmount r))"

definition bad_json :: "'a result" where
  "bad_json = Inl (ErrorString ''unexpected end of JSON input'')"

fun read_detail_request :: "json option \<Rightarrow> orderDetailRequestWire result" where
  "read_detail_request None = bad_json"
| "read_detail_request (Some JNull) = Inr \<lparr>qw_OrderID = []\<rparr>"
| "read_detail_request (Some (JObj kvs)) =
     read_object [''order_id'']
       (\<lambda>f j q. map_sum id (\<lambda>s. q\<lparr>qw_OrderID := s\<rparr>) (read_string ''orderDetailRequestWire.order_id'' (qw_OrderID q) j))
       kvs \<lparr>qw_OrderID = []\<rparr>"
| "read_detail_request (Some j) = Inl (type_error j [] ''orders.orderDetailRequestWire'')"

definition read_reply_field :: "string \<Rightarrow> json \<Rightarrow> orderDetailReplyWire \<Rightarrow> orderDetailReplyWire result" where
  "read_reply_field f j r =
     (if f = ''order_id'' then
        map_sum id (\<lambda>s. r\<lparr>pw_OrderID := s\<rparr>) (read_string ''orderDetailReplyWire.order_id'' (pw_OrderID r) j)
      else if f = ''customer_name'' then
        map_sum id (\<lambda>s. r\<lparr>pw_CustomerName := s\<rparr>) (read_string ''orderDetailReplyWire.customer_name'' (pw_CustomerName r) j)
      else if f = ''total_amount'' then
        map_sum id (\<lambda>x. r\<lparr>pw_TotalAmount := x\<rparr>) (read_float ''orderDetailReplyWire.total_amount'' (pw_TotalAmount r) j)
      else map_sum id (\<lambda>s. r\<lparr>pw_Status := s\<rparr>) (read_string ''orderDetailReplyWire.status'' (pw_Status r) j))"

definition zero_reply :: orderDetailReplyWire where
  "zero_reply = \<lparr>pw_OrderID = [], pw_CustomerName = [], pw_TotalAmount = Fin 0, pw_Status = []\<rparr>"

fun read_detail_reply :: "json option \<Rightarrow> orderDetailReplyWire result" where
  "read_detail_reply None = bad_json"
| "read_detail_reply (Some JNull) = Inr zero_reply"
| "read_detail_reply (Some (JObj kvs)) =
     read_object [''order_id'', ''customer_name'', ''total_amount'', ''status''] read_reply_field kvs zero_reply"
| "read_detail_reply (Some j) = Inl (type_error j [] ''loyalty.orderDetailReplyWire'')"

text \<open>
  The callback of the order listener: no answer, or an answer (whose bytes are empty when the reply
  cannot be written as JSON, since that error is dropped).
\<close>

definition answer_order_detail :: "'w OrderRepository \<Rightarrow> json option \<Rightarrow> 'w \<Rightarrow> json option option \<times> 'w" where
  "answer_order_detail repo data w =
     (case read_detail_request data of
        Inl err \<Rightarrow> (None, w)
      | Inr req \<Rightarrow>
          (case op_FindByID repo (qw_OrderID req) w of
             (Inl err, w1) \<Rightarrow> (None, w1)
           | (Inr order, w1) \<Rightarrow>
               (Some (case json_detail_reply \<lparr>pw_OrderID = go_Id order, pw_CustomerName = go_CustomerName order,
                              pw_TotalAmount = go_TotalAmount order, pw_Status = go_Status order\<rparr> of
                        Inl err \<Rightarrow> None | Inr j \<Rightarrow> Some j), w1)))"

text \<open>Starting keeps the subscription \<open>'u\<close>, stopping gives it back.\<close>

definition OrderDetailListener_Start ::
  "(string \<Rightarrow> (json option \<Rightarrow> 'w \<Rightarrow> json option option \<times> 'w) \<Rightarrow> 'w \<Rightarrow> 'u result \<times> 'w) \<Rightarrow> 'w OrderRepository \<Rightarrow> 'u option \<Rightarrow> 'w
     \<Rightarrow> go_error option \<times> 'u option \<times> 'w" where
  "OrderDetailListener_Start subscribe repo sub0 w =
     (case subscribe subjectGetOrderDetail (answer_order_detail repo) w of
        (Inl err, w1) \<Rightarrow> (Some err, sub0, w1)
      | (Inr sub, w1) \<Rightarrow> (None, Some sub, w1))"

definition OrderDetailListener_Stop ::
  "('u \<Rightarrow> 'w \<Rightarrow> go_error option \<times> 'w) \<Rightarrow> 'u option \<Rightarrow> 'w \<Rightarrow> go_error option \<times> 'w" where
  "OrderDetailListener_Stop unsubscribe sub w = (case sub of Some s \<Rightarrow> unsubscribe s w | None \<Rightarrow> (None, w))"

record GetOrderDetailRequest =
  dq_OrderID :: string

record OrderDetail =
  dt_OrderID :: string
  dt_CustomerName :: string
  dt_TotalAmount :: float64
  dt_Status :: string

definition GetOrderDetail ::
  "(json option, 'w) breaker \<Rightarrow> (string \<Rightarrow> json option \<Rightarrow> int \<Rightarrow> 'w \<Rightarrow> json option result \<times> 'w)
     \<Rightarrow> GetOrderDetailRequest \<Rightarrow> 'w \<Rightarrow> OrderDetail result \<times> 'w" where
  "GetOrderDetail execute request req w =
     (case json_detail_request \<lparr>qw_OrderID = dq_OrderID req\<rparr> of
        Inl err \<Rightarrow> (Inl (WrapError ''marshal request: '' err []), w)
      | Inr payload \<Rightarrow>
          (case execute (request subjectGetOrderDetail (Some payload) requestTimeout) w of
             (Inl err, w1) \<Rightarrow> (Inl (WrapError ''nats request: '' err []), w1)
           | (Inr msg, w1) \<Rightarrow>
               (case read_detail_reply msg of
                  Inl err \<Rightarrow> (Inl (WrapError ''unmarshal reply: '' err []), w1)
                | Inr wire \<Rightarrow>
                    (Inr \<lparr>dt_OrderID = pw_OrderID wire, dt_CustomerName = pw_CustomerName wire,
                          dt_TotalAmount = pw_TotalAmount wire, dt_Status = pw_Status wire\<rparr>, w1))))"

section \<open>What the repository relies on\<close>

text \<open>
  \<open>orders w\<close> is the table of orders by id, \<open>items w\<close> the table of items in the order of their
  insertion. A failed statement changes nothing, an inserted row has the values that were given
  besides its base fields and a new id, a lookup finds the row with the id. Any call may fail.
\<close>

type_synonym 'w order_table = "'w \<Rightarrow> string \<Rightarrow> Order option"
type_synonym 'w item_table = "'w \<Rightarrow> OrderItem list"

fun item_created :: "'w order_table \<Rightarrow> 'w item_table \<Rightarrow> OrderItem \<Rightarrow> 'w \<Rightarrow> OrderItem result \<times> 'w \<Rightarrow> bool" where
  "item_created orders items i w (Inl e, w') = (orders w' = orders w \<and> items w' = items w)"
| "item_created orders items i w (Inr i', w') =
     ((\<exists>b. i' = i\<lparr>oi_Base := b\<rparr>) \<and> orders w' = orders w \<and> items w' = items w @ [i'])"

fun order_created :: "'w order_table \<Rightarrow> 'w item_table \<Rightarrow> Order \<Rightarrow> 'w \<Rightarrow> Order result \<times> 'w \<Rightarrow> bool" where
  "order_created orders items r w (Inl e, w') = (orders w' = orders w \<and> items w' = items w)"
| "order_created orders items r w (Inr r', w') =
     ((\<exists>b. r' = r\<lparr>od_Base := b\<rparr> \<and> orders w (bm_ID b) = None \<and> orders w' = (orders w)(bm_ID b \<mapsto> r')) \<and> items w' = items w)"

fun order_found :: "'w order_table \<Rightarrow> 'w item_table \<Rightarrow> string \<Rightarrow> 'w \<Rightarrow> Order result \<times> 'w \<Rightarrow> bool" where
  "order_found orders items k w (Inl e, w') = (orders w' = orders w \<and> items w' = items w)"
| "order_found orders items k w (Inr r, w') =
     (orders w k = Some r \<and> bm_ID (od_Base r) = k \<and> orders w' = orders w \<and> items w' = items w)"

definition order_db_ok :: "'w order_db \<Rightarrow> 'w order_table \<Rightarrow> 'w item_table \<Rightarrow> bool" where
  "order_db_ok db orders items \<longleftrightarrow>
     (\<forall>i w. item_created orders items i w (ob_create_item db i w))
   \<and> (\<forall>r w. order_created orders items r w (ob_create_order db r w))
   \<and> (\<forall>k w. order_found orders items k w (ob_first_order db k w))"

definition item_fields :: "OrderItem \<Rightarrow> OrderItem" where
  "item_fields i = i\<lparr>oi_Base := zero_base\<rparr>"

lemma item_fields_row [simp]: "item_fields ((item_row item)\<lparr>oi_Base := b\<rparr>) = item_row item"
  by (simp add: item_fields_def item_row_def)

lemma order_db_okD:
  assumes "order_db_ok db orders items"
  shows "ob_create_item db i w = ri \<Longrightarrow> item_created orders items i w ri"
    "ob_create_order db r w = ro \<Longrightarrow> order_created orders items r w ro"
    "ob_first_order db k w = rf \<Longrightarrow> order_found orders items k w rf"
  using assms by (auto simp: order_db_ok_def)

text \<open>The items are written one by one; a failure keeps those written before it.\<close>

lemma save_items_spec:
  assumes ok: "order_db_ok db orders items"
  shows "save_items db is w = (r, w') \<Longrightarrow> orders w' = orders w \<and>
    (\<exists>rows. items w' = items w @ rows \<and> map item_fields rows = map item_row (take (length rows) is) \<and> length rows \<le> length is
        \<and> (\<forall>saved. r = Inr saved \<longrightarrow> length rows = length is \<and> saved = map item_result is))"
proof (induction "is" arbitrary: w r w')
  case (Cons i "is")
  obtain ri w1 where c: "ob_create_item db (item_row i) w = (ri, w1)" by (metis prod.exhaust)
  note spec = order_db_okD(1) [OF ok c]
  show ?case
  proof (cases ri)
    case (Inl e)
    with Cons.prems c spec show ?thesis by (intro conjI exI [of _ "[]"]) auto
  next
    case (Inr i')
    obtain rs w2 where s: "save_items db is w1 = (rs, w2)" by (metis prod.exhaust)
    from Cons.IH [OF s] obtain rows where rows: "orders w2 = orders w1" "items w2 = items w1 @ rows"
        "map item_fields rows = map item_row (take (length rows) is)" "length rows \<le> length is"
        "\<And>saved. rs = Inr saved \<Longrightarrow> length rows = length is \<and> saved = map item_result is" by blast
    from spec Inr obtain b where b: "orders w1 = orders w" "i' = (item_row i)\<lparr>oi_Base := b\<rparr>" "items w1 = items w @ [i']" by auto
    from Cons.prems c s Inr have r: "w' = w2" "\<And>saved. r = Inr saved \<Longrightarrow> \<exists>xs. rs = Inr xs \<and> saved = item_result i # xs"
      by (auto split: sum.splits)
    show ?thesis
    proof (intro conjI exI [of _ "i' # rows"])
      show "\<forall>saved. r = Inr saved \<longrightarrow> length (i' # rows) = length (i # is) \<and> saved = map item_result (i # is)"
        using r(2) rows(5) by force
    qed (use b rows r(1) in simp_all)
  qed
qed simp

lemma SaveOrder_spec:
  assumes ok: "order_db_ok db orders items" and run: "SaveOrder db p w = (r, w')"
  shows "(\<exists>rows. items w' = items w @ rows \<and> map item_fields rows = map item_row (take (length rows) (co_Items p))
             \<and> length rows \<le> length (co_Items p) \<and> (\<forall>x. r = Inr x \<longrightarrow> length rows = length (co_Items p)))"
    "r = Inl e \<Longrightarrow> orders w' = orders w"
    "r = Inr x \<Longrightarrow> rs_Status x = [] \<and> rs_Items x = map item_result (co_Items p)
       \<and> rs_CustomerName x = co_CustomerName p \<and> rs_TotalAmount x = co_TotalAmount p \<and> rs_Address x = co_Address p
       \<and> orders w (rs_Id x) = None
       \<and> (\<exists>b. bm_ID b = rs_Id x \<and> orders w' = (orders w)(rs_Id x \<mapsto>
             \<lparr>od_Base = b, od_CustomerName = co_CustomerName p, od_TotalAmount = co_TotalAmount p,
              od_Status = ''PENDING'', od_Address = co_Address p\<rparr>))"
proof -
  obtain ri w1 where s: "save_items db (co_Items p) w = (ri, w1)" by (metis prod.exhaust)
  from save_items_spec [OF ok s] obtain rows where rows: "orders w1 = orders w" "items w1 = items w @ rows"
      "map item_fields rows = map item_row (take (length rows) (co_Items p))" "length rows \<le> length (co_Items p)"
      "\<And>saved. ri = Inr saved \<Longrightarrow> length rows = length (co_Items p) \<and> saved = map item_result (co_Items p)" by blast
  let ?p = "\<lparr>od_Base = zero_base, od_CustomerName = co_CustomerName p, od_TotalAmount = co_TotalAmount p,
              od_Status = ''PENDING'', od_Address = co_Address p\<rparr>"
  obtain ro w2 where c: "ob_create_order db ?p w1 = (ro, w2)" by (metis prod.exhaust)
  note created = order_db_okD(2) [OF ok c]
  have same: "items w' = items w1" using run s c created by (cases ri; cases ro) (auto simp: SaveOrder_def Let_def)
  have "ri = Inr (map item_result (co_Items p)) \<or> (\<exists>e. ri = Inl e)" using rows(5) by (cases ri) auto
  with rows same run s c show "\<exists>rows. items w' = items w @ rows \<and> map item_fields rows = map item_row (take (length rows) (co_Items p))
             \<and> length rows \<le> length (co_Items p) \<and> (\<forall>x. r = Inr x \<longrightarrow> length rows = length (co_Items p))"
    by (intro exI [of _ rows]) (auto simp: SaveOrder_def Let_def)
  show "r = Inl e \<Longrightarrow> orders w' = orders w"
    using run s c created rows(1) by (cases ri; cases ro) (auto simp: SaveOrder_def Let_def)
  show "r = Inr x \<Longrightarrow> rs_Status x = [] \<and> rs_Items x = map item_result (co_Items p)
       \<and> rs_CustomerName x = co_CustomerName p \<and> rs_TotalAmount x = co_TotalAmount p \<and> rs_Address x = co_Address p
       \<and> orders w (rs_Id x) = None
       \<and> (\<exists>b. bm_ID b = rs_Id x \<and> orders w' = (orders w)(rs_Id x \<mapsto>
             \<lparr>od_Base = b, od_CustomerName = co_CustomerName p, od_TotalAmount = co_TotalAmount p,
              od_Status = ''PENDING'', od_Address = co_Address p\<rparr>))"
    using run s c created rows(1,5) by (cases ri; cases ro) (auto simp: SaveOrder_def Let_def)
qed

subsection \<open>The breaker opens at sixty per cent\<close>

lemma fround_three_fifths:
  obtains s where "fround (3 / 5) = Fin s" "\<bar>s - 3 / 5\<bar> \<le> 1 / 2 ^ 54"
proof -
  have "\<bar>3 / 5 :: rat\<bar> < 2 ^ 0" by simp
  from fround_near_ex [OF this] obtain v where "fround (3 / 5) = Fin v" "\<bar>v - 3 / 5\<bar> \<le> 2 powi (- 54)" by auto
  moreover have "(2 :: rat) powi (- 54) = 1 / 2 ^ 54" by (simp add: power_int_def inverse_eq_divide power_divide)
  ultimately show ?thesis using that by metis
qed

text \<open>A quotient of two counters differs from three fifths by much more than the rounding.\<close>

lemma quotient_vs_three_fifths:
  fixes f r :: int and e :: rat
  assumes "0 < r" "r < 2 ^ 32" "0 \<le> f" "5 * (2 ^ 32 * e) < 1" "0 < e"
  shows "5 * f < 3 * r \<Longrightarrow> of_int f / of_int r + e < 3 / 5"
    "3 * r < 5 * f \<Longrightarrow> 3 / 5 + e < of_int f / of_int r"
proof -
  define F R :: rat where "F = of_int f" and "R = of_int r"
  have R: "0 < R" "R \<le> 2 ^ 32" using assms(1,2) by (simp_all add: R_def of_int_le_numeral_power_cancel_iff)
  have "R * e \<le> 2 ^ 32 * e" using R(2) assms(5) by (intro mult_right_mono) simp_all
  with assms(4) have small: "5 * (e * R) < 1" by (simp add: mult.commute)
  have gap: "5 * F + 1 \<le> 3 * R" if "5 * f < 3 * r"
    using that of_int_le_iff [where ?'a = rat, of "5 * f + 1" "3 * r"] by (simp add: F_def R_def)
  have gap': "3 * R + 1 \<le> 5 * F" if "3 * r < 5 * f"
    using that of_int_le_iff [where ?'a = rat, of "3 * r + 1" "5 * f"] by (simp add: F_def R_def)
  show "of_int f / of_int r + e < 3 / 5" if "5 * f < 3 * r"
  proof -
    have "F + e * R < 3 / 5 * R" using gap [OF that] small by simp
    then have "(F + e * R) / R < 3 / 5" using R(1) by (simp only: divide_less_eq if_P)
    then show ?thesis using R(1) by (simp add: add_divide_distrib F_def [symmetric] R_def [symmetric])
  qed
  show "3 / 5 + e < of_int f / of_int r" if "3 * r < 5 * f"
  proof -
    have "3 / 5 * R + e * R < F" using gap' [OF that] small by simp
    then have "(3 / 5 + e) * R < F" by (simp only: distrib_right)
    then show ?thesis using R(1) by (simp only: less_divide_eq if_P F_def [symmetric] R_def [symmetric])
  qed
qed

lemma ratio_exact:
  fixes f r :: int
  assumes "0 < r" "r < 2 ^ 32" "0 \<le> f" "f < 2 ^ 32"
  shows "fge (fdiv (float_of_int f) (float_of_int r)) (fround (3 / 5)) \<longleftrightarrow> 3 * r \<le> 5 * f"
proof -
  obtain s where s: "fround (3 / 5) = Fin s" "\<bar>s - 3 / 5\<bar> \<le> 1 / 2 ^ 54" by (rule fround_three_fifths)
  let ?x = "of_int f / of_int r :: rat"
  have q: "fdiv (float_of_int f) (float_of_int r) = fround ?x"
    using assms by (simp add: float_of_int_exact)
  show ?thesis
  proof (cases "r \<le> f")
    case True
    have x: "1 \<le> ?x" using True assms(1) by (simp add: le_divide_eq)
    have "?x \<le> of_int f" using assms(1,3) by (simp add: divide_le_eq mult_le_cancel_left1)
    also have "(of_int f :: rat) < 2 ^ 32" using assms(4) by (simp add: of_int_less_numeral_power_cancel_iff)
    finally have "\<bar>?x\<bar> < 2 ^ 32" using x by simp
    from fround_near_ex [OF this] obtain v where v: "fround ?x = Fin v" "\<And>k. of_int k \<le> ?x \<Longrightarrow> of_int k \<le> v" by auto
    from v(2) [of 1] x have "1 \<le> v" by simp
    moreover have "(1 :: rat) / 2 ^ 54 \<le> 2 / 5" by simp
    ultimately have "s \<le> v" using s(2) by linarith
    with s(1) v(1) q True assms(1) show ?thesis by simp
  next
    case False
    then have "?x < 1" "0 \<le> ?x" using assms(1,3) by (simp_all add: divide_less_eq)
    then have "\<bar>?x\<bar> < 2 ^ 0" by simp
    from fround_near_ex [OF this] obtain v where v: "fround ?x = Fin v" "\<bar>v - ?x\<bar> \<le> 2 powi (- 54)" by auto
    have "(2 :: rat) powi (- 54) = 1 / 2 ^ 54" by (simp add: power_int_def inverse_eq_divide power_divide)
    with v(2) have near: "\<bar>v - ?x\<bar> \<le> 1 / 2 ^ 54" by simp
    have e: "5 * (2 ^ 32 * (1 / 2 ^ 53)) < (1 :: rat)" "(0 :: rat) < 1 / 2 ^ 53" by simp_all
    have half: "(1 :: rat) / 2 ^ 53 = 1 / 2 ^ 54 + 1 / 2 ^ 54" by simp
    consider "5 * f < 3 * r" | "5 * f = 3 * r" | "3 * r < 5 * f" by linarith
    then show ?thesis
    proof cases
      case 1
      from quotient_vs_three_fifths(1) [OF assms(1-3) e 1] near s(2) half have "v < s" by linarith
      with 1 q s(1) v(1) show ?thesis by simp
    next
      case 2
      then have "(5 :: rat) * of_int f = 3 * of_int r" by (metis of_int_mult of_int_numeral)
      then have "?x = 3 / 5" using assms(1) by (simp add: field_simps)
      with 2 q s(1) v(1) show ?thesis by simp
    next
      case 3
      from quotient_vs_three_fifths(2) [OF assms(1-3) e 3] near s(2) half have "s < v" by linarith
      with 3 q s(1) v(1) show ?thesis by simp
    qed
  qed
qed

subsection \<open>Order details\<close>

text \<open>The amounts that a \<^verbatim>\<open>float64\<close> can hold and JSON can carry.\<close>

definition sendable :: "float64 \<Rightarrow> bool" where
  "sendable x \<longleftrightarrow> (\<exists>a. x = Fin a \<and> fround a = Fin a)"

lemma reply_round_trip:
  assumes "sendable (pw_TotalAmount r)"
  obtains j where "json_detail_reply r = Inr j" "read_detail_reply (Some j) = Inr r"
proof -
  from assms obtain a where a: "pw_TotalAmount r = Fin a" "fround a = Fin a" by (auto simp: sendable_def)
  have "read_detail_reply (Some (JObj [(''order_id'', JStr (pw_OrderID r)), (''customer_name'', JStr (pw_CustomerName r)),
         (''total_amount'', JNum a), (''status'', JStr (pw_Status r))])) = Inr r"
    using a by (simp add: find_exact read_reply_field_def zero_reply_def)
  with a(1) that show ?thesis by (simp add: json_detail_reply_def)
qed

lemma request_round_trip:
  "json_detail_request q = Inr j \<Longrightarrow> read_detail_request (Some j) = Inr q"
  by (auto simp: json_detail_request_def find_exact)

text \<open>
  What is relied on of the breaker and of the connection, as far as the table of orders is
  concerned: an answer that the breaker gives is one of the call it was given, and an answer to a
  request is one of the subscribed callback.
\<close>

definition breaker_ok :: "('m, 'w) breaker \<Rightarrow> ('w \<Rightarrow> 't) \<Rightarrow> bool" where
  "breaker_ok execute table \<longleftrightarrow>
     (\<forall>q w m w'. execute q w = (Inr m, w') \<longrightarrow> (\<exists>w0 w1. table w0 = table w \<and> q w0 = (Inr m, w1)))"

definition answered_by ::
  "(string \<Rightarrow> json option \<Rightarrow> int \<Rightarrow> 'w \<Rightarrow> json option result \<times> 'w) \<Rightarrow> string
     \<Rightarrow> (json option \<Rightarrow> 'w \<Rightarrow> json option option \<times> 'w) \<Rightarrow> ('w \<Rightarrow> 't) \<Rightarrow> bool" where
  "answered_by request subject callback table \<longleftrightarrow>
     (\<forall>data t w m w'. request subject data t w = (Inr m, w') \<longrightarrow>
        (\<exists>w0. table w0 = table w \<and> fst (callback data w0) = Some m))"

lemma answer_spec:
  assumes "order_db_ok db orders items" and "json_detail_request q = Inr j"
    and "fst (answer_order_detail (NewOrderPostgreRepository db) (Some j) w) = Some m"
  obtains row where "orders w (qw_OrderID q) = Some row"
    "m = (case json_detail_reply \<lparr>pw_OrderID = qw_OrderID q, pw_CustomerName = od_CustomerName row,
            pw_TotalAmount = od_TotalAmount row, pw_Status = od_Status row\<rparr> of Inl err \<Rightarrow> None | Inr j \<Rightarrow> Some j)"
proof -
  obtain r w1 where f: "ob_first_order db (qw_OrderID q) w = (r, w1)" by (metis prod.exhaust)
  have read: "read_detail_request (Some j) = Inr q" using assms(2) by (rule request_round_trip)
  from f assms(3) obtain row where r: "r = Inr row"
    by (cases r) (simp_all add: answer_order_detail_def read NewOrderPostgreRepository_def FindByID_def)
  from order_db_okD(3) [OF assms(1) f] r have row: "orders w (qw_OrderID q) = Some row" "bm_ID (od_Base row) = qw_OrderID q" by auto
  show ?thesis
    using assms(3) f r row(2)
    by (intro that [OF row(1)]) (simp add: answer_order_detail_def read NewOrderPostgreRepository_def FindByID_def)
qed

lemma GetOrderDetail_spec:
  assumes "order_db_ok db orders items" and "breaker_ok execute orders"
    and "answered_by request subjectGetOrderDetail (answer_order_detail (NewOrderPostgreRepository db)) orders"
    and "orders w k = Some row" and "sendable (od_TotalAmount row)"
    and "GetOrderDetail execute request \<lparr>dq_OrderID = k\<rparr> w = (r, w')"
  shows "r = Inr \<lparr>dt_OrderID = k, dt_CustomerName = od_CustomerName row, dt_TotalAmount = od_TotalAmount row,
              dt_Status = od_Status row\<rparr>
       \<or> (\<exists>e. r = Inl (WrapError ''nats request: '' e []))"
proof -
  let ?q = "\<lparr>qw_OrderID = k\<rparr>"
  obtain j where j: "json_detail_request ?q = Inr j" by (simp add: json_detail_request_def)
  obtain m w1 where ex: "execute (request subjectGetOrderDetail (Some j) requestTimeout) w = (m, w1)" by (metis prod.exhaust)
  show ?thesis
  proof (cases m)
    case (Inl e)
    with assms(6) j ex show ?thesis by (auto simp: GetOrderDetail_def)
  next
    case (Inr msg)
    with assms(2) ex obtain w0 w2 where "orders w0 = orders w"
        "request subjectGetOrderDetail (Some j) requestTimeout w0 = (Inr msg, w2)" unfolding breaker_ok_def by blast
    with assms(3) obtain w3 where w3: "orders w3 = orders w"
        "fst (answer_order_detail (NewOrderPostgreRepository db) (Some j) w3) = Some msg" unfolding answered_by_def by metis
    let ?wire = "\<lparr>pw_OrderID = k, pw_CustomerName = od_CustomerName row, pw_TotalAmount = od_TotalAmount row,
        pw_Status = od_Status row\<rparr>"
    obtain j' where j': "json_detail_reply ?wire = Inr j'" "read_detail_reply (Some j') = Inr ?wire"
      using reply_round_trip [of ?wire] assms(5) by auto
    from answer_spec [OF assms(1) j w3(2)] w3(1) assms(4) j'(1) have "msg = Some j'" by auto
    with assms(6) j ex Inr j'(2) show ?thesis by (simp add: GetOrderDetail_def)
  qed
qed

text \<open>A store of orders that numbers its rows and refuses new orders when it is closed.\<close>

record order_store =
  os_orders :: "string \<Rightarrow> Order option"
  os_items :: "OrderItem list"
  os_closed :: bool

definition demo_order_db :: "order_store order_db" where
  "demo_order_db =
     \<lparr>ob_create_item = (\<lambda>i w. (Inr i, w\<lparr>os_items := os_items w @ [i]\<rparr>)),
      ob_create_order = (\<lambda>r w. if os_closed w \<or> os_orders w ''1'' \<noteq> None then (Inl (ErrorString ''read only''), w)
        else let r' = r\<lparr>od_Base := zero_base\<lparr>bm_ID := ''1''\<rparr>\<rparr> in (Inr r', w\<lparr>os_orders := (os_orders w)(''1'' \<mapsto> r')\<rparr>)),
      ob_first_order = (\<lambda>k w. case os_orders w k of
          None \<Rightarrow> (Inl (ErrorString ''record not found''), w)
        | Some r \<Rightarrow> if bm_ID (od_Base r) = k then (Inr r, w) else (Inl (ErrorString ''record not found''), w))\<rparr>"

lemma demo_order_db_ok: "order_db_ok demo_order_db os_orders os_items"
proof -
  have "\<exists>b. i = i\<lparr>oi_Base := b\<rparr>" for i :: OrderItem by (rule exI [of _ "oi_Base i"]) simp
  moreover have "order_created os_orders os_items r w (ob_create_order demo_order_db r w)" for r w
    by (auto simp: demo_order_db_def Let_def intro: exI [of _ "zero_base\<lparr>bm_ID := ''1''\<rparr>"])
  ultimately show ?thesis
    by (auto simp: order_db_ok_def demo_order_db_def split: option.splits)
qed

definition demo_create :: CreateOrderRequest where
  "demo_create = \<lparr>co_CustomerName = ''budi'', co_TotalAmount = Fin 20, co_Address = ''Bogor'',
     co_Items = [\<lparr>it_ProductId = ''p'', it_ProductName = ''cake'', it_Quantity = 2, it_Price = Fin 10\<rparr>]\<rparr>"

definition demo_service :: "(unit, unit, unit, order_store) OrderServiceImpl" where
  "demo_service = \<lparr>sv_customerReq = None, sv_orderRepo = Some (NewOrderPostgreRepository demo_order_db),
     sv_orderPublisher = None, sv_tracer = None\<rparr>"

lemma demo_service_built:
  "NewOrderServiceImpl () [WithOrderRepository (Some (NewOrderPostgreRepository demo_order_db)), WithTracer None] = Inr demo_service"
  by (simp add: NewOrderServiceImpl_def WithOrderRepository_def WithTracer_def demo_service_def)

definition demo_request :: "string \<Rightarrow> json option \<Rightarrow> int \<Rightarrow> order_store \<Rightarrow> json option result \<times> order_store" where
  "demo_request subject data timeout w =
     (case answer_order_detail (NewOrderPostgreRepository demo_order_db) data w of
        (None, w') \<Rightarrow> (Inl (ErrorString ''nats: timeout''), w') | (Some m, w') \<Rightarrow> (Inr m, w'))"

text \<open>
  A service that was built without a repository panics on the first order: nothing requires one at
  construction.
\<close>

lemma service_without_repository:
  "NewOrderServiceImpl tracer [] = Inr srv \<Longrightarrow> CreateOrder srv p w = Panic ''invalid memory address or nil pointer dereference''"
  by (auto simp: NewOrderServiceImpl_def CreateOrder_def)

text \<open>The request for a customer asks fifty times even when every answer arrives, and returns the empty response.\<close>

lemma GetDetailCustomer_asks_fifty_times:
  "GetDetailCustomer (\<lambda>q n. q n) (\<lambda>subject data timeout n. (Inr (), n + 1)) (\<lambda>n. n) marshal zero payload (0 :: nat) = (zero, 50)"
proof -
  have "(ask_customer (\<lambda>q n. q n) (\<lambda>subject data timeout n. (Inr (), n + 1)) (\<lambda>n. n) data ^^ k) (0 :: nat) = k" for data k
    by (induction k) (simp_all add: ask_customer_def)
  then show ?thesis by (simp add: GetDetailCustomer_def Let_def)
qed

section \<open>Properties\<close>

text \<open>
  C14. A created order: when the service answers, one order row was added, under the new id of the
  answer, with the customer, amount and address of the request and status \<^verbatim>\<open>PENDING\<close>, and one item
  row per item, in order. The answer carries the same customer, amount and address, but an empty
  status, and its items have lost their price.
\<close>

theorem create_order_stored:
  assumes "order_db_ok db orders items" and "sv_orderRepo srv = Some (NewOrderPostgreRepository db)"
    and "CreateOrder srv p w = Ret (Inr resp, w')"
  shows "orders w (cs_Id resp) = None
       \<and> (\<exists>b. bm_ID b = cs_Id resp \<and> orders w' = (orders w)(cs_Id resp \<mapsto>
             \<lparr>od_Base = b, od_CustomerName = co_CustomerName p, od_TotalAmount = co_TotalAmount p,
              od_Status = ''PENDING'', od_Address = co_Address p\<rparr>))
       \<and> (\<exists>rows. items w' = items w @ rows \<and> map item_fields rows = map item_row (co_Items p))
       \<and> cs_CustomerName resp = co_CustomerName p \<and> cs_TotalAmount resp = co_TotalAmount p \<and> cs_Address resp = co_Address p
       \<and> cs_Status resp = [] \<and> cs_Items resp = map (\<lambda>i. i\<lparr>it_Price := Fin 0\<rparr>) (co_Items p)"
proof -
  obtain r w1 where s: "SaveOrder db p w = (r, w1)" by (metis prod.exhaust)
  with assms(2,3) obtain x where x: "r = Inr x" "w1 = w'" "resp = \<lparr>cs_Id = rs_Id x, cs_CreatedAt = rs_CreatedAt x,
      cs_UpdatedAt = rs_UpdatedAt x, cs_Status = rs_Status x, cs_CustomerName = rs_CustomerName x,
      cs_TotalAmount = rs_TotalAmount x, cs_Address = rs_Address x, cs_Items = rs_Items x\<rparr>"
    by (cases r) (auto simp: CreateOrder_def NewOrderPostgreRepository_def)
  have "item_result = (\<lambda>i. i\<lparr>it_Price := Fin 0\<rparr>)" by (rule ext) (simp add: item_result_def)
  with SaveOrder_spec(1,3) [OF assms(1) s] x show ?thesis by auto
qed

theorem create_order_stored_witness:
  "\<exists>resp w'. CreateOrder demo_service demo_create \<lparr>os_orders = Map.empty, os_items = [], os_closed = False\<rparr> = Ret (Inr resp, w')
     \<and> map_option od_Status (os_orders w' (cs_Id resp)) = Some ''PENDING'' \<and> cs_Status resp = []"
proof -
  obtain resp w' where r: "CreateOrder demo_service demo_create \<lparr>os_orders = Map.empty, os_items = [], os_closed = False\<rparr> = Ret (Inr resp, w')"
    by (simp add: CreateOrder_def demo_service_def NewOrderPostgreRepository_def SaveOrder_def demo_create_def demo_order_db_def Let_def)
  have "sv_orderRepo demo_service = Some (NewOrderPostgreRepository demo_order_db)" by (simp add: demo_service_def)
  from create_order_stored [OF demo_order_db_ok this r] r show ?thesis by auto
qed

text \<open>
  An order that fails leaves its items behind: the caller always sees the one error, the table
  of orders is as before, but the items written before the failure stay, from none up to all of
  them, since there is no transaction.
\<close>

theorem create_order_failure_leaves_items:
  assumes "order_db_ok db orders items" and "sv_orderRepo srv = Some (NewOrderPostgreRepository db)"
    and "CreateOrder srv p w = Ret (Inl err, w')"
  shows "err = ErrOrderFailedToCreate \<and> orders w' = orders w
       \<and> (\<exists>rows. items w' = items w @ rows \<and> length rows \<le> length (co_Items p)
            \<and> map item_fields rows = map item_row (take (length rows) (co_Items p)))"
proof -
  obtain r w1 where s: "SaveOrder db p w = (r, w1)" by (metis prod.exhaust)
  with assms(2,3) obtain e where "r = Inl e" "w1 = w'" "err = ErrOrderFailedToCreate"
    by (cases r) (auto simp: CreateOrder_def NewOrderPostgreRepository_def)
  with SaveOrder_spec(1,2) [OF assms(1) s] show ?thesis by auto
qed

theorem create_order_failure_leaves_items_witness:
  "\<exists>w'. CreateOrder demo_service demo_create \<lparr>os_orders = Map.empty, os_items = [], os_closed = True\<rparr> = Ret (Inl ErrOrderFailedToCreate, w')
     \<and> os_orders w' = Map.empty \<and> length (os_items w') = 1"
proof -
  let ?w = "\<lparr>os_orders = Map.empty, os_items = [], os_closed = True\<rparr>"
  obtain err w' where r: "CreateOrder demo_service demo_create ?w = Ret (Inl err, w')" "length (os_items w') = 1"
    by (simp add: CreateOrder_def demo_service_def NewOrderPostgreRepository_def SaveOrder_def demo_create_def demo_order_db_def Let_def)
  have "sv_orderRepo demo_service = Some (NewOrderPostgreRepository demo_order_db)" by (simp add: demo_service_def)
  from create_order_failure_leaves_items [OF demo_order_db_ok this r(1)] r show ?thesis by auto
qed



text \<open>
  When a breaker opens: whatever the two 32-bit counters hold, both conditions agree, and the
  comparison of rounded quotients decides exactly whether at least three requests were made and at
  least three fifths of them failed.
\<close>

theorem ReadyToTrip_exact:
  "customer_ReadyToTrip c = detail_ReadyToTrip c
   \<and> (detail_ReadyToTrip c \<longleftrightarrow> 3 \<le> uint (ct_Requests c) \<and> 3 * uint (ct_Requests c) \<le> 5 * uint (ct_TotalFailures c))"
proof -
  have three: "ct_Requests c < 3 \<longleftrightarrow> uint (ct_Requests c) < 3" by (simp add: word_less_def)
  have "uint x < 2 ^ 32" for x :: "32 word" using uint_lt2p [of x] by simp
  then have "fge (fdiv (float_of_int (uint (ct_TotalFailures c))) (float_of_int (uint (ct_Requests c)))) (fround (3 / 5))
      \<longleftrightarrow> 3 * uint (ct_Requests c) \<le> 5 * uint (ct_TotalFailures c)" if "\<not> uint (ct_Requests c) < 3"
    using that by (intro ratio_exact) auto
  with three show ?thesis
    by (auto simp: customer_ReadyToTrip_def detail_ReadyToTrip_def Let_def not_less [symmetric])
qed


end
