(* ===== verification/Nats.thy ===== *)
theory Nats
  imports Orders
begin

text \<open>
  NATS: the connection of \<^verbatim>\<open>infrastructure/messaging/nats\<close>, the driver of
  \<^verbatim>\<open>drivers/messaging/nats\<close> and its order listener and publisher. The client library is third-party
  code, given by its calls; connections and JetStream contexts are numbers. A call on a JetStream
  context or a connection that is nil panics.
\<close>

section \<open>The connection\<close>

record NatsInfrastructureImpl =
  ni_natsCore :: "nat option"
  ni_jetstream :: "nat option"

record 'w nats_api =
  na_Connect :: "'w \<Rightarrow> nat result \<times> 'w"
  na_IsConnected :: "nat \<Rightarrow> 'w \<Rightarrow> bool"
  na_Flush :: "nat \<Rightarrow> 'w \<Rightarrow> 'w"
  na_NewJetStream :: "nat \<Rightarrow> 'w \<Rightarrow> nat result \<times> 'w"
  na_Drain :: "nat \<Rightarrow> 'w \<Rightarrow> go_error option \<times> 'w"
  na_Close :: "nat \<Rightarrow> 'w \<Rightarrow> 'w"

definition NewNatsInfrastructureImpl :: NatsInfrastructureImpl where
  "NewNatsInfrastructureImpl = \<lparr>ni_natsCore = None, ni_jetstream = None\<rparr>"

definition Infra_Init ::
  "'w nats_api \<Rightarrow> NatsInfrastructureImpl \<Rightarrow> 'w \<Rightarrow> go_error option \<times> NatsInfrastructureImpl \<times> 'w" where
  "Infra_Init api n w =
     (case na_Connect api w of
        (Inl err, w1) \<Rightarrow> (Some err, n, w1)
      | (Inr nc, w1) \<Rightarrow>
          if na_IsConnected api nc w1 then
            (case na_NewJetStream api nc (na_Flush api nc w1) of
               (Inl err, w2) \<Rightarrow> (Some err, n, w2)
             | (Inr js, w2) \<Rightarrow> (None, n\<lparr>ni_jetstream := Some js, ni_natsCore := Some nc\<rparr>, w2))
          else (None, n\<lparr>ni_natsCore := Some nc\<rparr>, w1))"

definition Infra_Close :: "'w nats_api \<Rightarrow> NatsInfrastructureImpl \<Rightarrow> 'w \<Rightarrow> go_error option \<times> 'w" where
  "Infra_Close api n w =
     (case ni_natsCore n of
        None \<Rightarrow> (None, w)
      | Some nc \<Rightarrow>
          (case ni_jetstream n of
             None \<Rightarrow> (None, w)
           | Some js \<Rightarrow>
               (case na_Drain api nc w of
                  (Some err, w1) \<Rightarrow> (Some err, w1)
                | (None, w1) \<Rightarrow> (None, na_Close api nc w1))))"

text \<open>The other methods hand their arguments on.\<close>

definition nil_deref :: "'a outcome" where
  "nil_deref = Panic ''invalid memory address or nil pointer dereference''"

definition on_handle :: "nat option \<Rightarrow> (nat \<Rightarrow> 'a) \<Rightarrow> 'a outcome" where
  "on_handle h call = (case h of None \<Rightarrow> nil_deref | Some x \<Rightarrow> Ret (call x))"

definition Infra_CreateConsumer ::
  "(nat \<Rightarrow> string \<Rightarrow> 'g \<Rightarrow> 'w \<Rightarrow> 'c result \<times> 'w) \<Rightarrow> NatsInfrastructureImpl \<Rightarrow> string \<Rightarrow> 'g \<Rightarrow> 'w \<Rightarrow> ('c result \<times> 'w) outcome" where
  "Infra_CreateConsumer call n stream cfg w = on_handle (ni_jetstream n) (\<lambda>js. call js stream cfg w)"

definition Infra_CreateOrUpdateConsumer ::
  "(nat \<Rightarrow> string \<Rightarrow> 'g \<Rightarrow> 'w \<Rightarrow> 'c result \<times> 'w) \<Rightarrow> NatsInfrastructureImpl \<Rightarrow> string \<Rightarrow> 'g \<Rightarrow> 'w \<Rightarrow> ('c result \<times> 'w) outcome" where
  "Infra_CreateOrUpdateConsumer call n stream cfg w = on_handle (ni_jetstream n) (\<lambda>js. call js stream cfg w)"

definition Infra_Publish ::
  "(nat \<Rightarrow> string \<Rightarrow> string \<Rightarrow> 'w \<Rightarrow> 'a result \<times> 'w) \<Rightarrow> NatsInfrastructureImpl \<Rightarrow> string \<Rightarrow> string \<Rightarrow> 'w \<Rightarrow> ('a result \<times> 'w) outcome" where
  "Infra_Publish call n subject payload w = on_handle (ni_jetstream n) (\<lambda>js. call js subject payload w)"

definition Infra_Request ::
  "(nat \<Rightarrow> string \<Rightarrow> 'd \<Rightarrow> int \<Rightarrow> 'w \<Rightarrow> 'm result \<times> 'w) \<Rightarrow> NatsInfrastructureImpl \<Rightarrow> string \<Rightarrow> 'd \<Rightarrow> int \<Rightarrow> 'w
     \<Rightarrow> ('m result \<times> 'w) outcome" where
  "Infra_Request call n subj data timeout w = on_handle (ni_natsCore n) (\<lambda>nc. call nc subj data timeout w)"

definition Infra_Subscribe ::
  "(nat \<Rightarrow> string \<Rightarrow> 'h \<Rightarrow> 'w \<Rightarrow> 'u result \<times> 'w) \<Rightarrow> NatsInfrastructureImpl \<Rightarrow> string \<Rightarrow> 'h \<Rightarrow> 'w \<Rightarrow> ('u result \<times> 'w) outcome" where
  "Infra_Subscribe call n subj cb w = on_handle (ni_natsCore n) (\<lambda>nc. call nc subj cb w)"

definition Infra_DeleteConsumer ::
  "(nat \<Rightarrow> string \<Rightarrow> string \<Rightarrow> 'w \<Rightarrow> go_error option \<times> 'w) \<Rightarrow> NatsInfrastructureImpl \<Rightarrow> string \<Rightarrow> string \<Rightarrow> 'w \<Rightarrow> (go_error option \<times> 'w) outcome" where
  "Infra_DeleteConsumer call n stream consumer w = on_handle (ni_jetstream n) (\<lambda>js. call js stream consumer w)"

definition Infra_OrderedConsumer ::
  "(nat \<Rightarrow> string \<Rightarrow> 'g \<Rightarrow> 'w \<Rightarrow> 'c result \<times> 'w) \<Rightarrow> NatsInfrastructureImpl \<Rightarrow> string \<Rightarrow> 'g \<Rightarrow> 'w \<Rightarrow> ('c result \<times> 'w) outcome" where
  "Infra_OrderedConsumer call n stream cfg w = on_handle (ni_jetstream n) (\<lambda>js. call js stream cfg w)"

definition Infra_PublishAsync ::
  "(nat \<Rightarrow> string \<Rightarrow> string \<Rightarrow> 'o list \<Rightarrow> 'w \<Rightarrow> 'f result \<times> 'w) \<Rightarrow> NatsInfrastructureImpl \<Rightarrow> string \<Rightarrow> string \<Rightarrow> 'o list \<Rightarrow> 'w \<Rightarrow> ('f result \<times> 'w) outcome" where
  "Infra_PublishAsync call n subject payload opts w = on_handle (ni_jetstream n) (\<lambda>js. call js subject payload opts w)"

definition Infra_PublishAsyncComplete ::
  "(nat \<Rightarrow> 'w \<Rightarrow> 'd \<times> 'w) \<Rightarrow> NatsInfrastructureImpl \<Rightarrow> 'w \<Rightarrow> ('d \<times> 'w) outcome" where
  "Infra_PublishAsyncComplete call n w = on_handle (ni_jetstream n) (\<lambda>js. call js w)"

definition Infra_PublishAsyncPending ::
  "(nat \<Rightarrow> 'w \<Rightarrow> int \<times> 'w) \<Rightarrow> NatsInfrastructureImpl \<Rightarrow> 'w \<Rightarrow> (int \<times> 'w) outcome" where
  "Infra_PublishAsyncPending call n w = on_handle (ni_jetstream n) (\<lambda>js. call js w)"

definition Infra_PublishMsg ::
  "(nat \<Rightarrow> 'm \<Rightarrow> 'o list \<Rightarrow> 'w \<Rightarrow> 'a result \<times> 'w) \<Rightarrow> NatsInfrastructureImpl \<Rightarrow> 'm \<Rightarrow> 'o list \<Rightarrow> 'w \<Rightarrow> ('a result \<times> 'w) outcome" where
  "Infra_PublishMsg call n msg opts w = on_handle (ni_jetstream n) (\<lambda>js. call js msg opts w)"

definition Infra_PublishMsgAsync ::
  "(nat \<Rightarrow> 'm \<Rightarrow> 'o list \<Rightarrow> 'w \<Rightarrow> 'f result \<times> 'w) \<Rightarrow> NatsInfrastructureImpl \<Rightarrow> 'm \<Rightarrow> 'o list \<Rightarrow> 'w \<Rightarrow> ('f result \<times> 'w) outcome" where
  "Infra_PublishMsgAsync call n msg opts w = on_handle (ni_jetstream n) (\<lambda>js. call js msg opts w)"

definition Infra_CreateOrUpdateKeyValue ::
  "(nat \<Rightarrow> 'g \<Rightarrow> 'w \<Rightarrow> 'k result \<times> 'w) \<Rightarrow> NatsInfrastructureImpl \<Rightarrow> 'g \<Rightarrow> 'w \<Rightarrow> ('k result \<times> 'w) outcome" where
  "Infra_CreateOrUpdateKeyValue call n cfg w = on_handle (ni_jetstream n) (\<lambda>js. call js cfg w)"

definition Infra_CreateOrUpdateObjectStore ::
  "(nat \<Rightarrow> 'g \<Rightarrow> 'w \<Rightarrow> 's result \<times> 'w) \<Rightarrow> NatsInfrastructureImpl \<Rightarrow> 'g \<Rightarrow> 'w \<Rightarrow> ('s result \<times> 'w) outcome" where
  "Infra_CreateOrUpdateObjectStore call n cfg w = on_handle (ni_jetstream n) (\<lambda>js. call js cfg w)"

definition Infra_CreateOrUpdateStream ::
  "(nat \<Rightarrow> 'g \<Rightarrow> 'w \<Rightarrow> 's result \<times> 'w) \<Rightarrow> NatsInfrastructureImpl \<Rightarrow> 'g \<Rightarrow> 'w \<Rightarrow> ('s result \<times> 'w) outcome" where
  "Infra_CreateOrUpdateStream call n cfg w = on_handle (ni_jetstream n) (\<lambda>js. call js cfg w)"

section \<open>The order listener\<close>

record ConsumerConfig =
  cc_Name :: string
  cc_Durable :: string
  cc_AckWait :: int
  cc_explicit_ack :: bool
  cc_Description :: string
  cc_MaxAckPending :: int
  cc_MaxDeliver :: int
  cc_BackOff :: "int list"
  cc_MaxRequestBatch :: int

definition event_sourcing_config :: ConsumerConfig where
  "event_sourcing_config = \<lparr>cc_Name = ''processor-2'', cc_Durable = ''processor-2'', cc_AckWait = second,
     cc_explicit_ack = True, cc_Description = ''Handling Asset stream'', cc_MaxAckPending = 100, cc_MaxDeliver = 5,
     cc_BackOff = [5 * second, 30 * second, 300 * second], cc_MaxRequestBatch = 0\<rparr>"

definition ephemeral_config :: ConsumerConfig where
  "ephemeral_config = \<lparr>cc_Name = ''reporting-3'', cc_Durable = ''reporting-3'', cc_AckWait = 0,
     cc_explicit_ack = False, cc_Description = [], cc_MaxAckPending = 0, cc_MaxDeliver = 0,
     cc_BackOff = [], cc_MaxRequestBatch = 1000\<rparr>"

text \<open>
  The callbacks. \<open>meta\<close> is what the metadata of the message gives, \<open>unmarshal\<close> the decoder, which
  leaves a value also when it fails; \<open>sleep\<close> and \<open>ack\<close> are the last two calls.
\<close>

definition ephemeral_callback ::
  "('d \<Rightarrow> 'o \<times> go_error option) \<Rightarrow> nat result \<Rightarrow> 'd \<Rightarrow> 'w \<Rightarrow> 'w outcome" where
  "ephemeral_callback unmarshal meta data w =
     (case unmarshal data of
        (req, err) \<Rightarrow>
          (case meta of
             Inl err \<Rightarrow> nil_deref
           | Inr sequence \<Rightarrow> (case OrderReport_Receive req w of (err, w1) \<Rightarrow> Ret w1)))"

definition event_sourcing_callback ::
  "('d \<Rightarrow> 'o \<times> go_error option) \<Rightarrow> ('w \<Rightarrow> 'w) \<Rightarrow> ('w \<Rightarrow> 'w) \<Rightarrow> nat result \<Rightarrow> 'd \<Rightarrow> 'w \<Rightarrow> 'w outcome" where
  "event_sourcing_callback unmarshal sleep ack meta data w =
     (case unmarshal data of
        (req, err) \<Rightarrow>
          (case meta of
             Inl err \<Rightarrow> nil_deref
           | Inr sequence \<Rightarrow> (case OrderReport_Receive req w of (err, w1) \<Rightarrow> Ret (ack (sleep w1)))))"

text \<open>
  Subscribing makes the consumer and hands it the callback. The error of the first call is only
  logged, so a consumer that is nil panics. \<open>consume\<close> is the call on a consumer.
\<close>

definition consume_with ::
  "('c result \<times> 'w) outcome \<Rightarrow> ('c \<Rightarrow> 'h \<Rightarrow> 'w \<Rightarrow> 'u result \<times> 'w) \<Rightarrow> 'h \<Rightarrow> ('u result \<times> 'w) outcome" where
  "consume_with made consume callback =
     (case made of
        Panic msg \<Rightarrow> Panic msg
      | Ret (Inl err, w1) \<Rightarrow> nil_deref
      | Ret (Inr consumer, w1) \<Rightarrow> Ret (consume consumer callback w1))"

definition SubscribeEventSourcing ::
  "(nat \<Rightarrow> string \<Rightarrow> ConsumerConfig \<Rightarrow> 'w \<Rightarrow> 'c result \<times> 'w)
     \<Rightarrow> ('c \<Rightarrow> (nat result \<Rightarrow> 'd \<Rightarrow> 'w \<Rightarrow> 'w outcome) \<Rightarrow> 'w \<Rightarrow> 'u result \<times> 'w) \<Rightarrow> ('d \<Rightarrow> 'o \<times> go_error option)
     \<Rightarrow> ('w \<Rightarrow> 'w) \<Rightarrow> ('w \<Rightarrow> 'w) \<Rightarrow> NatsInfrastructureImpl \<Rightarrow> string \<Rightarrow> 'w \<Rightarrow> ('u result \<times> 'w) outcome" where
  "SubscribeEventSourcing create consume unmarshal sleep ack n stream w =
     consume_with (Infra_CreateOrUpdateConsumer create n stream event_sourcing_config w) consume
       (event_sourcing_callback unmarshal sleep ack)"

definition SubscribeEphemeral ::
  "(nat \<Rightarrow> string \<Rightarrow> ConsumerConfig \<Rightarrow> 'w \<Rightarrow> 'c result \<times> 'w)
     \<Rightarrow> ('c \<Rightarrow> (nat result \<Rightarrow> 'd \<Rightarrow> 'w \<Rightarrow> 'w outcome) \<Rightarrow> 'w \<Rightarrow> 'u result \<times> 'w) \<Rightarrow> ('d \<Rightarrow> 'o \<times> go_error option)
     \<Rightarrow> NatsInfrastructureImpl \<Rightarrow> string \<Rightarrow> 'w \<Rightarrow> ('u result \<times> 'w) outcome" where
  "SubscribeEphemeral create consume unmarshal n stream w =
     consume_with (Infra_CreateOrUpdateConsumer create n stream ephemeral_config w) consume (ephemeral_callback unmarshal)"

section \<open>The driver\<close>

text \<open>
  What registering the listeners does after the subscription: without a database nothing more, else
  the listener for order details is started; its error is only logged. \<open>subscribe\<close> is the call on
  the connection.
\<close>

definition registerListener ::
  "('w \<Rightarrow> ('u result \<times> 'w) outcome)
     \<Rightarrow> (nat \<Rightarrow> string \<Rightarrow> (json option \<Rightarrow> 'w \<Rightarrow> json option option \<times> 'w) \<Rightarrow> 'w \<Rightarrow> 's result \<times> 'w)
     \<Rightarrow> 'w order_db option \<Rightarrow> NatsInfrastructureImpl \<Rightarrow> 'w \<Rightarrow> 'w outcome" where
  "registerListener subscribe_orders subscribe db n w =
     (case subscribe_orders w of
        Panic msg \<Rightarrow> Panic msg
      | Ret (_, w1) \<Rightarrow>
          (case db of
             None \<Rightarrow> Ret w1
           | Some d \<Rightarrow>
               (case ni_natsCore n of
                  None \<Rightarrow> nil_deref
                | Some nc \<Rightarrow>
                    (case OrderDetailListener_Start (subscribe nc) (NewOrderPostgreRepository d) None w1 of
                       (err, sub, w2) \<Rightarrow> Ret w2))))"

record NatsMesssaging =
  nm_infra :: "NatsInfrastructureImpl option"
  nm_runListener :: bool

definition NewNatsMessaging :: "bool \<Rightarrow> NatsMesssaging" where
  "NewNatsMessaging runListener = \<lparr>nm_infra = None, nm_runListener = runListener\<rparr>"

definition NatsMessaging_Init ::
  "'w nats_api \<Rightarrow> (NatsInfrastructureImpl \<Rightarrow> 'w \<Rightarrow> 'w outcome) \<Rightarrow> NatsMesssaging \<Rightarrow> 'w
     \<Rightarrow> (go_error option \<times> NatsMesssaging \<times> 'w) outcome" where
  "NatsMessaging_Init api register n w =
     (case Infra_Init api NewNatsInfrastructureImpl w of
        (Some err, infra, w1) \<Rightarrow> Ret (Some err, n, w1)
      | (None, infra, w1) \<Rightarrow>
          (let n1 = n\<lparr>nm_infra := Some infra\<rparr>
           in if nm_runListener n
              then (case register infra w1 of Panic msg \<Rightarrow> Panic msg | Ret w2 \<Rightarrow> Ret (None, n1, w2))
              else Ret (None, n1, w1)))"

definition NatsMessaging_Close :: "'w nats_api \<Rightarrow> NatsMesssaging \<Rightarrow> 'w \<Rightarrow> (go_error option \<times> 'w) outcome" where
  "NatsMessaging_Close api n w =
     (case nm_infra n of None \<Rightarrow> nil_deref | Some infra \<Rightarrow> Ret (Infra_Close api infra w))"

section \<open>The publisher\<close>

text \<open>The configured stream is used once and not kept; the error of the call is dropped.\<close>

record OrderPublisher =
  pb_infra :: NatsInfrastructureImpl
  pb_stream :: string

definition NewOrderPublisher ::
  "(nat \<Rightarrow> string \<Rightarrow> unit \<Rightarrow> 'w \<Rightarrow> 'c result \<times> 'w) \<Rightarrow> NatsInfrastructureImpl \<Rightarrow> string \<Rightarrow> 'w
     \<Rightarrow> (OrderPublisher \<times> 'w) outcome" where
  "NewOrderPublisher create infra stream w =
     (case Infra_CreateConsumer create infra stream () w of
        Panic msg \<Rightarrow> Panic msg
      | Ret (_, w1) \<Rightarrow> Ret (\<lparr>pb_infra = infra, pb_stream = []\<rparr>, w1))"

definition OrderPublisher_PublishOrder ::
  "(nat \<Rightarrow> string \<Rightarrow> string \<Rightarrow> 'w \<Rightarrow> 'a result \<times> 'w) \<Rightarrow> OrderPublisher \<Rightarrow> 'w \<Rightarrow> 'w outcome" where
  "OrderPublisher_PublishOrder publish c w =
     (case Infra_Publish publish (pb_infra c) ''orders.20202.failed'' ''Content'' w of
        Panic msg \<Rightarrow> Panic msg
      | Ret (_, w1) \<Rightarrow> Ret w1)"

section \<open>Lemmas\<close>

text \<open>
  What is relied on of the client: connecting gives a new open connection, closing ends it, a
  drained connection may already have ended, and nothing else opens or closes connections.
\<close>

fun connected :: "('w \<Rightarrow> nat set) \<Rightarrow> 'w \<Rightarrow> nat result \<times> 'w \<Rightarrow> bool" where
  "connected opened w (Inl e, w') = (opened w' = opened w)"
| "connected opened w (Inr c, w') = (c \<notin> opened w \<and> opened w' = insert c (opened w))"

fun drained :: "('w \<Rightarrow> nat set) \<Rightarrow> nat \<Rightarrow> 'w \<Rightarrow> go_error option \<times> 'w \<Rightarrow> bool" where
  "drained opened c w (Some e, w') = (opened w' = opened w)"
| "drained opened c w (None, w') = (opened w' = opened w \<or> opened w' = opened w - {c})"

definition nats_ok :: "'w nats_api \<Rightarrow> ('w \<Rightarrow> nat set) \<Rightarrow> bool" where
  "nats_ok api opened \<longleftrightarrow>
     (\<forall>w. connected opened w (na_Connect api w)) \<and> (\<forall>c w. drained opened c w (na_Drain api c w))
   \<and> (\<forall>c w. opened (na_Flush api c w) = opened w) \<and> (\<forall>c w. opened (snd (na_NewJetStream api c w)) = opened w)
   \<and> (\<forall>c w. opened (na_Close api c w) = opened w - {c})"

lemma nats_okD:
  assumes "nats_ok api opened"
  shows "na_Connect api w = r \<Longrightarrow> connected opened w r" "na_Drain api c w = d \<Longrightarrow> drained opened c w d"
    "opened (na_Flush api c w) = opened w" "na_NewJetStream api c w = (j, w') \<Longrightarrow> opened w' = opened w"
    "opened (na_Close api c w) = opened w - {c}"
proof -
  note ok = assms [unfolded nats_ok_def]
  show "na_Connect api w = r \<Longrightarrow> connected opened w r" "na_Drain api c w = d \<Longrightarrow> drained opened c w d"
    "opened (na_Flush api c w) = opened w" "opened (na_Close api c w) = opened w - {c}"
    using ok by auto
  have "opened (snd (na_NewJetStream api c w)) = opened w" using ok by blast
  then show "na_NewJetStream api c w = (j, w') \<Longrightarrow> opened w' = opened w" by simp
qed

lemma Infra_Init_opened:
  assumes "nats_ok api opened" and "Infra_Init api NewNatsInfrastructureImpl w = (err, n, w1)"
  shows "err = None \<Longrightarrow> \<exists>c. ni_natsCore n = Some c \<and> c \<notin> opened w \<and> opened w1 = insert c (opened w)"
    "err \<noteq> None \<Longrightarrow> opened w1 = opened w \<or> (\<exists>c. c \<notin> opened w \<and> opened w1 = insert c (opened w))"
proof -
  obtain r w' where c: "na_Connect api w = (r, w')" by (metis prod.exhaust)
  note conn = nats_okD(1) [OF assms(1) c]
  have *: "(err = None \<longrightarrow> (\<exists>c. ni_natsCore n = Some c \<and> c \<notin> opened w \<and> opened w1 = insert c (opened w)))
      \<and> (err \<noteq> None \<longrightarrow> opened w1 = opened w \<or> (\<exists>c. c \<notin> opened w \<and> opened w1 = insert c (opened w)))"
  proof (cases r)
    case (Inl e)
    with assms(2) c conn show ?thesis by (auto simp: Infra_Init_def)
  next
    case (Inr nc)
    obtain j w2 where j: "na_NewJetStream api nc (na_Flush api nc w') = (j, w2)" by (metis prod.exhaust)
    have "opened w2 = opened w'" using nats_okD(4) [OF assms(1) j] nats_okD(3) [OF assms(1)] by simp
    with assms(2) c conn Inr j show ?thesis by (cases j) (auto simp: Infra_Init_def split: if_splits)
  qed
  then show "err = None \<Longrightarrow> \<exists>c. ni_natsCore n = Some c \<and> c \<notin> opened w \<and> opened w1 = insert c (opened w)"
    "err \<noteq> None \<Longrightarrow> opened w1 = opened w \<or> (\<exists>c. c \<notin> opened w \<and> opened w1 = insert c (opened w))" by blast+
qed

lemma Infra_Close_opened:
  assumes "nats_ok api opened" and "ni_natsCore n = Some c" and "c \<notin> C" and "opened w = insert c C"
    and "Infra_Close api n w = (e, w')"
  shows "opened w' = C \<longleftrightarrow> ni_jetstream n \<noteq> None \<and> e = None" "opened w' = C \<or> opened w' = insert c C"
proof -
  obtain d w1 where d: "na_Drain api c w = (d, w1)" by (metis prod.exhaust)
  note dr = nats_okD(2) [OF assms(1) d]
  have "insert c C \<noteq> C" using assms(3) by blast
  have closed_now: "opened (na_Close api c w1) = C" if "d = None"
    using dr that assms(3,4) nats_okD(5) [OF assms(1), of c w1] by auto
  have kept: "opened w1 = insert c C" if "d = Some x" for x using dr that assms(4) by simp
  have "(opened w' = C \<longleftrightarrow> ni_jetstream n \<noteq> None \<and> e = None) \<and> (opened w' = C \<or> opened w' = insert c C)"
  proof (cases "ni_jetstream n")
    case None
    with assms(2,4,5) \<open>insert c C \<noteq> C\<close> show ?thesis by (simp add: Infra_Close_def)
  next
    case (Some js)
    with assms(2,5) d closed_now kept \<open>insert c C \<noteq> C\<close> show ?thesis by (cases d) (auto simp: Infra_Close_def)
  qed
  then show "opened w' = C \<longleftrightarrow> ni_jetstream n \<noteq> None \<and> e = None" "opened w' = C \<or> opened w' = insert c C" by blast+
qed

text \<open>A listener whose consumer cannot be made takes the process down, also at start-up.\<close>

lemma SubscribeEphemeral_panics:
  "create js stream ephemeral_config w = (Inl err, w1) \<Longrightarrow> ni_jetstream n = Some js \<Longrightarrow>
     SubscribeEphemeral create consume unmarshal n stream w = nil_deref"
  "ni_jetstream n = None \<Longrightarrow> SubscribeEphemeral create consume unmarshal n stream w = nil_deref"
  by (simp_all add: SubscribeEphemeral_def consume_with_def Infra_CreateOrUpdateConsumer_def on_handle_def nil_deref_def)

text \<open>A message that cannot be decoded is acknowledged like any other.\<close>

lemma unreadable_message_acknowledged:
  "unmarshal data = (req, Some err) \<Longrightarrow>
     event_sourcing_callback unmarshal sleep ack (Inr k) data w = Ret (ack (sleep w))"
  by (simp add: event_sourcing_callback_def OrderReport_Receive_def)

section \<open>Properties\<close>


text \<open>A client whose connections are numbered and whose server has JetStream or not.\<close>

definition demo_nats :: "bool \<Rightarrow> nat set nats_api" where
  "demo_nats js =
     \<lparr>na_Connect = (\<lambda>w. if 0 \<in> w then (Inl (ErrorString ''busy''), w) else (Inr 0, insert 0 w)),
      na_IsConnected = (\<lambda>c w. True), na_Flush = (\<lambda>c w. w),
      na_NewJetStream = (\<lambda>c w. (if js then Inr 7 else Inl (ErrorString ''no jetstream''), w)),
      na_Drain = (\<lambda>c w. (None, w)), na_Close = (\<lambda>c w. w - {c})\<rparr>"

lemma demo_nats_ok: "nats_ok (demo_nats js) (\<lambda>w. w)"
  by (simp add: nats_ok_def demo_nats_def)


text \<open>
  Which methods can be called after a start without an error: the requests and subscriptions of the core connection always, the
  methods of JetStream only if the connection was up when it was made, since otherwise no context was created.
\<close>

lemmas jetstream_methods = Infra_CreateConsumer_def Infra_DeleteConsumer_def Infra_OrderedConsumer_def Infra_Publish_def Infra_PublishAsync_def
  Infra_PublishAsyncComplete_def Infra_PublishAsyncPending_def Infra_PublishMsg_def Infra_PublishMsgAsync_def
  Infra_CreateOrUpdateConsumer_def Infra_CreateOrUpdateKeyValue_def Infra_CreateOrUpdateObjectStore_def Infra_CreateOrUpdateStream_def

theorem infra_methods_ready:
  assumes "na_Connect api w = (Inr nc, w0)" and "Infra_Init api NewNatsInfrastructureImpl w = (None, n, w1)"
  shows "Infra_Request request n subj data timeout v = Ret (request nc subj data timeout v)
       \<and> Infra_Subscribe subscribe n subj cb v = Ret (subscribe nc subj cb v)
       \<and> (if na_IsConnected api nc w0
          then \<exists>js. Infra_Publish publish n subj payload v = Ret (publish js subj payload v)
            \<and> Infra_PublishAsync async n subj payload opts v = Ret (async js subj payload opts v)
            \<and> Infra_CreateOrUpdateConsumer create n stream cfg v = Ret (create js stream cfg v)
            \<and> Infra_DeleteConsumer delete n stream name v = Ret (delete js stream name v)
            \<and> Infra_CreateOrUpdateKeyValue kv n bucket v = Ret (kv js bucket v)
          else Infra_Publish publish n subj payload v = nil_deref \<and> Infra_PublishAsync async n subj payload opts v = nil_deref
            \<and> Infra_CreateOrUpdateConsumer create n stream cfg v = nil_deref \<and> Infra_DeleteConsumer delete n stream name v = nil_deref
            \<and> Infra_CreateOrUpdateKeyValue kv n bucket v = nil_deref)"
  using assms
  by (auto simp: Infra_Init_def NewNatsInfrastructureImpl_def jetstream_methods Infra_Request_def Infra_Subscribe_def on_handle_def
      split: prod.splits sum.splits if_splits)

end
