(* ===== verification/Hooks.thy ===== *)
theory Hooks
  imports Go_Prelude "HOL-Library.List_Lexorder" "HOL-Library.Char_ord"
begin

text \<open>
  The hook registry of \<^verbatim>\<open>pkg/hooks/hooks.go\<close>: named handlers that are added once and
  executed alone, all together (in the order of a Go map, which is not determined) or all but an
  excluded set (in the order of the sorted names). A handler may change the world it runs in, the
  type \<open>'w\<close>; an operation on a hook returns the error of the Go method, \<open>None\<close> for nil.
  The lock of the hook makes \<^verbatim>\<open>Add\<close> atomic, so each method is one function.
\<close>

section \<open>State and operations\<close>

type_synonym ('p, 'w) handler = "'p \<Rightarrow> 'w \<Rightarrow> go_error option \<times> 'w"

record ('p, 'w) hook =
  handlers :: "(string, ('p, 'w) handler) gomap"

definition ErrKeyAlreadyExists :: go_error where
  "ErrKeyAlreadyExists = Sentinel ''hooks.ErrKeyAlreadyExists'' ''key already exists''"

definition ErrKeyNotExists :: go_error where
  "ErrKeyNotExists = Sentinel ''hooks.ErrKeyNotExists'' ''key not exists''"

definition ErrHandlerNotRegistered :: go_error where
  "ErrHandlerNotRegistered =
     Sentinel ''hooks.ErrHandlerNotRegistered'' ''handler not registered''"

definition Hook_New :: "('p, 'w) hook" where
  "Hook_New = \<lparr>handlers = mempty\<rparr>"

definition IsKeyAlreadySet :: "('p, 'w) hook \<Rightarrow> string \<Rightarrow> bool" where
  "IsKeyAlreadySet h key = (mget (handlers h) key \<noteq> None)"

definition Hook_Add ::
  "string \<Rightarrow> ('p, 'w) handler \<Rightarrow> ('p, 'w) hook \<Rightarrow> go_error option \<times> ('p, 'w) hook" where
  "Hook_Add key f h =
     (if IsKeyAlreadySet h key then (Some ErrKeyAlreadyExists, h)
      else (None, h\<lparr>handlers := mput key f (handlers h)\<rparr>))"

definition ExecuteOnly ::
  "('p, 'w) hook \<Rightarrow> string \<Rightarrow> 'p \<Rightarrow> 'w \<Rightarrow> go_error option \<times> 'w" where
  "ExecuteOnly h key param w =
     (case mget (handlers h) key of
        None \<Rightarrow> (Some ErrKeyNotExists, w)
      | Some f \<Rightarrow> f param w)"

fun execute_keys ::
  "('p, 'w) hook \<Rightarrow> 'p \<Rightarrow> (string \<Rightarrow> go_error \<Rightarrow> go_error) \<Rightarrow> string list \<Rightarrow> 'w \<Rightarrow> go_error option \<times> 'w"
where
  "execute_keys h param wrap [] w = (None, w)"
| "execute_keys h param wrap (k # ks) w =
     (case ExecuteOnly h k param w of
        (Some e, w') \<Rightarrow> (Some (wrap k e), w')
      | (None, w') \<Rightarrow> execute_keys h param wrap ks w')"

text \<open>The list \<open>ks\<close> is the order in which the loop over the handler map visits its keys.\<close>

definition Execute ::
  "('p, 'w) hook \<Rightarrow> string list \<Rightarrow> 'p \<Rightarrow> 'w \<Rightarrow> go_error option \<times> 'w" where
  "Execute h ks param w =
     (if mlen (handlers h) < 1 then (Some ErrHandlerNotRegistered, w)
      else execute_keys h param (\<lambda>k e. e) ks w)"

definition orderedLoop :: "string list \<Rightarrow> string list" where
  "orderedLoop ks = sort ks"

definition hook_wrap :: "string \<Rightarrow> go_error \<Rightarrow> go_error" where
  "hook_wrap k e = WrapError (''hook '' @ k @ '': '') e ''''"

definition ExecuteWithExclude ::
  "('p, 'w) hook \<Rightarrow> string list \<Rightarrow> 'p \<Rightarrow> string list \<Rightarrow> 'w \<Rightarrow> go_error option \<times> 'w" where
  "ExecuteWithExclude h ks param excludedKeys w =
     (if mlen (handlers h) < 1 then (Some ErrHandlerNotRegistered, w)
      else let ex = set excludedKeys;
               filtered = filter (\<lambda>k. k \<notin> ex) (orderedLoop ks)
           in if filtered = [] then (None, w)
              else execute_keys h param hook_wrap filtered w)"

text \<open>The invariant: no key is stored twice.\<close>

definition hook_inv :: "('p, 'w) hook \<Rightarrow> bool" where
  "hook_inv h = wf_map (handlers h)"

definition hook_get :: "('p, 'w) hook \<Rightarrow> string \<Rightarrow> ('p, 'w) handler option" where
  "hook_get h k = mget (handlers h) k"

text \<open>What running handlers one after the other means, with no error path.\<close>

definition run_handler :: "('p, 'w) hook \<Rightarrow> 'p \<Rightarrow> string \<Rightarrow> 'w \<Rightarrow> 'w" where
  "run_handler h param k w = snd (ExecuteOnly h k param w)"

section \<open>The contract of Add, and its clients\<close>

text \<open>
  A store in which a key is written once: a second write fails and changes nothing.
\<close>

locale write_once_store =
  fixes add :: "'k \<Rightarrow> 'v \<Rightarrow> 's \<Rightarrow> go_error option \<times> 's"
    and get :: "'s \<Rightarrow> 'k \<Rightarrow> 'v option"
    and clash :: go_error
  assumes add_new: "get s k = None \<Longrightarrow> fst (add k v s) = None"
    and add_clash: "get s k \<noteq> None \<Longrightarrow> add k v s = (Some clash, s)"
    and get_add: "get s k = None \<Longrightarrow> get (snd (add k v s)) j = (if j = k then Some v else get s j)"
begin

lemma add_again: "add k u (snd (add k v s)) = (Some clash, snd (add k v s))"
  by (cases "get s k") (auto simp: add_clash get_add)

lemma add_keeps: "get s j = Some u \<Longrightarrow> get (snd (add k v s)) j = Some u"
  by (cases "get s k") (auto simp: add_clash get_add)

lemma add_defines: "get (snd (add k v s)) k \<noteq> None"
  by (cases "get s k") (auto simp: add_clash get_add)

lemma adds_keep: "get s j = Some u \<Longrightarrow> get (fold (\<lambda>(k, v) s. snd (add k v s)) kvs s) j = Some u"
  by (induction kvs arbitrary: s) (auto intro: add_keeps)

end

interpretation hk: write_once_store Hook_Add hook_get ErrKeyAlreadyExists
  by unfold_locales (auto simp: Hook_Add_def hook_get_def IsKeyAlreadySet_def)

interpretation hki: invariant_component "\<lambda>(k, f) h. snd (Hook_Add k f h)" hook_inv
  by unfold_locales (auto simp: Hook_Add_def hook_inv_def)

section \<open>Lemmas\<close>

lemma hook_inv_New [simp, inv_keep]: "hook_inv Hook_New"
  by (simp add: hook_inv_def Hook_New_def)

lemma hook_get_New [simp]: "hook_get Hook_New k = None"
  by (simp add: hook_get_def Hook_New_def)

lemma hook_inv_Add [inv_keep]: "hook_inv h \<Longrightarrow> hook_inv (snd (Hook_Add k f h))"
  using hki.step_inv [of h "(k, f)"] by simp

lemma ExecuteOnly_get: "hook_get h k = Some f \<Longrightarrow> ExecuteOnly h k param w = f param w"
  by (simp add: ExecuteOnly_def hook_get_def)

lemma execute_keys_None:
  "execute_keys h param wrap ks w = (None, w') \<Longrightarrow> w' = fold (run_handler h param) ks w"
  by (induction ks arbitrary: w) (auto simp: run_handler_def split: prod.splits option.splits)

lemma execute_keys_Some:
  assumes "execute_keys h param wrap ks w = (Some e, w')"
  shows "\<exists>before k after e' v. ks = before @ k # after \<and> e = wrap k e'
     \<and> execute_keys h param wrap before w = (None, v) \<and> ExecuteOnly h k param v = (Some e', w')"
  using assms
proof (induction ks arbitrary: w)
  case Nil
  then show ?case by simp
next
  case (Cons a ks)
  show ?case
  proof (cases "ExecuteOnly h a param w")
    case (Pair r v)
    show ?thesis
    proof (cases r)
      case (Some e')
      with Pair Cons.prems show ?thesis
        by (intro exI [of _ "[]"] exI [of _ a] exI [of _ ks] exI [of _ e'] exI [of _ w]) simp
    next
      case None
      with Pair Cons.prems have "execute_keys h param wrap ks v = (Some e, w')" by simp
      then obtain bef k aft e' u where split: "ks = bef @ k # aft" "e = wrap k e'"
        "execute_keys h param wrap bef v = (None, u)" "ExecuteOnly h k param u = (Some e', w')"
        using Cons.IH by blast
      with None Pair show ?thesis
        by (intro exI [of _ "a # bef"] exI [of _ k] exI [of _ aft] exI [of _ e'] exI [of _ u]) simp
    qed
  qed
qed

lemma sort_range_order: "range_order m ks \<Longrightarrow> sort ks = sorted_list_of_set (set (mkeys m))"
  by (metis distinct_remdups_id range_order_def sorted_list_of_set_sort_remdups)

lemma filter_sort_set:
  "finite A \<Longrightarrow> filter P (sorted_list_of_set A) = sorted_list_of_set {x \<in> A. P x}"
  by (rule sorted_distinct_set_unique) (auto simp: sorted_wrt_filter)

lemma set_mkeys_hook: "set (mkeys (handlers h)) = {k. hook_get h k \<noteq> None}"
  by (auto simp: mem_mkeys hook_get_def)

section \<open>Properties\<close>

text \<open>
  \<^verbatim>\<open>Execute\<close> runs handlers of the hook one after the other until one fails. When it returns nil,
  every registered handler has run exactly once and the final world is the one they leave; when
  it returns an error and handlers are registered, the handlers before the failing one have run,
  the failing one has run and produced that error, and none after it has.
\<close>

theorem hook_Execute_runs_all_or_stops:
  assumes "hook_inv h" and "range_order (handlers h) ks" and "Execute h ks param w = (r, w')"
  shows "(r = None \<longrightarrow> ks \<noteq> [] \<and> distinct ks \<and> set ks = {k. hook_get h k \<noteq> None}
            \<and> w' = fold (run_handler h param) ks w)
       \<and> (\<forall>e. r = Some e \<longrightarrow> handlers h \<noteq> mempty \<longrightarrow>
            (\<exists>before k after f. ks = before @ k # after \<and> hook_get h k = Some f
               \<and> f param (fold (run_handler h param) before w) = (Some e, w')))"
proof (intro conjI allI impI)
  assume nil: "r = None"
  with assms(3) have ran: "handlers h \<noteq> mempty" "execute_keys h param (\<lambda>k e. e) ks w = (None, w')"
    by (auto simp: Execute_def mlen_def split: if_splits)
  from ran(2) show "w' = fold (run_handler h param) ks w" by (rule execute_keys_None)
  from ran(1) assms(2) show "ks \<noteq> []" by (simp add: range_order_empty)
  from assms(2) show "distinct ks" and "set ks = {k. hook_get h k \<noteq> None}"
    by (simp_all add: range_order_def set_mkeys_hook)
next
  fix e assume "r = Some e" and ne: "handlers h \<noteq> mempty"
  with assms(3) have "execute_keys h param (\<lambda>k e. e) ks w = (Some e, w')"
    by (simp add: Execute_def mlen_def)
  from execute_keys_Some [OF this] obtain before k after v where *: "ks = before @ k # after"
    "execute_keys h param (\<lambda>k e. e) before w = (None, v)" "ExecuteOnly h k param v = (Some e, w')"
    by blast
  from *(1) assms(2) obtain f where "hook_get h k = Some f"
    using range_order_mem [of "handlers h" ks k] by (auto simp: hook_get_def)
  with * show "\<exists>before k after f. ks = before @ k # after \<and> hook_get h k = Some f
      \<and> f param (fold (run_handler h param) before w) = (Some e, w')"
    using execute_keys_None [OF *(2)] by (auto simp: ExecuteOnly_get)
qed

theorem hook_Execute_runs_all_or_stops_witness:
  "let h = snd (Hook_Add ''b'' (\<lambda>n w. (None, w + n)) (snd (Hook_Add ''a'' (\<lambda>n w. (None, w + 1)) Hook_New)))
   in hook_inv h \<and> range_order (handlers h) [''b'', ''a'']
      \<and> Execute h [''b'', ''a''] (10 :: int) 0 = (None, 11 :: int)
      \<and> fold (run_handler h 10) [''b'', ''a''] 0 = 11"
proof -
  define h where
    "h = snd (Hook_Add ''b'' (\<lambda>n w. (None :: go_error option, w + n :: int))
           (snd (Hook_Add ''a'' (\<lambda>n w. (None, w + 1)) Hook_New)))"
  have inv: "hook_inv h" by (simp add: h_def hook_inv_Add)
  have ord: "range_order (handlers h) [''b'', ''a'']"
    by (auto simp: h_def Hook_Add_def Hook_New_def IsKeyAlreadySet_def range_order_def)
  have run: "Execute h [''b'', ''a''] 10 0 = (None, 11)"
    by (simp add: h_def Hook_Add_def Hook_New_def IsKeyAlreadySet_def Execute_def mlen_def
        ExecuteOnly_def mput_def mget_def)
  from hook_Execute_runs_all_or_stops [OF inv ord run] inv ord run show ?thesis
    by (simp add: Let_def h_def)
qed



text \<open>
  \<^verbatim>\<open>Execute\<close> does depend on that order: with two registered handlers that do not
  commute, two runs over the same hook give different worlds. The keys
  \<^verbatim>\<open>a_load_cfg\<close> and \<^verbatim>\<open>b_bootstrap\<close> are the ones the application
  registers to run in this order.
\<close>

theorem hook_Execute_order_dependent:
  "\<exists>h :: (unit, string list) hook. \<exists>ks ks'.
     hook_inv h \<and> range_order (handlers h) ks \<and> range_order (handlers h) ks'
     \<and> snd (Execute h ks () []) = [''a_load_cfg'', ''b_bootstrap'']
     \<and> snd (Execute h ks' () []) = [''b_bootstrap'', ''a_load_cfg'']"
proof (intro exI conjI)
  let ?h = "snd (Hook_Add ''b_bootstrap'' (\<lambda>n w. (None, w @ [''b_bootstrap'']))
             (snd (Hook_Add ''a_load_cfg'' (\<lambda>n w. (None, w @ [''a_load_cfg''])) Hook_New)))
      :: (unit, string list) hook"
  note defs = Hook_Add_def Hook_New_def IsKeyAlreadySet_def mput_def mget_def Execute_def ExecuteOnly_def mlen_def
  show "hook_inv ?h" by (simp add: hook_inv_Add)
  show "range_order (handlers ?h) [''a_load_cfg'', ''b_bootstrap'']"
    by (auto simp: defs range_order_def mkeys_def)
  show "range_order (handlers ?h) [''b_bootstrap'', ''a_load_cfg'']"
    by (auto simp: defs range_order_def mkeys_def)
  show "snd (Execute ?h [''a_load_cfg'', ''b_bootstrap''] () []) = [''a_load_cfg'', ''b_bootstrap'']"
    by (simp add: defs)
  show "snd (Execute ?h [''b_bootstrap'', ''a_load_cfg''] () []) = [''b_bootstrap'', ''a_load_cfg'']"
    by (simp add: defs)
qed


end
