(* ===== verification/App_Core.thy ===== *)
theory App_Core
  imports Hooks Driver_Manager Data_Manager Logs
begin

text \<open>
  The application object of \<^verbatim>\<open>internal/base_app.go\<close>, the service around it
  (\<^verbatim>\<open>service.go\<close>, \<^verbatim>\<open>bootstrap/main.go\<close>) and the query runner of \<^verbatim>\<open>internal/query.go\<close>. What
  hook handlers can change is the state \<open>app_state\<close>; the hooks, the driver manager and the context
  are beside it. A panic in a handler unwinds everything: the handler then stops the hook and the
  text is kept in \<open>as_panic\<close>. The order in which a hook visits its map is an argument.
\<close>

section \<open>State\<close>

record ('v, 'x) app_state =
  as_config :: "Config option"
  as_logger :: "int option"
  as_data :: "SqlAdapters DataManager option"
  as_log :: "(int \<times> string) list"
  as_panic :: "string option"
  as_viper :: 'v
  as_ext :: 'x

text \<open>What the application is built on: validation rules, viper, SQL drivers, the map order of aliases.\<close>

record ('v, 'x) app_env =
  en_ozzo :: ozzo
  en_viper :: "'v viper"
  en_driver :: "('v, 'x) app_state db_driver"
  en_order :: "SqlAdapters \<Rightarrow> string list"

record ('i, 'v, 'x) BaseApp =
  ba_state :: "('v, 'x) app_state"
  ba_driver :: "('i, ('v, 'x) app_state) Driver option"
  ba_driverv2 :: "('i, ('v, 'x) app_state) Manager option"
  ba_ctx :: "bool option"
  ba_onBefore :: "(unit, ('v, 'x) app_state) hook option"
  ba_onStop :: "(unit, ('v, 'x) app_state) hook option"
  ba_onAfter :: "(string, ('v, 'x) app_state) hook option"

definition log_at :: "int \<Rightarrow> string \<Rightarrow> ('v, 'x) app_state \<Rightarrow> ('v, 'x) app_state" where
  "log_at level msg s = s\<lparr>as_log := as_log s @ [(level, msg)]\<rparr>"

definition panic_at :: "string \<Rightarrow> ('v, 'x) app_state \<Rightarrow> go_error option \<times> ('v, 'x) app_state" where
  "panic_at m s = (Some (ErrorString m), s\<lparr>as_panic := Some m\<rparr>)"

section \<open>The application\<close>

text \<open>The context: absent, live or cancelled.\<close>

definition Context :: "('i, 'v, 'x) BaseApp \<Rightarrow> ('i, 'v, 'x) BaseApp" where
  "Context b = (case ba_ctx b of Some c \<Rightarrow> b | None \<Rightarrow> b\<lparr>ba_ctx := Some False\<rparr>)"

definition Stop :: "('i, 'v, 'x) BaseApp \<Rightarrow> ('i, 'v, 'x) BaseApp" where
  "Stop b = (case ba_ctx b of None \<Rightarrow> b | Some c \<Rightarrow> b\<lparr>ba_ctx := Some True\<rparr>)"

definition initLogger :: "Config option \<Rightarrow> int" where
  "initLogger cfg =
     (case cfg of
        Some c \<Rightarrow> if app_Mode (cfg_App c) = ''production'' then LevelInfo else LevelDebug
      | None \<Rightarrow> LevelDebug)"

definition NewBaseApp :: "'v \<Rightarrow> 'x \<Rightarrow> ('i, 'v, 'x) BaseApp" where
  "NewBaseApp v x =
     \<lparr>ba_state = \<lparr>as_config = None, as_logger = Some (initLogger None), as_data = None, as_log = [], as_panic = None,
                  as_viper = v, as_ext = x\<rparr>,
      ba_driver = None, ba_driverv2 = None, ba_ctx = None, ba_onBefore = None, ba_onStop = None, ba_onAfter = None\<rparr>"

definition DriverV1 :: "('i, 'v, 'x) BaseApp \<Rightarrow> ('i, ('v, 'x) app_state) Driver \<times> ('i, 'v, 'x) BaseApp" where
  "DriverV1 b = (case ba_driver b of Some d \<Rightarrow> (d, b) | None \<Rightarrow> (NewDriver, b\<lparr>ba_driver := Some NewDriver\<rparr>))"

definition DriverV2 :: "('i, 'v, 'x) BaseApp \<Rightarrow> ('i, ('v, 'x) app_state) Manager \<times> ('i, 'v, 'x) BaseApp" where
  "DriverV2 b = (case ba_driverv2 b of Some m \<Rightarrow> (m, b) | None \<Rightarrow> (NewManagerV2, b\<lparr>ba_driverv2 := Some NewManagerV2\<rparr>))"

definition OnBeforeApplicationBootstrapped ::
  "('i, 'v, 'x) BaseApp \<Rightarrow> (unit, ('v, 'x) app_state) hook \<times> ('i, 'v, 'x) BaseApp" where
  "OnBeforeApplicationBootstrapped b =
     (case ba_onBefore b of Some h \<Rightarrow> (h, b) | None \<Rightarrow> (Hook_New, b\<lparr>ba_onBefore := Some Hook_New\<rparr>))"

definition OnAfterApplicationBootstrapped ::
  "('i, 'v, 'x) BaseApp \<Rightarrow> (string, ('v, 'x) app_state) hook \<times> ('i, 'v, 'x) BaseApp" where
  "OnAfterApplicationBootstrapped b =
     (case ba_onAfter b of Some h \<Rightarrow> (h, b) | None \<Rightarrow> (Hook_New, b\<lparr>ba_onAfter := Some Hook_New\<rparr>))"

definition OnApplicationStop ::
  "('i, 'v, 'x) BaseApp \<Rightarrow> (unit, ('v, 'x) app_state) hook \<times> ('i, 'v, 'x) BaseApp" where
  "OnApplicationStop b =
     (case ba_onStop b of Some h \<Rightarrow> (h, b) | None \<Rightarrow> (Hook_New, b\<lparr>ba_onStop := Some Hook_New\<rparr>))"

definition App_Config :: "('i, 'v, 'x) BaseApp \<Rightarrow> Config outcome" where
  "App_Config b = (case as_config (ba_state b) of None \<Rightarrow> Panic nil_deref | Some c \<Rightarrow> Ret c)"

definition App_Data :: "('i, 'v, 'x) BaseApp \<Rightarrow> SqlAdapters DataManager option" where
  "App_Data b = as_data (ba_state b)"

definition data_ops :: "('v, 'x) app_env \<Rightarrow> (SqlAdapters, connection, ('v, 'x) app_state) DataAdapter" where
  "data_ops env = sql_data_adapter (en_driver env) (en_order env)"

definition App_Sql :: "('v, 'x) app_env \<Rightarrow> string \<Rightarrow> ('i, 'v, 'x) BaseApp \<Rightarrow> nat outcome" where
  "App_Sql env connName b =
     (case App_Data b of
        None \<Rightarrow> Panic nil_deref
      | Some dm \<Rightarrow>
          (case DataManager_Get (data_ops env) dm ''sql'' connName of
             Panic m \<Rightarrow> Panic m
           | Ret conn \<Rightarrow>
               (case Option.bind conn as_sql of
                  None \<Rightarrow> Panic ''interface conversion: interface {} is not *sql.DB'' | Some db \<Rightarrow> Ret db)))"

definition IsDev :: "('i, 'v, 'x) BaseApp \<Rightarrow> bool outcome" where
  "IsDev b =
     (case as_config (ba_state b) of None \<Rightarrow> Panic nil_deref | Some c \<Rightarrow> Ret (app_Mode (cfg_App c) = ''development''))"

text \<open>\<open>dflt\<close> is the level of the default logger of \<^verbatim>\<open>slog\<close>.\<close>

definition App_Logger :: "int \<Rightarrow> ('i, 'v, 'x) BaseApp \<Rightarrow> int" where
  "App_Logger dflt b = (case as_logger (ba_state b) of None \<Rightarrow> dflt | Some l \<Rightarrow> l)"

section \<open>Starting\<close>

definition initDatasource ::
  "('v, 'x) app_env \<Rightarrow> Config \<Rightarrow> ('v, 'x) app_state \<Rightarrow> SqlAdapters DataManager outcome \<times> ('v, 'x) app_state" where
  "initDatasource env cfg s =
     (let a = AddAdapter ''sql'' (NewSqlAdapters cfg RegisteredSQLAdapters) DataManager_New
      in case DataManager_Connect (data_ops env) ''sql'' (\<lambda>e. log_at LevelError (error_text e)) a s of
           (Panic m, a', s') \<Rightarrow> (Panic m, s')
         | (Ret _, a', s') \<Rightarrow> (Ret a', s'))"

definition a_load_cfg :: "('v, 'x) app_env \<Rightarrow> (string, ('v, 'x) app_state) handler" where
  "a_load_cfg env configPath s =
     (case loadConfig (en_ozzo env) (en_viper env) configPath (as_viper s) of
        (Panic m, v) \<Rightarrow> panic_at m (s\<lparr>as_viper := v\<rparr>)
      | (Ret cfg, v) \<Rightarrow>
          (None, s\<lparr>as_viper := v, as_config := Some cfg, as_logger := Some (initLogger (Some cfg))\<rparr>))"

definition b_bootstrap :: "('v, 'x) app_env \<Rightarrow> (string, ('v, 'x) app_state) handler" where
  "b_bootstrap env configPath s =
     (case loadConfig (en_ozzo env) (en_viper env) configPath (as_viper s) of
        (Panic m, v) \<Rightarrow> panic_at m (s\<lparr>as_viper := v\<rparr>)
      | (Ret cfg, v) \<Rightarrow>
          (let s1 = log_at LevelInfo ''Bootstrapping Application...''
                      (s\<lparr>as_viper := v, as_config := Some cfg, as_logger := Some (initLogger (Some cfg))\<rparr>)
           in case initDatasource env cfg s1 of
                (Panic m, s2) \<Rightarrow> panic_at m s2
              | (Ret dm, s2) \<Rightarrow> (None, log_at LevelInfo ''Application Bootstrapped'' (s2\<lparr>as_data := Some dm\<rparr>))))"

definition Bootstrap ::
  "('v, 'x) app_env \<Rightarrow> string list \<Rightarrow> ('i, 'v, 'x) BaseApp \<Rightarrow> go_error option \<times> ('i, 'v, 'x) BaseApp" where
  "Bootstrap env ks b =
     (let (before, b1) = OnBeforeApplicationBootstrapped b;
          (err, s) = Execute before ks () (ba_state b1);
          (after0, b2) = OnAfterApplicationBootstrapped (b1\<lparr>ba_state := s\<rparr>);
          (err1, after1) = Hook_Add ''a_load_cfg'' (a_load_cfg env) after0;
          (err2, after2) = Hook_Add ''b_bootstrap'' (b_bootstrap env) after1
      in (None, b2\<lparr>ba_onAfter := Some after2\<rparr>))"

section \<open>Stopping\<close>

definition close_connection_db :: "('v, 'x) app_env \<Rightarrow> (unit, ('v, 'x) app_state) handler" where
  "close_connection_db env e s =
     (case as_data s of
        None \<Rightarrow> (None, log_at LevelWarn ''skip closing driver'' s)
      | Some dm \<Rightarrow>
          (case DataManager_Close (data_ops env) ''sql'' (\<lambda>e. log_at LevelError (error_text e)) dm s of
             (Panic m, s') \<Rightarrow> panic_at m s'
           | (Ret _, s') \<Rightarrow> (None, s')))"

definition print_log :: "(unit, ('v, 'x) app_state) handler" where
  "print_log e s = (None, log_at LevelInfo ''Application Stopped, ciao !'' s)"

definition App_Shutdown ::
  "('v, 'x) app_env \<Rightarrow> string list \<Rightarrow> ('i, 'v, 'x) BaseApp \<Rightarrow> go_error option \<times> ('i, 'v, 'x) BaseApp" where
  "App_Shutdown env ks b =
     (let (h, b1) = OnApplicationStop b
      in case Hook_Add ''close_connection_db'' (close_connection_db env) h of
           (Some err, h1) \<Rightarrow> (Some err, b1)
         | (None, h1) \<Rightarrow>
             (let (err2, h2) = Hook_Add ''print_log'' print_log h1;
                  (err3, s) = Execute h2 ks () (ba_state b1)
              in (None, b1\<lparr>ba_onStop := Some h2, ba_state := s\<rparr>)))"

section \<open>The service\<close>

text \<open>What the goroutine of \<^verbatim>\<open>ShutdownSignal\<close> does when the signal comes.\<close>

definition ShutdownSignal :: "('i, 'v, 'x) BaseApp \<Rightarrow> ('i, 'v, 'x) BaseApp" where
  "ShutdownSignal b = Stop b"

definition Service_Shutdown ::
  "('v, 'x) app_env \<Rightarrow> string list \<Rightarrow> string list \<Rightarrow> ('i, 'v, 'x) BaseApp \<Rightarrow> ('i, 'v, 'x) BaseApp" where
  "Service_Shutdown env ks1 ks2 b =
     (let (h, b1) = OnApplicationStop b;
          (err1, s1) = Execute h ks1 () (ba_state b1);
          (m, b2) = DriverV2 (b1\<lparr>ba_state := s1\<rparr>);
          (err2, m', s2) = Manager_CloseAllDriver (\<lambda>name e. log_at LevelWarn ''Error closing driver'') m (ba_state b2)
      in snd (App_Shutdown env ks2 (b2\<lparr>ba_driverv2 := Some m', ba_state := s2\<rparr>)))"

definition Service_Start ::
  "('v, 'x) app_env \<Rightarrow> string list \<Rightarrow> ('i, 'v, 'x) BaseApp \<Rightarrow> ('i, 'v, 'x) BaseApp" where
  "Service_Start env ks b = snd (Bootstrap env ks b)"

text \<open>
  \<^verbatim>\<open>main\<close>: \<open>execute\<close> is the command that cobra runs, \<open>ks\<close> are the visiting orders of the three
  hook runs.
\<close>

definition main_run ::
  "('v, 'x) app_env \<Rightarrow> (('i, 'v, 'x) BaseApp \<Rightarrow> go_error option \<times> ('i, 'v, 'x) BaseApp)
     \<Rightarrow> string list \<Rightarrow> string list \<Rightarrow> string list \<Rightarrow> ('i, 'v, 'x) BaseApp \<Rightarrow> ('i, 'v, 'x) BaseApp" where
  "main_run env execute ks0 ks1 ks2 b =
     (let (err, b2) = execute (Service_Start env ks0 (Context b));
          b3 = Context b2;
          msg = (if ba_ctx b3 = Some True then (LevelInfo, ''Application killed by user (Interrupt)'')
                 else if err \<noteq> None then (LevelError, ''Application finished with error'')
                 else (LevelInfo, ''Application finished successfully''))
      in Service_Shutdown env ks1 ks2 (b3\<lparr>ba_state := log_at (fst msg) (snd msg) (ba_state b3)\<rparr>))"

section \<open>Commands\<close>

text \<open>
  How a command ends: it returns, it ends the process with a status, or it crashes. The drivers that
  a command runs are arguments.
\<close>

datatype 'a run = Done 'a | Exit int | Crash string

type_synonym ('i, 'v, 'x) app_driver = "('i, ('v, 'x) app_state) IDriver"

definition run_driver ::
  "('i, 'v, 'x) app_driver \<Rightarrow> ('i, 'v, 'x) BaseApp \<Rightarrow> go_error option \<times> ('i, 'v, 'x) BaseApp" where
  "run_driver d b =
     (let (m, b1) = DriverV2 b
      in case Manager_RunDriver (Some d) m (ba_state b1) of
           (err, m', s) \<Rightarrow> (err, b1\<lparr>ba_driverv2 := Some m', ba_state := s\<rparr>))"

text \<open>Running the hooks that follow the bootstrap, all of them or all but the one that opens the databases.\<close>

definition run_after :: "string list \<Rightarrow> string \<Rightarrow> ('i, 'v, 'x) BaseApp \<Rightarrow> ('i, 'v, 'x) BaseApp" where
  "run_after ks path b =
     (let (h, b1) = OnAfterApplicationBootstrapped b in b1\<lparr>ba_state := snd (Execute h ks path (ba_state b1))\<rparr>)"

definition run_after_without_db :: "string list \<Rightarrow> string \<Rightarrow> ('i, 'v, 'x) BaseApp \<Rightarrow> ('i, 'v, 'x) BaseApp" where
  "run_after_without_db ks path b =
     (let (h, b1) = OnAfterApplicationBootstrapped b
      in b1\<lparr>ba_state := snd (ExecuteWithExclude h ks path [''b_bootstrap''] (ba_state b1))\<rparr>)"

definition MasterCommand ::
  "string list \<Rightarrow> string \<Rightarrow> ('i, 'v, 'x) app_driver \<Rightarrow> ('i, 'v, 'x) app_driver \<Rightarrow> ('i, 'v, 'x) BaseApp
     \<Rightarrow> go_error option \<times> ('i, 'v, 'x) BaseApp" where
  "MasterCommand ks path master http b =
     (case run_driver master (run_after_without_db ks path b) of
        (Some err, b1) \<Rightarrow> (Some err, b1)
      | (None, b1) \<Rightarrow> run_driver http b1)"

definition WorkerCommand ::
  "string list \<Rightarrow> string \<Rightarrow> ('i, 'v, 'x) app_driver \<Rightarrow> ('i, 'v, 'x) BaseApp \<Rightarrow> go_error option \<times> ('i, 'v, 'x) BaseApp" where
  "WorkerCommand ks path worker b = run_driver worker (run_after_without_db ks path b)"

definition HttpCommand ::
  "string list \<Rightarrow> string \<Rightarrow> ('i, 'v, 'x) app_driver \<Rightarrow> ('i, 'v, 'x) BaseApp \<Rightarrow> go_error option \<times> ('i, 'v, 'x) BaseApp" where
  "HttpCommand ks path http b = (None, snd (run_driver http (run_after ks path b)))"

definition MessageBrokerCommand ::
  "string list \<Rightarrow> string \<Rightarrow> ('i, 'v, 'x) app_driver \<Rightarrow> ('i, 'v, 'x) app_driver \<Rightarrow> ('i, 'v, 'x) BaseApp
     \<Rightarrow> (go_error option \<times> ('i, 'v, 'x) BaseApp) run" where
  "MessageBrokerCommand ks path otel nats b =
     (let b1 = run_after ks path b
      in case App_Config b1 of
           Panic m \<Rightarrow> Crash m
         | Ret cfg \<Rightarrow>
             (let (err, b2) = (if mon_EnableTelemetry (cfg_Monitoring cfg) then run_driver otel b1
                               else (None, b1\<lparr>ba_state := log_at LevelInfo ''Telemetry is disabled'' (ba_state b1)\<rparr>))
              in if err \<noteq> None then Exit 1
                 else (case run_driver nats b2 of
                         (Some e, b3) \<Rightarrow>
                           Done (None, b3\<lparr>ba_state := log_at LevelError ''Cannot run driver message-broker'' (ba_state b3)\<rparr>)
                       | (None, b3) \<Rightarrow> Done (None, b3))))"

text \<open>The command that runs everything; \<open>fx\<close> is the run of the FX application, which returns when it is stopped.\<close>

definition AllCommand ::
  "string list \<Rightarrow> string \<Rightarrow> ('i, 'v, 'x) app_driver \<Rightarrow> ('i, 'v, 'x) app_driver \<Rightarrow> (('i, 'v, 'x) BaseApp \<Rightarrow> ('i, 'v, 'x) BaseApp)
     \<Rightarrow> ('i, 'v, 'x) BaseApp \<Rightarrow> (go_error option \<times> ('i, 'v, 'x) BaseApp) run" where
  "AllCommand ks path otel nats fx b =
     (let b1 = run_after ks path b
      in case App_Config b1 of
           Panic m \<Rightarrow> Crash m
         | Ret cfg \<Rightarrow>
             (let (err, b2) = (if mon_EnableTelemetry (cfg_Monitoring cfg) then run_driver otel b1
                               else (None, b1\<lparr>ba_state := log_at LevelInfo ''Telemetry is disabled'' (ba_state b1)\<rparr>))
              in if err \<noteq> None then Exit 1
                 else (case run_driver nats b2 of
                         (Some e, b3) \<Rightarrow>
                           Done (None, fx (b3\<lparr>ba_state := log_at LevelError ''Cannot run driver NATS'' (ba_state b3)\<rparr>))
                       | (None, b3) \<Rightarrow> Done (None, fx b3))))"

text \<open>The deferred call ends the process with status 0 also when reading the configuration panics; the state has what was logged.\<close>

definition VersionCommand :: "('i, 'v, 'x) BaseApp \<Rightarrow> int \<times> ('v, 'x) app_state" where
  "VersionCommand b =
     (0, case App_Config b of
           Panic m \<Rightarrow> ba_state b
         | Ret cfg \<Rightarrow> log_at LevelInfo (''Version template '' @ Itoa (app_Version (cfg_App cfg))) (ba_state b))"

text \<open>The migrations of \<^verbatim>\<open>golang-migrate\<close>.\<close>

record 'w migrate =
  mg_Steps :: "int \<Rightarrow> 'w \<Rightarrow> go_error option \<times> 'w"
  mg_Up :: "'w \<Rightarrow> go_error option \<times> 'w"
  mg_Down :: "'w \<Rightarrow> go_error option \<times> 'w"

definition ErrNoChange :: go_error where
  "ErrNoChange = Sentinel ''migrate.ErrNoChange'' ''no change''"

text \<open>
  The body after the migrations are opened: the first result is the text of the error that is logged.
  The deferred call ends the process with status 0, whatever happened before it.
\<close>

definition migration_up :: "'w migrate \<Rightarrow> string list \<Rightarrow> 'w \<Rightarrow> string option \<times> 'w" where
  "migration_up m rest w =
     (case rest of
        step # _ \<Rightarrow>
          (if step = [] then (None, w)
           else case Atoi step of
                  (n, Some err) \<Rightarrow> (Some (error_text err), w)
                | (n, None) \<Rightarrow> (case mg_Steps m n w of (err, w') \<Rightarrow> (map_option error_text err, w')))
      | [] \<Rightarrow>
          (case mg_Up m w of
             (Some err, w') \<Rightarrow> (if err \<noteq> ErrNoChange then Some (error_text err) else None, w')
           | (None, w') \<Rightarrow> (None, w')))"

definition MigrationCommand :: "'w migrate \<Rightarrow> string list \<Rightarrow> 'w \<Rightarrow> int \<times> string option \<times> 'w" where
  "MigrationCommand m args w =
     (case args of
        [] \<Rightarrow> (0, Some ''runtime error: index out of range [0] with length 0'', w)
      | direction # rest \<Rightarrow>
          (let (err, w1) = (if direction = ''up'' then migration_up m rest w else (None, w))
           in if err \<noteq> None then (0, err, w1)
              else if direction = ''down'' then (case mg_Down m w1 of (err2, w2) \<Rightarrow> (0, map_option error_text err2, w2))
              else (0, None, w1)))"

section \<open>The query runner\<close>

record ('r, 'w) IQuery =
  iq_Validate :: "'w \<Rightarrow> go_error option \<times> 'w"
  iq_Handle :: "'w \<Rightarrow> ('r \<times> go_error option) \<times> 'w"

record ('r, 'w) withQuery =
  wq_handler :: "('r, 'w) IQuery"
  wq_err :: "go_error option"
  wq_res :: 'r
  wq_before :: "('w \<Rightarrow> go_error option \<times> 'w) option"
  wq_after :: "('w \<Rightarrow> go_error option \<times> 'w) option"

text \<open>\<open>zero\<close> is the zero value of the result type.\<close>

definition WithQuery :: "'r \<Rightarrow> ('r, 'w) IQuery \<Rightarrow> ('r, 'w) withQuery" where
  "WithQuery zero handler = \<lparr>wq_handler = handler, wq_err = None, wq_res = zero, wq_before = None, wq_after = None\<rparr>"

definition note_err :: "go_error option \<Rightarrow> ('r, 'w) withQuery \<Rightarrow> ('r, 'w) withQuery" where
  "note_err err q = (if err \<noteq> None then q\<lparr>wq_err := err\<rparr> else q)"

definition BeforeQueryFunc ::
  "('w \<Rightarrow> go_error option \<times> 'w) \<Rightarrow> ('r, 'w) withQuery \<times> 'w \<Rightarrow> ('r, 'w) withQuery \<times> 'w" where
  "BeforeQueryFunc handler = (\<lambda>(q, w). case handler w of (err, w') \<Rightarrow> ((note_err err q)\<lparr>wq_before := Some handler\<rparr>, w'))"

definition AfterQueryFunc ::
  "('w \<Rightarrow> go_error option \<times> 'w) \<Rightarrow> ('r, 'w) withQuery \<times> 'w \<Rightarrow> ('r, 'w) withQuery \<times> 'w" where
  "AfterQueryFunc handler = (\<lambda>(q, w). case handler w of (err, w') \<Rightarrow> ((note_err err q)\<lparr>wq_after := Some handler\<rparr>, w'))"

definition IsError :: "('r, 'w) withQuery \<Rightarrow> bool" where
  "IsError q = (wq_err q \<noteq> None)"

definition Query_Validate :: "('r, 'w) withQuery \<times> 'w \<Rightarrow> ('r, 'w) withQuery \<times> 'w" where
  "Query_Validate = (\<lambda>(q, w). case iq_Validate (wq_handler q) w of (err, w') \<Rightarrow> (note_err err q, w'))"

definition call_func :: "('w \<Rightarrow> go_error option \<times> 'w) option \<Rightarrow> 'w \<Rightarrow> 'w" where
  "call_func f w = (case f of None \<Rightarrow> w | Some g \<Rightarrow> snd (g w))"

definition Query_Execute :: "('r, 'w) withQuery \<times> 'w \<Rightarrow> ('r, 'w) withQuery \<times> 'w" where
  "Query_Execute = (\<lambda>(q, w).
     if wq_err q \<noteq> None then (q, w)
     else (case iq_Handle (wq_handler q) (call_func (wq_before q) w) of
             ((result, err), w') \<Rightarrow> (q\<lparr>wq_err := err, wq_res := result\<rparr>, call_func (wq_after q) w')))"

section \<open>Lemmas\<close>

lemma Execute_all_ok:
  assumes "\<And>k w. k \<in> set ks \<Longrightarrow> I w \<Longrightarrow> fst (ExecuteOnly h k p w) = None \<and> I (snd (ExecuteOnly h k p w))"
    "handlers h \<noteq> mempty" "I w"
  shows "Execute h ks p w = (None, fold (run_handler h p) ks w)" and "I (fold (run_handler h p) ks w)"
proof -
  have "execute_keys h p (\<lambda>k e. e) ks w = (None, fold (run_handler h p) ks w) \<and> I (fold (run_handler h p) ks w)"
    using assms(1,3)
  proof (induction ks arbitrary: w)
    case (Cons k ks)
    then have "ExecuteOnly h k p w = (None, run_handler h p k w)" "I (run_handler h p k w)"
      by (auto simp: run_handler_def prod_eq_iff)
    with Cons show ?case by simp
  qed simp
  with assms(2) show "Execute h ks p w = (None, fold (run_handler h p) ks w)" "I (fold (run_handler h p) ks w)"
    by (simp_all add: Execute_def Suc_le_eq mlen_def)
qed

lemma Hook_Add_fresh: "hook_get h k = None \<Longrightarrow> Hook_Add k f h = (None, h\<lparr>handlers := mput k f (handlers h)\<rparr>)"
  by (simp add: Hook_Add_def IsKeyAlreadySet_def hook_get_def)

lemma run_handler_other:
  "j \<noteq> k \<Longrightarrow> run_handler (h\<lparr>handlers := mput k f (handlers h)\<rparr>) p j = run_handler h p j"
  by (rule ext) (simp add: run_handler_def ExecuteOnly_def)

lemma call_func_order:
  "Query_Execute (AfterQueryFunc after (BeforeQueryFunc before (WithQuery z h, w))) =
     (let (e1, w1) = before w; (e2, w2) = after w1
      in if e1 \<noteq> None \<or> e2 \<noteq> None
         then (\<lparr>wq_handler = h, wq_err = (if e2 \<noteq> None then e2 else e1), wq_res = z, wq_before = Some before, wq_after = Some after\<rparr>, w2)
         else (case iq_Handle h (snd (before w2)) of
                 ((r, e), w3) \<Rightarrow> (\<lparr>wq_handler = h, wq_err = e, wq_res = r, wq_before = Some before, wq_after = Some after\<rparr>, snd (after w3))))"
  by (auto simp: Query_Execute_def AfterQueryFunc_def BeforeQueryFunc_def WithQuery_def note_err_def call_func_def Let_def
      split: prod.splits)

text \<open>The hook with the two handlers that shutting down adds.\<close>

definition stop_hook :: "('v, 'x) app_env \<Rightarrow> (unit, ('v, 'x) app_state) hook \<Rightarrow> (unit, ('v, 'x) app_state) hook" where
  "stop_hook env h =
     h\<lparr>handlers := mput ''print_log'' print_log (mput ''close_connection_db'' (close_connection_db env) (handlers h))\<rparr>"

lemma App_Shutdown_fresh:
  assumes "ba_onStop b = Some h" "hook_get h ''close_connection_db'' = None" "hook_get h ''print_log'' = None"
  shows "App_Shutdown env ks b =
     (None, b\<lparr>ba_onStop := Some (stop_hook env h), ba_state := snd (Execute (stop_hook env h) ks () (ba_state b))\<rparr>)"
proof -
  have "hook_get (h\<lparr>handlers := mput ''close_connection_db'' (close_connection_db env) (handlers h)\<rparr>) ''print_log'' = None"
    using assms(3) by (simp add: hook_get_def)
  from Hook_Add_fresh [OF this] Hook_Add_fresh [OF assms(2)] show ?thesis
    by (simp add: App_Shutdown_def OnApplicationStop_def assms(1) stop_hook_def split_beta)
qed

subsection \<open>What the bootstrap registers\<close>

lemma Bootstrap_hooks:
  assumes "ba_onAfter b = None"
  shows "\<exists>h. ba_onAfter (snd (Bootstrap env ks b)) = Some h
       \<and> (\<forall>k. mget (handlers h) k =
            (if k = ''b_bootstrap'' then Some (b_bootstrap env) else if k = ''a_load_cfg'' then Some (a_load_cfg env) else None))"
  using assms
  by (auto simp: Bootstrap_def OnBeforeApplicationBootstrapped_def OnAfterApplicationBootstrapped_def Hook_Add_def Hook_New_def
      IsKeyAlreadySet_def split_beta Let_def split: option.splits)

text \<open>The commands of the master and of a worker load the configuration and leave the databases alone.\<close>

lemma run_after_without_db_loads:
  assumes "ba_onAfter b = None" "b' = snd (Bootstrap env ks0 b)"
    "ba_onAfter b' = Some h" "range_order (handlers h) ks"
    "loadConfig (en_ozzo env) (en_viper env) path (as_viper (ba_state b')) = (Ret cfg, v)"
  shows "ba_state (run_after_without_db ks path b') =
     (ba_state b')\<lparr>as_viper := v, as_config := Some cfg, as_logger := Some (initLogger (Some cfg))\<rparr>"
proof -
  have get: "mget (handlers h) k =
      (if k = ''b_bootstrap'' then Some (b_bootstrap env) else if k = ''a_load_cfg'' then Some (a_load_cfg env) else None)" for k
    using Bootstrap_hooks [OF assms(1), of env ks0] assms(2,3) by auto
  have "set (filter (\<lambda>k. k \<notin> set [''b_bootstrap'']) (orderedLoop ks)) = {''a_load_cfg''}"
    using range_order_mem [OF assms(4)] get by (auto simp: orderedLoop_def)
  moreover have "distinct (filter (\<lambda>k. k \<notin> set [''b_bootstrap'']) (orderedLoop ks))"
    using assms(4) by (simp add: orderedLoop_def range_order_def)
  ultimately have only: "filter (\<lambda>k. k \<notin> set [''b_bootstrap'']) (orderedLoop ks) = [''a_load_cfg'']"
    by (intro singleton_list)
  have "handlers h \<noteq> mempty" using get [of "''a_load_cfg''"] by auto
  then have "ExecuteWithExclude h ks path [''b_bootstrap''] s = execute_keys h path hook_wrap [''a_load_cfg''] s" for s
    unfolding ExecuteWithExclude_def Let_def only by (simp add: mlen_def)
  then show ?thesis
    using assms(3,5) get by (simp add: run_after_without_db_def OnAfterApplicationBootstrapped_def ExecuteOnly_def a_load_cfg_def)
qed

text \<open>A failed migration ends the process like a successful one.\<close>

lemma MigrationCommand_status: "fst (MigrationCommand m args w) = 0"
  by (auto simp: MigrationCommand_def Let_def split: list.splits prod.splits)

text \<open>Only the telemetry driver can keep the command that runs everything from its FX application.\<close>

lemma AllCommand_reaches_fx:
  assumes "App_Config (run_after ks path b) = Ret cfg"
    and "mon_EnableTelemetry (cfg_Monitoring cfg) \<longrightarrow> fst (run_driver otel (run_after ks path b)) = None"
  shows "\<exists>b'. AllCommand ks path otel nats fx b = Done (None, fx b')"
  using assms by (auto simp: AllCommand_def Let_def split: prod.splits option.splits)

text \<open>The version command does not load the configuration: it prints nothing and reports success.\<close>

lemma VersionCommand_silent: "as_config (ba_state b) = None \<Longrightarrow> VersionCommand b = (0, ba_state b)"
  by (simp add: VersionCommand_def App_Config_def)

section \<open>Properties\<close>

text \<open>
  The end of the process. With stop hooks that all succeed (in the states \<open>I\<close> that the hooks
  and the drivers stay in), shutting the service down runs every
  one of them twice: first the registered hooks, then the drivers are closed, then the same hooks run
  again together with the two that close the databases and say goodbye. Shutting the application down
  once more is refused with the duplicate-key error and does nothing.
\<close>

theorem Service_Shutdown_runs_hooks_twice:
  assumes "ba_onStop b = Some h" and "handlers h \<noteq> mempty"
    and "hook_get h ''close_connection_db'' = None" and "hook_get h ''print_log'' = None"
    and "I (ba_state b)"
    and "\<forall>k s. I s \<and> hook_get (stop_hook env h) k \<noteq> None \<longrightarrow>
           fst (ExecuteOnly (stop_hook env h) k () s) = None \<and> I (snd (ExecuteOnly (stop_hook env h) k () s))"
    and "\<forall>s. I s \<longrightarrow> I (snd (snd (Manager_CloseAllDriver (\<lambda>name e. log_at LevelWarn ''Error closing driver'') (fst (DriverV2 b)) s)))"
    and "range_order (handlers h) ks1"
    and "range_order (handlers (stop_hook env h)) ks2"
  shows "ba_state (Service_Shutdown env ks1 ks2 b) =
           fold (run_handler (stop_hook env h) ()) ks2
             (snd (snd (Manager_CloseAllDriver (\<lambda>name e. log_at LevelWarn ''Error closing driver'')
                (fst (DriverV2 b)) (fold (run_handler h ()) ks1 (ba_state b)))))
       \<and> (\<forall>k. hook_get h k \<noteq> None \<longrightarrow> k \<in> set ks1 \<and> k \<in> set ks2)
       \<and> fst (App_Shutdown env ks3 (Service_Shutdown env ks1 ks2 b)) = Some ErrKeyAlreadyExists
       \<and> ba_state (snd (App_Shutdown env ks3 (Service_Shutdown env ks1 ks2 b))) = ba_state (Service_Shutdown env ks1 ks2 b)"
proof (intro conjI allI impI)
  let ?h2 = "stop_hook env h"
  have get2: "mget (handlers ?h2) k = (if k = ''print_log'' then Some print_log
      else if k = ''close_connection_db'' then Some (close_connection_db env) else mget (handlers h) k)" for k
    by (simp add: stop_hook_def)
  let ?s1 = "fold (run_handler h ()) ks1 (ba_state b)"
  have only: "mget (handlers h) k \<noteq> None \<Longrightarrow> ExecuteOnly h k () w = ExecuteOnly ?h2 k () w" for k w
    using assms(3,4) by (auto simp: ExecuteOnly_def get2 hook_get_def)
  have run1: "Execute h ks1 () (ba_state b) = (None, ?s1)" "I ?s1"
    using assms(2,5,6) only range_order_mem [OF assms(8)]
    by (auto intro!: Execute_all_ok [where I = I] simp: hook_get_def get2)
  have run2: "Execute ?h2 ks2 () s = (None, fold (run_handler ?h2 ()) ks2 s)" if "I s" for s
    using assms(6) that range_order_mem [OF assms(9)] get2 [of "''print_log''"]
    by (intro Execute_all_ok [where I = I]) (auto simp: hook_get_def)
  obtain m b2 where m: "DriverV2 (b\<lparr>ba_state := ?s1\<rparr>) = (m, b2)" by (metis prod.exhaust)
  then have b2: "ba_state b2 = ?s1" "ba_onStop b2 = Some h" "m = fst (DriverV2 b)"
    using assms(1) by (auto simp: DriverV2_def split: option.splits)
  obtain err m' s2 where c: "Manager_CloseAllDriver (\<lambda>name e. log_at LevelWarn ''Error closing driver'') m ?s1 = (err, m', s2)"
    by (metis prod.exhaust)
  let ?b3 = "b2\<lparr>ba_driverv2 := Some m', ba_state := s2\<rparr>"
  have "Service_Shutdown env ks1 ks2 b = snd (App_Shutdown env ks2 ?b3)"
    using run1(1) m c b2(1) by (simp add: Service_Shutdown_def OnApplicationStop_def assms(1))
  moreover have "App_Shutdown env ks2 ?b3 = (None, ?b3\<lparr>ba_onStop := Some ?h2, ba_state := snd (Execute ?h2 ks2 () s2)\<rparr>)"
    using App_Shutdown_fresh [of ?b3 h env ks2] assms(3,4) b2(2) by simp
  ultimately have end_state: "Service_Shutdown env ks1 ks2 b =
      ?b3\<lparr>ba_onStop := Some ?h2, ba_state := fold (run_handler ?h2 ()) ks2 s2\<rparr>"
    using run2 [of s2] assms(7) run1(2) c b2(3) by (metis snd_conv)
  show "ba_state (Service_Shutdown env ks1 ks2 b) = fold (run_handler ?h2 ()) ks2
      (snd (snd (Manager_CloseAllDriver (\<lambda>name e. log_at LevelWarn ''Error closing driver'') (fst (DriverV2 b)) ?s1)))"
    using end_state c b2(3) by simp
  show "k \<in> set ks1" "k \<in> set ks2" if "hook_get h k \<noteq> None" for k
    using that range_order_mem [OF assms(8), of k] range_order_mem [OF assms(9), of k] by (auto simp: get2 hook_get_def)
  have "Hook_Add ''close_connection_db'' (close_connection_db env) ?h2 = (Some ErrKeyAlreadyExists, ?h2)"
    by (rule hk.add_clash) (simp add: hook_get_def get2)
  then show "fst (App_Shutdown env ks3 (Service_Shutdown env ks1 ks2 b)) = Some ErrKeyAlreadyExists"
    "ba_state (snd (App_Shutdown env ks3 (Service_Shutdown env ks1 ks2 b))) = ba_state (Service_Shutdown env ks1 ks2 b)"
    using end_state by (simp_all add: App_Shutdown_def OnApplicationStop_def)
qed


definition demo_env :: "(unit, unit) app_env" where
  "demo_env =
     \<lparr>en_ozzo = demo_ozzo, en_viper = demo_viper,
      en_driver = \<lparr>dr_Open = (\<lambda>d dsn s. (Inr 0, s)), dr_Exec = (\<lambda>h q s. (None, s)), dr_Ping = (\<lambda>h s. (None, s)),
        dr_Close = (\<lambda>h s. (None, s)), dr_SetConnMaxLifetime = (\<lambda>h n s. s), dr_SetMaxOpenConns = (\<lambda>h n s. s),
        dr_SetMaxIdleConns = (\<lambda>h n s. s), dr_pgxpool_New = (\<lambda>dsn s. (Inr 0, s)), dr_pool_Ping = (\<lambda>h s. (None, s)),
        dr_OpenDBFromPool = (\<lambda>h s. (h, s)), dr_gorm_Open = (\<lambda>h s. (Inr h, s)), dr_gorm_Use = (\<lambda>h s. (None, s)),
        dr_gorm_DB = (\<lambda>h s. (Inr h, s))\<rparr>,
      en_order = (\<lambda>a. mkeys (sa_alias a))\<rparr>"

definition flush_log :: "(unit, (unit, unit) app_state) handler" where
  "flush_log e s = (None, log_at LevelInfo ''flushed'' s)"

definition demo_hook :: "(unit, (unit, unit) app_state) hook" where
  "demo_hook = \<lparr>handlers = [(''flush'', flush_log)]\<rparr>"

definition demo_app :: "(unit, unit, unit) BaseApp" where
  "demo_app = (NewBaseApp () ())\<lparr>ba_onStop := Some demo_hook\<rparr>"

theorem Service_Shutdown_runs_hooks_twice_witness:
  "map snd (as_log (ba_state (Service_Shutdown demo_env [''flush''] [''print_log'', ''flush'', ''close_connection_db''] demo_app)))
     = [''flushed'', ''Application Stopped, ciao !'', ''flushed'', ''skip closing driver'']"
proof -
  let ?h = demo_hook
  let ?I = "\<lambda>s :: (unit, unit) app_state. as_data s = None"
  let ?ks = "[''print_log'', ''flush'', ''close_connection_db'']"
  have get: "mget (handlers (stop_hook demo_env ?h)) k = (if k = ''print_log'' then Some print_log
      else if k = ''close_connection_db'' then Some (close_connection_db demo_env)
      else if k = ''flush'' then Some flush_log else None)" for k
    by (simp add: stop_hook_def) (simp add: mget_def demo_hook_def)
  have get0: "mget (handlers ?h) k = (if k = ''flush'' then Some flush_log else None)" for k
    by (simp add: mget_def demo_hook_def)
  have stop: "ba_onStop demo_app = Some ?h" by (simp add: demo_app_def)
  have drivers: "fst (DriverV2 demo_app) = NewManagerV2" by (simp add: demo_app_def NewBaseApp_def DriverV2_def)
  have "ba_state (Service_Shutdown demo_env [''flush''] ?ks demo_app) =
      fold (run_handler (stop_hook demo_env ?h) ()) ?ks
        (snd (snd (Manager_CloseAllDriver (\<lambda>name e. log_at LevelWarn ''Error closing driver'')
           (fst (DriverV2 demo_app)) (fold (run_handler ?h ()) [''flush''] (ba_state demo_app)))))"
  proof (rule Service_Shutdown_runs_hooks_twice [where I = ?I, THEN conjunct1, OF stop])
    show "range_order (handlers (stop_hook demo_env ?h)) ?ks"
      using get by (auto simp: range_order_def mem_mkeys split: if_splits)
    show "\<forall>k s. as_data s = None \<and> hook_get (stop_hook demo_env ?h) k \<noteq> None \<longrightarrow>
        fst (ExecuteOnly (stop_hook demo_env ?h) k () s) = None \<and> as_data (snd (ExecuteOnly (stop_hook demo_env ?h) k () s)) = None"
      by (auto simp: ExecuteOnly_def hook_get_def get close_connection_db_def print_log_def flush_log_def log_at_def)
  qed (auto simp: hook_get_def mget_def demo_hook_def demo_app_def NewBaseApp_def drivers NewManagerV2_def Manager_CloseAllDriver_def
      range_order_def mkeys_def DriverV2_def)
  moreover have "as_data (ba_state demo_app) = None" "as_log (ba_state demo_app) = []"
    by (simp_all add: demo_app_def NewBaseApp_def)
  ultimately show ?thesis
    unfolding drivers
    by (simp add: NewManagerV2_def Manager_CloseAllDriver_def run_handler_def ExecuteOnly_def get
        get0 close_connection_db_def print_log_def flush_log_def log_at_def)
qed

end
