(* ===== verification/Program.thy ===== *)
theory Program
  imports App_Core
begin

text \<open>
  The program around the application: the service with its commands (\<^verbatim>\<open>service.go\<close>, \<^verbatim>\<open>cmd/commands.go\<close>), the migration
  command with the connection it needs, and the seeders. Cobra is a parameter: what it does with the arguments of the
  process is \<open>cobra_ok\<close>. The properties follow the process from its arguments to its end.
\<close>

section \<open>Commands\<close>

text \<open>A command runs on the application and returns an error or nil.\<close>

type_synonym ('i, 'v, 'x) command = "('i, 'v, 'x) BaseApp \<Rightarrow> go_error option \<times> ('i, 'v, 'x) BaseApp"

text \<open>A command that waits for its context returns once the context is cancelled.\<close>

definition await_done :: "go_error option \<times> ('i, 'v, 'x) BaseApp \<Rightarrow> go_error option \<times> ('i, 'v, 'x) BaseApp" where
  "await_done r = (case r of (Some err, b) \<Rightarrow> (Some err, b) | (None, b) \<Rightarrow> (None, Stop b))"

record ('i, 'v, 'x) command_env =
  ce_path :: string
  ce_order :: "string list"
  ce_master :: "('i, 'v, 'x) app_driver"
  ce_http :: "('i, 'v, 'x) app_driver"
  ce_worker :: "('i, 'v, 'x) app_driver"

definition NewMasterCommand :: "('i, 'v, 'x) command_env \<Rightarrow> string \<times> ('i, 'v, 'x) command" where
  "NewMasterCommand ce = (''master'', \<lambda>b. await_done (MasterCommand (ce_order ce) (ce_path ce) (ce_master ce) (ce_http ce) b))"

definition NewWorkerCommand :: "('i, 'v, 'x) command_env \<Rightarrow> string \<times> ('i, 'v, 'x) command" where
  "NewWorkerCommand ce = (''worker'', \<lambda>b. await_done (WorkerCommand (ce_order ce) (ce_path ce) (ce_worker ce) b))"

text \<open>The other commands are commented out.\<close>

definition NewCommands :: "('i, 'v, 'x) command_env \<Rightarrow> (string \<times> ('i, 'v, 'x) command) list" where
  "NewCommands ce = [NewMasterCommand ce, NewWorkerCommand ce]"

section \<open>The service\<close>

record ('i, 'v, 'x) Service =
  sv_App :: "('i, 'v, 'x) BaseApp"
  sv_RootCmd :: "(string \<times> ('i, 'v, 'x) command) list"
  sv_DisableBanner :: bool

definition Service_New :: "'v \<Rightarrow> 'x \<Rightarrow> bool \<Rightarrow> ('i, 'v, 'x) Service" where
  "Service_New v x disableBanner = \<lparr>sv_App = NewBaseApp v x, sv_RootCmd = [], sv_DisableBanner = disableBanner\<rparr>"

definition registerCommand :: "('i, 'v, 'x) command_env \<Rightarrow> ('i, 'v, 'x) Service \<Rightarrow> ('i, 'v, 'x) Service" where
  "registerCommand ce t = t\<lparr>sv_RootCmd := fold (\<lambda>command cs. cs @ [command]) (NewCommands ce) (sv_RootCmd t)\<rparr>"

text \<open>
  The whole program: \<open>cobra\<close> picks the command from the arguments, \<open>ks0\<close>, \<open>ks1\<close> and \<open>ks2\<close> are the visiting orders of the hooks
  before the bootstrap and of the two runs of the stop hooks.
\<close>

definition program ::
  "('v, 'x) app_env \<Rightarrow> ((string \<times> ('i, 'v, 'x) command) list \<Rightarrow> string list \<Rightarrow> ('i, 'v, 'x) command) \<Rightarrow> ('i, 'v, 'x) command_env
     \<Rightarrow> string list \<Rightarrow> string list \<Rightarrow> string list \<Rightarrow> string list \<Rightarrow> 'v \<Rightarrow> 'x \<Rightarrow> ('i, 'v, 'x) BaseApp" where
  "program env cobra ce args ks0 ks1 ks2 v x =
     (let t = registerCommand ce (Service_New v x True)
      in main_run env (cobra (sv_RootCmd t) args) ks0 ks1 ks2 (sv_App t))"

text \<open>Cobra runs the command that the first argument names, and refuses an argument that names none.\<close>

definition unknown_command :: "string \<Rightarrow> go_error" where
  "unknown_command arg = ErrorString (''unknown command '' @ quoted arg @ '' for '' @ quoted ''mox'')"

definition cobra_ok :: "((string \<times> ('i, 'v, 'x) command) list \<Rightarrow> string list \<Rightarrow> ('i, 'v, 'x) command) \<Rightarrow> bool" where
  "cobra_ok cobra \<longleftrightarrow> (\<forall>cmds arg rest b. cobra cmds (arg # rest) b =
     (case map_of cmds arg of None \<Rightarrow> (Some (unknown_command arg), b) | Some run \<Rightarrow> run b))"

section \<open>Migrations\<close>

text \<open>
  Opening the migrations: the connection is the one called \<^verbatim>\<open>default\<close>; \<open>withInstance\<close>, \<open>openSource\<close> and \<open>newMigrate\<close> are the
  calls of \<^verbatim>\<open>golang-migrate\<close>. An error of these ends the process with status 1.
\<close>

definition Migration ::
  "('v, 'x) app_env \<Rightarrow> (nat \<Rightarrow> 'd result) \<Rightarrow> (string \<Rightarrow> 'f result) \<Rightarrow> ('f \<Rightarrow> 'd \<Rightarrow> 'm result) \<Rightarrow> string \<Rightarrow> ('i, 'v, 'x) BaseApp \<Rightarrow> 'm run" where
  "Migration env withInstance openSource newMigrate migrationPath b =
     (case App_Sql env ''default'' b of
        Panic m \<Rightarrow> Crash m
      | Ret db \<Rightarrow>
          (case withInstance db of
             Inl err \<Rightarrow> Exit 1
           | Inr drv \<Rightarrow>
               (case openSource migrationPath of
                  Inl err \<Rightarrow> Exit 1
                | Inr src \<Rightarrow> (case newMigrate src drv of Inl err \<Rightarrow> Exit 1 | Inr m \<Rightarrow> Done m))))"

text \<open>
  The command: a panic of the hooks ends the process with status 2; the deferred call that follows them ends it with status 0 when the
  body returns and when it panics. The result is that status with the text of the error that is logged, or of the panic.
\<close>

definition NewMigration ::
  "('v, 'x) app_env \<Rightarrow> (nat \<Rightarrow> 'd result) \<Rightarrow> (string \<Rightarrow> 'f result) \<Rightarrow> ('f \<Rightarrow> 'd \<Rightarrow> 'w migrate result) \<Rightarrow> string list \<Rightarrow> string
     \<Rightarrow> string list \<Rightarrow> ('i, 'v, 'x) BaseApp \<Rightarrow> 'w \<Rightarrow> int \<times> string option \<times> 'w" where
  "NewMigration env withInstance openSource newMigrate ks path args b w =
     (let b1 = run_after ks path b
      in case as_panic (ba_state b1) of
           Some m \<Rightarrow> (2, Some m, w)
         | None \<Rightarrow>
             (case Migration env withInstance openSource newMigrate ''./migrations'' b1 of
                Exit n \<Rightarrow> (n, None, w)
              | Crash m \<Rightarrow> (0, Some m, w)
              | Done m \<Rightarrow> MigrationCommand m args w))"

section \<open>Seeders\<close>

record 's SeederAction =
  se_Name :: string
  se_Initialize :: "'s \<Rightarrow> go_error option \<times> 's"

fun seed_loop :: "('v, 'x) app_state SeederAction list \<Rightarrow> ('v, 'x) app_state \<Rightarrow> ('v, 'x) app_state" where
  "seed_loop [] s = s"
| "seed_loop (seeder # seeders) s =
     (case se_Initialize seeder s of
        (Some err, s1) \<Rightarrow> seed_loop seeders (log_at LevelError (error_text err) s1)
      | (None, s1) \<Rightarrow> seed_loop seeders (log_at LevelInfo ''Success seeding data'' s1))"

definition InitSeeder :: "('v, 'x) app_state \<Rightarrow> ('v, 'x) app_state" where
  "InitSeeder s = (let seeders = [] in seed_loop seeders s)"

definition NewSeeder :: "('i, 'v, 'x) BaseApp \<Rightarrow> ('i, 'v, 'x) BaseApp" where
  "NewSeeder b = b\<lparr>ba_state := InitSeeder (ba_state b)\<rparr>"

section \<open>Lemmas\<close>

definition after_hook :: "('v, 'x) app_env \<Rightarrow> (string, ('v, 'x) app_state) hook" where
  "after_hook env = \<lparr>handlers = [(''a_load_cfg'', a_load_cfg env), (''b_bootstrap'', b_bootstrap env)]\<rparr>"

lemma started:
  "Service_Start env ks0 (Context (NewBaseApp v x)) =
     (NewBaseApp v x)\<lparr>ba_ctx := Some False, ba_onBefore := Some Hook_New, ba_onAfter := Some (after_hook env)\<rparr>"
  by (simp add: Service_Start_def Bootstrap_def Context_def NewBaseApp_def OnBeforeApplicationBootstrapped_def Execute_def Hook_New_def
      mlen_def OnAfterApplicationBootstrapped_def Hook_Add_def IsKeyAlreadySet_def mget_def mput_def after_hook_def)

lemma range_order_pair: "range_order [(a, x), (b, y)] ks \<Longrightarrow> a \<noteq> b \<Longrightarrow> ks = [a, b] \<or> ks = [b, a]"
proof -
  assume r: "range_order [(a, x), (b, y)] ks" "a \<noteq> b"
  then have "distinct ks" "set ks = {a, b}" by (simp_all add: range_order_def mkeys_def)
  then have "length ks = 2" using r(2) distinct_card [of ks] by simp
  then obtain c d where "ks = [c, d]" by (metis (no_types, lifting) One_nat_def Suc_1 length_0_conv length_Suc_conv)
  then show ?thesis using \<open>distinct ks\<close> \<open>set ks = {a, b}\<close> by (auto simp: doubleton_eq_iff)
qed

lemma run_driver_ok:
  "drv_Init d (ba_state b) = (None, s) \<Longrightarrow>
     run_driver d b = (None, b\<lparr>ba_driverv2 := Some \<lparr>v2_drivers = v2_drivers (fst (DriverV2 b)) @ [d]\<rparr>, ba_state := s\<rparr>)"
  by (cases "ba_driverv2 b") (simp_all add: run_driver_def DriverV2_def Manager_RunDriver_def NewManagerV2_def)

text \<open>The two runs of the stop hooks when the program has registered none and opened no database.\<close>

lemma shutdown_plain:
  assumes "ba_onStop b = None" and "ba_driverv2 b = Some m"
    and "Manager_CloseAllDriver (\<lambda>name e. log_at LevelWarn ''Error closing driver'') m (ba_state b) = (err, m', s)" and "as_data s = None"
    and "range_order (handlers (stop_hook env Hook_New)) ks2"
  shows "\<exists>log. ba_state (Service_Shutdown env ks1 ks2 b) = s\<lparr>as_log := as_log s @ log\<rparr>
       \<and> ba_driverv2 (Service_Shutdown env ks1 ks2 b) = Some m' \<and> ba_ctx (Service_Shutdown env ks1 ks2 b) = ba_ctx b"
proof -
  let ?h = "stop_hook env Hook_New"
  have h: "handlers ?h = [(''close_connection_db'', close_connection_db env), (''print_log'', print_log)]"
    by (simp add: stop_hook_def Hook_New_def mput_def)
  then have ks: "ks2 = [''close_connection_db'', ''print_log''] \<or> ks2 = [''print_log'', ''close_connection_db'']"
    using assms(5) range_order_pair [of "''close_connection_db''" _ "''print_log''"] by simp
  have run: "\<exists>log. Execute ?h ks2 () s = (None, s\<lparr>as_log := as_log s @ log\<rparr>)"
    using ks by (elim disjE)
      (simp_all add: Execute_def h mlen_def ExecuteOnly_def mget_def close_connection_db_def print_log_def assms(4) log_at_def, blast+)
  let ?b = "b\<lparr>ba_onStop := Some Hook_New, ba_driverv2 := Some m', ba_state := s\<rparr>"
  have "Execute Hook_New ks1 () (ba_state b) = (Some ErrHandlerNotRegistered, ba_state b)"
    by (simp add: Execute_def Hook_New_def mlen_def)
  then have "Service_Shutdown env ks1 ks2 b = snd (App_Shutdown env ks2 ?b)"
    using assms(1-3) by (simp add: Service_Shutdown_def OnApplicationStop_def DriverV2_def)
  also have "\<dots> = ?b\<lparr>ba_onStop := Some ?h, ba_state := snd (Execute ?h ks2 () s)\<rparr>"
    using App_Shutdown_fresh [of ?b Hook_New env ks2] by (simp add: hook_get_def Hook_New_def mget_def)
  finally have "Service_Shutdown env ks1 ks2 b = ?b\<lparr>ba_onStop := Some ?h, ba_state := snd (Execute ?h ks2 () s)\<rparr>" .
  then show ?thesis using run by auto
qed

section \<open>Properties\<close>

text \<open>A driver that only works on the rest of the program: \<open>start\<close> when it is started and \<open>stop\<close> when it is closed.\<close>

definition plain_driver :: "('i, 'v, 'x) app_driver \<Rightarrow> ('x \<Rightarrow> 'x) \<Rightarrow> ('x \<Rightarrow> 'x) \<Rightarrow> bool" where
  "plain_driver d start stop \<longleftrightarrow> (\<forall>s. drv_Init d s = (None, s\<lparr>as_ext := start (as_ext s)\<rparr>) \<and> drv_Close d s = (None, s\<lparr>as_ext := stop (as_ext s)\<rparr>))"


definition demo_plain :: "string \<Rightarrow> string \<Rightarrow> string \<Rightarrow> (unit, unit, string list) app_driver" where
  "demo_plain name start stop = \<lparr>drv_Name = name, drv_Init = (\<lambda>s. (None, s\<lparr>as_ext := as_ext s @ [start]\<rparr>)),
     drv_Instance = (\<lambda>s. None), drv_Close = (\<lambda>s. (None, s\<lparr>as_ext := as_ext s @ [stop]\<rparr>))\<rparr>"

definition demo_commands :: "(unit, unit, string list) command_env" where
  "demo_commands = \<lparr>ce_path = ''config.toml'', ce_order = [''b_bootstrap'', ''a_load_cfg''], ce_master = demo_plain ''m'' ''+m'' ''-m'',
     ce_http = demo_plain ''h'' ''+h'' ''-h'', ce_worker = demo_plain ''w'' ''+w'' ''-w''\<rparr>"

definition demo_program_env :: "(unit, string list) app_env" where
  "demo_program_env =
     \<lparr>en_ozzo = demo_ozzo, en_viper = demo_viper,
      en_driver = \<lparr>dr_Open = (\<lambda>d dsn s. (Inr 0, s)), dr_Exec = (\<lambda>h q s. (None, s)), dr_Ping = (\<lambda>h s. (None, s)),
        dr_Close = (\<lambda>h s. (None, s)), dr_SetConnMaxLifetime = (\<lambda>h n s. s), dr_SetMaxOpenConns = (\<lambda>h n s. s),
        dr_SetMaxIdleConns = (\<lambda>h n s. s), dr_pgxpool_New = (\<lambda>dsn s. (Inr 0, s)), dr_pool_Ping = (\<lambda>h s. (None, s)),
        dr_OpenDBFromPool = (\<lambda>h s. (h, s)), dr_gorm_Open = (\<lambda>h s. (Inr h, s)), dr_gorm_Use = (\<lambda>h s. (None, s)),
        dr_gorm_DB = (\<lambda>h s. (Inr h, s))\<rparr>,
      en_order = (\<lambda>a. mkeys (sa_alias a))\<rparr>"

definition demo_cobra :: "(string \<times> ('i, 'v, 'x) command) list \<Rightarrow> string list \<Rightarrow> ('i, 'v, 'x) command" where
  "demo_cobra cmds args b =
     (case args of
        [] \<Rightarrow> (None, b)
      | arg # rest \<Rightarrow> (case map_of cmds arg of None \<Rightarrow> (Some (unknown_command arg), b) | Some run \<Rightarrow> run b))"

lemma demo_loads: "loadConfig demo_ozzo demo_viper ''config.toml'' () = (Ret demo_config, ())"
proof -
  have "config_valid demo_config"
    by (simp add: config_valid_def app_valid_def database_valid_def api_valid_def isSQLite_def demo_config_def)
  with NewConfig_returns_valid [OF demo_ozzo_ok, of demo_viper _ "()"] show ?thesis by (simp add: loadConfig_def demo_viper_def)
qed


text \<open>
  Commands that are not registered: the \<^verbatim>\<open>Makefile\<close> starts the program with \<^verbatim>\<open>http\<close>, \<^verbatim>\<open>message-broker\<close> and \<^verbatim>\<open>migration\<close>, which
  cobra refuses; no driver is started.
\<close>

theorem unregistered_command:
  assumes "cobra_ok cobra" and "arg \<notin> {''master'', ''worker''}"
  shows "cobra (NewCommands ce) (arg # rest) b = (Some (unknown_command arg), b)"
  using assms by (simp add: cobra_ok_def NewCommands_def NewMasterCommand_def NewWorkerCommand_def)

text \<open>The exit status of the migration command: 0 for a failed migration and also when there is no connection to migrate.\<close>

theorem migration_exit_status:
  assumes "as_panic (ba_state (run_after ks path b)) = None"
  shows "fst (NewMigration env wi os nm ks path args b w) =
     (case Migration env wi os nm ''./migrations'' (run_after ks path b) of Exit n \<Rightarrow> 1 | _ \<Rightarrow> 0)"
  using assms
  by (auto simp: NewMigration_def MigrationCommand_status Migration_def Let_def split: run.splits outcome.splits sum.splits)

end
