(* ===== verification/Telemetry.thy ===== *)
theory Telemetry
  imports Config
begin

text \<open>
  OpenTelemetry: the driver of \<^verbatim>\<open>drivers/monitoring/otel.go\<close> with its builders, and the span contexts of
  \<^verbatim>\<open>span.go\<close> and \<^verbatim>\<open>trace_context_request.go\<close>. The SDK is third-party code, given by its calls:
  exporters \<open>'e\<close>, resources \<open>'s\<close> and providers \<open>'p\<close> are its values, of which the three kinds are
  told apart by \<open>signal\<close>.
\<close>

section \<open>Builders\<close>

datatype signal = Traces | Metrics | Logs

record 'e provider_builder =
  bl_name :: string
  bl_version :: string
  bl_instanceId :: string
  bl_exporter :: "'e option"

record ('e, 's, 'p, 'w) otel_sdk =
  sdk_NewOTLP :: "signal \<Rightarrow> string \<Rightarrow> 'w \<Rightarrow> 'e result \<times> 'w"
  sdk_resource :: "string \<Rightarrow> string \<Rightarrow> string \<Rightarrow> 'w \<Rightarrow> 's result \<times> 'w"
  sdk_provider :: "signal \<Rightarrow> 's \<Rightarrow> 'e option \<Rightarrow> 'w \<Rightarrow> 'p \<times> 'w"
  sdk_Shutdown :: "'p \<Rightarrow> 'w \<Rightarrow> go_error option \<times> 'w"
  sdk_exporter_Shutdown :: "'e \<Rightarrow> 'w \<Rightarrow> go_error option \<times> 'w"
  sdk_SetProvider :: "signal \<Rightarrow> 'p \<Rightarrow> 'w \<Rightarrow> 'w"
  sdk_SetTextMapPropagator :: "'w \<Rightarrow> 'w"

text \<open>\<open>Build\<close> also returns a function that shuts the exporter down, given here by the exporter it holds.\<close>

definition CloseFunc :: "('e, 's, 'p, 'w) otel_sdk \<Rightarrow> 'e option \<Rightarrow> 'w \<Rightarrow> (go_error option \<times> 'w) outcome" where
  "CloseFunc sdk exporter w =
     (case exporter of
        None \<Rightarrow> Panic ''invalid memory address or nil pointer dereference''
      | Some ex \<Rightarrow> Ret (sdk_exporter_Shutdown sdk ex w))"

definition NewTraceProviderBuilder :: "string \<Rightarrow> string \<Rightarrow> string \<Rightarrow> 'e provider_builder" where
  "NewTraceProviderBuilder name version instanceId =
     \<lparr>bl_name = name, bl_version = version, bl_instanceId = instanceId, bl_exporter = None\<rparr>"

definition NewMeterProviderBuilder :: "string \<Rightarrow> string \<Rightarrow> string \<Rightarrow> 'e provider_builder" where
  "NewMeterProviderBuilder name version instanceId =
     \<lparr>bl_name = name, bl_version = version, bl_instanceId = instanceId, bl_exporter = None\<rparr>"

definition NewLoggerProviderBuilder :: "string \<Rightarrow> string \<Rightarrow> string \<Rightarrow> 'e provider_builder" where
  "NewLoggerProviderBuilder name version instanceId =
     \<lparr>bl_name = name, bl_version = version, bl_instanceId = instanceId, bl_exporter = None\<rparr>"

definition SetExporter :: "'e \<Rightarrow> 'e provider_builder \<Rightarrow> 'e provider_builder" where
  "SetExporter ex b = b\<lparr>bl_exporter := Some ex\<rparr>"

definition trace_Build ::
  "('e, 's, 'p, 'w) otel_sdk \<Rightarrow> 'e provider_builder \<Rightarrow> 'w \<Rightarrow> ('p \<times> 'e option) result \<times> 'w" where
  "trace_Build sdk b w =
     (case sdk_resource sdk (bl_name b) (bl_version b) (bl_instanceId b) w of
        (Inl err, w1) \<Rightarrow> (Inl err, w1)
      | (Inr res, w1) \<Rightarrow> (case sdk_provider sdk Traces res (bl_exporter b) w1 of (p, w2) \<Rightarrow> (Inr (p, bl_exporter b), w2)))"

definition meter_Build ::
  "('e, 's, 'p, 'w) otel_sdk \<Rightarrow> 'e provider_builder \<Rightarrow> 'w \<Rightarrow> ('p \<times> 'e option) result \<times> 'w" where
  "meter_Build sdk b w =
     (case bl_exporter b of
        None \<Rightarrow> (Inl (ErrorString ''exporter is not set''), w)
      | Some ex \<Rightarrow>
          (case sdk_resource sdk (bl_name b) (bl_version b) (bl_instanceId b) w of
             (Inl err, w1) \<Rightarrow> (Inl err, w1)
           | (Inr res, w1) \<Rightarrow> (case sdk_provider sdk Metrics res (Some ex) w1 of (p, w2) \<Rightarrow> (Inr (p, bl_exporter b), w2))))"

definition logger_Build ::
  "('e, 's, 'p, 'w) otel_sdk \<Rightarrow> 'e provider_builder \<Rightarrow> 'w \<Rightarrow> ('p \<times> 'e option) result \<times> 'w" where
  "logger_Build sdk b w =
     (case sdk_resource sdk (bl_name b) (bl_version b) (bl_instanceId b) w of
        (Inl err, w1) \<Rightarrow> (Inl err, w1)
      | (Inr res, w1) \<Rightarrow> (case sdk_provider sdk Logs res (bl_exporter b) w1 of (p, w2) \<Rightarrow> (Inr (p, bl_exporter b), w2)))"

section \<open>The driver\<close>

definition newTraceProvider :: "('e, 's, 'p, 'w) otel_sdk \<Rightarrow> Config \<Rightarrow> 'w \<Rightarrow> 'p result \<times> 'w" where
  "newTraceProvider sdk cfg w =
     (case sdk_NewOTLP sdk Traces (mon_OtelEndpoint (cfg_Monitoring cfg)) w of
        (Inl err, w1) \<Rightarrow> (Inl err, w1)
      | (Inr ex, w1) \<Rightarrow>
          (case trace_Build sdk
                  (SetExporter ex (NewTraceProviderBuilder (app_Name (cfg_App cfg)) (Itoa (app_Version (cfg_App cfg))) (app_Mode (cfg_App cfg)))) w1 of
             (Inl err, w2) \<Rightarrow> (Inl err, w2)
           | (Inr (provider, _), w2) \<Rightarrow> (Inr provider, w2)))"

definition newMeterProvider :: "('e, 's, 'p, 'w) otel_sdk \<Rightarrow> Config \<Rightarrow> 'w \<Rightarrow> 'p result \<times> 'w" where
  "newMeterProvider sdk cfg w =
     (case sdk_NewOTLP sdk Metrics (mon_OtelEndpoint (cfg_Monitoring cfg)) w of
        (Inl err, w1) \<Rightarrow> (Inl err, w1)
      | (Inr ex, w1) \<Rightarrow>
          (case meter_Build sdk
                  (SetExporter ex (NewMeterProviderBuilder (app_Name (cfg_App cfg)) (Itoa (app_Version (cfg_App cfg))) (app_Mode (cfg_App cfg)))) w1 of
             (Inl err, w2) \<Rightarrow> (Inl err, w2)
           | (Inr (provider, _), w2) \<Rightarrow> (Inr provider, w2)))"

definition newLoggerProvider :: "('e, 's, 'p, 'w) otel_sdk \<Rightarrow> Config \<Rightarrow> 'w \<Rightarrow> 'p result \<times> 'w" where
  "newLoggerProvider sdk cfg w =
     (case sdk_NewOTLP sdk Logs (mon_OtelEndpoint (cfg_Monitoring cfg)) w of
        (Inl err, w1) \<Rightarrow> (Inl err, w1)
      | (Inr ex, w1) \<Rightarrow>
          (case logger_Build sdk
                  (SetExporter ex (NewLoggerProviderBuilder (app_Name (cfg_App cfg)) (Itoa (app_Version (cfg_App cfg))) (app_Mode (cfg_App cfg)))) w1 of
             (Inl err, w2) \<Rightarrow> (Inl err, w2)
           | (Inr (provider, _), w2) \<Rightarrow> (Inr provider, w2)))"

text \<open>The cleanup runs every registered function and joins the errors one by one.\<close>

fun run_shutdown ::
  "('p \<Rightarrow> 'w \<Rightarrow> go_error option \<times> 'w) \<Rightarrow> 'p list \<Rightarrow> go_error option \<Rightarrow> 'w \<Rightarrow> go_error option \<times> 'w" where
  "run_shutdown stop [] err w = (err, w)"
| "run_shutdown stop (fn # fns) err w =
     (case stop fn w of (e, w1) \<Rightarrow> run_shutdown stop fns (errors_Join [err, e]) w1)"

text \<open>
  One optional provider: its error shuts the earlier ones down and is returned without their errors.
  The result has the registered cleanups.
\<close>

definition add_provider ::
  "('e, 's, 'p, 'w) otel_sdk \<Rightarrow> signal \<Rightarrow> ('w \<Rightarrow> 'p result \<times> 'w) \<Rightarrow> 'p list \<Rightarrow> 'w \<Rightarrow> 'p list result \<times> 'w" where
  "add_provider sdk sig create fns w =
     (case create w of
        (Inl err, w1) \<Rightarrow> (Inl err, snd (run_shutdown (sdk_Shutdown sdk) fns None w1))
      | (Inr p, w1) \<Rightarrow> (Inr (fns @ [p]), sdk_SetProvider sdk sig p w1))"

text \<open>The error of the first provider is joined with the (empty) cleanup.\<close>

definition setupOTelSDK ::
  "('e, 's, 'p, 'w) otel_sdk \<Rightarrow> Config \<Rightarrow> 'w \<Rightarrow> 'p list result \<times> 'w" where
  "setupOTelSDK sdk cfg w =
     (case newTraceProvider sdk cfg (sdk_SetTextMapPropagator sdk w) of
        (Inl err, w1) \<Rightarrow> (Inl (JoinError [err]), w1)
      | (Inr tracerProvider, w1) \<Rightarrow>
          (case (if mon_EnableTelemetry (cfg_Monitoring cfg)
                 then add_provider sdk Metrics (newMeterProvider sdk cfg) [tracerProvider]
                        (sdk_SetProvider sdk Traces tracerProvider w1)
                 else (Inr [tracerProvider], sdk_SetProvider sdk Traces tracerProvider w1)) of
             (Inl err, w2) \<Rightarrow> (Inl err, w2)
           | (Inr fns, w2) \<Rightarrow>
               (if mon_EnableCollectLog (cfg_Monitoring cfg)
                then add_provider sdk Logs (newLoggerProvider sdk cfg) fns w2
                else (Inr fns, w2))))"

text \<open>The driver keeps the cleanup, which is a nil function before a successful start.\<close>

record 'p Otel =
  ot_shutdown :: "'p list option"

definition NewOtel :: "'p Otel" where
  "NewOtel = \<lparr>ot_shutdown = None\<rparr>"

definition Otel_Init :: "('e, 's, 'p, 'w) otel_sdk \<Rightarrow> Config \<Rightarrow> 'p Otel \<Rightarrow> 'w \<Rightarrow> go_error option \<times> 'p Otel \<times> 'w" where
  "Otel_Init sdk cfg ot w =
     (case setupOTelSDK sdk cfg w of
        (Inl err, w1) \<Rightarrow> (Some err, ot, w1)
      | (Inr fns, w1) \<Rightarrow> (None, ot\<lparr>ot_shutdown := Some fns\<rparr>, w1))"

definition Otel_Close :: "('e, 's, 'p, 'w) otel_sdk \<Rightarrow> 'p Otel \<Rightarrow> 'w \<Rightarrow> (go_error option \<times> 'p Otel \<times> 'w) outcome" where
  "Otel_Close sdk ot w =
     (case ot_shutdown ot of
        None \<Rightarrow> Panic ''invalid memory address or nil pointer dereference''
      | Some fns \<Rightarrow>
          (case run_shutdown (sdk_Shutdown sdk) fns None w of (err, w1) \<Rightarrow> Ret (err, ot\<lparr>ot_shutdown := Some []\<rparr>, w1)))"

section \<open>Span contexts\<close>

record ('t, 'i) SpanContext =
  sc_TraceID :: 't
  sc_SpanID :: 'i
  sc_sampled :: bool
  sc_Remote :: bool

text \<open>\<open>tid\<close> and \<open>sid\<close> are the decoders of the ids.\<close>

record NewRequest =
  nr_Requestid :: string
  nr_TraceID :: string
  nr_SpanID :: string

definition ConstructNewSpanContext ::
  "(string \<Rightarrow> 't result) \<Rightarrow> (string \<Rightarrow> 'i result) \<Rightarrow> NewRequest \<Rightarrow> ('t, 'i) SpanContext result" where
  "ConstructNewSpanContext tid sid request =
     (case tid (nr_TraceID request) of
        Inl err \<Rightarrow> Inl err
      | Inr traceID \<Rightarrow>
          (case sid (nr_SpanID request) of
             Inl err \<Rightarrow> Inl err
           | Inr spanID \<Rightarrow> Inr \<lparr>sc_TraceID = traceID, sc_SpanID = spanID, sc_sampled = True, sc_Remote = False\<rparr>))"

definition ConstructNewSpanContextFromTraceparent ::
  "(string \<Rightarrow> 't result) \<Rightarrow> (string \<Rightarrow> 'i result) \<Rightarrow> string \<Rightarrow> ('t, 'i) SpanContext result" where
  "ConstructNewSpanContextFromTraceparent tid sid traceparent =
     (case SplitOn CHR ''-'' traceparent of
        [p0, p1, p2, p3] \<Rightarrow>
          (case tid p1 of
             Inl err \<Rightarrow> Inl (WrapError ''invalid trace ID: '' err [])
           | Inr traceID \<Rightarrow>
               (case sid p2 of
                  Inl err \<Rightarrow> Inl (WrapError ''invalid span ID: '' err [])
                | Inr spanID \<Rightarrow>
                    Inr \<lparr>sc_TraceID = traceID, sc_SpanID = spanID, sc_sampled = (p3 = ''01''), sc_Remote = True\<rparr>))
      | _ \<Rightarrow> Inl (ErrorString ''invalid traceparent format''))"

text \<open>A request for a span; \<open>'c\<close> is the context, which \<open>with_span\<close> extends and \<open>start\<close> starts a span in.\<close>

record 'c TraceContextRequest =
  tr_traceName :: string
  tr_spanName :: string
  tr_otelCtx :: 'c
  tr_traceparent :: string

definition NewTraceContext :: "'c \<Rightarrow> 'c TraceContextRequest" where
  "NewTraceContext ctx = \<lparr>tr_traceName = [], tr_spanName = [], tr_otelCtx = ctx, tr_traceparent = []\<rparr>"

definition WithTraceName :: "string \<Rightarrow> 'c TraceContextRequest \<Rightarrow> 'c TraceContextRequest" where
  "WithTraceName traceName t = t\<lparr>tr_traceName := traceName\<rparr>"

definition WithSpanName :: "string \<Rightarrow> 'c TraceContextRequest \<Rightarrow> 'c TraceContextRequest" where
  "WithSpanName spanName t = t\<lparr>tr_spanName := spanName\<rparr>"

definition WithTraceparent :: "string \<Rightarrow> 'c TraceContextRequest \<Rightarrow> 'c TraceContextRequest" where
  "WithTraceparent traceparent t = t\<lparr>tr_traceparent := traceparent\<rparr>"

definition TraceContext_Build ::
  "(string \<Rightarrow> 't result) \<Rightarrow> (string \<Rightarrow> 'i result) \<Rightarrow> (('t, 'i) SpanContext \<Rightarrow> 'c \<Rightarrow> 'c)
     \<Rightarrow> (string \<Rightarrow> string \<Rightarrow> 'c \<Rightarrow> 'c \<times> 'sp) \<Rightarrow> 'c TraceContextRequest \<Rightarrow> ('c \<times> 'sp) \<times> 'c TraceContextRequest" where
  "TraceContext_Build tid sid with_span start t =
     (if tr_traceparent t = [] then (start (tr_traceName t) (tr_spanName t) (tr_otelCtx t), t)
      else case ConstructNewSpanContextFromTraceparent tid sid (tr_traceparent t) of
             Inl err \<Rightarrow> (start (tr_traceName t) (tr_spanName t) (tr_otelCtx t), t)
           | Inr spanContext \<Rightarrow>
               (let t1 = t\<lparr>tr_otelCtx := with_span spanContext (tr_otelCtx t)\<rparr>
                in (start (tr_traceName t1) (tr_spanName t1) (tr_otelCtx t1), t1)))"

section \<open>Lemmas\<close>

subsection \<open>The providers\<close>

text \<open>
  The SDK as documented: a provider is live from its creation to its shutdown, and no other call starts or
  stops one.
\<close>

definition otel_contract :: "('e, 's, 'p, 'w) otel_sdk \<Rightarrow> ('w \<Rightarrow> 'p set) \<Rightarrow> bool" where
  "otel_contract sdk live \<longleftrightarrow>
     (\<forall>sig url w. live (snd (sdk_NewOTLP sdk sig url w)) = live w)
   \<and> (\<forall>n v i w. live (snd (sdk_resource sdk n v i w)) = live w)
   \<and> (\<forall>sig res ex w p w1. sdk_provider sdk sig res ex w = (p, w1) \<longrightarrow> p \<notin> live w \<and> live w1 = insert p (live w))
   \<and> (\<forall>p w. live (snd (sdk_Shutdown sdk p w)) = live w - {p})
   \<and> (\<forall>sig p w. live (sdk_SetProvider sdk sig p w) = live w)
   \<and> (\<forall>w. live (sdk_SetTextMapPropagator sdk w) = live w)"

lemma otel_contractD:
  assumes "otel_contract sdk live"
  shows "sdk_NewOTLP sdk sig url w = (r, w1) \<Longrightarrow> live w1 = live w"
    and "sdk_resource sdk n v i w = (q, w1) \<Longrightarrow> live w1 = live w"
    and "sdk_provider sdk sig res ex w = (p, w1) \<Longrightarrow> p \<notin> live w \<and> live w1 = insert p (live w)"
    and "sdk_Shutdown sdk p w = (e, w1) \<Longrightarrow> live w1 = live w - {p}"
    and "live (sdk_SetProvider sdk sig p w) = live w"
    and "live (sdk_SetTextMapPropagator sdk w) = live w"
  using assms unfolding otel_contract_def by (metis snd_conv)+

text \<open>A provider call either starts exactly one provider, or fails and starts none.\<close>

fun provided :: "('w \<Rightarrow> 'p set) \<Rightarrow> 'w \<Rightarrow> 'p result \<times> 'w \<Rightarrow> bool" where
  "provided live w (Inl err, w1) \<longleftrightarrow> live w1 = live w"
| "provided live w (Inr p, w1) \<longleftrightarrow> p \<notin> live w \<and> live w1 = insert p (live w)"

lemma newTraceProvider_provided:
  "otel_contract sdk live \<Longrightarrow> provided live w (newTraceProvider sdk cfg w)"
  unfolding newTraceProvider_def trace_Build_def
  by (auto split: prod.splits sum.splits dest: otel_contractD)

lemma newMeterProvider_provided:
  "otel_contract sdk live \<Longrightarrow> provided live w (newMeterProvider sdk cfg w)"
  unfolding newMeterProvider_def meter_Build_def SetExporter_def
  by (auto split: prod.splits sum.splits dest: otel_contractD)

lemma newLoggerProvider_provided:
  "otel_contract sdk live \<Longrightarrow> provided live w (newLoggerProvider sdk cfg w)"
  unfolding newLoggerProvider_def logger_Build_def
  by (auto split: prod.splits sum.splits dest: otel_contractD)

lemma run_shutdown_live:
  assumes "otel_contract sdk live"
  shows "live (snd (run_shutdown (sdk_Shutdown sdk) fns err w)) = live w - set fns"
  using otel_contractD(4) [OF assms]
  by (induction fns arbitrary: err w) (fastforce split: prod.splits)+

text \<open>What a start leaves: nothing when it fails, and its own providers, none of them live before, when it succeeds.\<close>

fun started :: "('w \<Rightarrow> 'p set) \<Rightarrow> 'p set \<Rightarrow> 'p list result \<times> 'w \<Rightarrow> bool" where
  "started live before (Inl err, w1) \<longleftrightarrow> live w1 = before"
| "started live before (Inr fns, w1) \<longleftrightarrow> live w1 = before \<union> set fns \<and> before \<inter> set fns = {}"

lemma add_provider_started:
  assumes "otel_contract sdk live" "live w = before \<union> set fns" "before \<inter> set fns = {}"
    and "provided live w (create w)"
  shows "started live before (add_provider sdk sig create fns w)"
  using assms run_shutdown_live [OF assms(1)] otel_contractD(5) [OF assms(1)]
  by (auto simp: add_provider_def split: prod.splits sum.splits)

lemma setupOTelSDK_started:
  assumes c: "otel_contract sdk live"
  shows "started live (live w) (setupOTelSDK sdk cfg w)"
proof (cases "newTraceProvider sdk cfg (sdk_SetTextMapPropagator sdk w)")
  case (Pair r w1)
  note pr = newTraceProvider_provided [OF c, of "sdk_SetTextMapPropagator sdk w" cfg]
  note st = otel_contractD(5,6) [OF c]
  show ?thesis
  proof (cases r)
    case (Inl err)
    then show ?thesis using Pair pr st by (simp add: setupOTelSDK_def)
  next
    case (Inr p)
    define m where "m = (if mon_EnableTelemetry (cfg_Monitoring cfg)
                 then add_provider sdk Metrics (newMeterProvider sdk cfg) [p] (sdk_SetProvider sdk Traces p w1)
                 else (Inr [p], sdk_SetProvider sdk Traces p w1))"
    have w1: "p \<notin> live w" "live (sdk_SetProvider sdk Traces p w1) = live w \<union> set [p]"
      using Inr Pair pr st by auto
    have m: "started live (live w) m"
      unfolding m_def using w1 newMeterProvider_provided [OF c]
      by (auto intro!: add_provider_started [OF c])
    have "setupOTelSDK sdk cfg w = (case m of (Inl err, w2) \<Rightarrow> (Inl err, w2)
       | (Inr fns, w2) \<Rightarrow>
           (if mon_EnableCollectLog (cfg_Monitoring cfg)
            then add_provider sdk Logs (newLoggerProvider sdk cfg) fns w2 else (Inr fns, w2)))"
      using Inr Pair by (simp add: setupOTelSDK_def m_def)
    then show ?thesis
      using m newLoggerProvider_provided [OF c]
      by (auto split: prod.splits sum.splits intro!: add_provider_started [OF c])
  qed
qed

text \<open>
  C16. The life of the telemetry driver: a failed \<open>Init\<close> leaves no provider of its own running (and a driver on
  which \<open>Close\<close> panics, as its cleanup is nil), and a successful one is undone by \<open>Close\<close>, whose second call
  does nothing.
\<close>

theorem otel_lifecycle:
  assumes "otel_contract sdk live"
  shows "case Otel_Init sdk cfg NewOtel w of
           (Some err, ot, w1) \<Rightarrow> live w1 = live w \<and> (\<exists>msg. Otel_Close sdk ot w1 = Panic msg)
         | (None, ot, w1) \<Rightarrow>
             \<exists>err ot2 w2. Otel_Close sdk ot w1 = Ret (err, ot2, w2) \<and> live w2 = live w
                        \<and> Otel_Close sdk ot2 w2 = Ret (None, ot2, w2)"
proof (cases "setupOTelSDK sdk cfg w")
  case (Pair r w1)
  note st = setupOTelSDK_started [OF assms, of w cfg]
  show ?thesis
  proof (cases r)
    case (Inl err)
    then show ?thesis using Pair st by (simp add: Otel_Init_def Otel_Close_def NewOtel_def)
  next
    case (Inr fns)
    obtain err w2 where run: "run_shutdown (sdk_Shutdown sdk) fns None w1 = (err, w2)" by fastforce
    have "live w2 = live w1 - set fns"
      using run_shutdown_live [OF assms, of fns None w1] run by simp
    then have "live w2 = live w" using Inr Pair st by auto
    then show ?thesis using Inr Pair run by (simp add: Otel_Init_def Otel_Close_def NewOtel_def)
  qed
qed

text \<open>A small SDK: the world is the list of live providers; no log exporter can be had from an empty address.\<close>

definition demo_otel :: "(string, string, nat, nat list) otel_sdk" where
  "demo_otel =
     \<lparr>sdk_NewOTLP = (\<lambda>sig url w. (if sig = Logs \<and> url = [] then Inl (ErrorString ''no endpoint'') else Inr url, w)),
      sdk_resource = (\<lambda>n v i w. (Inr n, w)),
      sdk_provider = (\<lambda>sig res ex w. (Suc (sum_list w), Suc (sum_list w) # w)),
      sdk_Shutdown = (\<lambda>p w. (None, filter (\<lambda>q. q \<noteq> p) w)),
      sdk_exporter_Shutdown = (\<lambda>ex w. (None, w)),
      sdk_SetProvider = (\<lambda>sig p w. w),
      sdk_SetTextMapPropagator = (\<lambda>w. w)\<rparr>"

lemma demo_otel_contract: "otel_contract demo_otel set"
  using member_le_sum_list [where 'a = nat]
  by (fastforce simp: otel_contract_def demo_otel_def)

theorem otel_lifecycle_witness:
  "otel_contract demo_otel set
   \<and> (case Otel_Init demo_otel demo_config NewOtel [7] of
           (Some err, ot, w1) \<Rightarrow> set w1 = set [7] \<and> (\<exists>msg. Otel_Close demo_otel ot w1 = Panic msg)
         | (None, ot, w1) \<Rightarrow>
             \<exists>err ot2 w2. Otel_Close demo_otel ot w1 = Ret (err, ot2, w2) \<and> set w2 = set [7]
                        \<and> Otel_Close demo_otel ot2 w2 = Ret (None, ot2, w2))"
  using otel_lifecycle [OF demo_otel_contract, where cfg = demo_config and w = "[7]"] demo_otel_contract by blast

subsection \<open>The errors of a start\<close>

text \<open>The cleanup error is not in the result: the inner error alone is.\<close>

lemma add_provider_error:
  "create w = (Inl err, w1) \<Longrightarrow> fst (add_provider sdk sig create fns w) = Inl err"
  by (simp add: add_provider_def)

lemma setupOTelSDK_trace_error:
  "newTraceProvider sdk cfg (sdk_SetTextMapPropagator sdk w) = (Inl err, w1) \<Longrightarrow>
     setupOTelSDK sdk cfg w = (Inl (JoinError [err]), w1)"
  by (simp add: setupOTelSDK_def)

subsection \<open>Trace parents\<close>

text \<open>
  C30. A trace parent is accepted exactly when it has four parts separated by dashes of which the second is a trace
  id and the third a span id; the span context then has these ids, is remote, and is sampled only for the
  flags \<open>01\<close>. The first part, the version, is not looked at.
\<close>

theorem traceparent_exact:
  "ConstructNewSpanContextFromTraceparent tid sid header = Inr c \<longleftrightarrow>
     (\<exists>version t s flags.
        header = version @ ''-'' @ t @ ''-'' @ s @ ''-'' @ flags
      \<and> CHR ''-'' \<notin> set version \<union> set t \<union> set s \<union> set flags
      \<and> tid t = Inr (sc_TraceID c) \<and> sid s = Inr (sc_SpanID c)
      \<and> sc_sampled c = (flags = ''01'') \<and> sc_Remote c)"
  (is "?L \<longleftrightarrow> ?R")
proof
  assume l: ?L
  then obtain a t s f where sp: "SplitOn CHR ''-'' header = [a, t, s, f]"
    by (auto simp: ConstructNewSpanContextFromTraceparent_def split: list.splits)
  then have h: "header = a @ ''-'' @ t @ ''-'' @ s @ ''-'' @ f"
    "CHR ''-'' \<notin> set a \<union> set t \<union> set s \<union> set f"
    by (auto simp: SplitOn_eq_Cons SplitOn_eq_single)
  have "tid t = Inr (sc_TraceID c) \<and> sid s = Inr (sc_SpanID c) \<and> sc_sampled c = (f = ''01'') \<and> sc_Remote c"
    using l sp by (auto simp: ConstructNewSpanContextFromTraceparent_def split: sum.splits)
  then show ?R using h by blast
next
  assume ?R
  then obtain a t s f where h: "header = a @ ''-'' @ t @ ''-'' @ s @ ''-'' @ f"
    "CHR ''-'' \<notin> set a" "CHR ''-'' \<notin> set t" "CHR ''-'' \<notin> set s" "CHR ''-'' \<notin> set f"
    and c: "tid t = Inr (sc_TraceID c)" "sid s = Inr (sc_SpanID c)" "sc_sampled c = (f = ''01'')" "sc_Remote c"
    by auto
  have "SplitOn CHR ''-'' header = [a, t, s, f]"
    using h by (simp add: SplitOn_append SplitOn_single)
  then show ?L
    using c by (simp add: ConstructNewSpanContextFromTraceparent_def)
qed

text \<open>A header that is not accepted starts a new trace, as an absent one does.\<close>

lemma TraceContext_Build_fallback:
  "ConstructNewSpanContextFromTraceparent tid sid (tr_traceparent t) = Inl err \<Longrightarrow>
     fst (TraceContext_Build tid sid with_span start t) =
     fst (TraceContext_Build tid sid with_span start (WithTraceparent [] t))"
  by (simp add: TraceContext_Build_def WithTraceparent_def)

lemma sampled_flag_lost:
  assumes "CHR ''-'' \<notin> set t \<union> set s"
  shows "ConstructNewSpanContextFromTraceparent tid sid (''00-'' @ t @ ''-'' @ s @ ''-03'') = Inr c \<Longrightarrow> \<not> sc_sampled c"
proof -
  have "SplitOn CHR ''-'' (''00'' @ CHR ''-'' # t @ CHR ''-'' # s @ CHR ''-'' # ''03'') = [''00'', t, s, ''03'']"
    using assms by (simp add: SplitOn_append SplitOn_single del: append.simps)
  then show "ConstructNewSpanContextFromTraceparent tid sid (''00-'' @ t @ ''-'' @ s @ ''-03'') = Inr c \<Longrightarrow> \<not> sc_sampled c"
    by (auto simp: ConstructNewSpanContextFromTraceparent_def split: sum.splits)
qed

end
