(* ===== verification/Daemon.thy ===== *)
theory Daemon
  imports Handshake Driver_Manager
begin

text \<open>
  The daemon driver (\<^verbatim>\<open>drivers/daemon\<close>), which runs a load balancer on the socket a worker was handed, on the
  asynchronous commands of \<^verbatim>\<open>pkg/async\<close> and the helpers of \<^verbatim>\<open>tools/utils\<close>. What the system does when
  a process is started is the argument \<open>fork\<close>; a file is its descriptor. The goroutines that wait for the process and watch for
  its end, the end of the process and the calls of other goroutines are the steps of a relation.
\<close>

section \<open>Helpers\<close>

fun IsInclude :: "'a list \<Rightarrow> 'a \<Rightarrow> bool" where
  "IsInclude [] target = False"
| "IsInclude (datum # data) target = (if datum = target then True else IsInclude data target)"

text \<open>\<open>look\<close> is the search of the executable in the path and \<open>wd\<close> the working directory.\<close>

definition filepath_Abs :: "string result \<Rightarrow> string \<Rightarrow> string result" where
  "filepath_Abs wd p =
     (if HasPrefix p [slash] then Inr (path_Clean p)
      else case wd of Inl err \<Rightarrow> Inl err | Inr d \<Rightarrow> Inr (path_Clean (d @ [slash] @ p)))"

definition LookupExecutablePathAbs :: "(string \<Rightarrow> string result) \<Rightarrow> string result \<Rightarrow> string \<Rightarrow> string result" where
  "LookupExecutablePathAbs look wd executable =
     (case look executable of Inl err \<Rightarrow> Inl err | Inr file \<Rightarrow> filepath_Abs wd file)"

section \<open>Asynchronous commands\<close>

text \<open>
  A command with its process id, its exit code once it was waited for, and the progress of the goroutine that waits
  for it.
\<close>

datatype waiter = NoWaiter | Waiting | Sending | WaiterDone

record Cmd =
  cm_Path :: string
  cm_Args :: "string list"
  cm_Env :: "string list"
  cm_ExtraFiles :: "int list"
  cm_Process :: "int option"
  cm_ProcessState :: "int option"
  cm_Error :: "go_error option"
  cm_waiter :: waiter

definition async_Command :: "string \<Rightarrow> string list \<Rightarrow> Cmd" where
  "async_Command name arg =
     \<lparr>cm_Path = name, cm_Args = name # arg, cm_Env = [], cm_ExtraFiles = [], cm_Process = None, cm_ProcessState = None,
      cm_Error = None, cm_waiter = NoWaiter\<rparr>"

definition AsyncRun :: "(Cmd \<Rightarrow> int result) \<Rightarrow> Cmd \<Rightarrow> go_error option \<times> Cmd" where
  "AsyncRun fork a =
     (case fork a of
        Inl err \<Rightarrow> (Some err, a\<lparr>cm_Error := Some err\<rparr>)
      | Inr pid \<Rightarrow>
          (let a1 = a\<lparr>cm_Process := Some pid\<rparr>
           in if pid < 1
              then (let err = ErrorString ''unable to create process'' in (Some err, a1\<lparr>cm_Error := Some err\<rparr>))
              else (None, a1\<lparr>cm_waiter := Waiting\<rparr>)))"

definition exit_status :: "int \<Rightarrow> string" where
  "exit_status code = (if code < 0 then ''signal: killed'' else ''exit status '' @ Itoa code)"

definition Cmd_Status :: "Cmd \<Rightarrow> string" where
  "Cmd_Status a =
     (if cm_Process a = None then ''not started''
      else case cm_ProcessState a of
             Some code \<Rightarrow> exit_status code
           | None \<Rightarrow> (case cm_Error a of Some e \<Rightarrow> error_text e | None \<Rightarrow> ''running''))"

text \<open>The files a process gets: the standard ones first, then the extra ones, from descriptor 3.\<close>

definition inherited :: "Cmd \<Rightarrow> (int \<times> int) list" where
  "inherited a = zip (map (\<lambda>i. 3 + int i) [0..<length (cm_ExtraFiles a)]) (cm_ExtraFiles a)"

section \<open>The driver\<close>

text \<open>
  The adapter, with the pointer to its command, whether the goroutine that watches the command runs, the application's
  cancelled context, and the exit code of the process, known to the system.
\<close>

record DaemonAdapter =
  da_cmd :: "Cmd option"
  da_worker :: "Worker option"
  da_watching :: bool
  da_stopped :: bool
  da_exit :: "int option"

definition NewDaemonAdapter :: "bool \<Rightarrow> DaemonAdapter" where
  "NewDaemonAdapter stopped =
     \<lparr>da_cmd = None, da_worker = None, da_watching = False, da_stopped = stopped, da_exit = None\<rparr>"

record daemon_env =
  de_LookPath :: "string \<Rightarrow> string result"
  de_Getwd :: "string result"
  de_Environ :: "string list"
  de_fork :: "Cmd \<Rightarrow> int result"

definition haproxy_cmd :: "daemon_env \<Rightarrow> string \<Rightarrow> int \<Rightarrow> int \<Rightarrow> Cmd" where
  "haproxy_cmd env executable file pid =
     (async_Command executable [''-f'', ''haproxy.cfg''])
       \<lparr>cm_ExtraFiles := [file],
        cm_Env := de_Environ env @ [''FD_ORDER='' @ Itoa file, ''APP_VERSION=v1.1'', ''PID='' @ Itoa pid]\<rparr>"

definition runHaproxy :: "daemon_env \<Rightarrow> int \<Rightarrow> Worker \<Rightarrow> DaemonAdapter \<Rightarrow> go_error option \<times> DaemonAdapter" where
  "runHaproxy env file worker d =
     (case LookupExecutablePathAbs (de_LookPath env) (de_Getwd env) ''haproxy'' of
        Inl err \<Rightarrow> (Some err, d)
      | Inr executable \<Rightarrow>
          (case AsyncRun (de_fork env) (haproxy_cmd env executable file (wk_pid worker)) of
             (Some err, cmd) \<Rightarrow> (Some err, d)
           | (None, cmd) \<Rightarrow> (None, d\<lparr>da_cmd := Some cmd, da_watching := True\<rparr>)))"

definition WorkerAdapterName :: string where
  "WorkerAdapterName = ''MasterAdapter''"

text \<open>\<open>cast\<close> is the assertion that an instance is a pointer to a worker, which may be nil.\<close>

definition DaemonAdapter_Init ::
  "daemon_env \<Rightarrow> ('i \<Rightarrow> Worker option option) \<Rightarrow> ('i \<Rightarrow> string) \<Rightarrow> ('i, 'w) Manager \<Rightarrow> 'w \<Rightarrow> DaemonAdapter
     \<Rightarrow> (go_error option \<times> DaemonAdapter) outcome" where
  "DaemonAdapter_Init env cast tyname m w d =
     (case Manager_Get cast tyname ''*workercore.Worker'' m WorkerAdapterName w of
        Inl err \<Rightarrow> Ret (Some err, d)
      | Inr None \<Rightarrow> Panic ''invalid memory address or nil pointer dereference''
      | Inr (Some worker) \<Rightarrow>
          (case wk_ExtraFile worker of
             None \<Rightarrow> Ret (None, d)
           | Some file \<Rightarrow>
               (case runHaproxy env file worker (d\<lparr>da_worker := Some worker\<rparr>) of (err, d1) \<Rightarrow> Ret (None, d1))))"

text \<open>Closing kills the process, which the system notes as a negative exit code; killing one that was waited for fails.\<close>

definition ErrProcessDone :: go_error where
  "ErrProcessDone = Sentinel ''os.ErrProcessDone'' ''os: process already finished''"

definition DaemonAdapter_Close :: "DaemonAdapter \<Rightarrow> (go_error option \<times> DaemonAdapter) outcome" where
  "DaemonAdapter_Close d =
     (case da_cmd d of
        None \<Rightarrow> Panic ''invalid memory address or nil pointer dereference''
      | Some cmd \<Rightarrow>
          if cm_ProcessState cmd \<noteq> None then Ret (Some ErrProcessDone, d)
          else Ret (None, if da_exit d = None then d\<lparr>da_exit := Some (- 1)\<rparr> else d))"

section \<open>The goroutines\<close>

definition wait_returns :: "int \<Rightarrow> Cmd \<Rightarrow> Cmd" where
  "wait_returns code cmd =
     cmd\<lparr>cm_ProcessState := Some code, cm_Error := (if code = 0 then None else Some (ErrorString (exit_status code))),
         cm_waiter := Sending\<rparr>"

text \<open>The watcher, once it received from the channel: an abnormal end stops the application.\<close>

definition watcher_received :: "int \<Rightarrow> Cmd \<Rightarrow> DaemonAdapter \<Rightarrow> DaemonAdapter" where
  "watcher_received code cmd d =
     d\<lparr>da_cmd := Some (cmd\<lparr>cm_waiter := WaiterDone\<rparr>), da_watching := False,
       da_stopped := (code \<noteq> 0 \<or> da_stopped d)\<rparr>"

text \<open>
  The process ends by itself or, once the context is cancelled, is killed; waiting returns; the waiting goroutine
  hands over to the watching one; another goroutine stops the application or closes the driver.
\<close>

inductive daemon_step :: "DaemonAdapter \<Rightarrow> DaemonAdapter \<Rightarrow> bool" where
  exits: "da_cmd d = Some cmd \<Longrightarrow> da_exit d = None \<Longrightarrow> daemon_step d (d\<lparr>da_exit := Some code\<rparr>)"
| waited: "da_cmd d = Some cmd \<Longrightarrow> cm_waiter cmd = Waiting \<Longrightarrow> da_exit d = Some code \<Longrightarrow>
     daemon_step d (d\<lparr>da_cmd := Some (wait_returns code cmd)\<rparr>)"
| handed_over: "da_cmd d = Some cmd \<Longrightarrow> cm_waiter cmd = Sending \<Longrightarrow> da_watching d \<Longrightarrow> cm_ProcessState cmd = Some code \<Longrightarrow>
     daemon_step d (watcher_received code cmd d)"
| stopped: "daemon_step d (d\<lparr>da_stopped := True\<rparr>)"
| Closed: "DaemonAdapter_Close d = Ret (err, d1) \<Longrightarrow> daemon_step d d1"

section \<open>Lemmas\<close>

lemma IsInclude_iff: "IsInclude data target \<longleftrightarrow> target \<in> set data"
  by (induction data) auto

text \<open>A command that was started: exactly one process, with one goroutine waiting for it.\<close>

lemma AsyncRun_started:
  "fork a = Inr pid \<Longrightarrow> 1 \<le> pid \<Longrightarrow> AsyncRun fork a = (None, a\<lparr>cm_Process := Some pid, cm_waiter := Waiting\<rparr>)"
  by (simp add: AsyncRun_def)

lemma AsyncRun_error:
  "AsyncRun fork a = (Some err, a') \<Longrightarrow> cm_Error a' = Some err \<and> cm_waiter a' = cm_waiter a"
  by (auto simp: AsyncRun_def Let_def split: sum.splits if_splits)

text \<open>
  The invariant of the running daemon: how far the two goroutines are determines what is known of the process; once
  the watcher is done an abnormal end has stopped the application.
\<close>

definition daemon_inv :: "DaemonAdapter \<Rightarrow> bool" where
  "daemon_inv d =
     (case da_cmd d of
        None \<Rightarrow> False
      | Some cmd \<Rightarrow>
          (case cm_waiter cmd of
             NoWaiter \<Rightarrow> False
           | Waiting \<Rightarrow> da_watching d \<and> cm_ProcessState cmd = None
           | Sending \<Rightarrow> da_watching d \<and> da_exit d \<noteq> None \<and> cm_ProcessState cmd = da_exit d
           | WaiterDone \<Rightarrow> \<not> da_watching d \<and> da_exit d \<noteq> None \<and> cm_ProcessState cmd = da_exit d
               \<and> (da_exit d \<noteq> Some 0 \<longrightarrow> da_stopped d)))"

lemma daemon_step_inv: "daemon_step d d1 \<Longrightarrow> daemon_inv d \<Longrightarrow> daemon_inv d1"
proof (induction rule: daemon_step.induct)
  case (exits d cmd code)
  then show ?case by (auto simp: daemon_inv_def split: waiter.splits)
next
  case (waited d cmd code)
  then show ?case by (simp add: daemon_inv_def wait_returns_def)
next
  case (handed_over d cmd code)
  then show ?case by (auto simp: daemon_inv_def watcher_received_def)
next
  case (stopped d)
  then show ?case by (auto simp: daemon_inv_def split: option.splits waiter.splits)
next
  case (Closed d err d1)
  then show ?case
    by (cases "da_cmd d") (auto simp: DaemonAdapter_Close_def daemon_inv_def split: if_splits waiter.splits)
qed

lemma daemon_steps_inv: "daemon_step\<^sup>*\<^sup>* d d1 \<Longrightarrow> daemon_inv d \<Longrightarrow> daemon_inv d1"
  by (induction rule: rtranclp_induct) (auto intro: daemon_step_inv)

lemma runHaproxy_inv:
  "runHaproxy env file worker d = (None, d1) \<Longrightarrow> daemon_inv d1"
  by (auto simp: runHaproxy_def daemon_inv_def AsyncRun_def haproxy_cmd_def async_Command_def Let_def
      split: sum.splits prod.splits option.splits if_splits)

text \<open>From the end of the process the goroutines finish by themselves.\<close>

lemma daemon_finishes_from_sending:
  assumes "da_cmd d = Some cmd" "cm_waiter cmd = Sending" "daemon_inv d" "da_exit d = Some code"
  shows "\<exists>d1. daemon_step\<^sup>*\<^sup>* d d1 \<and> \<not> da_watching d1 \<and> da_stopped d1 = (da_stopped d \<or> code \<noteq> 0)"
proof (intro exI conjI)
  show "daemon_step\<^sup>*\<^sup>* d (watcher_received code cmd d)"
    using assms by (intro r_into_rtranclp handed_over) (auto simp: daemon_inv_def)
qed (auto simp: watcher_received_def)

lemma daemon_finishes:
  assumes "daemon_inv d" "da_exit d = Some code"
  shows "\<exists>d1. daemon_step\<^sup>*\<^sup>* d d1 \<and> \<not> da_watching d1 \<and> da_stopped d1 = (da_stopped d \<or> code \<noteq> 0)"
proof -
  obtain cmd where cmd: "da_cmd d = Some cmd" using assms(1) by (auto simp: daemon_inv_def split: option.splits)
  show ?thesis
  proof (cases "cm_waiter cmd")
    case Waiting
    let ?d = "d\<lparr>da_cmd := Some (wait_returns code cmd)\<rparr>"
    have st: "daemon_step d ?d" using waited [OF cmd Waiting assms(2)] .
    have "daemon_inv ?d" using daemon_step_inv [OF st assms(1)] .
    then show ?thesis
      using daemon_finishes_from_sending [of ?d "wait_returns code cmd" code] st assms(2)
      by (auto simp: wait_returns_def intro: converse_rtranclp_into_rtranclp)
  next
    case Sending
    then show ?thesis using daemon_finishes_from_sending [OF cmd Sending assms] by blast
  next
    case WaiterDone
    then have "\<not> da_watching d" "da_stopped d = (da_stopped d \<or> code \<noteq> 0)"
      using assms cmd by (auto simp: daemon_inv_def)
    then show ?thesis by blast
  qed (use assms cmd in \<open>auto simp: daemon_inv_def\<close>)
qed

section \<open>Properties\<close>

text \<open>
  C18. The end of the daemon's process reaches the application. In whatever order the process ends, the goroutines run and
  other goroutines stop the application or close the driver: once the process has ended, the waiting and
  the watching goroutine can finish, and then the application is stopped exactly if it was stopped before or the
  process ended abnormally; a watcher that is done has stopped it in that case.
\<close>

theorem daemon_exit_reaches_app:
  assumes "runHaproxy env file worker d0 = (None, d)" and "daemon_step\<^sup>*\<^sup>* d d1"
  shows "case da_exit d1 of
           None \<Rightarrow> da_watching d1
         | Some code \<Rightarrow> (\<exists>d2. daemon_step\<^sup>*\<^sup>* d1 d2 \<and> \<not> da_watching d2 \<and> da_stopped d2 = (da_stopped d1 \<or> code \<noteq> 0))
             \<and> (da_watching d1 \<or> code = 0 \<or> da_stopped d1)"
proof -
  have inv: "daemon_inv d1"
    using daemon_steps_inv [OF assms(2) runHaproxy_inv [OF assms(1)]] .
  then show ?thesis
    using daemon_finishes [OF inv]
    by (auto simp: daemon_inv_def split: option.splits waiter.splits)
qed

definition demo_daemon_env :: daemon_env where
  "demo_daemon_env =
     \<lparr>de_LookPath = (\<lambda>x. Inr (''/usr/sbin/'' @ x)), de_Getwd = Inr ''/srv'', de_Environ = [''HOME=/root''],
      de_fork = (\<lambda>c. Inr 99)\<rparr>"

text \<open>
  C28. The socket on its way to the load balancer: a worker that was handed a descriptor starts the process with that file as
  descriptor 3, the only extra one, while the environment names the number the file has in the
  worker; the process finds its socket under that number only when the number is 3.
\<close>

theorem daemon_inherits_socket:
  assumes "Manager_Instance m WorkerAdapterName w = Some inst" and "cast inst = Some (Some worker)"
    and "wk_ExtraFile worker = Some fd"
    and "LookupExecutablePathAbs (de_LookPath env) (de_Getwd env) ''haproxy'' = Inr path"
    and "\<And>c. \<exists>pid \<ge> 1. de_fork env c = Inr pid"
  shows "\<exists>d1 cmd. DaemonAdapter_Init env cast tyname m w d = Ret (None, d1) \<and> da_cmd d1 = Some cmd
       \<and> da_watching d1 \<and> Cmd_Status cmd = ''running'' \<and> inherited cmd = [(3, fd)]
       \<and> (\<exists>rest. cm_Env cmd = de_Environ env @ (''FD_ORDER='' @ Itoa fd) # rest)
       \<and> ((fd, fd) \<in> set (inherited cmd) \<longleftrightarrow> fd = 3)"
proof -
  let ?c = "haproxy_cmd env path fd (wk_pid worker)"
  obtain pid where pid: "de_fork env ?c = Inr pid" "1 \<le> pid" using assms(5) by blast
  let ?cmd = "?c\<lparr>cm_Process := Some pid, cm_waiter := Waiting\<rparr>"
  have run: "runHaproxy env fd worker (d\<lparr>da_worker := Some worker\<rparr>) =
      (None, d\<lparr>da_worker := Some worker, da_cmd := Some ?cmd, da_watching := True\<rparr>)"
    using assms(4) AsyncRun_started [where fork = "de_fork env" and a = ?c, OF pid] by (simp add: runHaproxy_def)
  have init: "DaemonAdapter_Init env cast tyname m w d =
      Ret (None, d\<lparr>da_worker := Some worker, da_cmd := Some ?cmd, da_watching := True\<rparr>)"
    using assms(1-3) run by (simp add: DaemonAdapter_Init_def Manager_Get_def)
  show ?thesis
    unfolding init by (intro exI conjI) (auto simp: Cmd_Status_def inherited_def haproxy_cmd_def async_Command_def)
qed

definition demo_worker :: Worker where
  "demo_worker = zero_worker\<lparr>wk_pid := 4242, wk_fd := 7, wk_ExtraFile := Some 7\<rparr>"

definition demo_manager :: "(Worker option, unit) Manager" where
  "demo_manager =
     \<lparr>v2_drivers = [\<lparr>drv_Name = WorkerAdapterName, drv_Init = (\<lambda>w. (None, w)), drv_Instance = (\<lambda>w. Some (Some demo_worker)),
        drv_Close = (\<lambda>w. (None, w))\<rparr>]\<rparr>"

lemma demo_lookup:
  "LookupExecutablePathAbs (de_LookPath demo_daemon_env) (de_Getwd demo_daemon_env) ''haproxy'' = Inr ''/usr/sbin/haproxy''"
  by code_simp

theorem daemon_inherits_socket_witness:
  "\<exists>d1 cmd. DaemonAdapter_Init demo_daemon_env Some (\<lambda>i. []) demo_manager () (NewDaemonAdapter False) = Ret (None, d1)
       \<and> da_cmd d1 = Some cmd \<and> inherited cmd = [(3, 7)] \<and> (7, 7) \<notin> set (inherited cmd)"
proof -
  have inst: "Manager_Instance demo_manager WorkerAdapterName () = Some (Some demo_worker)"
    by (simp add: Manager_Instance_def demo_manager_def)
  have fd: "wk_ExtraFile demo_worker = Some 7" by (simp add: demo_worker_def)
  have fork: "\<exists>pid \<ge> 1. de_fork demo_daemon_env c = Inr pid" for c by (simp add: demo_daemon_env_def)
  from daemon_inherits_socket [where cast = Some and tyname = "\<lambda>i. []" and d = "NewDaemonAdapter False",
      OF inst refl fd demo_lookup fork]
  show ?thesis by fastforce
qed

theorem daemon_exit_reaches_app_witness:
  "\<exists>d. runHaproxy demo_daemon_env 7 demo_worker (NewDaemonAdapter False) = (None, d)
     \<and> (\<exists>d2. daemon_step\<^sup>*\<^sup>* (d\<lparr>da_exit := Some 1\<rparr>) d2 \<and> \<not> da_watching d2 \<and> da_stopped d2)"
proof -
  obtain e d where run: "runHaproxy demo_daemon_env 7 demo_worker (NewDaemonAdapter False) = (e, d)" by fastforce
  have e: "e = None" and ex: "da_exit d = None" and cmd: "\<exists>cmd. da_cmd d = Some cmd"
    using run demo_lookup
    by (auto simp: runHaproxy_def AsyncRun_def demo_daemon_env_def NewDaemonAdapter_def Let_def)
  obtain cmd where c: "da_cmd d = Some cmd" using cmd by blast
  have st: "daemon_step\<^sup>*\<^sup>* d (d\<lparr>da_exit := Some 1\<rparr>)"
    by (intro r_into_rtranclp exits [OF c ex])
  show ?thesis using daemon_exit_reaches_app [OF run [unfolded e] st] run e by auto
qed


end
