(* ===== verification/Quickstart.thy ===== *)
theory Quickstart
  imports Handshake
begin

text \<open>
  The quickstart programs of \<^verbatim>\<open>quickstart/unix-file-descriptor\<close>, a small master and worker of their own: the master hands its listening
  socket to every worker that connects, keeps the connections by the process id that a worker reports, and tells the workers to
  die when it is interrupted. The sockets between the two are byte streams; the goroutines of the master, one that accepts and one per connection,
  are the steps of \<open>quickstart_step\<close>.
\<close>

section \<open>The master\<close>

text \<open>
  A connection as both sides see it: the worker's process id, the message with the descriptor, whether the worker has
  reported, the bytes on their way in both directions, whether the worker still has its end, whether the master has.
\<close>

record qs_conn =
  cn_pid :: int
  cn_message :: unix_msg
  cn_reported :: bool
  cn_up :: string
  cn_down :: string
  cn_worker :: bool
  cn_open :: bool

record quickstart =
  qs_conns :: "nat \<Rightarrow> qs_conn option"
  workerRegistry :: "(string, nat) gomap"

definition getWorkerCPU :: "(string \<Rightarrow> string result) \<Rightarrow> int \<Rightarrow> int \<times> go_error option" where
  "getWorkerCPU readFile pid =
     (case readFile (''/proc/'' @ Itoa pid @ ''/stat'') of Inl err \<Rightarrow> (0, Some err) | Inr data \<Rightarrow> (0, None))"

text \<open>
  Opening the sockets: an error of the first one ends the program, the errors of the descriptor and of the second one are
  ignored, which leaves descriptor -1 and a nil listener.
\<close>

datatype qs_start = Fatal string | Started int "nat option"

definition open_sockets :: "nat result \<Rightarrow> int result \<Rightarrow> nat result \<Rightarrow> qs_start" where
  "open_sockets l f unixLn =
     (case l of
        Inl err \<Rightarrow> Fatal (error_text err)
      | Inr tcp \<Rightarrow> Started (case f of Inl err \<Rightarrow> -1 | Inr fd \<Rightarrow> fd) (case unixLn of Inl err \<Rightarrow> None | Inr u \<Rightarrow> Some u))"

definition quickstart_init :: quickstart where
  "quickstart_init = \<lparr>qs_conns = (\<lambda>c. None), workerRegistry = mempty\<rparr>"

text \<open>A new connection is sent the descriptor; one for which that fails is closed, and the loop goes on.\<close>

definition accept_worker :: "int \<Rightarrow> int \<Rightarrow> go_error option \<Rightarrow> nat \<Rightarrow> quickstart \<Rightarrow> quickstart" where
  "accept_worker fd pid err c s =
     s\<lparr>qs_conns := (qs_conns s)(c \<mapsto> \<lparr>cn_pid = pid, cn_message = proceed_message fd, cn_reported = False, cn_up = [], cn_down = [],
        cn_worker = True, cn_open = (err = None)\<rparr>)\<rparr>"

definition register_pid :: "nat \<Rightarrow> string \<Rightarrow> (string, nat) gomap \<Rightarrow> (string, nat) gomap" where
  "register_pid c txt reg = (let pid = TrimSpace txt in if pid = [] then reg else mput pid c reg)"

definition scan_line :: "nat \<Rightarrow> qs_conn \<Rightarrow> string \<Rightarrow> string \<Rightarrow> quickstart \<Rightarrow> quickstart" where
  "scan_line c cn l rest s =
     s\<lparr>qs_conns := (qs_conns s)(c \<mapsto> cn\<lparr>cn_up := rest\<rparr>), workerRegistry := register_pid c (dropCR (butlast l)) (workerRegistry s)\<rparr>"

text \<open>The goroutine of a connection ends with the stream and closes its end; the registry keeps its entry.\<close>

definition hang_up :: "nat \<Rightarrow> qs_conn \<Rightarrow> quickstart \<Rightarrow> quickstart" where
  "hang_up c cn s =
     s\<lparr>qs_conns := (qs_conns s)(c \<mapsto> cn\<lparr>cn_up := [], cn_open := False\<rparr>),
       workerRegistry := fold (register_pid c) (ScanLines (cn_up cn)) (workerRegistry s)\<rparr>"

text \<open>The end of the master: every registered connection is told to die, closed and forgotten; writing on a closed one only fails.\<close>

definition conn_Write :: "nat \<Rightarrow> string \<Rightarrow> (nat \<Rightarrow> qs_conn option) \<Rightarrow> nat \<Rightarrow> qs_conn option" where
  "conn_Write c txt m =
     (case m c of
        None \<Rightarrow> m
      | Some cn \<Rightarrow> if cn_open cn then m(c \<mapsto> cn\<lparr>cn_down := cn_down cn @ txt\<rparr>) else m)"

definition conn_Close :: "nat \<Rightarrow> (nat \<Rightarrow> qs_conn option) \<Rightarrow> nat \<Rightarrow> qs_conn option" where
  "conn_Close c m = (case m c of None \<Rightarrow> m | Some cn \<Rightarrow> m(c \<mapsto> cn\<lparr>cn_open := False\<rparr>))"

fun cleanse :: "string list \<Rightarrow> quickstart \<Rightarrow> quickstart" where
  "cleanse [] s = s"
| "cleanse (k # ks) s =
     (case mget (workerRegistry s) k of
        None \<Rightarrow> cleanse ks s
      | Some c \<Rightarrow> cleanse ks (s\<lparr>qs_conns := conn_Close c (conn_Write c ''DIE'' (qs_conns s)), workerRegistry := mdel k (workerRegistry s)\<rparr>))"

section \<open>The worker\<close>

text \<open>The errors of reading and parsing are ignored; what is missing then is an index out of range.\<close>

definition index_panic :: "'a outcome" where
  "index_panic = Panic ''index out of range [0] with length 0''"

definition received_fd :: "unix_msg result \<Rightarrow> int outcome" where
  "received_fd r =
     (case r of
        Inl err \<Rightarrow> index_panic
      | Inr m \<Rightarrow>
          (if um_oobn m = 0 then index_panic
           else case um_msgs m of
                  Inr (Inr (fd # fds) # msgs) \<Rightarrow> Ret fd
                | _ \<Rightarrow> index_panic))"

datatype qs_worker = Gone | Panicked string | Serving nat

text \<open>Serving on the nil listener of a descriptor that is no socket panics in the goroutine of the server.\<close>

definition worker_main :: "nat result \<Rightarrow> unix_msg result \<Rightarrow> (int \<Rightarrow> nat result) \<Rightarrow> qs_worker" where
  "worker_main dial r fileListener =
     (case dial of
        Inl err \<Rightarrow> Gone
      | Inr conn \<Rightarrow>
          (case received_fd r of
             Panic s \<Rightarrow> Panicked s
           | Ret fd \<Rightarrow>
               (case fileListener fd of
                  Inl err \<Rightarrow> Panicked ''invalid memory address or nil pointer dereference''
                | Inr l \<Rightarrow> Serving l)))"

definition served_text :: "int \<Rightarrow> string" where
  "served_text pid = ''Request ditangani oleh PID: '' @ Itoa pid @ [newline]"

definition report :: "nat \<Rightarrow> qs_conn \<Rightarrow> quickstart \<Rightarrow> quickstart" where
  "report c cn s = s\<lparr>qs_conns := (qs_conns s)(c \<mapsto> cn\<lparr>cn_reported := True, cn_up := cn_up cn @ pid_report (cn_pid cn)\<rparr>)\<rparr>"

text \<open>
  The commands of the master, up to the end of the stream: whether the context was cancelled. The process
  exits at once when the stream ended with an error.
\<close>

fun obey :: "string list \<Rightarrow> bool \<Rightarrow> bool" where
  "obey [] cancelled = cancelled"
| "obey (l # ls) cancelled = obey ls (if TrimSpace l = ''DIE'' then True else cancelled)"

datatype listener_end = Exit0 | Left bool

definition listenMaster :: "string \<Rightarrow> go_error option \<Rightarrow> listener_end" where
  "listenMaster bytes err = (let cancelled = obey (ScanLines bytes) False in if err \<noteq> None then Exit0 else Left cancelled)"

section \<open>Master and workers together\<close>

inductive quickstart_step :: "int \<Rightarrow> quickstart \<Rightarrow> quickstart \<Rightarrow> bool" for fd where
  qs_accept: "qs_conns s c = None \<Longrightarrow> quickstart_step fd s (accept_worker fd pid err c s)"
| qs_report: "\<lbrakk>qs_conns s c = Some cn; cn_worker cn; \<not> cn_reported cn; cn_open cn\<rbrakk> \<Longrightarrow> quickstart_step fd s (report c cn s)"
| qs_scan: "\<lbrakk>qs_conns s c = Some cn; cn_open cn; ReadLine (cn_up cn) = Some (l, rest)\<rbrakk> \<Longrightarrow> quickstart_step fd s (scan_line c cn l rest s)"
| qs_leave: "\<lbrakk>qs_conns s c = Some cn\<rbrakk> \<Longrightarrow> quickstart_step fd s (s\<lparr>qs_conns := (qs_conns s)(c \<mapsto> cn\<lparr>cn_worker := False\<rparr>)\<rparr>)"
| qs_hang_up: "\<lbrakk>qs_conns s c = Some cn; cn_open cn; \<not> cn_worker cn\<rbrakk> \<Longrightarrow> quickstart_step fd s (hang_up c cn s)"

abbreviation quickstart_steps :: "int \<Rightarrow> quickstart \<Rightarrow> quickstart \<Rightarrow> bool" where
  "quickstart_steps fd \<equiv> (quickstart_step fd)\<^sup>*\<^sup>*"

text \<open>
  The registry holds connections by the process ids of their workers, a worker that has not reported is not in it, and what a connection has in its
  stream is at most that report.
\<close>

definition conn_ok :: "int \<Rightarrow> qs_conn \<Rightarrow> bool" where
  "conn_ok fd cn \<longleftrightarrow> cn_up cn \<in> {[], pid_report (cn_pid cn)} \<and> (cn_reported cn \<or> cn_up cn = []) \<and> cn_down cn = []
     \<and> cn_message cn = proceed_message fd"

definition entry_ok :: "string \<Rightarrow> qs_conn \<Rightarrow> bool" where
  "entry_ok k cn \<longleftrightarrow> k = Itoa (cn_pid cn) \<and> cn_reported cn \<and> cn_up cn = []"

definition quickstart_inv :: "int \<Rightarrow> quickstart \<Rightarrow> bool" where
  "quickstart_inv fd s \<longleftrightarrow>
     (\<forall>k c. mget (workerRegistry s) k = Some c \<longrightarrow> (\<exists>cn. qs_conns s c = Some cn \<and> entry_ok k cn))
   \<and> (\<forall>c cn. qs_conns s c = Some cn \<longrightarrow> conn_ok fd cn)"

section \<open>Lemmas\<close>

lemma pid_report_lines: "ScanLines (pid_report pid) = [dropCR (Itoa pid)]"
  using ScanLines_line [OF pid_report_read, of pid "[]"] by (simp add: pid_report_def)

lemma register_report: "register_pid c (dropCR (Itoa pid)) reg = mput (Itoa pid) c reg"
proof -
  have "\<not> is_space (last (Itoa pid))" using Itoa_no_space [of "last (Itoa pid)" pid] by simp
  moreover have "is_space (CHR 0x0D)" by (simp add: is_space_def)
  ultimately have "dropCR (Itoa pid) = Itoa pid" by (metis dropCR_def)
  then show ?thesis by (simp add: register_pid_def Let_def)
qed

lemma quickstart_invD:
  assumes "quickstart_inv fd s"
  shows "mget (workerRegistry s) k = Some c \<Longrightarrow> \<exists>cn. qs_conns s c = Some cn \<and> entry_ok k cn"
    and "qs_conns s c = Some cn \<Longrightarrow> conn_ok fd cn"
  using assms unfolding quickstart_inv_def by blast+

lemma quickstart_inv_update:
  assumes "quickstart_inv fd s" and "conn_ok fd cn"
    and "\<And>k. mget reg k = Some c \<Longrightarrow> entry_ok k cn"
    and "\<And>k d. d \<noteq> c \<Longrightarrow> mget reg k = Some d \<Longrightarrow> mget (workerRegistry s) k = Some d"
  shows "quickstart_inv fd (s\<lparr>qs_conns := (qs_conns s)(c \<mapsto> cn), workerRegistry := reg\<rparr>)"
  unfolding quickstart_inv_def
proof (intro conjI allI impI)
  fix k d assume "mget (workerRegistry (s\<lparr>qs_conns := (qs_conns s)(c \<mapsto> cn), workerRegistry := reg\<rparr>)) k = Some d"
  then show "\<exists>cn'. qs_conns (s\<lparr>qs_conns := (qs_conns s)(c \<mapsto> cn), workerRegistry := reg\<rparr>) d = Some cn' \<and> entry_ok k cn'"
    using assms(3) assms(4) quickstart_invD(1) [OF assms(1)] by (cases "d = c") simp_all
next
  fix d dn assume "qs_conns (s\<lparr>qs_conns := (qs_conns s)(c \<mapsto> cn), workerRegistry := reg\<rparr>) d = Some dn"
  then show "conn_ok fd dn" using assms(2) quickstart_invD(2) [OF assms(1)] by (cases "d = c") simp_all
qed

text \<open>An update of one connection that leaves the registry as it is.\<close>

lemma quickstart_inv_conn:
  assumes "quickstart_inv fd s" and "conn_ok fd cn" and "\<And>k. mget (workerRegistry s) k = Some c \<Longrightarrow> entry_ok k cn"
  shows "quickstart_inv fd (s\<lparr>qs_conns := (qs_conns s)(c \<mapsto> cn)\<rparr>)"
  using quickstart_inv_update [OF assms(1,2), of "workerRegistry s" c] assms(3) by simp

lemma registered_conn: "\<lbrakk>quickstart_inv fd s; qs_conns s c = Some cn; mget (workerRegistry s) k = Some c\<rbrakk> \<Longrightarrow> entry_ok k cn"
  using quickstart_invD(1) by fastforce

lemma quickstart_step_inv: "quickstart_step fd s s1 \<Longrightarrow> quickstart_inv fd s \<Longrightarrow> quickstart_inv fd s1"
proof (induction rule: quickstart_step.induct)
  case (qs_accept s c pid err)
  have "mget (workerRegistry s) k \<noteq> Some c" for k using quickstart_invD(1) [OF qs_accept(2)] qs_accept(1) by fastforce
  then show ?case unfolding accept_worker_def by (intro quickstart_inv_conn qs_accept(2)) (simp_all add: conn_ok_def)
next
  case (qs_report s c cn)
  have ok: "conn_ok fd cn" using quickstart_invD(2) qs_report by blast
  have "mget (workerRegistry s) k \<noteq> Some c" for k
    using registered_conn [OF qs_report(5,1)] qs_report(3) by (auto simp: entry_ok_def)
  then show ?case using ok qs_report(3) unfolding report_def
    by (intro quickstart_inv_conn qs_report(5)) (auto simp: conn_ok_def)
next
  case (qs_scan s c cn l rest)
  have ok: "conn_ok fd cn" using quickstart_invD(2) qs_scan by blast
  then have up: "cn_up cn = Itoa (cn_pid cn) @ [newline]" "cn_reported cn"
    using qs_scan(3) by (auto simp: conn_ok_def pid_report_def ReadLine_no_newline)
  then have "l = Itoa (cn_pid cn) @ [newline]" "rest = []"
    using qs_scan(3) ReadLine_line [OF pid_report_read, of "cn_pid cn" "[]"] by simp_all
  moreover have "mget (workerRegistry s) k \<noteq> Some c" for k
    using registered_conn [OF qs_scan(4,1)] up(1) by (auto simp: entry_ok_def)
  ultimately show ?case using ok up(2) unfolding scan_line_def
    by (intro quickstart_inv_update qs_scan(4)) (auto simp: conn_ok_def entry_ok_def register_report split: if_splits)
next
  case (qs_leave s c cn)
  have ok: "conn_ok fd cn" using quickstart_invD(2) qs_leave by blast
  show ?case using ok registered_conn [OF qs_leave(2,1)]
    by (intro quickstart_inv_conn qs_leave(2)) (auto simp: conn_ok_def entry_ok_def)
next
  case (qs_hang_up s c cn)
  have ok: "conn_ok fd cn" using quickstart_invD(2) qs_hang_up by blast
  consider "cn_up cn = []" | "cn_up cn = pid_report (cn_pid cn)" using ok by (auto simp: conn_ok_def)
  then show ?case
  proof cases
    case 1
    then show ?thesis using ok registered_conn [OF qs_hang_up(4,1)] unfolding hang_up_def
      by (intro quickstart_inv_update qs_hang_up(4)) (auto simp: conn_ok_def entry_ok_def)
  next
    case 2
    then have "mget (workerRegistry s) k \<noteq> Some c" for k
      using registered_conn [OF qs_hang_up(4,1)] by (auto simp: entry_ok_def pid_report_def)
    moreover have "cn_reported cn" using ok 2 by (auto simp: conn_ok_def pid_report_def)
    ultimately show ?thesis using ok 2 unfolding hang_up_def
      by (intro quickstart_inv_update qs_hang_up(4))
        (auto simp: conn_ok_def entry_ok_def pid_report_lines register_report split: if_splits)
  qed
qed

lemma quickstart_steps_inv:
  assumes "quickstart_steps fd quickstart_init s"
  shows "quickstart_inv fd s"
  using assms
proof (induction rule: rtranclp_induct)
  case base
  show ?case by (simp add: quickstart_inv_def quickstart_init_def)
qed (rule quickstart_step_inv)

text \<open>What the end of the master does to a registered connection; doing it again changes nothing.\<close>

definition killed :: "qs_conn \<Rightarrow> qs_conn" where
  "killed cn = (if cn_open cn then cn\<lparr>cn_down := cn_down cn @ ''DIE'', cn_open := False\<rparr> else cn)"

lemma killed_again [simp]: "killed (killed cn) = killed cn"
  by (simp add: killed_def)

lemma kill_conn: "conn_Close c (conn_Write c ''DIE'' m) d = (if d = c then map_option killed (m c) else m d)"
  by (cases "m c") (auto simp: conn_Close_def conn_Write_def killed_def split: if_splits)

lemma cleanse_conns:
  "distinct ks \<Longrightarrow> qs_conns (cleanse ks s) c =
     (if \<exists>k \<in> set ks. mget (workerRegistry s) k = Some c then map_option killed (qs_conns s c) else qs_conns s c)"
proof (induction ks arbitrary: s)
  case (Cons k ks)
  then have k: "k \<notin> set ks" and ks: "distinct ks" by simp_all
  show ?case
  proof (cases "mget (workerRegistry s) k")
    case None
    then show ?thesis using Cons.IH [OF ks, of s] by simp
  next
    case (Some d)
    let ?s = "s\<lparr>qs_conns := conn_Close d (conn_Write d ''DIE'' (qs_conns s)), workerRegistry := mdel k (workerRegistry s)\<rparr>"
    have "(\<exists>j \<in> set ks. mget (workerRegistry ?s) j = Some c) \<longleftrightarrow> (\<exists>j \<in> set ks. mget (workerRegistry s) j = Some c)"
      using k by auto
    then show ?thesis using Cons.IH [OF ks, of ?s] Some by (cases "qs_conns s c") (auto simp: kill_conn)
  qed
qed simp

lemma cleanse_registry:
  "mget (workerRegistry (cleanse ks s)) k = (if k \<in> set ks then None else mget (workerRegistry s) k)"
  by (induction ks arbitrary: s) (auto split: option.splits)

lemma die_heard: "listenMaster ''DIE'' None = Left True"
proof -
  have "newline \<notin> set ''DIE''" by (simp add: newline_def)
  then have "ScanLines ''DIE'' = [''DIE'']" by (subst ScanLines.simps) (simp add: ReadLine_no_newline dropCR_def)
  moreover have "TrimSpace ''DIE'' = ''DIE''" by code_simp
  ultimately show ?thesis by (simp add: listenMaster_def)
qed

section \<open>Properties\<close>

text \<open>
  C19. The end of the quickstart master: in every state that its goroutines can reach, and in whatever order the registry is gone through,
  each worker that the registry knows under its process id and whose connection is open gets its connection closed after a
  command that makes it cancel its context; no other connection is touched, and the registry is empty afterwards.
\<close>

theorem quickstart_shutdown:
  assumes "quickstart_steps fd quickstart_init s" and "range_order (workerRegistry s) ks"
  shows "mget (workerRegistry (cleanse ks s)) k = None
    \<and> (case mget (workerRegistry s) k of
         None \<Rightarrow> True
       | Some c \<Rightarrow> \<exists>cn cn'. qs_conns s c = Some cn \<and> k = Itoa (cn_pid cn) \<and> received_fd (Inr (cn_message cn)) = Ret fd
           \<and> qs_conns (cleanse ks s) c = Some cn' \<and> \<not> cn_open cn' \<and> (cn_open cn \<longrightarrow> listenMaster (cn_down cn') None = Left True))
    \<and> ((\<forall>k. mget (workerRegistry s) k \<noteq> Some d) \<longrightarrow> qs_conns (cleanse ks s) d = qs_conns s d)"
proof -
  have ks: "distinct ks" "\<And>k. k \<in> set ks \<longleftrightarrow> mget (workerRegistry s) k \<noteq> None"
    using assms(2) range_order_mem [OF assms(2)] by (simp_all add: range_order_def)
  have "\<exists>cn cn'. qs_conns s c = Some cn \<and> k = Itoa (cn_pid cn) \<and> received_fd (Inr (cn_message cn)) = Ret fd
       \<and> qs_conns (cleanse ks s) c = Some cn' \<and> \<not> cn_open cn' \<and> (cn_open cn \<longrightarrow> listenMaster (cn_down cn') None = Left True)"
    if k: "mget (workerRegistry s) k = Some c" for c
  proof -
    obtain cn where cn: "qs_conns s c = Some cn" "entry_ok k cn" "conn_ok fd cn"
      using k quickstart_invD [OF quickstart_steps_inv [OF assms(1)]] by blast
    have "\<exists>k \<in> set ks. mget (workerRegistry s) k = Some c" using k ks(2) by (intro bexI [of _ k]) simp_all
    then have "qs_conns (cleanse ks s) c = Some (killed cn)" using cn(1) by (simp add: cleanse_conns [OF ks(1)])
    then show ?thesis using cn by (auto simp: entry_ok_def conn_ok_def killed_def die_heard received_fd_def proceed_message_def)
  qed
  moreover have "(\<forall>k. mget (workerRegistry s) k \<noteq> Some d) \<longrightarrow> qs_conns (cleanse ks s) d = qs_conns s d"
    by (simp add: cleanse_conns ks(1))
  moreover have "mget (workerRegistry (cleanse ks s)) k = None" using ks(2) by (simp add: cleanse_registry)
  ultimately show ?thesis by (simp split: option.split)
qed

definition demo_registered :: quickstart where
  "demo_registered = \<lparr>qs_conns = [0 \<mapsto> \<lparr>cn_pid = 42, cn_message = proceed_message 7, cn_reported = True, cn_up = [], cn_down = [],
     cn_worker = True, cn_open = True\<rparr>], workerRegistry = [(''42'', 0)]\<rparr>"

lemma Itoa_42: "Itoa 42 = ''42''"
  by code_simp

lemma demo_registered_reached: "quickstart_steps 7 quickstart_init demo_registered"
proof -
  let ?s1 = "accept_worker 7 42 None 0 quickstart_init"
  let ?c1 = "\<lparr>cn_pid = 42, cn_message = proceed_message 7, cn_reported = False, cn_up = [], cn_down = [], cn_worker = True, cn_open = True\<rparr>"
  let ?c2 = "?c1\<lparr>cn_reported := True, cn_up := ''42'' @ [newline]\<rparr>"
  let ?s2 = "report 0 ?c1 ?s1"
  have "quickstart_step 7 quickstart_init ?s1" by (rule qs_accept) (simp add: quickstart_init_def)
  moreover have "quickstart_step 7 ?s1 ?s2" by (rule qs_report) (simp_all add: accept_worker_def)
  moreover have "quickstart_step 7 ?s2 (scan_line 0 ?c2 (''42'' @ [newline]) [] ?s2)"
    by (rule qs_scan) (simp_all add: report_def pid_report_def Itoa_42 ReadLine_def newline_def)
  moreover have "scan_line 0 ?c2 (''42'' @ [newline]) [] ?s2 = demo_registered"
    using register_report [of 0 42 mempty]
    by (simp add: scan_line_def demo_registered_def report_def accept_worker_def quickstart_init_def Itoa_42 butlast_append mput_def fun_eq_iff)
  ultimately show ?thesis by (metis (no_types, lifting) rtranclp.rtrancl_into_rtrancl rtranclp.rtrancl_refl)
qed

theorem quickstart_shutdown_witness:
  "\<exists>cn. qs_conns (cleanse [''42''] demo_registered) 0 = Some cn \<and> \<not> cn_open cn \<and> listenMaster (cn_down cn) None = Left True"
proof -
  have "range_order (workerRegistry demo_registered) [''42'']" by (simp add: range_order_def demo_registered_def mkeys_def)
  from quickstart_shutdown [OF demo_registered_reached this, of "''42''"] show ?thesis
    by (auto simp: demo_registered_def mget_def)
qed

text \<open>
  A worker whose master goes away without a word goes on serving: the end of the stream is no error of the scanner, so the exit
  in \<^verbatim>\<open>listenMaster\<close> is not reached. A worker that has left stays in the registry.
\<close>

theorem quickstart_orphans: "listenMaster [] None = Left False"
  by (simp add: listenMaster_def)

theorem quickstart_keeps_dead:
  "mget (workerRegistry s) k = Some c \<Longrightarrow> qs_conns s c = Some cn \<Longrightarrow> cn_up cn = [] \<Longrightarrow>
     mget (workerRegistry (hang_up c cn s)) k = Some c \<and> \<not> cn_open (the (qs_conns (hang_up c cn s) c))"
  by (simp add: hang_up_def)

end
