(* ===== verification/Spec2Isabelle.thy ===== *)
theory Spec2Isabelle
  imports Loyalty_Saga Loyalty_Ledger Http_Server Nats Program Telemetry Daemon Quickstart
begin

text \<open>
  A verification of GoOdin, a Go application skeleton: a master process that hands a listening socket to worker
  processes, the drivers and hooks an application is assembled from, and two business domains (loyalty and orders) with
  their buses, repositories and transports. This theory imports every other one and holds the properties that span
  the HTTP server, the buses and the loyalty domain.

  \<^bold>\<open>How the code is modelled.\<close> A struct is a \<^verbatim>\<open>record\<close>, an enumeration or an interface with known implementations a
  \<^verbatim>\<open>datatype\<close>, a method a function that takes and returns the state it changes. Definitions keep the names of the source; a method has its
  type in front where the name alone would be ambiguous. Errors are values of \<open>go_error\<close> in \<open>error + result\<close>, a panic is
  the constructor \<open>Panic\<close> of \<open>outcome\<close>. A Go map is an association list without duplicate keys; where the
  code ranges over a map, the order is an argument, and the theorems hold for every order that
  \<open>range_order\<close> allows. \<^verbatim>\<open>int\<close> is an integer with \<open>wrap64\<close> written where the code can overflow, \<^verbatim>\<open>float64\<close> is
  a rational with rounding to binary64, infinities and NaN. Times are integers, in nanoseconds where the code has them.
  A mutex makes a method atomic: the interleavings that matter are steps of the relations below. Code outside the
  repository (GORM, SQL drivers, viper, ozzo-validation, watermill, NATS, echo, gobreaker, OpenTelemetry, ulid, FX) is a
  parameter: a record of functions on an abstract world, with what is documented of it in predicates such as
  \<open>gorm_ok\<close>, \<open>order_db_ok\<close>, \<open>nats_ok\<close>, \<open>echo_ok\<close>, \<open>cobra_ok\<close>, \<open>otel_contract\<close>, \<open>router_contract\<close>, \<open>ozzo_ok\<close>. Each such predicate has an
  instance, and the theorems that assume one are run on that instance.

  \<^bold>\<open>Shared theories.\<close>
  \<^item> \<open>Go_Prelude\<close>: errors with wrapping, joining and \<^verbatim>\<open>errors.Is\<close>, maps, 64-bit integers, and the locales \<open>keyed_store\<close> (what
    a lookup finds after an update) and \<open>invariant_component\<close> (an invariant that every operation keeps holds
    after every sequence of operations).
  \<^item> \<open>Go_Strings\<close>, \<open>Go_Float\<close>, \<open>Go_Json\<close>: what the program uses of \<^verbatim>\<open>strings\<close>, \<^verbatim>\<open>strconv\<close>, \<^verbatim>\<open>bufio\<close>, \<^verbatim>\<open>path/filepath\<close>, of binary64
    arithmetic and of \<^verbatim>\<open>encoding/json\<close>.

  \<^bold>\<open>Assembling an application.\<close>
  \<^item> \<open>Hooks\<close> (\<^verbatim>\<open>pkg/hooks\<close>): named handlers added once (locale \<open>write_once_store\<close>) and run in map order or sorted; which
    handlers run, in which order, and where they stop.
  \<^item> \<open>Driver_Manager\<close> (\<^verbatim>\<open>pkg/driver\<close> and its version 2, locale \<open>driver_registry\<close> for both): starting, looking up and closing
    drivers; closing reaches every driver and joins the errors.
  \<^item> \<open>Config\<close> (\<^verbatim>\<open>pkg/config\<close>), \<open>Data_Manager\<close> (\<^verbatim>\<open>infrastructure/persistent\<close>, \<^verbatim>\<open>adapters\<close>, \<^verbatim>\<open>pkg/datamanager\<close>, \<^verbatim>\<open>drivers/datamanager_fx\<close>):
    validation of the configuration; connecting the configured databases, what each alias is served with, the types of
    the connections, and that a failed SQLite connection leaks no handle.
  \<^item> \<open>Logs\<close> (\<^verbatim>\<open>tools/stack\<close>, \<^verbatim>\<open>tools/logs\<close>): the batching log handler; the batches together are the accepted records in order.
  \<^item> \<open>Query_Scopes\<close> (\<^verbatim>\<open>gorm/models\<close>, \<^verbatim>\<open>gorm/utils\<close>): paging, sorting and searching; the pages partition the rows.
  \<^item> \<open>App_Core\<close> (\<^verbatim>\<open>internal/base_app.go\<close>, \<^verbatim>\<open>internal/query.go\<close>, \<^verbatim>\<open>service.go\<close>, \<^verbatim>\<open>cmd\<close>): bootstrap, shutdown and the bodies of the commands.
  \<^item> \<open>Program\<close> (\<^verbatim>\<open>service.go\<close>, \<^verbatim>\<open>bootstrap/main.go\<close>, \<^verbatim>\<open>cmd/commands.go\<close>, \<^verbatim>\<open>cmd/migration.go\<close>, \<^verbatim>\<open>cmd/seeder.go\<close>, \<^verbatim>\<open>seeders\<close>): the process from its arguments to its end;
    which commands are registered, which drivers the master starts and closes, the exit status of a migration.
  \<^item> \<open>Telemetry\<close> (\<^verbatim>\<open>drivers/monitoring\<close>): starting and stopping the telemetry providers, which leaves none running after a failed start
    or after a stop, and exactly which trace parents are accepted.

  \<^bold>\<open>Master and workers.\<close>
  \<^item> \<open>Operations\<close> (\<^verbatim>\<open>use_cases/operation\<close>) and \<open>Worker_Wire\<close> (\<^verbatim>\<open>drivers/worker\<close>): commands, and the messages between the processes,
    which are read back as they were written; the receive loop ends at a shutdown message.
  \<^item> \<open>Worker_Registry\<close> (\<^verbatim>\<open>use_cases/workerclient\<close>, \<^verbatim>\<open>use_cases/bus\<close>, \<^verbatim>\<open>use_cases/mastercore/registry.go\<close>): the client objects live in an
    explicit store, since the registry and the event bus share them; broadcasting, the health check, closing.
  \<^item> \<open>Handshake\<close> (\<^verbatim>\<open>use_cases/bus/ipc_server.go\<close>, \<^verbatim>\<open>use_cases/workercore\<close>, \<^verbatim>\<open>drivers/worker\<close>): passing the descriptor and answering with
    the process id; master and worker are composed over a wire.
  \<^item> \<open>Master_Run\<close> (\<^verbatim>\<open>use_cases/mastercore\<close>, \<^verbatim>\<open>drivers/master\<close>): the goroutines of the master as the step relation \<open>master_step\<close>; the registry
    holds exactly workers whose handshake completed (invariant), and waiting workers get registered (liveness).
  \<^item> \<open>Daemon\<close> (\<^verbatim>\<open>drivers/daemon\<close>, \<^verbatim>\<open>pkg/async\<close>, \<^verbatim>\<open>tools/utils\<close>): a load balancer started on the socket a worker got; its process, the two
    goroutines around it and the rest of the application are the step relation \<open>daemon_step\<close>.
  \<^item> \<open>Quickstart\<close> (\<^verbatim>\<open>quickstart/unix-file-descriptor\<close>): the small master and worker of the quickstart, with the goroutines of the master as \<open>quickstart_step\<close>; in
    every state they reach, the end of the master stops every worker in its registry.

  \<^bold>\<open>Domains and transports.\<close>
  \<^item> \<open>Cqrs_Bus\<close> and \<open>Event_Bus\<close> (\<^verbatim>\<open>drivers/watermill\<close>, \<^verbatim>\<open>drivers/watermill_fx\<close>, \<^verbatim>\<open>pkg/events\<close>): both versions of the command, query and event
    bus (locale \<open>dispatcher\<close> for the first two); the FX event bus refines the other through \<open>abs_bus\<close>.
  \<^item> \<open>Loyalty_Domain\<close>, \<open>Loyalty_Store\<close>, \<open>Loyalty_Handlers\<close>, \<open>Loyalty_Saga\<close> (\<^verbatim>\<open>use_cases/loyalty\<close>, \<^verbatim>\<open>repositories\<close>): points, tiers and the
    aggregate; the repositories on GORM; crediting, the balance query, the order-completed handler and the
    wiring; the fulfilment saga. Shown are what a credit changes on every path, the balance as the sum of its movements, that the ready event is published once.
  \<^item> \<open>Loyalty_Ledger\<close>: an abstract ledger as the step relation \<open>ledger_step\<close> (a delivered credit is booked, refused, or booked without its
    event being noted), which the credit handler refines for every sequence of deliveries and every failure of the database;
    as long as the database is dependable, an event that is delivered any number of times is booked once.
  \<^item> \<open>Orders\<close> (\<^verbatim>\<open>use_cases/orders\<close>, \<^verbatim>\<open>use_cases/loyalty/order_detail_request_impl.go\<close>, \<^verbatim>\<open>repositories\<close>): what creating an order stores,
    and the request for order details between the domains, both sides composed.
  \<^item> \<open>Nats\<close> (\<^verbatim>\<open>infrastructure/messaging/nats\<close>, \<^verbatim>\<open>drivers/messaging/nats\<close>): connection, driver and listeners; which connections stay open.
  \<^item> \<open>Http_Api\<close>, \<open>Http\<close>, \<open>Http_Server\<close> (\<^verbatim>\<open>drivers/http\<close>): errors, responses, binding of query parameters; controllers, error handler, adapter; the engine
    with its middleware, request log and routes. A request is followed through the chain, which is what \<open>echo_ok\<close> says of echo: what the client is sent,
    what is logged, and where a panic ends up.
  \<^item> \<open>Watermill_Drivers\<close> (\<^verbatim>\<open>drivers/watermill/watermill.go\<close>, \<^verbatim>\<open>drivers/watermill_fx/watermill.go\<close>): the two owners of the buses, which serve the
    same handlers, for as long as their contexts last.

  \<^bold>\<open>Bounds.\<close> No definition has fuel. Loops of the source are structural recursions over the list they consume (the bytes a peer sent
  before it closed, the drivers, the rows); loops that wait for other goroutines are step relations, about which
  progress is stated as the existence of further steps. The retry loop of \<^verbatim>\<open>GetDetailCustomer\<close> runs its 50 rounds. The read buffer of the
  handshake keeps its 128 bytes.

  \<^bold>\<open>Not modelled.\<close> Generated code (protobuf messages, mocks, the swagger document); declarations of interfaces, for which the models take
  records of functions; the exporters of the telemetry, which only call constructors of the SDK; the printing of
  descriptors in \<^verbatim>\<open>debugfd.go\<close>; the example program, which repeats the main one. Within modelled parts: the text of log
  records other than those of \<open>Logs\<close>, tracing spans and metrics around the handlers, preflight requests and the handlers of the static and swagger routes of
  echo, flags of cobra, the FX container (its providers and hooks are called in the order it calls them), and the backing arrays that derived log handlers share. A context
  is only whether it is cancelled.
\<close>

section \<open>The loyalty service over HTTP\<close>

text \<open>
  The FX command wires the controller to the buses that the watermill module made; publishing on the in-memory
  channel does not touch the tables.
\<close>

definition channel_quiet ::
  "'w loyalty_ctx \<Rightarrow> ('w \<Rightarrow> string \<Rightarrow> LoyaltyAccountRow option) \<Rightarrow> ('w \<Rightarrow> string \<Rightarrow> bool) \<Rightarrow> bool" where
  "channel_quiet x acct marked \<longleftrightarrow>
     (\<forall>topic m w. acct (snd (lx_chan_publish x () topic m w)) = acct w \<and> marked (snd (lx_chan_publish x () topic m w)) = marked w)"

subsection \<open>Lemmas\<close>

lemma fx_Publish_quiet:
  assumes "channel_quiet x acct marked" "fx_sqlPublisher b = None"
  shows "acct (snd (fx_eventBus_Publish (lx_chan_publish x) marshal carrier uuid b es w)) = acct w
       \<and> marked (snd (fx_eventBus_Publish (lx_chan_publish x) marshal carrier uuid b es w)) = marked w"
proof (induction es arbitrary: uuid w)
  case (Cons e es)
  show ?case
  proof (cases "json_envelope marshal (e\<lparr>ev_OtelCarrier := Some carrier\<rparr>)")
    case (Inr j)
    obtain r w1 where p: "lx_chan_publish x () (ev_EventName e) \<lparr>msg_UUID = uuid 0, msg_Payload = j\<rparr> w = (r, w1)"
      by (metis prod.exhaust)
    have "acct w1 = acct w \<and> marked w1 = marked w"
      using assms(1) p unfolding channel_quiet_def by (metis snd_conv)
    then show ?thesis using Cons.IH Inr p assms(2) by (cases r) (simp_all add: Let_def)
  qed simp
qed simp

lemma fx_bus_quiet: "channel_quiet x acct marked \<Longrightarrow> quiet (fx_bus_publish x (fx_newEventBus ())) acct marked"
  by (simp add: quiet_def fx_bus_publish_def fx_Publish_quiet fx_newEventBus_def)

lemma fx_New_registers:
  "watermillfx_New rx [Registrar_Register x db] = Inr (b, r, hook) \<Longrightarrow>
     Registrar_Register x db (fx_newCommandBus, fx_newQueryBus, fx_newEventBus ()) = b"
  by (simp add: watermillfx_New_def split: sum.splits)

lemma credit_over_http:
  assumes "watermillfx_New rx [Registrar_Register x db] = Inr (b, r, hook)"
  shows "LoyaltyController_CreditPoints now path (controller b) (Inr req) w =
     (case CreditLoyalty_Handle (lx_inputs x) (gorm_credit_handler (lx_uuid x) (lx_now x) db (fx_bus_publish x (fx_newEventBus ()))) req w of
        (Inl e, w1) \<Rightarrow> (Ret (Inl (ApiErr (NewServiceError now e))), w1)
      | (Inr resp, w1) \<Rightarrow> (Ret (Inr (NewApiResponse now path resp 201)), w1))"
proof (cases b)
  case (fields cmd qry evt)
  show ?thesis
    using registered_credit [OF fx_New_registers [OF assms, unfolded fields]]
    by (simp add: LoyaltyController_CreditPoints_def controller_def NewLoyaltyController_def fields split: prod.splits sum.splits)
qed

lemma balance_over_http:
  assumes "watermillfx_New rx [Registrar_Register x db] = Inr (b, r, hook)"
    and "acct w c = Some row" and "gorm_ok db acct marked"
    and "LoyaltyController_GetBalance now path (controller b) c w = (Ret answer, w1)"
  shows "acct w1 = acct w \<and> marked w1 = marked w
       \<and> (case answer of
            Inl e \<Rightarrow> (\<exists>err. fst (db_first_by_customer db c w) = Inl err \<and> e = ApiErr (NewServiceError now err))
          | Inr resp \<Rightarrow> ar_Code resp = 200 \<and> gr_Balance (ar_Data resp) = lr_Balance row \<and> gr_Tier (ar_Data resp) = lr_Tier row)"
proof (cases b)
  case (fields cmd qry evt)
  obtain res w2 where f: "db_first_by_customer db c w = (res, w2)" by (metis prod.exhaust)
  note g = gorm_first [OF assms(3) f]
  have q: "lc_query (controller b) \<lparr>gb_CustomerID = c\<rparr> w = balance_handler_func db \<lparr>gb_CustomerID = c\<rparr> w"
    using registered_balance [OF fx_New_registers [OF assms(1), unfolded fields]]
    by (simp add: controller_def NewLoyaltyController_def fields)
  show ?thesis
    using assms(2,4) f g
    by (cases res) (auto simp: LoyaltyController_GetBalance_def q balance_handler_func_def GetLoyaltyBalance_Handle_def NewGetLoyaltyBalanceHandler_def
        NewLoyaltyReadGormRepository_def NewNoopLoyaltyCacheRepository_def noop_GetBalance_def noop_SetBalance_def
        read_GetBalanceByCustomerID_def NewApiResponse_def)
qed

subsection \<open>Properties\<close>



definition demo_buses :: "demo_world Buses" where
  "demo_buses = Registrar_Register demo_ctx demo_db (fx_newCommandBus, fx_newQueryBus, fx_newEventBus ())"

lemma demo_New:
  "\<exists>hook. watermillfx_New demo_router [Registrar_Register demo_ctx demo_db] = Inr (demo_buses, None, hook)"
  by (simp add: watermillfx_New_def demo_router_def demo_buses_def)

lemma demo_channel_quiet: "channel_quiet demo_ctx demo_acct dw_keys"
  by (simp add: channel_quiet_def demo_ctx_def demo_acct_def fun_eq_iff)

lemma demo_fx_publish:
  assumes "ev_OccurredAt e = 7" "ev_Payload e = Some (CreditedEvent d)"
  shows "fx_bus_publish demo_ctx (fx_newEventBus ()) [e] w = (None, w\<lparr>dw_sent := dw_sent w @ [ev_EventName e]\<rparr>)"
proof -
  have "json_time 7 = Inr (JTime 7)" by code_simp
  with assms show ?thesis
    by (simp add: fx_bus_publish_def demo_ctx_def fx_newEventBus_def json_envelope_def Let_def)
qed

abbreviation demo_fx_handler :: "demo_world CreditLoyaltyHandler" where
  "demo_fx_handler \<equiv> gorm_credit_handler (lx_uuid demo_ctx) (lx_now demo_ctx) demo_db (fx_bus_publish demo_ctx (fx_newEventBus ()))"

definition demo_credited :: demo_world where
  "demo_credited = \<lparr>dw_rows = [''c'' \<mapsto> (550, ''SILVER'', 7)], dw_keys = (\<lambda>k. k = ''e1''), dw_fail = 0, dw_sent = [LoyaltyCredited]\<rparr>"

lemma demo_fx_run:
  "CreditLoyalty_Handle (lx_inputs demo_ctx) demo_fx_handler demo_cmd (demo_start 0) =
     (Inr \<lparr>cp_LoyaltyAccountID = ''id-c'', cp_NewBalance = 550, cp_NewTier = ''SILVER''\<rparr>, demo_credited)"
proof -
  have u: "lx_uuid demo_ctx = (\<lambda>w. ''u'')" "lx_now demo_ctx = (\<lambda>w. 0)" "lx_inputs demo_ctx = demo_inputs"
    by (simp_all add: demo_ctx_def)
  have prep: "credit_prepare demo_inputs demo_fx_handler demo_cmd (demo_start 0) = (Inr (demo_agg 550, demo_inputs (demo_start 0)), demo_start 0)"
    unfolding u prepare_any_publisher [of demo_inputs "\<lambda>w. ''u''" "\<lambda>w. 0" demo_db "fx_bus_publish demo_ctx (fx_newEventBus ())" demo_publish]
    using demo_prepare [of "demo_start 0" 450 "''BRONZE''" 0] by (simp add: demo_start_def)
  have save: "write_Save demo_db (demo_agg 550) (demo_start 0) = (None, (demo_start 0)\<lparr>dw_rows := [''c'' \<mapsto> (550, ''SILVER'', 7)]\<rparr>)"
    by (simp add: write_Save_def demo_agg_def demo_db_def demo_start_def)
  have pub: "fx_bus_publish demo_ctx (fx_newEventBus ()) (credited_envelopes (ci_event_ulid ci) demo_cmd (ag_domainEvents (demo_agg 550))) w =
      (None, w\<lparr>dw_sent := dw_sent w @ [LoyaltyCredited]\<rparr>)" for ci w
    by (simp add: credited_envelopes_def demo_agg_def demo_fx_publish)
  have "credit_commit demo_fx_handler demo_cmd (demo_agg 550) ci (demo_start 0) =
      (Inr \<lparr>cp_LoyaltyAccountID = ''id-c'', cp_NewBalance = 550, cp_NewTier = ''SILVER''\<rparr>, demo_credited)" for ci
    by (simp add: credit_commit_def save FlushEvents_def pub)
      (simp add: demo_agg_def demo_db_def demo_start_def demo_cmd_def idem_Mark_def Balance_def demo_credited_def fun_upd_def)
  then show ?thesis by (simp add: CreditLoyalty_Handle_def prep u(3))
qed


text \<open>
  C5. A credit request over HTTP, from the router to the response: it is answered with 201 and the response of the credit handler, or with the
  code and the message of its error, under a request id and with the generic message for a 500 in production; either way the
  effect on the tables is that of the handler. The log has one line, with status 200 when the credit failed.
\<close>

theorem credit_request_answered:
  assumes "watermillfx_New rx [Registrar_Register x db] = Inr (b, r, hook)" and "echo_ok lib" and "sends lib"
    and "rq_Method rq = ''POST''" and "rq_Path rq = ''/api/v1/loyalty/credit''" and "el_Bind lib rq = Inr req"
  shows "\<exists>c. el_serve lib (module_engine lib app b) rq w = Served (Ret (), c) \<and>
    (case CreditLoyalty_Handle (lx_inputs x) (gorm_credit_handler (lx_uuid x) (lx_now x) db (fx_bus_publish x (fx_newEventBus ()))) req w of
       (Inr resp, w1) \<Rightarrow> cx_world c = w1 \<and> cx_status c = 201 \<and> map ll_status (cx_log c) = [201]
         \<and> cx_body c = Some (CreditBody (NewApiResponse (sa_now app w) ''/api/v1/loyalty/credit'' resp 201))
     | (Inl e, w1) \<Rightarrow> cx_world c = w1 \<and> cx_status c = ae_Code (NewServiceError (sa_now app w) e) \<and> map ll_status (cx_log c) = [200]
         \<and> (\<exists>a. cx_body c = Some (ErrorBody (Some a)) \<and> ae_RequestId a \<noteq> [] \<and> ae_Code a = cx_status c
              \<and> ae_Message a = (if sa_Mode app = ''production'' \<and> cx_status c = 500 then hidden_message
                                 else ae_Message (NewServiceError (sa_now app w) e))))"
proof -
  let ?path = "''/api/v1/loyalty/credit''" and ?eh = "engine_error_handler lib app"
  have opt: "rq_Method rq \<noteq> ''OPTIONS''" using assms(4) by simp
  obtain latency rid hs where rid: "rid \<noteq> []" and serve: "el_serve lib (module_engine lib app b) rq w =
      finished ?eh (after_log latency (recovered ?eh (credit_handler lib (sa_now app) (controller b)
        ((fresh_context rq ?path w)\<lparr>cx_requestId := rid, cx_headers := hs\<rparr>))))"
    using served_chain [OF assms(2) opt fx_routed(1) [OF assms(2,4,5)]] by blast
  define c where "c = (fresh_context rq ?path w)\<lparr>cx_requestId := rid, cx_headers := hs\<rparr>"
  have c: "cx_world c = w" "cx_body c = None" "cx_log c = []" "cx_status c = 200" "cx_request c = rq" "cx_requestId c = rid" "cx_Path c = ?path"
    by (simp_all add: c_def fresh_context_def)
  obtain res w1 where res: "CreditLoyalty_Handle (lx_inputs x) (gorm_credit_handler (lx_uuid x) (lx_now x) db (fx_bus_publish x (fx_newEventBus ()))) req w = (res, w1)"
    by (metis prod.exhaust)
  note posted = credit_over_http [OF assms(1), of "sa_now app w" ?path req w, unfolded res]
  show ?thesis
  proof (cases res)
    case (Inr resp)
    let ?resp = "NewApiResponse (sa_now app w) ?path resp 201"
    let ?c = "c\<lparr>cx_world := w1, cx_status := 201, cx_body := Some (CreditBody ?resp)\<rparr>"
    have "credit_handler lib (sa_now app) (controller b) c = Served (Ret None, ?c)"
      using posted by (simp add: Inr credit_handler_def answer_with_def respond_def c assms(6) sent [OF assms(2,3)] NewApiResponse_def)
    then have "el_serve lib (module_engine lib app b) rq w = Served (Ret (), ?c\<lparr>cx_log := [success_line latency ?c]\<rparr>)"
      unfolding serve c_def [symmetric] by (simp only:) (subst chain_answered, simp_all add: c)
    then show ?thesis unfolding res Inr by (intro exI conjI, assumption) (simp add: success_line_def)
  next
    case (Inl e)
    let ?a = "NewServiceError (sa_now app w) e" and ?c = "c\<lparr>cx_world := w1\<rparr>"
    define rid2 where "rid2 = GetRequestId (rq_RequestID (cx_request ?c)) (cx_requestId ?c)"
    have "rid2 \<noteq> []" using rid by (simp add: rid2_def GetRequestId_def c)
    obtain body where rep: "error_report (sa_Mode app) rid2 (ApiErr ?a) = (ae_Code ?a, Some body)"
      unfolding error_report_api by blast
    have body: "ae_RequestId body \<noteq> []" "ae_Code body = ae_Code ?a"
      "ae_Message body = (if sa_Mode app = ''production'' \<and> ae_Code ?a = 500 then hidden_message else ae_Message ?a)"
      using rep [unfolded error_report_api] \<open>rid2 \<noteq> []\<close> by (auto split: if_splits)
    have "credit_handler lib (sa_now app) (controller b) c = Served (Ret (Some (ApiErr ?a)), ?c)"
      using posted by (simp add: Inl credit_handler_def answer_with_def c assms(6))
    then have out: "el_serve lib (module_engine lib app b) rq w =
        Served (Ret (), ?c\<lparr>cx_log := cx_log ?c @ [success_line latency ?c], cx_status := ae_Code ?a, cx_body := Some (ErrorBody (Some body))\<rparr>)"
      unfolding serve c_def [symmetric]
      by (simp only:) (rule chain_failed [OF assms(2,3) _ _ _ rep [unfolded rid2_def]], simp_all add: c)
    show ?thesis unfolding res Inl by (intro exI conjI, rule out) (simp add: success_line_def c body)
  qed
qed

theorem credit_request_answered_witness:
  "\<exists>c. el_serve demo_lib (module_engine demo_lib demo_server_app demo_buses) (demo_http_request ''POST'' ''/api/v1/loyalty/credit'') (demo_start 0) =
         Served (Ret (), c) \<and> cx_world c = demo_credited \<and> cx_status c = 201"
proof -
  obtain hook where new: "watermillfx_New demo_router [Registrar_Register demo_ctx demo_db] = Inr (demo_buses, None, hook)"
    using demo_New by blast
  let ?rq = "demo_http_request ''POST'' ''/api/v1/loyalty/credit''"
  have rq: "rq_Method ?rq = ''POST''" "rq_Path ?rq = ''/api/v1/loyalty/credit''" "el_Bind demo_lib ?rq = Inr demo_cmd"
    by (simp_all add: demo_http_request_def demo_lib_def)
  from credit_request_answered [OF new demo_echo demo_sends rq, of demo_server_app "demo_start 0"] show ?thesis
    unfolding demo_fx_run by auto
qed

text \<open>
  C13. From a completed order to points: the wired event bus has one subscription, to completed orders, and
  whatever event with a payload was published, running the subscription on its message acknowledges it and changes
  nothing, so that no completed order ever credits points.
\<close>

theorem order_completion_never_credits:
  assumes "watermillfx_New rx [Registrar_Register x db] = Inr ((cmd, qry, evt), r, hook)"
    and "json_envelope json_event env = Inr j" and "ev_Payload env = Some p"
  shows "map re_topic (fx_router evt) = [OrderCompleted]
       \<and> (\<forall>e \<in> set (fx_router evt). re_func e \<lparr>msg_UUID = u, msg_Payload = j\<rparr> w = ((None, True), w))"
proof -
  have "json_event p \<noteq> Inr JNull" by (cases p) (auto simp: map_sum_def split: sum.splits)
  then obtain e where e: "(read_envelope j :: DomainEvent EventEnvelope result) = Inl e"
    using read_envelope_payload [OF assms(2,3)] by blast
  show ?thesis
    using fx_New_registers [OF assms(1)] e
    by (auto simp: Registrar_Register_def Let_def fx_eventBus_Subscribe_def fx_newEventBus_def fx_subscription_def)
qed

theorem order_completion_never_credits_witness:
  "\<exists>j. json_envelope json_event demo_order = Inr j
     \<and> map (\<lambda>e. re_func e \<lparr>msg_UUID = ''m'', msg_Payload = j\<rparr> (demo_start 0)) (fx_router (snd (snd demo_buses))) = [((None, True), demo_start 0)]"
proof -
  have "json_time zero_time = Inr (JTime zero_time)" "json_float (Fin 1000) = Inr (JNum 1000)" by code_simp+
  then obtain j where j: "json_envelope json_event demo_order = Inr j"
    by (auto simp: json_envelope_def demo_order_def zero_envelope_def)
  obtain hook where new: "watermillfx_New demo_router [Registrar_Register demo_ctx demo_db] = Inr ((fst demo_buses, fst (snd demo_buses), snd (snd demo_buses)), None, hook)"
    using demo_New by auto
  have "ev_Payload demo_order = Some (OrderCompletedEvent \<lparr>oc_OrderID = ''o'', oc_CustomerID = ''c'', oc_TotalAmount = Fin 1000\<rparr>)"
    by (simp add: demo_order_def)
  from order_completion_never_credits [OF new j this, of "''m''" "demo_start 0"] j show ?thesis
    by (auto simp: map_eq_Cons_conv)
qed

end
